(* ===== verification/Prelude.thy ===== *)
theory Prelude
  imports Main "HOL-Library.Char_ord"
begin

text \<open>
  Shared vocabulary of the development: the collections of rewrite rules the component proofs use,
  and the small pieces of JavaScript's library that every component needs, on lists and options:
  a \<open>Set\<close> as the list of its elements in insertion order, \<open>Array.prototype.find\<close>, update and
  removal by index, and the truthiness operators \<open>||\<close> and \<open>??\<close>.
\<close>

named_theorems run_simps \<open>running a handler against a server\<close>
named_theorems guard_intros \<open>introduction rules for the rely/guarantee judgement on handlers\<close>
named_theorems fork_intros \<open>introduction rules for handlers that await every call they make\<close>
named_theorems flag_intros \<open>introduction rules for the judgements on the flag of a busy page\<close>
named_theorems api_defs \<open>definitions of the client functions of api.ts\<close>

section \<open>Sets as insertion-ordered lists\<close>

text \<open>
  A JavaScript \<open>Set\<close> iterates in insertion order and \<open>add\<close> of a present element changes
  nothing, so it is a list without repetitions.
\<close>

definition set_add :: "'a \<Rightarrow> 'a list \<Rightarrow> 'a list" where
  "set_add x xs = (if x \<in> set xs then xs else xs @ [x])"

definition set_delete :: "'a \<Rightarrow> 'a list \<Rightarrow> 'a list" where
  "set_delete x xs = filter (\<lambda>y. y \<noteq> x) xs"

definition js_set :: "'a list \<Rightarrow> 'a list" where
  "js_set xs = fold set_add xs []"

lemma set_set_add [simp]: "set (set_add x xs) = insert x (set xs)"
  by (auto simp: set_add_def)

lemma distinct_set_add [simp]: "distinct xs \<Longrightarrow> distinct (set_add x xs)"
  by (auto simp: set_add_def)

lemma set_set_delete [simp]: "set (set_delete x xs) = set xs - {x}"
  by (auto simp: set_delete_def)

lemma distinct_set_delete [simp]: "distinct xs \<Longrightarrow> distinct (set_delete x xs)"
  by (simp add: set_delete_def)

lemma fold_set_add:
  "set (fold set_add xs acc) = set xs \<union> set acc \<and> (distinct acc \<longrightarrow> distinct (fold set_add xs acc))"
  by (induction xs arbitrary: acc) auto

lemma set_js_set [simp]: "set (js_set xs) = set xs"
  using fold_set_add [of xs "[]"] by (simp add: js_set_def)

lemma distinct_js_set [simp]: "distinct (js_set xs)"
  using fold_set_add [of xs "[]"] by (simp add: js_set_def)

lemma fold_set_add_distinct:
  "distinct (acc @ xs) \<Longrightarrow> fold set_add xs acc = acc @ xs"
  by (induction xs arbitrary: acc) (auto simp: set_add_def)

lemma js_set_distinct [simp]: "distinct xs \<Longrightarrow> js_set xs = xs"
  by (simp add: js_set_def fold_set_add_distinct)

text \<open>The test \<open>new Set(xs).size !== xs.length\<close> finds exactly the lists with repetitions.\<close>

lemma js_set_size_iff: "length (js_set xs) \<noteq> length xs \<longleftrightarrow> \<not> distinct xs"
proof
  assume "length (js_set xs) \<noteq> length xs"
  then show "\<not> distinct xs" by auto
next
  assume "\<not> distinct xs"
  then have "card (set xs) \<noteq> length xs"
    by (metis card_distinct)
  moreover have "length (js_set xs) = card (set xs)"
    using distinct_card [OF distinct_js_set, of xs] by simp
  ultimately show "length (js_set xs) \<noteq> length xs" by simp
qed

section \<open>Arrays\<close>

definition update_at :: "nat \<Rightarrow> ('a \<Rightarrow> 'a) \<Rightarrow> 'a list \<Rightarrow> 'a list" where
  \<comment> \<open>\<open>xs.map((x, i) => i === idx ? f(x) : x)\<close>\<close>
  "update_at idx f xs = map (\<lambda>(i, x). if i = idx then f x else x) (enumerate 0 xs)"

definition remove_at :: "nat \<Rightarrow> 'a list \<Rightarrow> 'a list" where
  \<comment> \<open>\<open>xs.filter((_, i) => i !== idx)\<close>\<close>
  "remove_at idx xs = map snd (filter (\<lambda>(i, x). i \<noteq> idx) (enumerate 0 xs))"

lemma update_at_eq: "update_at idx f xs = (if idx < length xs then xs[idx := f (xs ! idx)] else xs)"
  by (rule nth_equalityI) (auto simp: update_at_def nth_enumerate_eq nth_list_update)

lemma remove_at_gen:
  "map snd (filter (\<lambda>(i, x). i \<noteq> idx) (enumerate n xs)) =
     (if n \<le> idx then take (idx - n) xs @ drop (Suc (idx - n)) xs else xs)"
proof (induction xs arbitrary: n)
  case Nil
  then show ?case by simp
next
  case (Cons x xs)
  consider "n < idx" | "n = idx" | "idx < n" by linarith
  then show ?case
  proof cases
    case 1
    then have "idx - n = Suc (idx - Suc n)" by simp
    with 1 Cons show ?thesis by simp
  next
    case 2
    with Cons show ?thesis by simp
  next
    case 3
    with Cons show ?thesis by simp
  qed
qed

lemma remove_at_eq: "remove_at idx xs = take idx xs @ drop (Suc idx) xs"
  by (simp add: remove_at_def remove_at_gen)

lemma length_remove_at: "idx < length xs \<Longrightarrow> length (remove_at idx xs) = length xs - 1"
  by (simp add: remove_at_eq)

lemma update_at_Nil [simp]: "update_at idx f xs = [] \<longleftrightarrow> xs = []"
  by (simp add: update_at_eq)

lemma remove_at_Nil: "length xs \<noteq> 1 \<Longrightarrow> remove_at idx xs = [] \<longleftrightarrow> xs = []"
  by (cases xs; cases idx) (auto simp: remove_at_eq)

section \<open>Truthiness\<close>

text \<open>The string operators \<open>a || b\<close> (the empty string is falsy) and \<open>a ?? b\<close>.\<close>

definition str_or :: "string \<Rightarrow> string \<Rightarrow> string" where
  "str_or a b = (if a \<noteq> [] then a else b)"

definition opt_str_or :: "string option \<Rightarrow> string \<Rightarrow> string" where
  "opt_str_or a b = (case a of None \<Rightarrow> b | Some s \<Rightarrow> if s \<noteq> [] then s else b)"

definition nullish :: "'a option \<Rightarrow> 'a \<Rightarrow> 'a" where
  "nullish a b = (case a of None \<Rightarrow> b | Some x \<Rightarrow> x)"

lemma nullish_simps [simp]: "nullish None b = b" "nullish (Some x) b = x"
  by (simp_all add: nullish_def)

lemma opt_str_or_simps [simp]:
  "opt_str_or None b = b" "opt_str_or (Some []) b = b"
  "opt_str_or (Some (c # cs)) b = c # cs"
  by (simp_all add: opt_str_or_def)

end
