(* ===== verification/Js_Async.thy ===== *)
theory Js_Async
  imports Prelude
begin

text \<open>
  The semantics of the client's asynchronous handlers. A handler is a tree of effects: it reads and
  writes the state of the page (\<open>Get\<close>, \<open>Put\<close>), suspends at an \<open>await\<close> of a request and goes on
  with the response (\<open>Await\<close>), returns, throws, or calls an asynchronous function without awaiting
  it (\<open>Fork\<close>), which runs to its first suspension and is a task of its own from there on. Two
  semantics are given to it:
  \<^item> \<open>run\<close>: the handler alone, against a server that answers each request at once;
  \<^item> \<open>loop_step\<close>: the browser's event loop, where any number of handlers are suspended at once, a
    response may arrive in any order, and whatever the handler does between two suspensions is
    atomic (a JavaScript task runs to its next \<open>await\<close>).
  The judgement \<open>guarded I Q\<close> is rely/guarantee reasoning over the second: the handler keeps \<open>I\<close> at
  every suspension, relies on nothing but \<open>I\<close> when it resumes, and sends only requests that satisfy
  \<open>Q\<close> in the state they are sent from.
\<close>

section \<open>Errors\<close>

datatype js_error = JsError (err_name: string) (err_message: string)

definition Error :: "string \<Rightarrow> js_error" where
  "Error msg = JsError ''Error'' msg"

text \<open>\<open>String(err)\<close>, as in the message \<open>'Failed: ' + err\<close>.\<close>

definition show_err :: "js_error \<Rightarrow> string" where
  "show_err e =
     (if err_message e = [] then err_name e
      else if err_name e = [] then err_message e
      else err_name e @ '': '' @ err_message e)"

lemma show_err_Error: "show_err (Error m) = (if m = [] then ''Error'' else ''Error: '' @ m)"
  by (simp add: show_err_def Error_def)

lemma err_message_Error [simp]: "err_message (Error m) = m"
  by (simp add: Error_def)

section \<open>Handlers\<close>

text \<open>A task that nobody awaits: its result is dropped.\<close>

datatype ('q, 'r, 's) task =
    Done
  | Failed js_error
  | TGet "'s \<Rightarrow> ('q, 'r, 's) task"
  | TPut 's "('q, 'r, 's) task"
  | TAwait 'q "'r \<Rightarrow> ('q, 'r, 's) task"
  | TFork "('q, 'r, 's) task" "('q, 'r, 's) task"

datatype (dead 'q, dead 'r, dead 's, 'a) io =
    Return 'a
  | Throw js_error
  | Get "'s \<Rightarrow> ('q, 'r, 's, 'a) io"
  | Put 's "('q, 'r, 's, 'a) io"
  | Await 'q "'r \<Rightarrow> ('q, 'r, 's, 'a) io"
  | Fork "('q, 'r, 's) task" "('q, 'r, 's, 'a) io"

primrec task_of :: "('q, 'r, 's, unit) io \<Rightarrow> ('q, 'r, 's) task" where
  "task_of (Return a) = Done"
| "task_of (Throw e) = Failed e"
| "task_of (Get k) = TGet (\<lambda>s. task_of (k s))"
| "task_of (Put s p) = TPut s (task_of p)"
| "task_of (Await q k) = TAwait q (\<lambda>r. task_of (k r))"
| "task_of (Fork t p) = TFork t (task_of p)"

primrec io_of :: "('q, 'r, 's) task \<Rightarrow> ('q, 'r, 's, unit) io" where
  "io_of Done = Return ()"
| "io_of (Failed e) = Throw e"
| "io_of (TGet k) = Get (\<lambda>s. io_of (k s))"
| "io_of (TPut s p) = Put s (io_of p)"
| "io_of (TAwait q k) = Await q (\<lambda>r. io_of (k r))"
| "io_of (TFork t p) = Fork t (io_of p)"

lemma io_of_task_of [simp]: "io_of (task_of p) = p"
  by (induction p) auto

lemma task_of_io_of [simp]: "task_of (io_of t) = t"
  by (induction t) auto

primrec bind :: "('q, 'r, 's, 'a) io \<Rightarrow> ('a \<Rightarrow> ('q, 'r, 's, 'b) io) \<Rightarrow> ('q, 'r, 's, 'b) io" where
  "bind (Return a) f = f a"
| "bind (Throw e) f = Throw e"
| "bind (Get k) f = Get (\<lambda>s. bind (k s) f)"
| "bind (Put s p) f = Put s (bind p f)"
| "bind (Await q k) f = Await q (\<lambda>r. bind (k r) f)"
| "bind (Fork t p) f = Fork t (bind p f)"

primrec try_catch :: "('q, 'r, 's, 'a) io \<Rightarrow> (js_error \<Rightarrow> ('q, 'r, 's, 'a) io) \<Rightarrow> ('q, 'r, 's, 'a) io" where
  "try_catch (Return a) h = Return a"
| "try_catch (Throw e) h = h e"
| "try_catch (Get k) h = Get (\<lambda>s. try_catch (k s) h)"
| "try_catch (Put s p) h = Put s (try_catch p h)"
| "try_catch (Await q k) h = Await q (\<lambda>r. try_catch (k r) h)"
| "try_catch (Fork t p) h = Fork t (try_catch p h)"

abbreviation seq :: "('q, 'r, 's, 'a) io \<Rightarrow> ('q, 'r, 's, 'b) io \<Rightarrow> ('q, 'r, 's, 'b) io" where
  "seq p q \<equiv> bind p (\<lambda>_. q)"

definition try_finally :: "('q, 'r, 's, 'a) io \<Rightarrow> ('q, 'r, 's, unit) io \<Rightarrow> ('q, 'r, 's, 'a) io" where
  "try_finally p f = bind (try_catch p (\<lambda>e. seq f (Throw e))) (\<lambda>a. seq f (Return a))"

definition modify :: "('s \<Rightarrow> 's) \<Rightarrow> ('q, 'r, 's, unit) io" where
  "modify f = Get (\<lambda>s. Put (f s) (Return ()))"

text \<open>A call that is not awaited: what it throws does not reach the caller.\<close>

definition spawn :: "('q, 'r, 's, unit) io \<Rightarrow> ('q, 'r, 's, unit) io" where
  "spawn p = Fork (task_of p) (Return ())"

abbreviation skip :: "('q, 'r, 's, unit) io" where
  "skip \<equiv> Return ()"

primrec for_each :: "'a list \<Rightarrow> ('a \<Rightarrow> ('q, 'r, 's, unit) io) \<Rightarrow> ('q, 'r, 's, unit) io" where
  "for_each [] f = skip"
| "for_each (x # xs) f = seq (f x) (for_each xs f)"

lemma bind_assoc [simp]: "bind (bind p f) g = bind p (\<lambda>a. bind (f a) g)"
  by (induction p) auto

lemma bind_Return [simp]: "bind p Return = p"
  by (induction p) auto

section \<open>Running one handler against a server\<close>

type_synonym ('q, 'r, 'w) server = "'q \<Rightarrow> 'w \<Rightarrow> 'r \<times> 'w"

text \<open>A forked task is run to its end before its caller goes on: the schedule in which every answer
  comes at once.\<close>

primrec run_task :: "('q, 'r, 's) task \<Rightarrow> ('q, 'r, 'w) server \<Rightarrow> 's \<Rightarrow> 'w \<Rightarrow> 's \<times> 'w" where
  "run_task Done srv = (\<lambda>s w. (s, w))"
| "run_task (Failed e) srv = (\<lambda>s w. (s, w))"
| "run_task (TGet k) srv = (\<lambda>s w. run_task (k s) srv s w)"
| "run_task (TPut t p) srv = (\<lambda>s w. run_task p srv t w)"
| "run_task (TAwait q k) srv = (\<lambda>s w. case srv q w of (r, w') \<Rightarrow> run_task (k r) srv s w')"
| "run_task (TFork t p) srv = (\<lambda>s w. case run_task t srv s w of (s', w') \<Rightarrow> run_task p srv s' w')"

primrec run :: "('q, 'r, 's, 'a) io \<Rightarrow> ('q, 'r, 'w) server \<Rightarrow> 's \<Rightarrow> 'w \<Rightarrow> (js_error + 'a) \<times> 's \<times> 'w" where
  "run (Return a) srv = (\<lambda>s w. (Inr a, s, w))"
| "run (Throw e) srv = (\<lambda>s w. (Inl e, s, w))"
| "run (Get k) srv = (\<lambda>s w. run (k s) srv s w)"
| "run (Put t p) srv = (\<lambda>s w. run p srv t w)"
| "run (Await q k) srv = (\<lambda>s w. case srv q w of (r, w') \<Rightarrow> run (k r) srv s w')"
| "run (Fork t p) srv = (\<lambda>s w. case run_task t srv s w of (s', w') \<Rightarrow> run p srv s' w')"

lemma run_task_of [simp]: "run_task (task_of p) srv s w = snd (run p srv s w)"
  by (induction p arbitrary: s w) (auto split: prod.splits)

lemma run_spawn [run_simps]: "run (spawn p) srv s w = (Inr (), snd (run p srv s w))"
  by (simp add: spawn_def split: prod.splits)

lemma run_bind [run_simps]:
  "run (bind p f) srv s w =
     (case run p srv s w of (Inl e, s', w') \<Rightarrow> (Inl e, s', w')
                          | (Inr a, s', w') \<Rightarrow> run (f a) srv s' w')"
  by (induction p arbitrary: s w) (auto split: prod.splits)

lemma run_try_catch [run_simps]:
  "run (try_catch p h) srv s w =
     (case run p srv s w of (Inl e, s', w') \<Rightarrow> run (h e) srv s' w'
                          | (Inr a, s', w') \<Rightarrow> (Inr a, s', w'))"
  by (induction p arbitrary: s w) (auto split: prod.splits)

lemma run_modify [run_simps]: "run (modify f) srv s w = (Inr (), f s, w)"
  by (simp add: modify_def)

lemma run_try_finally [run_simps]:
  "run (try_finally p f) srv s w =
     (case run p srv s w of (x, s', w') \<Rightarrow>
        (case run f srv s' w' of
           (Inl e, s'', w'') \<Rightarrow> (Inl e, s'', w'')
         | (Inr _, s'', w'') \<Rightarrow> (x, s'', w'')))"
  by (auto simp: try_finally_def run_simps split: prod.splits sum.splits)

declare run.simps [run_simps]

text \<open>
  A server that answers by a fixed function of the request and of the requests before it, and keeps
  the log of all of them.
\<close>

definition logging :: "('q list \<Rightarrow> 'q \<Rightarrow> 'r) \<Rightarrow> ('q, 'r, 'q list) server" where
  "logging answer q log = (answer log q, log @ [q])"

lemma logging_apply [run_simps]: "logging answer q log = (answer log q, log @ [q])"
  by (simp add: logging_def)

lemma run_Await_logging:
  "run (Await q k) (logging answer) s w = run (k (answer w q)) (logging answer) s (w @ [q])"
proof -
  have eq: "logging answer q w = (answer w q, w @ [q])" by (rule logging_apply)
  show ?thesis by (simp only: run.simps eq prod.case)
qed

lemma log_extends_task: "run_task t (logging answer) s w = (s', w') \<Longrightarrow> \<exists>v. w' = w @ v"
proof (induction t arbitrary: s w s' w')
  case (TGet k)
  then have "run_task (k s) (logging answer) s w = (s', w')" by simp
  from TGet.IH [OF rangeI this] show ?case .
next
  case (TAwait q k)
  have eq: "logging answer q w = (answer w q, w @ [q])" by (rule logging_apply)
  have "run_task (k (answer w q)) (logging answer) s (w @ [q]) = (s', w')"
    using TAwait.prems by (simp only: run_task.simps eq prod.case)
  from TAwait.IH [OF rangeI this] show ?case by auto
next
  case (TFork t p)
  then show ?case by (fastforce split: prod.splits)
qed auto

lemma log_extends: "run p (logging answer) s w = (x, s', w') \<Longrightarrow> \<exists>v. w' = w @ v"
proof (induction p arbitrary: s w)
  case (Get k)
  then have "run (k s) (logging answer) s w = (x, s', w')" by simp
  from Get.IH [OF rangeI this] show ?case .
next
  case (Await q k)
  have "run (k (answer w q)) (logging answer) s (w @ [q]) = (x, s', w')"
    using Await.prems by (simp only: run_Await_logging)
  from Await.IH [OF rangeI this] show ?case by auto
next
  case (Fork t p)
  then obtain s1 w1 where 1: "run_task t (logging answer) s w = (s1, w1)"
    "run p (logging answer) s1 w1 = (x, s', w')"
    by (auto split: prod.splits)
  from log_extends_task [OF 1(1)] Fork.IH [OF 1(2)] show ?case by auto
qed auto

section \<open>The event loop\<close>

text \<open>
  The atomic part of a handler: everything up to its next suspension. A forked task runs up to its own
  first suspension, \<open>starts\<close>: the state after it, and the tasks it leaves suspended, each with the state
  it sent its request from. \<open>forked\<close> are the tasks that the atomic part of a handler leaves behind.
\<close>

primrec starts :: "('q, 'r, 's) task \<Rightarrow> 's \<Rightarrow> 's \<times> ('s \<times> ('q, 'r, 's) task) list" where
  "starts Done = (\<lambda>s. (s, []))"
| "starts (Failed e) = (\<lambda>s. (s, []))"
| "starts (TGet k) = (\<lambda>s. starts (k s) s)"
| "starts (TPut t p) = (\<lambda>s. starts p t)"
| "starts (TAwait q k) = (\<lambda>s. (s, [(s, TAwait q k)]))"
| "starts (TFork t p) = (\<lambda>s. case starts t s of (s', l) \<Rightarrow> (case starts p s' of (s'', l') \<Rightarrow> (s'', l @ l')))"

primrec settle :: "('q, 'r, 's, 'a) io \<Rightarrow> 's \<Rightarrow> ('q, 'r, 's, 'a) io \<times> 's" where
  "settle (Return a) = (\<lambda>s. (Return a, s))"
| "settle (Throw e) = (\<lambda>s. (Throw e, s))"
| "settle (Get k) = (\<lambda>s. settle (k s) s)"
| "settle (Put t p) = (\<lambda>s. settle p t)"
| "settle (Await q k) = (\<lambda>s. (Await q k, s))"
| "settle (Fork t p) = (\<lambda>s. settle p (fst (starts t s)))"

primrec forked :: "('q, 'r, 's, 'a) io \<Rightarrow> 's \<Rightarrow> ('s \<times> ('q, 'r, 's) task) list" where
  "forked (Return a) = (\<lambda>s. [])"
| "forked (Throw e) = (\<lambda>s. [])"
| "forked (Get k) = (\<lambda>s. forked (k s) s)"
| "forked (Put t p) = (\<lambda>s. forked p t)"
| "forked (Await q k) = (\<lambda>s. [])"
| "forked (Fork t p) = (\<lambda>s. case starts t s of (s', l) \<Rightarrow> l @ forked p s')"

text \<open>A handler that awaits every call it makes.\<close>

primrec fork_free :: "('q, 'r, 's, 'a) io \<Rightarrow> bool" where
  "fork_free (Return a) \<longleftrightarrow> True"
| "fork_free (Throw e) \<longleftrightarrow> True"
| "fork_free (Get k) \<longleftrightarrow> (\<forall>s. fork_free (k s))"
| "fork_free (Put t p) \<longleftrightarrow> fork_free p"
| "fork_free (Await q k) \<longleftrightarrow> (\<forall>r. fork_free (k r))"
| "fork_free (Fork t p) \<longleftrightarrow> False"

lemma fork_free_bind [fork_intros]: "fork_free p \<Longrightarrow> (\<And>a. fork_free (f a)) \<Longrightarrow> fork_free (bind p f)"
  by (induction p) auto

lemma fork_free_try_catch [fork_intros]:
  "fork_free p \<Longrightarrow> (\<And>e. fork_free (h e)) \<Longrightarrow> fork_free (try_catch p h)"
  by (induction p) auto

lemma fork_free_modify [fork_intros]: "fork_free (modify f)"
  by (simp add: modify_def)

lemma fork_free_try_finally [fork_intros]: "fork_free p \<Longrightarrow> fork_free f \<Longrightarrow> fork_free (try_finally p f)"
  unfolding try_finally_def by (intro fork_intros) simp_all

lemma fork_free_simple [fork_intros]: "fork_free (Return a)" "fork_free (Throw e)"
  by simp_all

lemma fork_free_forked: "fork_free p \<Longrightarrow> forked p s = []"
proof (induction p arbitrary: s)
  case (Get k)
  then show ?case using Get.IH [OF rangeI] by simp
qed auto

lemma fork_free_settle: "fork_free p \<Longrightarrow> fork_free (fst (settle p s))"
proof (induction p arbitrary: s)
  case (Get k)
  then show ?case using Get.IH [OF rangeI] by simp
qed auto

lemma run_starts: "starts t s = (s', []) \<Longrightarrow> run_task t srv s w = (s', w)"
proof (induction t arbitrary: s s')
  case (TGet k)
  then have "starts (k s) s = (s', [])" by simp
  from TGet.IH [OF rangeI this] show ?case by simp
next
  case (TFork t p)
  then show ?case by (fastforce split: prod.splits)
qed auto

lemma run_settle: "settle p s = (p', t) \<Longrightarrow> forked p s = [] \<Longrightarrow> run p srv s w = run p' srv t w"
proof (induction p arbitrary: s)
  case (Get k)
  then have "settle (k s) s = (p', t)" "forked (k s) s = []" by simp_all
  from Get.IH [OF rangeI this] show ?case by simp
next
  case (Fork u p)
  then obtain s' where s': "starts u s = (s', [])" "forked p s' = []" by (auto split: prod.splits)
  then have "settle p s' = (p', t)" using Fork.prems by simp
  from Fork.IH [OF this s'(2)] show ?case using run_starts [OF s'(1), of srv w] by simp
qed auto

text \<open>The first request of a handler is the one it is suspended at, whatever the answers.\<close>

lemma run_first_request:
  assumes "run p (logging answer) s w = (x, s', w')" and "settle p s = (Await q k, t)" and "forked p s = []"
  shows "\<exists>others. w' = w @ q # others"
proof -
  have "run (k (answer w q)) (logging answer) t (w @ [q]) = (x, s', w')"
    using assms(1) unfolding run_settle [OF assms(2,3)] by (simp only: run_Await_logging)
  from log_extends [OF this] show ?thesis by auto
qed

record ('q, 'r, 's) loop =
  loop_page :: 's
  loop_tasks :: "('q, 'r, 's, unit) io list"
  loop_sent :: "('s \<times> 'q) list"

fun sent_by :: "('q, 'r, 's, 'a) io \<Rightarrow> 's \<Rightarrow> ('s \<times> 'q) list" where
  "sent_by (Await q k) s = [(s, q)]"
| "sent_by p s = []"

definition new_tasks :: "('s \<times> ('q, 'r, 's) task) list \<Rightarrow> ('q, 'r, 's, unit) io list" where
  "new_tasks l = map (\<lambda>(_, t). io_of t) l"

definition sent_with :: "('s \<times> ('q, 'r, 's) task) list \<Rightarrow> ('s \<times> 'q) list" where
  "sent_with l = concat (map (\<lambda>(s, t). sent_by (io_of t) s) l)"

lemma new_tasks_simps [simp]:
  "new_tasks [] = []" "new_tasks ((s, t) # l) = io_of t # new_tasks l" "new_tasks (l @ l') = new_tasks l @ new_tasks l'"
  by (simp_all add: new_tasks_def)

lemma sent_with_simps [simp]:
  "sent_with [] = []" "sent_with ((s, t) # l) = sent_by (io_of t) s @ sent_with l"
  "sent_with (l @ l') = sent_with l @ sent_with l'"
  by (simp_all add: sent_with_def)

definition launch :: "('q, 'r, 's, unit) io \<Rightarrow> ('q, 'r, 's) loop \<Rightarrow> ('q, 'r, 's) loop" where
  "launch h c =
     (let (p, t) = settle h (loop_page c)
      in \<lparr>loop_page = t, loop_tasks = loop_tasks c @ p # new_tasks (forked h (loop_page c)),
          loop_sent = loop_sent c @ sent_with (forked h (loop_page c)) @ sent_by p t\<rparr>)"

definition resume :: "nat \<Rightarrow> 'r \<Rightarrow> ('q, 'r, 's) loop \<Rightarrow> ('q, 'r, 's) loop" where
  "resume i r c =
     (case loop_tasks c ! i of
        Await q k \<Rightarrow>
          (let (p, t) = settle (k r) (loop_page c)
           in \<lparr>loop_page = t, loop_tasks = (loop_tasks c)[i := p] @ new_tasks (forked (k r) (loop_page c)),
               loop_sent = loop_sent c @ sent_with (forked (k r) (loop_page c)) @ sent_by p t\<rparr>)
      | _ \<Rightarrow> c)"

text \<open>
  \<open>handlers s\<close> are the handlers a user, a timer or an effect may launch in state \<open>s\<close>; \<open>answers\<close> says
  which response a request may get.
\<close>

inductive loop_step ::
  "('s \<Rightarrow> ('q, 'r, 's, unit) io set) \<Rightarrow> ('q \<Rightarrow> 'r \<Rightarrow> bool) \<Rightarrow>
     ('q, 'r, 's) loop \<Rightarrow> ('q, 'r, 's) loop \<Rightarrow> bool"
  for handlers answers where
  fire: "h \<in> handlers (loop_page c) \<Longrightarrow> loop_step handlers answers c (launch h c)"
| arrive: "i < length (loop_tasks c) \<Longrightarrow> loop_tasks c ! i = Await q k \<Longrightarrow> answers q r \<Longrightarrow>
     loop_step handlers answers c (resume i r c)"

inductive reachable ::
  "('s \<Rightarrow> ('q, 'r, 's, unit) io set) \<Rightarrow> ('q \<Rightarrow> 'r \<Rightarrow> bool) \<Rightarrow> 's \<Rightarrow> ('q, 'r, 's) loop \<Rightarrow> bool"
  for handlers answers init where
  initial: "reachable handlers answers init \<lparr>loop_page = init, loop_tasks = [], loop_sent = []\<rparr>"
| further: "reachable handlers answers init c \<Longrightarrow> loop_step handlers answers c c' \<Longrightarrow>
     reachable handlers answers init c'"

inductive_cases loop_stepE: "loop_step handlers answers c c'"

section \<open>Rely/guarantee judgement\<close>

primrec guarded_task :: "('s \<Rightarrow> bool) \<Rightarrow> ('s \<Rightarrow> 'q \<Rightarrow> bool) \<Rightarrow> ('q, 'r, 's) task \<Rightarrow> 's \<Rightarrow> bool" where
  "guarded_task I Q Done = (\<lambda>s. I s)"
| "guarded_task I Q (Failed e) = (\<lambda>s. I s)"
| "guarded_task I Q (TGet k) = (\<lambda>s. guarded_task I Q (k s) s)"
| "guarded_task I Q (TPut t p) = (\<lambda>s. guarded_task I Q p t)"
| "guarded_task I Q (TAwait q k) = (\<lambda>s. I s \<and> Q s q \<and> (\<forall>r t. I t \<longrightarrow> guarded_task I Q (k r) t))"
| "guarded_task I Q (TFork t p) = (\<lambda>s. guarded_task I Q t s \<and> (\<forall>u. I u \<longrightarrow> guarded_task I Q p u))"

primrec guarded :: "('s \<Rightarrow> bool) \<Rightarrow> ('s \<Rightarrow> 'q \<Rightarrow> bool) \<Rightarrow> ('q, 'r, 's, 'a) io \<Rightarrow> 's \<Rightarrow> bool" where
  "guarded I Q (Return a) = (\<lambda>s. I s)"
| "guarded I Q (Throw e) = (\<lambda>s. I s)"
| "guarded I Q (Get k) = (\<lambda>s. guarded I Q (k s) s)"
| "guarded I Q (Put t p) = (\<lambda>s. guarded I Q p t)"
| "guarded I Q (Await q k) = (\<lambda>s. I s \<and> Q s q \<and> (\<forall>r t. I t \<longrightarrow> guarded I Q (k r) t))"
| "guarded I Q (Fork t p) = (\<lambda>s. guarded_task I Q t s \<and> (\<forall>u. I u \<longrightarrow> guarded I Q p u))"

lemma guarded_task_of [simp]: "guarded_task I Q (task_of p) s = guarded I Q p s"
  by (induction p arbitrary: s) auto

lemma guarded_io_of [simp]: "guarded I Q (io_of t) s = guarded_task I Q t s"
  by (induction t arbitrary: s) auto

lemma guarded_spawn [guard_intros]: "guarded I Q p s \<Longrightarrow> guarded I Q (spawn p) s"
  by (simp add: spawn_def)

lemma guarded_bind [guard_intros]:
  "guarded I Q p s \<Longrightarrow> (\<And>a t. I t \<Longrightarrow> guarded I Q (f a) t) \<Longrightarrow> guarded I Q (bind p f) s"
  by (induction p arbitrary: s) auto

lemma guarded_try_catch [guard_intros]:
  "guarded I Q p s \<Longrightarrow> (\<And>e t. I t \<Longrightarrow> guarded I Q (h e) t) \<Longrightarrow> guarded I Q (try_catch p h) s"
  by (induction p arbitrary: s) auto

lemma guarded_modify [guard_intros]: "I (f s) \<Longrightarrow> guarded I Q (modify f) s"
  by (simp add: modify_def)

lemma guarded_Return [guard_intros]: "I s \<Longrightarrow> guarded I Q (Return a) s"
  by simp

lemma guarded_Throw [guard_intros]: "I s \<Longrightarrow> guarded I Q (Throw e) s"
  by simp

lemma guarded_try_finally [guard_intros]:
  "guarded I Q p s \<Longrightarrow> (\<And>t. I t \<Longrightarrow> guarded I Q f t) \<Longrightarrow> guarded I Q (try_finally p f) s"
  unfolding try_finally_def by (intro guarded_bind guarded_try_catch) auto

lemma guarded_for_each [guard_intros]:
  "I s \<Longrightarrow> (\<And>x t. x \<in> set xs \<Longrightarrow> I t \<Longrightarrow> guarded I Q (f x) t) \<Longrightarrow> guarded I Q (for_each xs f) s"
proof (induction xs arbitrary: s)
  case Nil
  then show ?case by simp
next
  case (Cons x xs)
  then show ?case by (auto intro!: guarded_bind)
qed

lemma guarded_if [guard_intros]:
  "(b \<Longrightarrow> guarded I Q p s) \<Longrightarrow> (\<not> b \<Longrightarrow> guarded I Q q s) \<Longrightarrow> guarded I Q (if b then p else q) s"
  by simp

lemma guarded_task_imp:
  "guarded_task I Q p s \<Longrightarrow> (\<And>t q. I t \<Longrightarrow> Q t q \<Longrightarrow> Q' t q) \<Longrightarrow> guarded_task I Q' p s"
  by (induction p arbitrary: s) auto

lemma guarded_imp: "guarded I Q p s \<Longrightarrow> (\<And>t q. I t \<Longrightarrow> Q t q \<Longrightarrow> Q' t q) \<Longrightarrow> guarded I Q' p s"
  by (induction p arbitrary: s) (auto intro: guarded_task_imp)

text \<open>What a suspended task still promises.\<close>

fun waiting_ok :: "('s \<Rightarrow> bool) \<Rightarrow> ('s \<Rightarrow> 'q \<Rightarrow> bool) \<Rightarrow> ('q, 'r, 's, 'a) io \<Rightarrow> bool" where
  "waiting_ok I Q (Await q k) = (\<forall>r t. I t \<longrightarrow> guarded I Q (k r) t)"
| "waiting_ok I Q p = True"

definition forks_ok :: "('s \<Rightarrow> bool) \<Rightarrow> ('s \<Rightarrow> 'q \<Rightarrow> bool) \<Rightarrow> ('s \<times> ('q, 'r, 's) task) list \<Rightarrow> bool" where
  "forks_ok I Q l \<longleftrightarrow> (\<forall>p \<in> set (new_tasks l). waiting_ok I Q p) \<and> (\<forall>(u, q) \<in> set (sent_with l). I u \<and> Q u q)"

lemma forks_ok_append [simp]: "forks_ok I Q (l @ l') \<longleftrightarrow> forks_ok I Q l \<and> forks_ok I Q l'"
  by (auto simp: forks_ok_def)

lemma starts_guarded: "guarded_task I Q p s \<Longrightarrow> starts p s = (t, l) \<Longrightarrow> I t \<and> forks_ok I Q l"
proof (induction p arbitrary: s t l)
  case (TGet k)
  then have "guarded_task I Q (k s) s" "starts (k s) s = (t, l)" by simp_all
  from TGet.IH [OF rangeI this] show ?case .
next
  case (TFork u p)
  obtain s' l1 l2 where st: "starts u s = (s', l1)" "starts p s' = (t, l2)" "l = l1 @ l2"
    using TFork.prems(2) by (auto split: prod.splits)
  have gu: "guarded_task I Q u s" and gp: "I s' \<longrightarrow> guarded_task I Q p s'"
    using TFork.prems(1) by simp_all
  from TFork.IH(1) [OF gu st(1)] have 1: "I s'" "forks_ok I Q l1" by blast+
  from TFork.IH(2) [OF mp [OF gp 1(1)] st(2)] 1(2) show ?case
    unfolding st(3) forks_ok_append by blast
qed (auto simp: forks_ok_def)

lemma settle_guarded:
  "guarded I Q p s \<Longrightarrow> settle p s = (p', t) \<Longrightarrow>
     I t \<and> waiting_ok I Q p' \<and> (\<forall>(u, q) \<in> set (sent_by p' t). I u \<and> Q u q) \<and> forks_ok I Q (forked p s)"
proof (induction p arbitrary: s)
  case (Get k)
  then have "guarded I Q (k s) s" "settle (k s) s = (p', t)" by simp_all
  from Get.IH [OF rangeI this] show ?case by simp
next
  case (Fork u p)
  obtain s' l where s': "starts u s = (s', l)" by force
  have "guarded_task I Q u s" using Fork.prems(1) by simp
  from starts_guarded [OF this s'] have "I s' \<and> forks_ok I Q l" .
  moreover from this have "guarded I Q p s'" "settle p s' = (p', t)" using Fork.prems s' by simp_all
  note Fork.IH [OF this]
  ultimately show ?case using s' by simp
qed (auto simp: forks_ok_def)

text \<open>
  The interface between the event loop and a page: a page provides its handlers and an invariant, and
  promises that each handler started under the invariant is guarded.
\<close>

locale guarded_page =
  fixes handlers :: "'s \<Rightarrow> ('q, 'r, 's, unit) io set"
    and inv :: "'s \<Rightarrow> bool"
    and sends :: "'s \<Rightarrow> 'q \<Rightarrow> bool"
  assumes handler_guarded: "inv s \<Longrightarrow> h \<in> handlers s \<Longrightarrow> guarded inv sends h s"
begin

definition loop_ok :: "('q, 'r, 's) loop \<Rightarrow> bool" where
  "loop_ok c \<longleftrightarrow> inv (loop_page c) \<and> (\<forall>p \<in> set (loop_tasks c). waiting_ok inv sends p) \<and>
     (\<forall>(u, q) \<in> set (loop_sent c). inv u \<and> sends u q)"

lemma launch_ok:
  assumes "loop_ok c" and "h \<in> handlers (loop_page c)"
  shows "loop_ok (launch h c)"
proof -
  obtain p t where pt: "settle h (loop_page c) = (p, t)" by force
  have "guarded inv sends h (loop_page c)"
    using assms handler_guarded by (simp add: loop_ok_def)
  from settle_guarded [OF this pt] show ?thesis
    using assms(1) pt by (auto simp: launch_def loop_ok_def forks_ok_def)
qed

lemma resume_ok:
  assumes ok: "loop_ok c" and i: "i < length (loop_tasks c)" and t: "loop_tasks c ! i = Await q k"
  shows "loop_ok (resume i r c)"
proof -
  have w: "waiting_ok inv sends (Await q k)"
    using ok i t by (metis loop_ok_def nth_mem)
  obtain p u where pu: "settle (k r) (loop_page c) = (p, u)" by force
  have "guarded inv sends (k r) (loop_page c)"
    using w ok by (simp add: loop_ok_def)
  from settle_guarded [OF this pu]
  have "inv u" "waiting_ok inv sends p" "\<forall>(v, q) \<in> set (sent_by p u). inv v \<and> sends v q"
    "forks_ok inv sends (forked (k r) (loop_page c))"
    by auto
  then show ?thesis
    using ok pu t set_update_subset_insert [of "loop_tasks c" i p]
    by (auto simp: resume_def loop_ok_def forks_ok_def)
qed

lemma reachable_ok:
  "reachable handlers answers init c \<Longrightarrow> inv init \<Longrightarrow> loop_ok c"
proof (induction rule: reachable.induct)
  case initial
  then show ?case by (simp add: loop_ok_def)
next
  case (further c c')
  then have ok: "loop_ok c" by simp
  from further.hyps(2) show ?case
    by (rule loop_stepE) (use ok in \<open>auto intro: launch_ok resume_ok\<close>)
qed

lemma reachable_inv: "reachable handlers answers init c \<Longrightarrow> inv init \<Longrightarrow> inv (loop_page c)"
  using reachable_ok by (auto simp: loop_ok_def)

lemma reachable_sends:
  "reachable handlers answers init c \<Longrightarrow> inv init \<Longrightarrow> (u, q) \<in> set (loop_sent c) \<Longrightarrow> inv u \<and> sends u q"
  using reachable_ok by (fastforce simp: loop_ok_def)

end

end
