(* ===== verification/Js_String.thy ===== *)
theory Js_String
  imports Prelude
begin

text \<open>
  The string functions of JavaScript's library that the client uses: \<open>trim\<close>, \<open>split\<close>, \<open>join\<close>,
  \<open>indexOf\<close> and \<open>lastIndexOf\<close> with a start position, \<open>toLowerCase\<close>, decimal printing,
  \<open>parseInt\<close>, \<open>encodeURIComponent\<close> and the serialisation of \<open>URLSearchParams\<close>.
  A string is a list of characters with codes below 256, each one code unit.
\<close>

section \<open>Trimming, splitting, searching\<close>

definition is_space :: "char \<Rightarrow> bool" where
  "is_space c \<longleftrightarrow> of_char c \<in> {9, 10, 11, 12, 13, 32, 160 :: nat}"

definition trim :: "string \<Rightarrow> string" where
  "trim s = rev (dropWhile is_space (rev (dropWhile is_space s)))"

lemma trim_Nil [simp]: "trim [] = []"
  by (simp add: trim_def)

lemma dropWhile_rev_dropWhile:
  "dropWhile P (rev (dropWhile P (rev (dropWhile P s)))) = rev (dropWhile P (rev (dropWhile P s)))"
proof (cases "dropWhile P s")
  case Nil
  then show ?thesis by (simp only: rev.simps dropWhile.simps)
next
  case (Cons a as)
  then have "\<not> P a" by (metis dropWhile_eq_Cons_conv)
  moreover have "dropWhile P (rev (a # as)) = dropWhile P (rev as) @ [a] \<or> dropWhile P (rev (a # as)) = [a]"
    using \<open>\<not> P a\<close> by (cases "\<forall>x \<in> set (rev as). P x") (auto simp: dropWhile_append)
  ultimately show ?thesis using Cons by auto
qed

lemma trim_trim [simp]: "trim (trim s) = trim s"
  by (simp add: trim_def dropWhile_rev_dropWhile)

lemma trim_no_space: "\<forall>c \<in> set s. \<not> is_space c \<Longrightarrow> trim s = s"
proof -
  assume s: "\<forall>c \<in> set s. \<not> is_space c"
  have "dropWhile is_space u = u" if "\<forall>c \<in> set u. \<not> is_space c" for u
    using that by (cases u) auto
  from this [OF s] this [of "rev s"] s show ?thesis by (simp add: trim_def)
qed

text \<open>\<open>s.split(c)\<close> for a separator of one character: one piece more than separators.\<close>

fun split_on :: "char \<Rightarrow> string \<Rightarrow> string list" where
  "split_on c [] = [[]]"
| "split_on c (x # xs) =
     (if x = c then [] # split_on c xs
      else (x # hd (split_on c xs)) # tl (split_on c xs))"

fun join_with :: "string \<Rightarrow> string list \<Rightarrow> string" where
  "join_with sep [] = []"
| "join_with sep [x] = x"
| "join_with sep (x # y # ys) = x @ sep @ join_with sep (y # ys)"

lemma split_on_not_Nil [simp]: "split_on c s \<noteq> []"
  by (cases s) auto

lemma join_split [simp]: "join_with [c] (split_on c s) = s"
proof (induction s)
  case Nil
  then show ?case by simp
next
  case (Cons x xs)
  obtain p ps where ps: "split_on c xs = p # ps" by (cases "split_on c xs") auto
  from Cons ps show ?case by (cases ps) auto
qed

lemma split_on_inj: "split_on c s = split_on c t \<longleftrightarrow> s = t"
  by (metis join_split)

text \<open>
  \<open>text.indexOf(pat, from)\<close> is the least position at or after \<open>from\<close> where \<open>pat\<close> starts,
  \<open>text.lastIndexOf(pat, from)\<close> the greatest at or before it; \<open>None\<close> stands for \<open>-1\<close>.
\<close>

definition starts_at :: "string \<Rightarrow> string \<Rightarrow> nat \<Rightarrow> bool" where
  "starts_at pat text i \<longleftrightarrow> i + length pat \<le> length text \<and> take (length pat) (drop i text) = pat"

definition index_of :: "string \<Rightarrow> string \<Rightarrow> nat \<Rightarrow> nat option" where
  "index_of pat text from = find (starts_at pat text) [from ..< Suc (length text)]"

definition last_index_of :: "string \<Rightarrow> string \<Rightarrow> nat \<Rightarrow> nat option" where
  "last_index_of pat text from =
     find (starts_at pat text) (rev [0 ..< Suc (min from (length text))])"

lemma find_upt:
  "find P [m ..< n] = Some i \<longleftrightarrow> P i \<and> m \<le> i \<and> i < n \<and> (\<forall>j. m \<le> j \<and> j < i \<longrightarrow> \<not> P j)"
proof (induction "n - m" arbitrary: m)
  case 0
  then show ?case by auto
next
  case (Suc k)
  then have "m < n" and IH: "find P [Suc m ..< n] = Some i \<longleftrightarrow>
      P i \<and> Suc m \<le> i \<and> i < n \<and> (\<forall>j. Suc m \<le> j \<and> j < i \<longrightarrow> \<not> P j)"
    by auto
  show ?case
  proof (cases "P m")
    case True
    with \<open>m < n\<close> show ?thesis
      by (auto simp: upt_conv_Cons)
  next
    case False
    then have "(P i \<and> Suc m \<le> i \<and> i < n \<and> (\<forall>j. Suc m \<le> j \<and> j < i \<longrightarrow> \<not> P j)) \<longleftrightarrow>
      (P i \<and> m \<le> i \<and> i < n \<and> (\<forall>j. m \<le> j \<and> j < i \<longrightarrow> \<not> P j))"
      by (metis Suc_leD Suc_leI le_neq_implies_less)
    with False \<open>m < n\<close> IH show ?thesis by (simp add: upt_conv_Cons)
  qed
qed

lemma index_of_Some:
  "index_of pat text from = Some i \<longleftrightarrow>
     starts_at pat text i \<and> from \<le> i \<and> (\<forall>j. from \<le> j \<and> j < i \<longrightarrow> \<not> starts_at pat text j)"
  unfolding index_of_def find_upt by (auto simp: starts_at_def)

lemma index_of_None:
  "index_of pat text from = None \<longleftrightarrow> (\<forall>j. from \<le> j \<longrightarrow> \<not> starts_at pat text j)"
  unfolding index_of_def find_None_iff by (auto simp: starts_at_def less_Suc_eq_le)

lemma last_index_of_None:
  "last_index_of pat text from = None \<longleftrightarrow> (\<forall>j. j \<le> from \<longrightarrow> \<not> starts_at pat text j)"
  unfolding last_index_of_def find_None_iff by (auto simp: starts_at_def less_Suc_eq_le)

lemma find_rev_upt:
  "find P (rev [0 ..< Suc n]) = Some i \<longleftrightarrow> P i \<and> i \<le> n \<and> (\<forall>j. i < j \<and> j \<le> n \<longrightarrow> \<not> P j)"
proof (induction n)
  case 0
  then show ?case by (cases "P 0"; cases i) auto
next
  case (Suc n)
  show ?case
  proof (cases "P (Suc n)")
    case True
    then show ?thesis by (auto simp: le_Suc_eq)
  next
    case False
    then have "find P (rev [0 ..< Suc (Suc n)]) = find P (rev [0 ..< Suc n])" by simp
    with Suc False show ?thesis by (auto simp: le_Suc_eq)
  qed
qed

lemma last_index_of_Some:
  "last_index_of pat text from = Some i \<longleftrightarrow>
     starts_at pat text i \<and> i \<le> from \<and> (\<forall>j. i < j \<and> j \<le> from \<longrightarrow> \<not> starts_at pat text j)"
  unfolding last_index_of_def find_rev_upt by (auto simp: starts_at_def)

section \<open>Case and decimal numerals\<close>

definition to_lower_char :: "char \<Rightarrow> char" where
  "to_lower_char c =
     (let n = (of_char c :: nat)
      in if (65 \<le> n \<and> n \<le> 90) \<or> (192 \<le> n \<and> n \<le> 222 \<and> n \<noteq> 215) then char_of (n + 32) else c)"

definition to_lower :: "string \<Rightarrow> string" where
  "to_lower s = map to_lower_char s"

definition digit_char :: "nat \<Rightarrow> char" where
  "digit_char d = char_of (48 + d)"

fun show_nat :: "nat \<Rightarrow> string" where
  "show_nat n = (if n < 10 then [digit_char n] else show_nat (n div 10) @ [digit_char (n mod 10)])"

declare show_nat.simps [simp del]

definition show_int :: "int \<Rightarrow> string" where
  "show_int i = (if i < 0 then ''-'' @ show_nat (nat (- i)) else show_nat (nat i))"

definition is_digit :: "char \<Rightarrow> bool" where
  "is_digit c \<longleftrightarrow> 48 \<le> (of_char c :: nat) \<and> (of_char c :: nat) \<le> 57"

definition digit_val :: "char \<Rightarrow> nat" where
  "digit_val c = of_char c - 48"

definition digits_val :: "string \<Rightarrow> nat" where
  "digits_val ds = foldl (\<lambda>n c. 10 * n + digit_val c) 0 ds"

text \<open>\<open>parseInt(s, 10)\<close>: skips leading blanks, reads a sign and the longest run of digits;
  \<open>None\<close> is \<open>NaN\<close>.\<close>

definition parse_digits :: "string \<Rightarrow> nat option" where
  "parse_digits s =
     (let ds = takeWhile is_digit s in if ds = [] then None else Some (digits_val ds))"

definition parse_int :: "string \<Rightarrow> int option" where
  "parse_int s =
     (case dropWhile is_space s of
        [] \<Rightarrow> None
      | c # cs \<Rightarrow>
          if c = CHR ''-'' then map_option (\<lambda>n. - int n) (parse_digits cs)
          else if c = CHR ''+'' then map_option int (parse_digits cs)
          else map_option int (parse_digits (c # cs)))"

lemma digit_char_digit [simp]: "d < 10 \<Longrightarrow> is_digit (digit_char d)"
  by (simp add: digit_char_def is_digit_def)

lemma digit_val_digit_char [simp]: "d < 10 \<Longrightarrow> digit_val (digit_char d) = d"
  by (simp add: digit_char_def digit_val_def)

lemma digits_val_snoc [simp]: "digits_val (ds @ [c]) = 10 * digits_val ds + digit_val c"
  by (simp add: digits_val_def)

lemma show_nat_digits: "\<forall>c \<in> set (show_nat n). is_digit c"
proof (induction n rule: show_nat.induct)
  case (1 n)
  show ?case
  proof (cases "n < 10")
    case True
    then show ?thesis by (subst show_nat.simps) simp
  next
    case False
    with 1 show ?thesis by (subst show_nat.simps) auto
  qed
qed

lemma show_nat_not_Nil [simp]: "show_nat n \<noteq> []"
  by (subst show_nat.simps) simp

lemma digits_val_show_nat [simp]: "digits_val (show_nat n) = n"
proof (induction n rule: show_nat.induct)
  case (1 n)
  show ?case
  proof (cases "n < 10")
    case True
    then show ?thesis by (subst show_nat.simps) (simp add: digits_val_def)
  next
    case False
    with 1 show ?thesis by (subst show_nat.simps) simp
  qed
qed

lemma parse_digits_show_nat: "parse_digits (show_nat n) = Some n"
  using show_nat_digits [of n] by (simp add: parse_digits_def takeWhile_eq_all_conv [THEN iffD2])

lemma is_digit_props: "is_digit c \<Longrightarrow> \<not> is_space c \<and> c \<noteq> CHR ''-'' \<and> c \<noteq> CHR ''+''"
  by (auto simp: is_digit_def is_space_def)

lemma parse_int_show_int: "parse_int (show_int i) = Some i"
proof -
  obtain c cs where s: "show_nat (nat \<bar>i\<bar>) = c # cs" by (cases "show_nat (nat \<bar>i\<bar>)") auto
  then have c: "is_digit c" using show_nat_digits [of "nat \<bar>i\<bar>"] by simp
  have p: "parse_digits (c # cs) = Some (nat \<bar>i\<bar>)"
    using parse_digits_show_nat [of "nat \<bar>i\<bar>"] s by simp
  show ?thesis
  proof (cases "i < 0")
    case True
    then show ?thesis using s p by (simp add: show_int_def parse_int_def is_space_def)
  next
    case False
    then show ?thesis using s p is_digit_props [OF c] by (simp add: show_int_def parse_int_def)
  qed
qed

lemma trim_show_int: "trim (show_int i) = show_int i"
proof (rule trim_no_space, rule ballI)
  fix c
  assume "c \<in> set (show_int i)"
  then have "is_digit c \<or> c = CHR ''-''" using show_nat_digits by (auto simp: show_int_def split: if_splits)
  then show "\<not> is_space c" using is_digit_props by (auto simp: is_space_def)
qed

lemma show_nat_inj [simp]: "show_nat m = show_nat n \<longleftrightarrow> m = n"
  by (metis digits_val_show_nat)

lemma show_int_inj [simp]: "show_int i = show_int j \<longleftrightarrow> i = j"
  by (metis parse_int_show_int option.inject)

end
