(* ===== verification/Js_Json.thy ===== *)
theory Js_Json
  imports Js_String
begin

text \<open>
  JSON values and the operations of the client on them: member access, update, deletion, the spread
  of one object over another, truthiness, and the encoding of optional fields and of numbers. An
  object is the list of its members in insertion order; a missing member is \<open>undefined\<close>, here
  \<open>None\<close>. Numbers are integers: no number the client computes with or edits is fractional.
\<close>

datatype json =
    JNull
  | JBool bool
  | JNum int
  | JStr string
  | JArr "json list"
  | JObj "(string \<times> json) list"

text \<open>Form fields are filled by \<open>parseInt\<close> and by scaling, so they may also be no number or
  infinite; \<open>JSON.stringify\<close> writes both as \<open>null\<close>.\<close>

datatype jsnum = NaN | Infinity | Fin int

fun num_json :: "jsnum \<Rightarrow> json" where
  "num_json (Fin i) = JNum i"
| "num_json _ = JNull"

definition num_of_parse :: "int option \<Rightarrow> jsnum" where
  "num_of_parse x = (case x of None \<Rightarrow> NaN | Some i \<Rightarrow> Fin i)"

fun num_truthy :: "jsnum \<Rightarrow> bool" where
  "num_truthy NaN = False"
| "num_truthy Infinity = True"
| "num_truthy (Fin i) = (i \<noteq> 0)"

section \<open>Objects\<close>

fun jget :: "string \<Rightarrow> json \<Rightarrow> json option" where
  "jget k (JObj ms) = map_of ms k"
| "jget k _ = None"

definition jget_opt :: "string \<Rightarrow> json option \<Rightarrow> json option" where
  \<comment> \<open>\<open>v?.k\<close>\<close>
  "jget_opt k v = Option.bind v (jget k)"

fun member_set :: "string \<Rightarrow> json \<Rightarrow> (string \<times> json) list \<Rightarrow> (string \<times> json) list" where
  "member_set k v [] = [(k, v)]"
| "member_set k v ((k', v') # ms) = (if k' = k then (k, v) # ms else (k', v') # member_set k v ms)"

fun jset :: "string \<Rightarrow> json \<Rightarrow> json \<Rightarrow> json" where
  "jset k v (JObj ms) = JObj (member_set k v ms)"
| "jset k v j = j"

fun jdelete :: "string \<Rightarrow> json \<Rightarrow> json" where
  "jdelete k (JObj ms) = JObj (filter (\<lambda>(k', _). k' \<noteq> k) ms)"
| "jdelete k j = j"

definition obj :: "(string \<times> json option) list \<Rightarrow> json" where
  \<comment> \<open>an object literal; members that are \<open>undefined\<close> are not written by \<open>JSON.stringify\<close>\<close>
  "obj ms = JObj (List.map_filter (\<lambda>(k, v). map_option (Pair k) v) ms)"

fun jkeys :: "json \<Rightarrow> string list" where
  "jkeys (JObj ms) = map fst ms"
| "jkeys _ = []"

fun truthy :: "json \<Rightarrow> bool" where
  "truthy JNull = False"
| "truthy (JBool b) = b"
| "truthy (JNum i) = (i \<noteq> 0)"
| "truthy (JStr s) = (s \<noteq> [])"
| "truthy (JArr _) = True"
| "truthy (JObj _) = True"

definition truthy_opt :: "json option \<Rightarrow> bool" where
  "truthy_opt v = (case v of None \<Rightarrow> False | Some j \<Rightarrow> truthy j)"

lemma truthy_opt_simps [simp]: "truthy_opt None = False" "truthy_opt (Some j) = truthy j"
  by (simp_all add: truthy_opt_def)

lemma jget_opt_simps [simp]: "jget_opt k None = None" "jget_opt k (Some j) = jget k j"
  by (simp_all add: jget_opt_def)

definition str_of :: "json option \<Rightarrow> string" where
  \<comment> \<open>the string of a member of type string; the empty string otherwise\<close>
  "str_of v = (case v of Some (JStr s) \<Rightarrow> s | _ \<Rightarrow> [])"

lemma str_of_simps [simp]:
  "str_of None = []" "str_of (Some (JStr s)) = s"
  by (simp_all add: str_of_def)

lemma map_of_member_set [simp]:
  "map_of (member_set k v ms) = (map_of ms)(k \<mapsto> v)"
  by (induction ms) auto

lemma map_of_filter_ne [simp]:
  "map_of (filter (\<lambda>(k', _). k' \<noteq> k) ms) k' = (if k' = k then None else map_of ms k')"
  by (induction ms) auto

lemma jget_jset_same [simp]: "jget k (jset k v (JObj ms)) = Some v"
  by simp

lemma jget_jset_other [simp]: "k' \<noteq> k \<Longrightarrow> jget k' (jset k v j) = jget k' j"
  by (cases j) auto

lemma jget_jdelete [simp]: "jget k' (jdelete k j) = (if k' = k then None else jget k' j)"
  by (cases j) auto

lemma obj_simps [simp]:
  "obj [] = JObj []"
  "obj ((k, None) # ms) = obj ms"
  by (simp_all add: obj_def List.map_filter_simps)

lemma jget_obj: "jget k (obj ((k', v) # ms)) =
    (if k = k' \<and> v \<noteq> None then v else jget k (obj ms))"
  by (cases v) (auto simp: obj_def List.map_filter_simps)

end
