(* ===== verification/Browser.thy ===== *)
theory Browser
  imports Js_Async Js_Json
begin

text \<open>
  What every page of the client shares: the local storage, the token held by the \<open>AuthProvider\<close>
  (context/AuthContext.tsx), the current route, the toasts and their timers (context/ToastContext.tsx),
  and the alerts shown. A page's own state extends this record. \<open>fetch\<close> is the browser's: a request
  is rejected with an error, or answered by a response whose status, text and decoded body the
  server chooses.
\<close>

section \<open>Requests and responses\<close>

datatype body = JsonBody json | TextBody string

record http_request =
  rq_method :: string
  rq_url :: string
  rq_headers :: "(string \<times> string) list"
  rq_body :: "body option"

section \<open>The shared state\<close>

datatype toast_type = Success | ErrorT | Info | Warning

record toast =
  t_id :: string
  t_type :: toast_type
  t_message :: string
  t_duration :: int

record browser =
  storage :: "string \<Rightarrow> string option"
  auth_token :: "string option"
  route :: string
  toasts :: "toast list"
  timers :: "(string \<times> int) list"
  random_ids :: "nat \<Rightarrow> string"
  drawn :: nat
  alerts :: "string list"

section \<open>ToastContext\<close>

text \<open>
  \<open>showToast\<close> draws a random id, appends the toast and, for a positive duration, starts a timer that
  removes it. \<open>random_ids\<close> is the sequence of ids the random generator draws, \<open>drawn\<close> how many it has.
\<close>

definition removeToast :: "string \<Rightarrow> 'b browser_scheme \<Rightarrow> 'b browser_scheme" where
  "removeToast tid s = s\<lparr>toasts := filter (\<lambda>t. t_id t \<noteq> tid) (toasts s)\<rparr>"

definition resolved_duration :: "toast_type \<Rightarrow> int option \<Rightarrow> int" where
  "resolved_duration ty duration =
     (case duration of Some d \<Rightarrow> d | None \<Rightarrow> if ty = ErrorT then 8000 else 5000)"

definition showToast :: "string \<Rightarrow> toast_type \<Rightarrow> int option \<Rightarrow> 'b browser_scheme \<Rightarrow> 'b browser_scheme" where
  "showToast message ty duration s =
     (let d = resolved_duration ty duration;
          tid = random_ids s (drawn s);
          t = \<lparr>t_id = tid, t_type = ty, t_message = message, t_duration = d\<rparr>
      in s\<lparr>toasts := toasts s @ [t],
           timers := (if 0 < d then timers s @ [(tid, d)] else timers s),
           drawn := Suc (drawn s)\<rparr>)"

definition toast_success :: "string \<Rightarrow> 'b browser_scheme \<Rightarrow> 'b browser_scheme" where
  "toast_success msg = showToast msg Success None"

definition toast_error :: "string \<Rightarrow> 'b browser_scheme \<Rightarrow> 'b browser_scheme" where
  "toast_error msg = showToast msg ErrorT None"

text \<open>The timer at position \<open>i\<close> expires.\<close>

definition fire_timer :: "nat \<Rightarrow> 'b browser_scheme \<Rightarrow> 'b browser_scheme" where
  "fire_timer i s =
     (if i < length (timers s)
      then removeToast (fst (timers s ! i)) (s\<lparr>timers := remove_at i (timers s)\<rparr>)
      else s)"

definition alert :: "string \<Rightarrow> 'b browser_scheme \<Rightarrow> 'b browser_scheme" where
  "alert msg s = s\<lparr>alerts := alerts s @ [msg]\<rparr>"

section \<open>AuthContext\<close>

abbreviation token_key :: string where
  "token_key \<equiv> ''token''"

definition stored_token :: "'b browser_scheme \<Rightarrow> string option" where
  "stored_token s = storage s token_key"

definition str_truthy :: "string option \<Rightarrow> bool" where
  "str_truthy v = (case v of None \<Rightarrow> False | Some t \<Rightarrow> t \<noteq> [])"

lemma str_truthy_simps [simp]: "str_truthy None = False" "str_truthy (Some t) = (t \<noteq> [])"
  by (simp_all add: str_truthy_def)

definition isAuthenticated :: "'b browser_scheme \<Rightarrow> bool" where
  "isAuthenticated s = str_truthy (auth_token s)"

definition logout :: "'b browser_scheme \<Rightarrow> 'b browser_scheme" where
  "logout s = s\<lparr>auth_token := None, storage := (storage s)(token_key := None)\<rparr>"

text \<open>The effect that follows a change of the token.\<close>

definition token_effect :: "'b browser_scheme \<Rightarrow> 'b browser_scheme" where
  "token_effect s =
     (if isAuthenticated s then s\<lparr>storage := (storage s)(token_key := auth_token s)\<rparr>
      else s\<lparr>storage := (storage s)(token_key := None)\<rparr>)"

text \<open>\<open>window.dispatchEvent(new Event('auth:unauthorized'))\<close> runs the listener, which logs out.\<close>

definition handleUnauthorized :: "'b browser_scheme \<Rightarrow> 'b browser_scheme" where
  "handleUnauthorized s = logout s"

definition navigate :: "string \<Rightarrow> 'b browser_scheme \<Rightarrow> 'b browser_scheme" where
  "navigate p s = s\<lparr>route := p\<rparr>"

text \<open>The frame of the shared operations: none touches what a page adds to the record.\<close>

lemma logout_simps [simp]:
  "auth_token (logout s) = None" "stored_token (logout s) = None"
  "toasts (logout s) = toasts s" "browser.more (logout s) = browser.more s"
  "storage (logout s) = (storage s)(token_key := None)"
  "alerts (logout s) = alerts s" "route (logout s) = route s"
  by (simp_all add: logout_def stored_token_def)

lemma showToast_simps [simp]:
  "auth_token (showToast m ty d s) = auth_token s" "storage (showToast m ty d s) = storage s"
  "route (showToast m ty d s) = route s" "alerts (showToast m ty d s) = alerts s"
  "browser.more (showToast m ty d s) = browser.more s"
  "map t_message (toasts (showToast m ty d s)) = map t_message (toasts s) @ [m]"
  by (simp_all add: showToast_def Let_def)

lemma toast_simps [simp]:
  "auth_token (toast_success m s) = auth_token s" "storage (toast_success m s) = storage s"
  "route (toast_success m s) = route s" "alerts (toast_success m s) = alerts s"
  "browser.more (toast_success m s) = browser.more s"
  "map t_message (toasts (toast_success m s)) = map t_message (toasts s) @ [m]"
  "auth_token (toast_error m s) = auth_token s" "storage (toast_error m s) = storage s"
  "route (toast_error m s) = route s" "alerts (toast_error m s) = alerts s"
  "browser.more (toast_error m s) = browser.more s"
  "map t_message (toasts (toast_error m s)) = map t_message (toasts s) @ [m]"
  by (simp_all add: toast_success_def toast_error_def)

text \<open>A browser with a session, for the concrete instances.\<close>

definition sample_browser :: browser where
  "sample_browser =
     \<lparr>storage = (\<lambda>_. None)(token_key := Some ''t0''), auth_token = Some ''t0'', route = ''/'',
      toasts = [], timers = [], random_ids = show_nat, drawn = 0, alerts = []\<rparr>"

end
