(* ===== verification/Api_Types.thy ===== *)
theory Api_Types
  imports Browser
begin

text \<open>
  The data exchanged with the server: the interfaces of api.ts and of WireGuard.tsx as records, the
  JSON the client sends for each, and \<open>payload\<close>, the value that the body of a response decodes to.
  An optional field is an \<open>option\<close>; JSON leaves a missing one out.
\<close>

section \<open>Interfaces of api.ts\<close>

record user_status =
  us_name :: string
  us_uuid :: "string option"
  us_flow :: "string option"
  us_vmess_security :: "string option"
  us_vmess_alter_id :: "int option"
  us_uplink :: int
  us_downlink :: int
  us_total :: int
  us_quota_limit :: int
  us_quota_period :: string
  us_reset_day :: int
  us_enabled :: "bool option"
  us_last_seen :: "int option"
  us_inbound_tags :: "string list option"

record create_user_request =
  cr_name :: string
  cr_original_name :: "string option"
  cr_uuid :: string
  cr_flow :: string
  cr_vmess_security :: "string option"
  cr_vmess_alter_id :: "int option"
  cr_quota_limit :: jsnum
  cr_quota_period :: string
  cr_reset_day :: jsnum
  cr_enabled :: "bool option"
  cr_inbound_tag :: "string option"

record feature_flags =
  ff_enable_singbox :: bool
  ff_enable_wireguard :: bool
  ff_retention_enabled :: "bool option"
  ff_retention_days :: "jsnum option"
  ff_sampler_interval_sec :: "jsnum option"
  ff_sampler_paused :: "bool option"
  ff_active_threshold_bytes :: "jsnum option"
  ff_wg_sampler_interval_sec :: "jsnum option"
  ff_wg_retention_days :: "jsnum option"
  ff_aggregation_enabled :: "bool option"
  ff_aggregation_days :: "jsnum option"
  ff_log_source :: "string option"
  ff_access_log_path :: "string option"
  ff_systemctl_available :: "bool option"
  ff_journalctl_available :: "bool option"

record chart_point =
  cp_ts :: int
  cp_up_sb :: int
  cp_down_sb :: int
  cp_up_wg :: int
  cp_down_wg :: int

record consumer =
  co_name :: string
  co_total :: int
  co_flow :: string
  co_quota_limit :: int
  co_key :: string

record traffic_stats =
  ts_uplink :: int
  ts_downlink :: int

record dashboard_data =
  dd_status :: "json option"
  dd_stats_cards :: "(string \<rightharpoonup> traffic_stats) option"
  dd_chart_data :: "chart_point list option"
  dd_top_consumers :: "(string \<rightharpoonup> consumer list) option"
  dd_singbox_pending_changes :: "bool option"
  dd_public_ip :: string

text \<open>The inline result types of \<open>getUserInbounds\<close>, \<open>searchLogs\<close>, \<open>getSystemStatus\<close>.\<close>

record user_inbound =
  ui_tag :: string
  ui_uuid :: string
  ui_flow :: "string option"
  ui_vmess_security :: "string option"
  ui_vmess_alter_id :: "int option"

record log_page =
  lp_logs :: "string list option"
  lp_page :: "int option"
  lp_page_size :: "int option"
  lp_has_more :: "bool option"

record system_status =
  ss_singbox :: bool
  ss_wireguard :: bool
  ss_wireguard_pending_restart :: "bool option"
  ss_wg_sample_interval_sec :: "int option"
  ss_samples_count :: "int option"
  ss_db_size_bytes :: "int option"
  ss_sampler_paused :: "bool option"
  ss_systemctl_available :: "bool option"
  ss_journalctl_available :: "bool option"

record backup_meta =
  bm_singbox_last_backup :: "string option"
  bm_wireguard_last_backup :: "string option"

section \<open>Interfaces of WireGuard.tsx\<close>

record wg_stats =
  ws_latest_handshake :: int
  ws_transfer_rx :: int
  ws_transfer_tx :: int
  ws_endpoint :: string

record wg_peer =
  wp_public_key :: string
  wp_private_key :: "string option"
  wp_allowed_ips :: string
  wp_endpoint :: "string option"
  wp_alias :: "string option"
  wp_name :: "string option"
  wp_preshared_key :: "string option"
  wp_persistent_keepalive :: "int option"
  wp_qr_available :: "bool option"
  wp_traffic :: "(int \<times> int) option"
  wp_stats :: "wg_stats option"

record wg_interface =
  wi_address :: string
  wi_bind_address :: "string option"
  wi_private_key :: string
  wi_listen_port :: jsnum
  wi_post_up :: "string option"
  wi_post_down :: "string option"
  wi_mtu :: "jsnum option"
  wi_dns :: "string option"

section \<open>JSON of what the client sends\<close>

definition create_user_json :: "create_user_request \<Rightarrow> json" where
  "create_user_json u = obj
     [(''name'', Some (JStr (cr_name u))),
      (''original_name'', map_option JStr (cr_original_name u)),
      (''uuid'', Some (JStr (cr_uuid u))),
      (''flow'', Some (JStr (cr_flow u))),
      (''vmess_security'', map_option JStr (cr_vmess_security u)),
      (''vmess_alter_id'', map_option JNum (cr_vmess_alter_id u)),
      (''quota_limit'', Some (num_json (cr_quota_limit u))),
      (''quota_period'', Some (JStr (cr_quota_period u))),
      (''reset_day'', Some (num_json (cr_reset_day u))),
      (''enabled'', map_option JBool (cr_enabled u)),
      (''inbound_tag'', map_option JStr (cr_inbound_tag u))]"

definition feature_flags_json :: "feature_flags \<Rightarrow> json" where
  "feature_flags_json f = obj
     [(''enable_singbox'', Some (JBool (ff_enable_singbox f))),
      (''enable_wireguard'', Some (JBool (ff_enable_wireguard f))),
      (''retention_enabled'', map_option JBool (ff_retention_enabled f)),
      (''retention_days'', map_option num_json (ff_retention_days f)),
      (''sampler_interval_sec'', map_option num_json (ff_sampler_interval_sec f)),
      (''sampler_paused'', map_option JBool (ff_sampler_paused f)),
      (''active_threshold_bytes'', map_option num_json (ff_active_threshold_bytes f)),
      (''wg_sampler_interval_sec'', map_option num_json (ff_wg_sampler_interval_sec f)),
      (''wg_retention_days'', map_option num_json (ff_wg_retention_days f)),
      (''aggregation_enabled'', map_option JBool (ff_aggregation_enabled f)),
      (''aggregation_days'', map_option num_json (ff_aggregation_days f)),
      (''log_source'', map_option JStr (ff_log_source f)),
      (''access_log_path'', map_option JStr (ff_access_log_path f)),
      (''systemctl_available'', map_option JBool (ff_systemctl_available f)),
      (''journalctl_available'', map_option JBool (ff_journalctl_available f))]"

definition wg_stats_json :: "wg_stats \<Rightarrow> json" where
  "wg_stats_json t = obj
     [(''latest_handshake'', Some (JNum (ws_latest_handshake t))),
      (''transfer_rx'', Some (JNum (ws_transfer_rx t))),
      (''transfer_tx'', Some (JNum (ws_transfer_tx t))),
      (''endpoint'', Some (JStr (ws_endpoint t)))]"

definition wg_peer_json :: "wg_peer \<Rightarrow> json" where
  "wg_peer_json p = obj
     [(''public_key'', Some (JStr (wp_public_key p))),
      (''private_key'', map_option JStr (wp_private_key p)),
      (''allowed_ips'', Some (JStr (wp_allowed_ips p))),
      (''endpoint'', map_option JStr (wp_endpoint p)),
      (''alias'', map_option JStr (wp_alias p)),
      (''name'', map_option JStr (wp_name p)),
      (''preshared_key'', map_option JStr (wp_preshared_key p)),
      (''persistent_keepalive'', map_option JNum (wp_persistent_keepalive p)),
      (''qr_available'', map_option JBool (wp_qr_available p)),
      (''traffic'', map_option (\<lambda>(rx, tx). obj [(''rx'', Some (JNum rx)), (''tx'', Some (JNum tx))])
          (wp_traffic p)),
      (''stats'', map_option wg_stats_json (wp_stats p))]"

definition wg_interface_json :: "wg_interface \<Rightarrow> json" where
  "wg_interface_json i = obj
     [(''address'', Some (JStr (wi_address i))),
      (''bind_address'', map_option JStr (wi_bind_address i)),
      (''private_key'', Some (JStr (wi_private_key i))),
      (''listen_port'', Some (num_json (wi_listen_port i))),
      (''post_up'', map_option JStr (wi_post_up i)),
      (''post_down'', map_option JStr (wi_post_down i)),
      (''mtu'', map_option num_json (wi_mtu i)),
      (''dns'', map_option JStr (wi_dns i))]"

section \<open>What a response decodes to\<close>

text \<open>
  \<open>res.json()\<close> resolves to a value of the type the client function declares; \<open>PJson\<close> is any other
  value. A function that receives a value of another type than it declares rejects with \<open>ill_typed\<close>:
  that the server keeps to the declared types is what TypeScript assumes.
\<close>

datatype payload =
    PUsers "user_status list"
  | PUserInbounds "user_inbound list"
  | PLink "string option"
  | PLogs log_page
  | PPeers "wg_peer list"
  | PPeer wg_peer
  | PInterface "wg_interface option"
  | PPeerConfig string
  | PFeatures feature_flags
  | PPublicIp "string option"
  | PBackupMeta backup_meta
  | PStatus system_status
  | PPrune int int
  | PDashboard dashboard_data
  | PCert string string
  | PJson json

record response =
  rs_status :: int
  rs_text :: string
  rs_json :: "js_error + payload"

datatype fetch_result = Rejected js_error | Answered response

definition ill_typed :: js_error where
  "ill_typed = JsError ''TypeError'' ''ill-typed response''"

end
