(* ===== verification/Js_Uri.thy ===== *)
theory Js_Uri
  imports Js_String
begin

text \<open>
  \<open>encodeURIComponent\<close> and the serialisation of \<open>URLSearchParams\<close>, with the decoders a server
  applies to what they produce. The decoders are the reference against which the client's URLs are
  read: an encoded component decodes to the string it was made from, whatever it contains.
\<close>

section \<open>Percent escapes of the UTF-8 form\<close>

definition hex_digit :: "nat \<Rightarrow> char" where
  "hex_digit d = (if d < 10 then char_of (48 + d) else char_of (55 + d))"

definition hex_val :: "char \<Rightarrow> nat option" where
  "hex_val c =
     (let n = (of_char c :: nat)
      in if 48 \<le> n \<and> n \<le> 57 then Some (n - 48)
         else if 65 \<le> n \<and> n \<le> 70 then Some (n - 55) else None)"

definition pct :: "nat \<Rightarrow> string" where
  "pct b = [CHR ''%'', hex_digit (b div 16), hex_digit (b mod 16)]"

definition utf8 :: "char \<Rightarrow> nat list" where
  "utf8 c =
     (let n = of_char c in if n < 128 then [n] else [192 + n div 64, 128 + n mod 64])"

definition is_alnum :: "char \<Rightarrow> bool" where
  "is_alnum c =
     (let n = (of_char c :: nat)
      in (48 \<le> n \<and> n \<le> 57) \<or> (65 \<le> n \<and> n \<le> 90) \<or> (97 \<le> n \<and> n \<le> 122))"

definition uri_unreserved :: "char \<Rightarrow> bool" where
  "uri_unreserved c \<longleftrightarrow> is_alnum c \<or> c \<in> set ''-_.!~*'' \<or> c = CHR 0x27 \<or> c \<in> set ''()''"

definition encode_char :: "char \<Rightarrow> string" where
  "encode_char c = (if uri_unreserved c then [c] else concat (map pct (utf8 c)))"

definition encodeURIComponent :: "string \<Rightarrow> string" where
  "encodeURIComponent s = concat (map encode_char s)"

definition form_plain :: "char \<Rightarrow> bool" where
  "form_plain c \<longleftrightarrow> is_alnum c \<or> c \<in> set ''*-._''"

definition form_char :: "char \<Rightarrow> string" where
  "form_char c =
     (if c = CHR '' '' then ''+''
      else if form_plain c then [c] else concat (map pct (utf8 c)))"

definition form_encode :: "string \<Rightarrow> string" where
  "form_encode s = concat (map form_char s)"

text \<open>\<open>new URLSearchParams(...).toString()\<close> on the list of its pairs.\<close>

definition search_params :: "(string \<times> string) list \<Rightarrow> string" where
  "search_params ps = join_with ''&'' (map (\<lambda>(k, v). form_encode k @ ''='' @ form_encode v) ps)"

section \<open>Decoding\<close>

fun pct_decode :: "string \<Rightarrow> nat list option" where
  "pct_decode [] = Some []"
| "pct_decode (c # cs) =
     (if c = CHR ''%''
      then (case cs of
              h # l # rest \<Rightarrow>
                (case (hex_val h, hex_val l, pct_decode rest) of
                   (Some a, Some b, Some bs) \<Rightarrow> Some ((16 * a + b) # bs)
                 | _ \<Rightarrow> None)
            | _ \<Rightarrow> None)
      else map_option ((#) (of_char c)) (pct_decode cs))"

fun utf8_decode :: "nat list \<Rightarrow> string option" where
  "utf8_decode [] = Some []"
| "utf8_decode (b # bs) =
     (if b < 128 then map_option ((#) (char_of b)) (utf8_decode bs)
      else (case bs of
              [] \<Rightarrow> None
            | b' # bs' \<Rightarrow>
                if 194 \<le> b \<and> b \<le> 195 \<and> 128 \<le> b' \<and> b' < 192
                then map_option ((#) (char_of (64 * (b - 192) + (b' - 128)))) (utf8_decode bs')
                else None))"

definition decodeURIComponent :: "string \<Rightarrow> string option" where
  "decodeURIComponent s = Option.bind (pct_decode s) utf8_decode"

definition form_decode :: "string \<Rightarrow> string option" where
  "form_decode s =
     decodeURIComponent (map (\<lambda>c. if c = CHR ''+'' then CHR '' '' else c) s)"

fun decode_pair :: "string \<Rightarrow> (string \<times> string) option" where
  "decode_pair p =
     (let k = takeWhile (\<lambda>c. c \<noteq> CHR ''='') p; v = drop (Suc (length k)) p
      in case (form_decode k, form_decode v) of
           (Some k', Some v') \<Rightarrow> Some (k', v') | _ \<Rightarrow> None)"

fun sequence :: "'a option list \<Rightarrow> 'a list option" where
  "sequence [] = Some []"
| "sequence (None # xs) = None"
| "sequence (Some x # xs) = map_option ((#) x) (sequence xs)"

definition parse_query :: "string \<Rightarrow> (string \<times> string) list option" where
  "parse_query q = sequence (map decode_pair (split_on (CHR ''&'') q))"

section \<open>The decoders undo the encoders\<close>

lemma append_fun: "(@) [] = (\<lambda>x. x)" "(@) (a # bs) = (\<lambda>x. a # bs @ x)"
  by auto

lemma hex_val_hex_digit [simp]: "d < 16 \<Longrightarrow> hex_val (hex_digit d) = Some d"
  by (simp add: hex_digit_def hex_val_def Let_def)

lemma hex_digit_alnum [simp]: "d < 16 \<Longrightarrow> is_alnum (hex_digit d)"
  by (auto simp: hex_digit_def is_alnum_def Let_def)

lemma pct_decode_pct:
  "b < 256 \<Longrightarrow> pct_decode (pct b @ rest) = map_option ((#) b) (pct_decode rest)"
  by (simp add: pct_def) (simp split: option.split)

lemma pct_decode_plain:
  "c \<noteq> CHR ''%'' \<Longrightarrow> pct_decode (c # rest) = map_option ((#) (of_char c)) (pct_decode rest)"
  by simp

declare pct_decode.simps(2) [simp del]

lemma of_char_less: "(of_char c :: nat) < 256"
  by (metis of_char_mod_256 mod_less_divisor zero_less_numeral)

lemma utf8_bytes: "b \<in> set (utf8 c) \<Longrightarrow> b < 256"
proof -
  have "(of_char c :: nat) div 64 < 4" using of_char_less [of c] by linarith
  then show "b \<in> set (utf8 c) \<Longrightarrow> b < 256" by (auto simp: utf8_def Let_def split: if_splits)
qed

lemma pct_decode_bytes:
  "\<forall>b \<in> set bs. b < 256 \<Longrightarrow>
     pct_decode (concat (map pct bs) @ rest) = map_option ((@) bs) (pct_decode rest)"
  by (induction bs) (auto simp: pct_decode_pct option.map_comp comp_def option.map_ident append_fun)

lemma utf8_decode_utf8: "utf8_decode (utf8 c @ bs) = map_option ((#) c) (utf8_decode bs)"
proof -
  define n :: nat where "n = of_char c"
  have n: "n < 256" and c: "char_of n = c"
    using of_char_less [of c] by (simp_all add: n_def)
  show ?thesis
  proof (cases "n < 128")
    case True
    with c show ?thesis by (simp add: utf8_def n_def)
  next
    case False
    then have "2 \<le> n div 64" and "n div 64 \<le> 3" and "n mod 64 < 64" using n by linarith+
    moreover have "64 * (n div 64) + n mod 64 = n" by simp
    moreover define q r where "q = n div 64" and "r = n mod 64"
    ultimately have q: "2 \<le> q" "q \<le> 3" "r < 64" "64 * q + r = n" by simp_all
    then show ?thesis using False c
      by (simp add: utf8_def n_def [symmetric] q_def [symmetric] r_def [symmetric])
  qed
qed

lemma unreserved_plain: "uri_unreserved c \<Longrightarrow> c \<noteq> CHR ''%'' \<and> utf8 c = [of_char c]"
  by (auto simp: uri_unreserved_def is_alnum_def utf8_def Let_def)

lemma pct_decode_encode_char:
  "pct_decode (encode_char c @ rest) = map_option ((@) (utf8 c)) (pct_decode rest)"
proof (cases "uri_unreserved c")
  case True
  then show ?thesis using unreserved_plain [OF True]
    by (simp add: encode_char_def pct_decode_plain append_fun)
next
  case False
  then show ?thesis using utf8_bytes [of _ c] by (simp add: encode_char_def pct_decode_bytes)
qed

lemma pct_decode_encode: "pct_decode (encodeURIComponent s) = Some (concat (map utf8 s))"
  by (induction s) (simp_all add: encodeURIComponent_def pct_decode_encode_char)

lemma utf8_decode_all: "utf8_decode (concat (map utf8 s)) = Some s"
  by (induction s) (simp_all add: utf8_decode_utf8)

lemma decode_encode: "decodeURIComponent (encodeURIComponent s) = Some s"
  by (simp add: decodeURIComponent_def pct_decode_encode utf8_decode_all)

lemma encode_inj [simp]: "encodeURIComponent s = encodeURIComponent t \<longleftrightarrow> s = t"
  by (metis decode_encode option.inject)

lemma div16_less: "b \<in> set (utf8 c) \<Longrightarrow> b div 16 < 16"
  using utf8_bytes [of b c] by auto

lemma pct_chars: "b < 256 \<Longrightarrow> c \<in> set (pct b) \<Longrightarrow> is_alnum c \<or> c = CHR ''%''"
proof -
  assume b: "b < 256" and c: "c \<in> set (pct b)"
  have "b div 16 < 16" "b mod 16 < 16" using b by linarith+
  then show ?thesis using c by (auto simp: pct_def)
qed

lemma encode_unreserved_or_pct:
  "c \<in> set (encodeURIComponent s) \<Longrightarrow> uri_unreserved c \<or> c = CHR ''%''"
  using utf8_bytes pct_chars
  by (fastforce simp: encodeURIComponent_def encode_char_def uri_unreserved_def split: if_splits)

section \<open>A query string decodes to the pairs it was made from\<close>

definition plus_to_space :: "string \<Rightarrow> string" where
  "plus_to_space s = map (\<lambda>c. if c = CHR ''+'' then CHR '' '' else c) s"

lemma plus_to_space_append: "plus_to_space (s @ t) = plus_to_space s @ plus_to_space t"
  by (simp add: plus_to_space_def)

lemma plus_to_space_id: "CHR ''+'' \<notin> set s \<Longrightarrow> plus_to_space s = s"
  by (induction s) (auto simp: plus_to_space_def)

lemma special_not_alnum [simp]:
  "\<not> is_alnum CHR ''+''" "\<not> is_alnum CHR ''&''" "\<not> is_alnum CHR ''=''" "\<not> is_alnum CHR ''%''"
  by (simp_all add: is_alnum_def)

lemma pct_char_cases:
  "b \<in> set (utf8 x) \<Longrightarrow> c \<in> set (pct b) \<Longrightarrow> c \<notin> {CHR ''+'', CHR ''&'', CHR ''=''}"
  using pct_chars [OF utf8_bytes, of b x c] by auto

lemma form_char_chars:
  "c \<in> set (form_char x) \<Longrightarrow> c \<noteq> CHR ''&'' \<and> c \<noteq> CHR ''=''"
  using pct_char_cases [of _ x c]
  by (auto simp: form_char_def form_plain_def split: if_splits)

lemma form_encode_chars: "CHR ''&'' \<notin> set (form_encode s) \<and> CHR ''='' \<notin> set (form_encode s)"
  using form_char_chars by (fastforce simp: form_encode_def)

lemma plus_to_space_pct:
  "plus_to_space (concat (map pct (utf8 c))) = concat (map pct (utf8 c))"
  using pct_char_cases [of _ c "CHR ''+''"] by (intro plus_to_space_id) auto

lemma pct_decode_form_char:
  "pct_decode (plus_to_space (form_char c) @ rest) = map_option ((@) (utf8 c)) (pct_decode rest)"
proof -
  consider "c = CHR '' ''" | "c \<noteq> CHR '' ''" "form_plain c" | "c \<noteq> CHR '' ''" "\<not> form_plain c"
    by blast
  then show ?thesis
  proof cases
    case 1
    then show ?thesis
      by (simp add: form_char_def plus_to_space_def pct_decode_plain utf8_def append_fun)
  next
    case 2
    then have "uri_unreserved c" and p: "c \<noteq> CHR ''+''"
      by (auto simp: form_plain_def uri_unreserved_def)
    then show ?thesis using 2 unreserved_plain [of c]
      by (simp add: form_char_def plus_to_space_def pct_decode_plain append_fun)
  next
    case 3
    then show ?thesis using utf8_bytes [of _ c]
      by (simp add: form_char_def plus_to_space_pct pct_decode_bytes)
  qed
qed

lemma form_decode_encode: "form_decode (form_encode s) = Some s"
proof -
  have "pct_decode (plus_to_space (form_encode s)) = Some (concat (map utf8 s))"
    by (induction s) (simp_all add: form_encode_def plus_to_space_append pct_decode_form_char,
        simp add: plus_to_space_def)
  then show ?thesis
    by (simp add: form_decode_def decodeURIComponent_def utf8_decode_all plus_to_space_def)
qed

lemma decode_pair_encode:
  "decode_pair (form_encode k @ ''='' @ form_encode v) = Some (k, v)"
proof -
  have "takeWhile (\<lambda>c. c \<noteq> CHR ''='') (form_encode k @ ''='' @ form_encode v) = form_encode k"
    using form_encode_chars [of k] by (subst takeWhile_append2) auto
  then show ?thesis by (simp add: Let_def form_decode_encode)
qed

declare decode_pair.simps [simp del]

lemma split_on_free: "c \<notin> set p \<Longrightarrow> split_on c p = [p]"
  by (induction p) auto

lemma split_on_sep: "c \<notin> set p \<Longrightarrow> split_on c (p @ c # rest) = p # split_on c rest"
  by (induction p) auto

lemma split_join: "ps \<noteq> [] \<Longrightarrow> \<forall>p \<in> set ps. c \<notin> set p \<Longrightarrow> split_on c (join_with [c] ps) = ps"
  by (induction "[c]" ps rule: join_with.induct) (auto simp: split_on_free split_on_sep)

lemma sequence_map_Some: "(\<And>x. f (g x) = Some x) \<Longrightarrow> sequence (map (f \<circ> g) xs) = Some xs"
  by (induction xs) auto

lemma parse_search_params: "ps \<noteq> [] \<Longrightarrow> parse_query (search_params ps) = Some ps"
proof -
  let ?enc = "\<lambda>(k, v). form_encode k @ ''='' @ form_encode v"
  assume "ps \<noteq> []"
  then have "split_on (CHR ''&'') (search_params ps) = map ?enc ps"
    unfolding search_params_def
    using form_encode_chars by (intro split_join) auto
  moreover have "decode_pair (?enc p) = Some p" for p
    using decode_pair_encode by (cases p) simp
  ultimately show ?thesis
    using sequence_map_Some [of decode_pair ?enc ps] by (simp add: parse_query_def)
qed

end
