(* ===== verification/Api.thy ===== *)
theory Api
  imports Api_Types Js_Uri
begin

text \<open>
  frontend/src/api.ts: the client functions. Each builds one request, sends it with the token of the
  local storage, checks the status of the response with \<open>handleResponse\<close> and decodes its body. The
  functions are handlers over the shared state of \<open>Browser\<close>, under the names of the source.
\<close>

type_synonym ('b, 'a) client = "(http_request, fetch_result, 'b browser_scheme, 'a) io"

section \<open>Sending a request, checking a response\<close>

definition buildHeaders :: "string option \<Rightarrow> 'b browser_scheme \<Rightarrow> (string \<times> string) list" where
  "buildHeaders contentType s =
     (case contentType of
        Some ct \<Rightarrow> if ct \<noteq> [] then [(''Content-Type'', ct)] else []
      | None \<Rightarrow> []) @
     (case stored_token s of
        Some token \<Rightarrow> if token \<noteq> [] then [(''Authorization'', ''Bearer '' @ token)] else []
      | None \<Rightarrow> [])"

definition fetch :: "http_request \<Rightarrow> ('b, response) client" where
  "fetch q = Await q (\<lambda>r. case r of Rejected e \<Rightarrow> Throw e | Answered rs \<Rightarrow> Return rs)"

definition send :: "string \<Rightarrow> string \<Rightarrow> string option \<Rightarrow> body option \<Rightarrow> ('b, response) client" where
  "send meth url contentType bdy =
     Get (\<lambda>s. fetch \<lparr>rq_method = meth, rq_url = url,
                     rq_headers = buildHeaders contentType s, rq_body = bdy\<rparr>)"

definition res_ok :: "response \<Rightarrow> bool" where
  "res_ok res \<longleftrightarrow> 200 \<le> rs_status res \<and> rs_status res \<le> 299"

definition handleResponse :: "response \<Rightarrow> string \<Rightarrow> ('b, response) client" where
  "handleResponse res errorMsg =
     (if rs_status res = 401
      then seq (modify handleUnauthorized) (Throw (Error ''Unauthorized''))
      else if \<not> res_ok res then Throw (Error (str_or (rs_text res) errorMsg))
      else Return res)"

definition json_body :: "response \<Rightarrow> ('b, payload) client" where
  "json_body res = (case rs_json res of Inl e \<Rightarrow> Throw e | Inr p \<Rightarrow> Return p)"

text \<open>The three shapes of a client function: the body is ignored, decoded, or returned as text.\<close>

definition call_void :: "string \<Rightarrow> string \<Rightarrow> string option \<Rightarrow> body option \<Rightarrow> string \<Rightarrow> ('b, unit) client" where
  "call_void meth url ct bdy msg =
     bind (send meth url ct bdy) (\<lambda>res. seq (handleResponse res msg) skip)"

definition call_json ::
  "string \<Rightarrow> string \<Rightarrow> string option \<Rightarrow> body option \<Rightarrow> string \<Rightarrow> (payload \<Rightarrow> 'a option) \<Rightarrow> ('b, 'a) client" where
  "call_json meth url ct bdy msg decode =
     bind (send meth url ct bdy) (\<lambda>res. seq (handleResponse res msg)
       (bind (json_body res) (\<lambda>p. case decode p of Some x \<Rightarrow> Return x | None \<Rightarrow> Throw ill_typed)))"

definition call_text :: "string \<Rightarrow> string \<Rightarrow> string option \<Rightarrow> body option \<Rightarrow> string \<Rightarrow> ('b, string) client" where
  "call_text meth url ct bdy msg =
     bind (send meth url ct bdy) (\<lambda>res. seq (handleResponse res msg) (Return (rs_text res)))"

abbreviation json_type :: "string option" where
  "json_type \<equiv> Some ''application/json''"

abbreviation text_type :: "string option" where
  "text_type \<equiv> Some ''text/plain''"

fun as_users :: "payload \<Rightarrow> user_status list option" where
  "as_users (PUsers us) = Some us" | "as_users _ = None"
fun as_user_inbounds :: "payload \<Rightarrow> user_inbound list option" where
  "as_user_inbounds (PUserInbounds us) = Some us" | "as_user_inbounds _ = None"
fun as_link :: "payload \<Rightarrow> string option option" where
  "as_link (PLink l) = Some l" | "as_link _ = None"
fun as_logs :: "payload \<Rightarrow> log_page option" where
  "as_logs (PLogs l) = Some l" | "as_logs _ = None"
fun as_peers :: "payload \<Rightarrow> wg_peer list option" where
  \<comment> \<open>\<open>any[]\<close>, and the caller tests \<open>Array.isArray\<close>\<close>
  "as_peers (PPeers ps) = Some ps" | "as_peers _ = Some []"
fun as_peer :: "payload \<Rightarrow> wg_peer option" where
  "as_peer (PPeer p) = Some p" | "as_peer _ = None"
fun as_interface :: "payload \<Rightarrow> wg_interface option option" where
  "as_interface (PInterface i) = Some i" | "as_interface _ = None"
fun as_peer_config :: "payload \<Rightarrow> string option" where
  "as_peer_config (PPeerConfig c) = Some c" | "as_peer_config _ = None"
fun as_features :: "payload \<Rightarrow> feature_flags option" where
  "as_features (PFeatures f) = Some f" | "as_features _ = None"
fun as_public_ip :: "payload \<Rightarrow> string option" where
  "as_public_ip (PPublicIp ip) = Some (opt_str_or ip [])" | "as_public_ip _ = None"
fun as_backup_meta :: "payload \<Rightarrow> backup_meta option" where
  "as_backup_meta (PBackupMeta m) = Some m" | "as_backup_meta _ = None"
fun as_status :: "payload \<Rightarrow> system_status option" where
  "as_status (PStatus s) = Some s" | "as_status _ = None"
fun as_prune :: "payload \<Rightarrow> (int \<times> int) option" where
  "as_prune (PPrune d c) = Some (d, c)" | "as_prune _ = None"
fun as_dashboard :: "payload \<Rightarrow> dashboard_data option" where
  "as_dashboard (PDashboard d) = Some d" | "as_dashboard _ = None"
fun as_cert :: "payload \<Rightarrow> (string \<times> string) option" where
  "as_cert (PCert c k) = Some (c, k)" | "as_cert _ = None"
fun as_json :: "payload \<Rightarrow> json option" where
  "as_json (PJson j) = Some j" | "as_json _ = None"

section \<open>Users\<close>

text \<open>\<open>getUsers\<close> alone checks the status itself.\<close>

definition getUsers :: "('b, user_status list) client" where [api_defs]:
  "getUsers =
     bind (send ''GET'' ''/api/users'' None None) (\<lambda>res.
       if \<not> res_ok res then Throw (Error ''Failed to fetch users'')
       else bind (json_body res)
         (\<lambda>p. case as_users p of Some us \<Rightarrow> Return us | None \<Rightarrow> Throw ill_typed))"

definition pauseSampler :: "('b, unit) client" where [api_defs]:
  "pauseSampler = call_void ''POST'' ''/api/sampler/pause'' None None ''Failed to pause sampler''"

definition resumeSampler :: "('b, unit) client" where [api_defs]:
  "resumeSampler = call_void ''POST'' ''/api/sampler/resume'' None None ''Failed to resume sampler''"

definition updatePassword :: "string \<Rightarrow> string \<Rightarrow> ('b, unit) client" where [api_defs]:
  "updatePassword currentPassword newPassword =
     call_void ''PUT'' ''/api/auth/password'' json_type
       (Some (JsonBody (obj [(''current_password'', Some (JStr currentPassword)),
                             (''new_password'', Some (JStr newPassword))])))
       ''Failed to update password''"

definition updateUsername :: "string \<Rightarrow> string \<Rightarrow> ('b, unit) client" where [api_defs]:
  "updateUsername currentPassword newUsername =
     call_void ''PUT'' ''/api/auth/username'' json_type
       (Some (JsonBody (obj [(''current_password'', Some (JStr currentPassword)),
                             (''new_username'', Some (JStr newUsername))])))
       ''Failed to update username''"

definition createUser :: "create_user_request \<Rightarrow> ('b, unit) client" where [api_defs]:
  "createUser user =
     call_void ''POST'' ''/api/users'' json_type (Some (JsonBody (create_user_json user)))
       ''Failed to create user''"

definition updateUser :: "create_user_request \<Rightarrow> ('b, unit) client" where [api_defs]:
  "updateUser user =
     call_void ''PUT'' ''/api/users'' json_type (Some (JsonBody (create_user_json user)))
       ''Failed to update user''"

definition deleteUser :: "string \<Rightarrow> ('b, unit) client" where [api_defs]:
  "deleteUser name =
     call_void ''DELETE'' (''/api/users?name='' @ encodeURIComponent name) None None
       ''Failed to delete user''"

definition getUserInbounds :: "string \<Rightarrow> ('b, user_inbound list) client" where [api_defs]:
  "getUserInbounds name =
     call_json ''GET'' (''/api/users/'' @ encodeURIComponent name @ ''/inbounds'') None None
       ''Failed to fetch user inbounds'' as_user_inbounds"

definition removeUserFromInbound :: "string \<Rightarrow> string \<Rightarrow> ('b, unit) client" where [api_defs]:
  "removeUserFromInbound name inboundTag =
     call_void ''DELETE''
       (''/api/users/'' @ encodeURIComponent name @ ''/inbounds/'' @ encodeURIComponent inboundTag)
       None None ''Failed to remove user from inbound''"

record inbound_credentials =
  ic_uuid :: string
  ic_flow :: "string option"
  ic_vmess_security :: "string option"
  ic_vmess_alter_id :: "int option"

definition inbound_credentials_json :: "inbound_credentials \<Rightarrow> json" where
  "inbound_credentials_json p = obj
     [(''uuid'', Some (JStr (ic_uuid p))),
      (''flow'', map_option JStr (ic_flow p)),
      (''vmess_security'', map_option JStr (ic_vmess_security p)),
      (''vmess_alter_id'', map_option JNum (ic_vmess_alter_id p))]"

definition updateUserInbound :: "string \<Rightarrow> string \<Rightarrow> inbound_credentials \<Rightarrow> ('b, unit) client" where [api_defs]:
  "updateUserInbound name inboundTag payload =
     call_void ''PUT''
       (''/api/users/'' @ encodeURIComponent name @ ''/inbounds/'' @ encodeURIComponent inboundTag)
       json_type (Some (JsonBody (inbound_credentials_json payload)))
       ''Failed to update user inbound''"

definition getUserLink :: "string \<Rightarrow> string \<Rightarrow> ('b, string option) client" where [api_defs]:
  "getUserLink name inboundTag =
     call_json ''GET''
       (''/api/users/'' @ encodeURIComponent name @ ''/link?inbound='' @ encodeURIComponent inboundTag)
       None None ''Failed to fetch link'' as_link"

definition getUserVlessLink :: "string \<Rightarrow> string \<Rightarrow> ('b, string option) client" where [api_defs]:
  "getUserVlessLink name inboundTag =
     call_json ''GET''
       (''/api/users/'' @ encodeURIComponent name @ ''/vless?inbound='' @ encodeURIComponent inboundTag)
       None None ''Failed to fetch VLESS link'' as_link"

definition bulkCreateUsers :: "create_user_request list \<Rightarrow> ('b, unit) client" where [api_defs]:
  "bulkCreateUsers users =
     call_void ''POST'' ''/api/users/bulk'' json_type
       (Some (JsonBody (JArr (map create_user_json users)))) ''Failed to bulk create users''"

section \<open>Reports, configuration, logs\<close>

text \<open>A query parameter that is appended only when it is truthy.\<close>

definition param :: "string \<Rightarrow> string option \<Rightarrow> (string \<times> string) list" where
  "param k v = (case v of Some x \<Rightarrow> if x \<noteq> [] then [(k, x)] else [] | None \<Rightarrow> [])"

fun num_string :: "jsnum \<Rightarrow> string" where
  "num_string NaN = ''NaN''"
| "num_string Infinity = ''Infinity''"
| "num_string (Fin i) = show_int i"

definition num_param :: "string \<Rightarrow> jsnum option \<Rightarrow> (string \<times> string) list" where
  "num_param k v = (case v of Some n \<Rightarrow> if num_truthy n then [(k, num_string n)] else [] | None \<Rightarrow> [])"

definition getReport :: "string option \<Rightarrow> string option \<Rightarrow> ('b, user_status list) client" where [api_defs]:
  "getReport start stop =
     call_json ''GET'' (''/api/report?'' @ search_params (param ''start'' start @ param ''end'' stop))
       None None ''Failed to fetch report'' as_users"

definition getReportSummary ::
  "string option \<Rightarrow> string option \<Rightarrow> jsnum option \<Rightarrow> ('b, json) client" where [api_defs]:
  "getReportSummary start stop limitBytes =
     call_json ''GET''
       (''/api/report/summary?'' @
         search_params (param ''start'' start @ param ''end'' stop @ num_param ''limit_bytes'' limitBytes))
       None None ''Failed to fetch report summary'' as_json"

definition getConfig :: "('b, json) client" where [api_defs]:
  "getConfig = call_json ''GET'' ''/api/config'' None None ''Failed to fetch config'' as_json"

definition getLogs :: "string option \<Rightarrow> jsnum option \<Rightarrow> ('b, log_page) client" where [api_defs]:
  "getLogs user limit =
     (let query = search_params (param ''user'' user @ num_param ''limit'' limit);
          url = (if query \<noteq> [] then ''/api/logs?'' @ query else ''/api/logs'')
      in call_json ''GET'' url None None ''Failed to fetch logs'' as_logs)"

definition searchLogs :: "string \<Rightarrow> jsnum option \<Rightarrow> jsnum option \<Rightarrow> ('b, log_page) client" where [api_defs]:
  "searchLogs query limit pg =
     bind (send ''GET''
             (''/api/logs/search?'' @
               search_params ((''q'', query) # num_param ''limit'' limit @ num_param ''page'' pg))
             None None)
       (\<lambda>res. seq (handleResponse res ''Failed to search logs'')
         (case rs_json res of
            Inr (PLogs p) \<Rightarrow> Return p
          | Inr _ \<Rightarrow> Throw ill_typed
          | Inl _ \<Rightarrow> Return \<lparr>lp_logs = Some [str_or (rs_text res) ''Search returned non-JSON response''],
                             lp_page = None, lp_page_size = None, lp_has_more = None\<rparr>))"

section \<open>WireGuard\<close>

definition getWireGuardPeers :: "('b, wg_peer list) client" where [api_defs]:
  "getWireGuardPeers =
     call_json ''GET'' ''/api/wireguard/peers'' None None ''Failed to fetch peers'' as_peers"

definition createWireGuardPeer :: "string \<Rightarrow> string \<Rightarrow> string option \<Rightarrow> ('b, wg_peer) client" where [api_defs]:
  "createWireGuardPeer alias ip endpoint =
     call_json ''POST'' ''/api/wireguard/peers'' json_type
       (Some (JsonBody (obj [(''alias'', Some (JStr alias)), (''ip'', Some (JStr ip)),
                             (''endpoint'', map_option JStr endpoint)])))
       ''Failed to create peer'' as_peer"

definition deleteWireGuardPeer :: "string \<Rightarrow> ('b, unit) client" where [api_defs]:
  "deleteWireGuardPeer publicKey =
     call_void ''DELETE'' (''/api/wireguard/peers?public_key='' @ encodeURIComponent publicKey)
       None None ''Failed to delete peer''"

record restore_peer =
  rp_public_key :: string
  rp_allowed_ips :: string
  rp_endpoint :: "string option"
  rp_alias :: "string option"
  rp_preshared_key :: "string option"

definition restore_peer_json :: "restore_peer \<Rightarrow> json" where
  "restore_peer_json p = obj
     [(''public_key'', Some (JStr (rp_public_key p))),
      (''allowed_ips'', Some (JStr (rp_allowed_ips p))),
      (''endpoint'', map_option JStr (rp_endpoint p)),
      (''alias'', map_option JStr (rp_alias p)),
      (''preshared_key'', map_option JStr (rp_preshared_key p))]"

definition restoreWireGuardPeer :: "restore_peer \<Rightarrow> ('b, unit) client" where [api_defs]:
  "restoreWireGuardPeer peer =
     call_void ''POST'' ''/api/wireguard/peers/restore'' json_type
       (Some (JsonBody (restore_peer_json peer))) ''Failed to restore peer''"

definition getWireGuardInterface :: "('b, wg_interface option) client" where [api_defs]:
  "getWireGuardInterface =
     call_json ''GET'' ''/api/wireguard/interface'' None None
       ''Failed to fetch interface config'' as_interface"

definition updateWireGuardInterface :: "wg_interface \<Rightarrow> ('b, unit) client" where [api_defs]:
  "updateWireGuardInterface config =
     call_void ''PUT'' ''/api/wireguard/interface'' json_type
       (Some (JsonBody (wg_interface_json config))) ''Failed to update interface''"

definition updateWireGuardPeer :: "string \<Rightarrow> json \<Rightarrow> ('b, unit) client" where [api_defs]:
  "updateWireGuardPeer publicKey config =
     call_void ''PUT'' (''/api/wireguard/peer?public_key='' @ encodeURIComponent publicKey)
       json_type (Some (JsonBody config)) ''Failed to update peer''"

definition getWireGuardPeerConfig :: "string \<Rightarrow> string option \<Rightarrow> ('b, string) client" where [api_defs]:
  "getWireGuardPeerConfig publicKey privateKey =
     call_json ''GET''
       (''/api/wireguard/peer/config?'' @
         search_params ((''public_key'', publicKey) # param ''private_key'' privateKey))
       None None ''Failed to fetch peer config'' as_peer_config"

definition getWireGuardTraffic :: "string \<Rightarrow> ('b, json) client" where [api_defs]:
  "getWireGuardTraffic rng =
     call_json ''GET'' (''/api/wireguard/traffic?'' @ search_params [(''range'', rng)])
       None None ''Failed to fetch WireGuard traffic'' as_json"

definition getWireGuardTrafficRange :: "jsnum \<Rightarrow> jsnum \<Rightarrow> ('b, json) client" where [api_defs]:
  "getWireGuardTrafficRange start stop =
     call_json ''GET''
       (''/api/wireguard/traffic?'' @
         search_params [(''start'', num_string start), (''end'', num_string stop)])
       None None ''Failed to fetch WireGuard traffic'' as_json"

definition getWireGuardTrafficSeries ::
  "string option \<Rightarrow> string option \<Rightarrow> jsnum option \<Rightarrow> jsnum option \<Rightarrow> jsnum option \<Rightarrow> ('b, json) client"
  where [api_defs]:
  "getWireGuardTrafficSeries rng peer limit start stop =
     call_json ''GET''
       (''/api/wireguard/traffic/series?'' @
         search_params (param ''range'' rng @ param ''peer'' peer @ num_param ''limit'' limit @
           num_param ''start'' start @ num_param ''end'' stop))
       None None ''Failed to fetch WireGuard traffic series'' as_json"

section \<open>Services, settings\<close>

definition service_body :: "string \<Rightarrow> body option" where
  "service_body service = Some (JsonBody (obj [(''service'', Some (JStr service))]))"

definition restartService :: "string \<Rightarrow> ('b, unit) client" where [api_defs]:
  "restartService service =
     call_void ''POST'' ''/api/service/restart'' json_type (service_body service)
       ''Failed to restart service''"

definition startService :: "string \<Rightarrow> ('b, unit) client" where [api_defs]:
  "startService service =
     call_void ''POST'' ''/api/service/start'' json_type (service_body service)
       ''Failed to start service''"

definition stopService :: "string \<Rightarrow> ('b, unit) client" where [api_defs]:
  "stopService service =
     call_void ''POST'' ''/api/service/stop'' json_type (service_body service)
       ''Failed to stop service''"

definition getFeatures :: "('b, feature_flags) client" where [api_defs]:
  "getFeatures =
     call_json ''GET'' ''/api/settings/features'' None None ''Failed to fetch features'' as_features"

definition updateFeatures :: "feature_flags \<Rightarrow> ('b, unit) client" where [api_defs]:
  "updateFeatures flags =
     call_void ''PUT'' ''/api/settings/features'' json_type
       (Some (JsonBody (feature_flags_json flags))) ''Failed to update features''"

definition getPublicIP :: "('b, string) client" where [api_defs]:
  "getPublicIP =
     call_json ''GET'' ''/api/settings/public-ip'' None None ''Failed to fetch public IP'' as_public_ip"

definition updatePublicIP :: "string \<Rightarrow> ('b, unit) client" where [api_defs]:
  "updatePublicIP publicIP =
     call_void ''PUT'' ''/api/settings/public-ip'' json_type
       (Some (JsonBody (obj [(''public_ip'', Some (JStr publicIP))]))) ''Failed to update public IP''"

section \<open>Sing-box configuration\<close>

definition getSingboxConfig :: "('b, string) client" where [api_defs]:
  "getSingboxConfig =
     call_text ''GET'' ''/api/singbox/config'' None None ''Failed to fetch Sing-box config''"

definition updateSingboxConfig :: "string \<Rightarrow> ('b, unit) client" where [api_defs]:
  "updateSingboxConfig config =
     call_void ''PUT'' ''/api/singbox/config'' text_type (Some (TextBody config))
       ''Failed to update Sing-box config''"

definition getSingboxInbounds :: "('b, json) client" where [api_defs]:
  "getSingboxInbounds =
     call_json ''GET'' ''/api/singbox/inbounds'' None None ''Failed to fetch Sing-box inbounds'' as_json"

definition addSingboxInbound :: "json \<Rightarrow> ('b, unit) client" where [api_defs]:
  "addSingboxInbound inbound =
     call_void ''POST'' ''/api/singbox/inbound'' json_type (Some (JsonBody inbound))
       ''Failed to add Sing-box inbound''"

definition updateSingboxInbound :: "string \<Rightarrow> json \<Rightarrow> ('b, unit) client" where [api_defs]:
  "updateSingboxInbound tag inbound =
     call_void ''PUT'' (''/api/singbox/inbound?tag='' @ encodeURIComponent tag) json_type
       (Some (JsonBody inbound)) ''Failed to update Sing-box inbound''"

definition deleteSingboxInbound :: "string \<Rightarrow> ('b, unit) client" where [api_defs]:
  "deleteSingboxInbound tag =
     call_void ''DELETE'' (''/api/singbox/inbound?tag='' @ encodeURIComponent tag) None None
       ''Failed to delete Sing-box inbound''"

section \<open>Raw configuration\<close>

definition updateConfig :: "string \<Rightarrow> ('b, unit) client" where [api_defs]:
  "updateConfig configText =
     call_void ''PUT'' ''/api/config'' text_type (Some (TextBody configText)) ''Failed to update config''"

definition getWireGuardConfig :: "('b, string) client" where [api_defs]:
  "getWireGuardConfig =
     call_text ''GET'' ''/api/wireguard/config'' None None ''Failed to fetch WireGuard config''"

definition backupWireGuardConfig :: "('b, unit) client" where [api_defs]:
  "backupWireGuardConfig =
     call_void ''POST'' ''/api/wireguard/config/backup'' None None ''Failed to backup WireGuard config''"

definition restoreWireGuardConfig :: "('b, string) client" where [api_defs]:
  "restoreWireGuardConfig =
     call_text ''POST'' ''/api/wireguard/config/restore'' None None ''Failed to restore WireGuard config''"

definition getBackupMeta :: "('b, backup_meta) client" where [api_defs]:
  "getBackupMeta =
     call_json ''GET'' ''/api/config/backup/meta'' None None ''Failed to load backup metadata''
       as_backup_meta"

definition updateWireGuardConfig :: "string \<Rightarrow> ('b, unit) client" where [api_defs]:
  "updateWireGuardConfig config =
     call_void ''PUT'' ''/api/wireguard/config'' text_type (Some (TextBody config))
       ''Failed to update WireGuard config''"

section \<open>Statistics, sampler, tools\<close>

definition getStats :: "string \<Rightarrow> string option \<Rightarrow> string option \<Rightarrow> ('b, json) client" where [api_defs]:
  "getStats rng start stop =
     (let url = ''/api/stats?range='' @ rng @
            (if str_truthy start \<and> str_truthy stop
             then ''&start='' @ nullish start [] @ ''&end='' @ nullish stop [] else [])
      in call_json ''GET'' url None None ''Failed to fetch stats'' as_json)"

definition getSystemStatus :: "('b, system_status) client" where [api_defs]:
  "getSystemStatus =
     call_json ''GET'' ''/api/status'' None None ''Failed to fetch system status'' as_status"

definition runSampler :: "('b, unit) client" where [api_defs]:
  "runSampler = call_void ''POST'' ''/api/sampler/run'' None None ''Failed to run sampler''"

definition getSamplerHistory :: "jsnum option \<Rightarrow> ('b, json) client" where [api_defs]:
  "getSamplerHistory limit =
     (let url = (case limit of
            Some n \<Rightarrow> if num_truthy n then ''/api/sampler/history?limit='' @ num_string n
                      else ''/api/sampler/history''
          | None \<Rightarrow> ''/api/sampler/history'')
      in call_json ''GET'' url None None ''Failed to fetch sampler history'' as_json)"

definition pruneNow :: "('b, int \<times> int) client" where [api_defs]:
  "pruneNow = call_json ''POST'' ''/api/retention/prune'' None None ''Failed to prune'' as_prune"

definition backupConfig :: "('b, unit) client" where [api_defs]:
  "backupConfig = call_void ''POST'' ''/api/config/backup'' None None ''Failed to backup config''"

definition restoreConfig :: "('b, json) client" where [api_defs]:
  "restoreConfig =
     call_json ''POST'' ''/api/config/restore'' None None ''Failed to restore config'' as_json"

definition getDashboardData ::
  "string \<Rightarrow> string option \<Rightarrow> string option \<Rightarrow> ('b, dashboard_data) client" where [api_defs]:
  "getDashboardData rng start stop =
     call_json ''GET''
       (''/api/dashboard?'' @
         search_params ((''range'', rng) # param ''start'' start @ param ''end'' stop))
       None None ''Failed to fetch dashboard data'' as_dashboard"

definition generateRealityKeys :: "('b, json) client" where [api_defs]:
  "generateRealityKeys =
     call_json ''GET'' ''/api/tools/reality-keys'' None None ''Failed to generate Reality keys'' as_json"

definition generateSelfSignedCert :: "string option \<Rightarrow> string option \<Rightarrow> ('b, string \<times> string) client"
  where [api_defs]:
  "generateSelfSignedCert tag common_name =
     call_json ''POST'' ''/api/tools/self-signed-cert'' json_type
       (Some (JsonBody (obj [(''tag'', map_option JStr tag), (''common_name'', map_option JStr common_name)])))
       ''Failed to generate self-signed certificate'' as_cert"

definition applySingboxChanges :: "('b, json) client" where [api_defs]:
  "applySingboxChanges =
     call_json ''POST'' ''/api/singbox/apply'' json_type None ''Failed to apply Sing-box changes'' as_json"

end
