(* ===== verification/Api_Facts.thy ===== *)
theory Api_Facts
  imports Api
begin

text \<open>
  What every client function of api.ts does, whatever its endpoint: which requests it sends, with
  which token, and how it treats each status of the response.
\<close>

section \<open>Running a client function\<close>

definition request :: "string \<Rightarrow> string \<Rightarrow> string option \<Rightarrow> body option \<Rightarrow> 'b browser_scheme \<Rightarrow> http_request" where
  "request meth url ct bdy s =
     \<lparr>rq_method = meth, rq_url = url, rq_headers = buildHeaders ct s, rq_body = bdy\<rparr>"

lemma request_simps [simp]:
  "rq_method (request meth url ct bdy s) = meth" "rq_url (request meth url ct bdy s) = url"
  "rq_headers (request meth url ct bdy s) = buildHeaders ct s"
  "rq_body (request meth url ct bdy s) = bdy"
  by (simp_all add: request_def)

lemma run_send [run_simps]:
  "run (send meth url ct bdy) srv s w =
     (case srv (request meth url ct bdy s) w of
        (Rejected e, w') \<Rightarrow> (Inl e, s, w')
      | (Answered rs, w') \<Rightarrow> (Inr rs, s, w'))"
  by (simp add: send_def fetch_def request_def split: prod.splits fetch_result.splits)

text \<open>The outcome of \<open>handleResponse\<close>, with the state it leaves.\<close>

definition checked :: "response \<Rightarrow> string \<Rightarrow> 'b browser_scheme \<Rightarrow> (js_error + response) \<times> 'b browser_scheme" where
  "checked rs msg s =
     (if rs_status rs = 401 then (Inl (Error ''Unauthorized''), logout s)
      else if res_ok rs then (Inr rs, s)
      else (Inl (Error (str_or (rs_text rs) msg)), s))"

lemma run_handleResponse [run_simps]:
  "run (handleResponse rs msg) srv s w =
     (case checked rs msg s of (x, s') \<Rightarrow> (x, s', w))"
  by (simp add: handleResponse_def checked_def run_simps handleUnauthorized_def)

lemma run_json_body [run_simps]:
  "run (json_body rs) srv s w = (rs_json rs, s, w)"
  by (cases "rs_json rs") (simp_all add: json_body_def)

lemma not_ok_401: "rs_status rs = 401 \<Longrightarrow> \<not> res_ok rs"
  by (simp add: res_ok_def)

lemma checked_ok [simp]: "res_ok rs \<Longrightarrow> checked rs msg s = (Inr rs, s)"
  using not_ok_401 by (auto simp: checked_def)

lemma run_call_void [run_simps]:
  "run (call_void meth url ct bdy msg) srv s w =
     (case srv (request meth url ct bdy s) w of
        (Rejected e, w') \<Rightarrow> (Inl e, s, w')
      | (Answered rs, w') \<Rightarrow>
          (case checked rs msg s of (Inl e, s') \<Rightarrow> (Inl e, s', w')
                                  | (Inr _, s') \<Rightarrow> (Inr (), s', w')))"
  by (auto simp: call_void_def run_simps split: prod.splits fetch_result.splits sum.splits)

lemma run_call_json [run_simps]:
  "run (call_json meth url ct bdy msg decode) srv s w =
     (case srv (request meth url ct bdy s) w of
        (Rejected e, w') \<Rightarrow> (Inl e, s, w')
      | (Answered rs, w') \<Rightarrow>
          (case checked rs msg s of
             (Inl e, s') \<Rightarrow> (Inl e, s', w')
           | (Inr _, s') \<Rightarrow>
               (case rs_json rs of Inl e \<Rightarrow> (Inl e, s', w')
                | Inr p \<Rightarrow> (case decode p of Some x \<Rightarrow> (Inr x, s', w')
                                         | None \<Rightarrow> (Inl ill_typed, s', w')))))"
  by (auto simp: call_json_def run_simps
      split: prod.splits fetch_result.splits sum.splits option.splits)

lemma run_call_text [run_simps]:
  "run (call_text meth url ct bdy msg) srv s w =
     (case srv (request meth url ct bdy s) w of
        (Rejected e, w') \<Rightarrow> (Inl e, s, w')
      | (Answered rs, w') \<Rightarrow>
          (case checked rs msg s of (Inl e, s') \<Rightarrow> (Inl e, s', w')
                                  | (Inr _, s') \<Rightarrow> (Inr (rs_text rs), s', w')))"
  by (auto simp: call_text_def run_simps split: prod.splits fetch_result.splits sum.splits)

section \<open>The rely/guarantee side\<close>

text \<open>A request is authorised when it carries exactly the token of the local storage.\<close>

definition expected_authorization :: "'b browser_scheme \<Rightarrow> string option" where
  "expected_authorization s =
     (case stored_token s of
        Some t \<Rightarrow> if t \<noteq> [] then Some (''Bearer '' @ t) else None
      | None \<Rightarrow> None)"

definition authorised :: "'b browser_scheme \<Rightarrow> http_request \<Rightarrow> bool" where
  "authorised s q \<longleftrightarrow> map_of (rq_headers q) ''Authorization'' = expected_authorization s"

lemma authorised_buildHeaders:
  "map_of (buildHeaders ct s) ''Authorization'' = expected_authorization s"
  by (auto simp: buildHeaders_def expected_authorization_def split: option.splits)

lemma guarded_send [guard_intros]:
  assumes "I s" and "\<And>t. I t \<Longrightarrow> Q t (request meth url ct bdy t)"
  shows "guarded I Q (send meth url ct bdy) s"
  using assms
  by (auto simp: send_def fetch_def request_def split: fetch_result.splits)

lemma guarded_handleResponse [guard_intros]:
  "I s \<Longrightarrow> I (logout s) \<Longrightarrow> guarded I Q (handleResponse rs msg) s"
  by (auto simp: handleResponse_def handleUnauthorized_def intro!: guard_intros)

lemma guarded_json_body [guard_intros]: "I s \<Longrightarrow> guarded I Q (json_body rs) s"
  by (auto simp: json_body_def split: sum.splits)

text \<open>
  A page that keeps an invariant closed under logging out may call any client function: the function
  keeps the invariant and is authorised.
\<close>

definition logout_closed :: "('b browser_scheme \<Rightarrow> bool) \<Rightarrow> bool" where
  "logout_closed I \<longleftrightarrow> (\<forall>s. I s \<longrightarrow> I (logout s))"

lemma guarded_call_void [guard_intros]:
  "logout_closed I \<Longrightarrow> I s \<Longrightarrow> guarded I authorised (call_void meth url ct bdy msg) s"
  unfolding call_void_def logout_closed_def
  by (intro guard_intros) (auto simp: authorised_def authorised_buildHeaders)

lemma guarded_call_json [guard_intros]:
  "logout_closed I \<Longrightarrow> I s \<Longrightarrow> guarded I authorised (call_json meth url ct bdy msg decode) s"
  unfolding call_json_def logout_closed_def
  by (intro guard_intros) (auto simp: authorised_def authorised_buildHeaders split: option.splits)

lemma guarded_call_text [guard_intros]:
  "logout_closed I \<Longrightarrow> I s \<Longrightarrow> guarded I authorised (call_text meth url ct bdy msg) s"
  unfolding call_text_def logout_closed_def
  by (intro guard_intros) (auto simp: authorised_def authorised_buildHeaders)

lemma guarded_getUsers [guard_intros]: "I s \<Longrightarrow> guarded I authorised getUsers s"
  unfolding getUsers_def
  by (intro guard_intros) (auto simp: authorised_def authorised_buildHeaders split: option.splits)

lemma guarded_searchLogs [guard_intros]:
  "logout_closed I \<Longrightarrow> I s \<Longrightarrow> guarded I authorised (searchLogs query limit pg) s"
  unfolding searchLogs_def logout_closed_def
  by (intro guard_intros)
    (auto simp: authorised_def authorised_buildHeaders split: sum.splits payload.splits)

text \<open>A call awaits what it calls.\<close>

lemma fork_free_send [fork_intros]: "fork_free (send meth url ct bdy)"
  by (auto simp: send_def fetch_def split: fetch_result.splits)

lemma fork_free_void [fork_intros]: "fork_free (call_void meth url ct bdy msg)"
  unfolding call_void_def handleResponse_def handleUnauthorized_def
  by (intro fork_intros) (auto intro!: fork_intros)

lemma fork_free_json [fork_intros]: "fork_free (call_json meth url ct bdy msg decode)"
  unfolding call_json_def handleResponse_def handleUnauthorized_def json_body_def
  by (intro fork_intros) (auto intro!: fork_intros split: sum.splits option.splits)

lemma fork_free_text [fork_intros]: "fork_free (call_text meth url ct bdy msg)"
  unfolding call_text_def handleResponse_def handleUnauthorized_def
  by (intro fork_intros) (auto intro!: fork_intros)

section \<open>All client functions\<close>

text \<open>
  The client functions other than \<open>getUsers\<close>, each with any arguments; a result is dropped with
  \<open>forget\<close> so that they have one type.
\<close>

abbreviation forget :: "('b, 'a) client \<Rightarrow> ('b, unit) client" where
  "forget p \<equiv> seq p skip"

inductive checked_call :: "('b, unit) client \<Rightarrow> bool" where
  "checked_call pauseSampler" | "checked_call resumeSampler"
| "checked_call (updatePassword a b)" | "checked_call (updateUsername a b)"
| "checked_call (createUser u)" | "checked_call (updateUser u)" | "checked_call (deleteUser n)"
| "checked_call (forget (getUserInbounds n))" | "checked_call (removeUserFromInbound n t)"
| "checked_call (updateUserInbound n t c)" | "checked_call (forget (getUserLink n t))"
| "checked_call (forget (getUserVlessLink n t))" | "checked_call (bulkCreateUsers us)"
| "checked_call (forget (getReport x y))" | "checked_call (forget (getReportSummary x y l))"
| "checked_call (forget getConfig)" | "checked_call (forget (getLogs x l))"
| "checked_call (forget (searchLogs n l pg))" | "checked_call (forget getWireGuardPeers)"
| "checked_call (forget (createWireGuardPeer n t e))" | "checked_call (deleteWireGuardPeer n)"
| "checked_call (restoreWireGuardPeer rp)" | "checked_call (forget getWireGuardInterface)"
| "checked_call (updateWireGuardInterface wi)" | "checked_call (updateWireGuardPeer n j)"
| "checked_call (forget (getWireGuardPeerConfig n x))" | "checked_call (forget (getWireGuardTraffic n))"
| "checked_call (forget (getWireGuardTrafficRange k m))"
| "checked_call (forget (getWireGuardTrafficSeries x y l l' l''))"
| "checked_call (restartService n)" | "checked_call (startService n)" | "checked_call (stopService n)"
| "checked_call (forget getFeatures)" | "checked_call (updateFeatures f)"
| "checked_call (forget getPublicIP)" | "checked_call (updatePublicIP n)"
| "checked_call (forget getSingboxConfig)" | "checked_call (updateSingboxConfig n)"
| "checked_call (forget getSingboxInbounds)" | "checked_call (addSingboxInbound j)"
| "checked_call (updateSingboxInbound n j)" | "checked_call (deleteSingboxInbound n)"
| "checked_call (updateConfig n)" | "checked_call (forget getWireGuardConfig)"
| "checked_call backupWireGuardConfig" | "checked_call (forget restoreWireGuardConfig)"
| "checked_call (forget getBackupMeta)" | "checked_call (updateWireGuardConfig n)"
| "checked_call (forget (getStats n x y))" | "checked_call (forget getSystemStatus)"
| "checked_call runSampler" | "checked_call (forget (getSamplerHistory l))"
| "checked_call (forget pruneNow)" | "checked_call backupConfig" | "checked_call (forget restoreConfig)"
| "checked_call (forget (getDashboardData n x y))" | "checked_call (forget generateRealityKeys)"
| "checked_call (forget (generateSelfSignedCert x y))" | "checked_call (forget applySingboxChanges)"

text \<open>
  All have one shape: send one request, check the response, and then only decode: no further request,
  no change of state.
\<close>

inductive settled :: "('b, 'a) client \<Rightarrow> bool" where
  "settled (Return a)" | "settled (Throw e)"

definition endpoint_call :: "('b, unit) client \<Rightarrow> bool" where
  "endpoint_call p \<longleftrightarrow>
     (\<exists>meth url ct bdy msg k. msg \<noteq> [] \<and> (\<forall>res. settled (k res)) \<and>
        p = bind (send meth url ct bdy) (\<lambda>res. seq (handleResponse res msg) (k res)))"

lemma endpoint_callI:
  "msg \<noteq> [] \<Longrightarrow> (\<And>res. settled (k res)) \<Longrightarrow>
     endpoint_call (bind (send meth url ct bdy) (\<lambda>res. seq (handleResponse res msg) (k res)))"
  unfolding endpoint_call_def by blast

lemma settled_case_sum: "settled (case x of Inl e \<Rightarrow> Throw e | Inr a \<Rightarrow> Return a)"
  by (cases x) (auto intro: settled.intros)

lemma settled_bind: "settled p \<Longrightarrow> (\<And>a. settled (f a)) \<Longrightarrow> settled (bind p f)"
  by (induction rule: settled.induct) (auto intro: settled.intros)

lemma settled_decode:
  "settled (bind (json_body res) (\<lambda>p. case decode p of Some x \<Rightarrow> Return x | None \<Rightarrow> Throw ill_typed))"
  unfolding json_body_def
  by (rule settled_bind [OF settled_case_sum]) (auto intro: settled.intros split: option.splits)

lemma endpoint_void: "msg \<noteq> [] \<Longrightarrow> endpoint_call (call_void meth url ct bdy msg)"
  unfolding call_void_def by (rule endpoint_callI) (auto intro: settled.intros)

lemma endpoint_json: "msg \<noteq> [] \<Longrightarrow> endpoint_call (forget (call_json meth url ct bdy msg decode))"
  unfolding call_json_def bind_assoc
  by (rule endpoint_callI)
    (auto intro!: settled.intros settled_bind simp: json_body_def split: sum.splits option.splits)

lemma endpoint_text: "msg \<noteq> [] \<Longrightarrow> endpoint_call (forget (call_text meth url ct bdy msg))"
  unfolding call_text_def bind_assoc by (rule endpoint_callI) (auto intro!: settled.intros)

lemma endpoint_searchLogs: "endpoint_call (forget (searchLogs query limit pg))"
  unfolding searchLogs_def bind_assoc
  by (rule endpoint_callI)
    (auto intro!: settled.intros split: sum.splits payload.splits)

lemma checked_call_endpoint: "checked_call p \<Longrightarrow> endpoint_call p"
  by (induction rule: checked_call.induct)
    (rule endpoint_searchLogs |
      simp add: api_defs Let_def endpoint_void endpoint_json endpoint_text del: bind_assoc)+

lemma run_settled:
  "settled p \<Longrightarrow> \<exists>x. run p srv s w = (x, s, w)"
  by (induction rule: settled.induct) (auto simp: run_simps)

text \<open>One response decides a checked call: what it returns, what it leaves, what it sent.\<close>

lemma endpoint_call_failure:
  assumes "endpoint_call p"
  shows "\<exists>meth url ct bdy msg.
      msg \<noteq> [] \<and>
      (\<forall>e. run p (logging (\<lambda>_ _. Rejected e)) s log = (Inl e, s, log @ [request meth url ct bdy s])) \<and>
      (\<forall>rs. rs_status rs = 401 \<longrightarrow>
         run p (logging (\<lambda>_ _. Answered rs)) s log
           = (Inl (Error ''Unauthorized''), logout s, log @ [request meth url ct bdy s])) \<and>
      (\<forall>rs. \<not> res_ok rs \<and> rs_status rs \<noteq> 401 \<longrightarrow>
         run p (logging (\<lambda>_ _. Answered rs)) s log
           = (Inl (Error (str_or (rs_text rs) msg)), s, log @ [request meth url ct bdy s]))"
proof -
  obtain meth url ct bdy msg k where msg: "msg \<noteq> []"
    and p: "p = bind (send meth url ct bdy) (\<lambda>res. seq (handleResponse res msg) (k res))"
    using assms unfolding endpoint_call_def by blast
  show ?thesis
    by (rule exI [of _ meth], rule exI [of _ url], rule exI [of _ ct], rule exI [of _ bdy],
        rule exI [of _ msg]) (simp add: p msg run_simps checked_def)
qed

section \<open>Properties\<close>

text \<open>A response with status 401 ends the session, whichever client function received it (all of
  api.ts but getUsers): the call sends one request, throws Unauthorized, and the token is gone
  from the provider and from the local storage.\<close>

theorem unauthorized_ends_session:
  assumes "checked_call p" and "rs_status rs = 401"
  shows "\<exists>q. run p (logging (\<lambda>_ _. Answered rs)) s log
               = (Inl (Error ''Unauthorized''), logout s, log @ [q]) \<and>
             stored_token (logout s) = None \<and> \<not> isAuthenticated (logout s)"
  using endpoint_call_failure [OF checked_call_endpoint [OF assms(1)], of s log] assms(2)
  by (auto simp: isAuthenticated_def)

text \<open>C4: any other failure of a client function, a rejected request or a status outside 2xx, leaves
  the page state as it was, after the one request that failed; the error carries the text of the
  response, or a non-empty fallback when that is empty.\<close>

theorem failed_call_keeps_state:
  assumes "checked_call p" and "case r of Rejected _ \<Rightarrow> True
    | Answered rs \<Rightarrow> \<not> res_ok rs \<and> rs_status rs \<noteq> 401"
  shows "\<exists>q msg. run p (logging (\<lambda>_ _. r)) s log =
      (Inl (case r of Rejected e \<Rightarrow> e | Answered rs \<Rightarrow> Error (str_or (rs_text rs) msg)), s, log @ [q]) \<and>
      msg \<noteq> []"
proof -
  obtain meth url ct bdy msg where f: "msg \<noteq> []"
    "\<And>e. run p (logging (\<lambda>_ _. Rejected e)) s log = (Inl e, s, log @ [request meth url ct bdy s])"
    "\<And>rs. \<not> res_ok rs \<Longrightarrow> rs_status rs \<noteq> 401 \<Longrightarrow> run p (logging (\<lambda>_ _. Answered rs)) s log
       = (Inl (Error (str_or (rs_text rs) msg)), s, log @ [request meth url ct bdy s])"
    using endpoint_call_failure [OF checked_call_endpoint [OF assms(1)], of s log] by auto
  show ?thesis
    by (rule exI [of _ "request meth url ct bdy s"], rule exI [of _ msg], cases r)
      (use f assms(2) in auto)
qed

text \<open>\<open>getUsers\<close> is the exception: a 401 is reported as any other failure, and the session, with
  its stale token, goes on.\<close>

theorem getUsers_401_keeps_session:
  assumes "rs_status rs = 401"
  shows "run getUsers (logging (\<lambda>_ _. Answered rs)) s log =
    (Inl (Error ''Failed to fetch users''), s, log @ [request ''GET'' ''/api/users'' None None s])"
  using not_ok_401 [OF assms] by (simp add: getUsers_def run_simps)

text \<open>The path of a URL is cut at its slashes.\<close>

definition route_segments :: "string \<Rightarrow> string list" where
  "route_segments url = split_on (CHR ''/'') url"

lemma slash_not_encoded: "CHR ''/'' \<notin> set (encodeURIComponent s)"
  using encode_unreserved_or_pct [of "CHR ''/''" s]
  by (auto simp: uri_unreserved_def is_alnum_def)


text \<open>The query of a log search decodes to its parameters: the search text is not split, and
  cannot add a parameter, whatever it holds.\<close>

theorem search_query_roundtrip:
  "\<exists>q query. snd (snd (run (searchLogs text limit pg) (logging answer) s [])) = [q] \<and>
     rq_url q = ''/api/logs/search?'' @ query \<and>
     parse_query query = Some ((''q'', text) # num_param ''limit'' limit @ num_param ''page'' pg)"
  by (auto simp: searchLogs_def run_simps parse_search_params
      split: fetch_result.splits prod.splits sum.splits payload.splits)

section \<open>Witnesses\<close>

abbreviation answer_status :: "int \<Rightarrow> string \<Rightarrow> response" where
  "answer_status st txt \<equiv> \<lparr>rs_status = st, rs_text = txt, rs_json = Inl (Error ''no JSON'')\<rparr>"

theorem unauthorized_ends_session_witness:
  "\<exists>q. run (deleteUser ''bob'') (logging (\<lambda>_ _. Answered (answer_status 401 []))) sample_browser []
      = (Inl (Error ''Unauthorized''), logout sample_browser, [q]) \<and>
     stored_token (logout sample_browser) = None \<and> \<not> isAuthenticated (logout sample_browser)"
  using unauthorized_ends_session [of "deleteUser ''bob''" "answer_status 401 []" sample_browser "[]"]
  by (simp add: checked_call.intros)

theorem failed_call_keeps_state_witness:
  "\<exists>q msg. run (deleteUser ''bob'') (logging (\<lambda>_ _. Answered (answer_status 500 ''down'')))
       sample_browser [] = (Inl (Error (str_or ''down'' msg)), sample_browser, [q]) \<and> msg \<noteq> []"
  using failed_call_keeps_state
    [of "deleteUser ''bob''" "Answered (answer_status 500 ''down'')" sample_browser "[]"]
  by (simp add: checked_call.intros res_ok_def)

theorem getUsers_401_keeps_session_witness:
  "run getUsers (logging (\<lambda>_ _. Answered (answer_status 401 []))) sample_browser [] =
    (Inl (Error ''Failed to fetch users''), sample_browser,
     [request ''GET'' ''/api/users'' None None sample_browser])"
  using getUsers_401_keeps_session [of "answer_status 401 []" sample_browser "[]"] by simp

end
