(* ===== verification/Format.thy ===== *)
theory Format
  imports Complex_Main Js_Json
begin

text \<open>
  The number formatting shared by the pages: \<open>formatBytes\<close> (Dashboard.tsx, UserManagement.tsx and
  WireGuard.tsx hold the same function), \<open>bytesToGbString\<close>, \<open>parseGbToBytes\<close> and \<open>formatTimeAgo\<close>
  (UserManagement.tsx, WireGuard.tsx). Byte counts and timestamps are integers. Quotients are exact
  rationals: the rounding of double-precision arithmetic is not modelled, and
  \<open>Math.floor(Math.log(bytes) / Math.log(1024))\<close> is the exact logarithm.
\<close>

section \<open>toFixed and parseFloat\<close>

text \<open>\<open>x.toFixed(dm)\<close> writes the integer nearest to \<open>x * 10^dm\<close> (the larger of two) with \<open>dm\<close>
  decimals.\<close>

definition scaled :: "rat \<Rightarrow> nat \<Rightarrow> int" where
  "scaled x dm = \<lfloor>x * 10 ^ dm + 1 / 2\<rfloor>"

fun digits_of :: "nat \<Rightarrow> nat \<Rightarrow> string" where
  \<comment> \<open>the last \<open>dm\<close> decimal digits of \<open>n\<close>\<close>
  "digits_of 0 n = []"
| "digits_of (Suc dm) n = digits_of dm (n div 10) @ [digit_char (n mod 10)]"

definition to_fixed :: "nat \<Rightarrow> nat \<Rightarrow> string" where
  "to_fixed n dm =
     show_nat (n div 10 ^ dm) @ (if dm = 0 then [] else ''.'' @ digits_of dm (n mod 10 ^ dm))"

text \<open>\<open>String(parseFloat(s))\<close> of such a numeral drops the zeros at its end.\<close>

definition drop_zeros :: "string \<Rightarrow> string" where
  "drop_zeros s = rev (dropWhile (\<lambda>c. c = CHR ''0'') (rev s))"

definition shortest :: "nat \<Rightarrow> nat \<Rightarrow> string" where
  "shortest n dm =
     (let fr = drop_zeros (digits_of dm (n mod 10 ^ dm))
      in show_nat (n div 10 ^ dm) @ (if fr = [] then [] else ''.'' @ fr))"

datatype real_num = RNaN | RInf bool | RFin rat

definition parse_exponent :: "string \<Rightarrow> int" where
  "parse_exponent s =
     (case s of
        e # rest \<Rightarrow>
          if e = CHR ''e'' \<or> e = CHR ''E'' then
            (case rest of
               c # cs \<Rightarrow>
                 (if c = CHR ''-'' then - int (nullish (parse_digits cs) 0)
                  else if c = CHR ''+'' then int (nullish (parse_digits cs) 0)
                  else int (nullish (parse_digits rest) 0))
             | [] \<Rightarrow> 0)
          else 0
      | [] \<Rightarrow> 0)"

definition scale10 :: "rat \<Rightarrow> int \<Rightarrow> rat" where
  "scale10 x e = (if 0 \<le> e then x * 10 ^ nat e else x / 10 ^ nat (- e))"

definition parse_unsigned :: "string \<Rightarrow> real_num" where
  "parse_unsigned s =
     (if take 8 s = ''Infinity'' then RInf False
      else
        (let ip = takeWhile is_digit s;
             r1 = dropWhile is_digit s;
             point = (r1 \<noteq> [] \<and> hd r1 = CHR ''.'');
             fp = (if point then takeWhile is_digit (tl r1) else []);
             r2 = (if point then dropWhile is_digit (tl r1) else r1)
         in if ip = [] \<and> fp = [] then RNaN
            else RFin (scale10 (of_nat (digits_val (ip @ fp)) / 10 ^ length fp) (parse_exponent r2))))"

fun negate_num :: "real_num \<Rightarrow> real_num" where
  "negate_num RNaN = RNaN"
| "negate_num (RInf n) = RInf (\<not> n)"
| "negate_num (RFin x) = RFin (- x)"

definition parse_float :: "string \<Rightarrow> real_num" where
  "parse_float s =
     (case dropWhile is_space s of
        [] \<Rightarrow> RNaN
      | c # cs \<Rightarrow>
          if c = CHR ''-'' then negate_num (parse_unsigned cs)
          else if c = CHR ''+'' then parse_unsigned cs
          else parse_unsigned (c # cs))"

lemma length_digits_of [simp]: "length (digits_of dm n) = dm"
  by (induction dm n rule: digits_of.induct) auto

lemma digits_of_digits: "c \<in> set (digits_of dm n) \<Longrightarrow> is_digit c"
  by (induction dm n rule: digits_of.induct) auto

lemma digits_val_append_digits:
  "digits_val (ds @ digits_of dm n) = 10 ^ dm * digits_val ds + n mod 10 ^ dm"
proof (induction dm n arbitrary: ds rule: digits_of.induct)
  case (1 n)
  then show ?case by simp
next
  case (2 dm n)
  have "digits_val (ds @ digits_of (Suc dm) n) = 10 * digits_val (ds @ digits_of dm (n div 10)) + n mod 10"
    by (simp flip: append_assoc)
  also have "\<dots> = 10 ^ Suc dm * digits_val ds + (10 * (n div 10 mod 10 ^ dm) + n mod 10)"
    by (simp add: 2 algebra_simps)
  also have "10 * (n div 10 mod 10 ^ dm) + n mod 10 = n mod 10 ^ Suc dm"
    by (simp add: mod_mult2_eq)
  finally show ?case .
qed

lemma takeWhile_digits:
  "\<forall>c \<in> set ds. is_digit c \<Longrightarrow> \<not> is_digit c \<Longrightarrow>
     takeWhile is_digit (ds @ c # r) = ds \<and> dropWhile is_digit (ds @ c # r) = c # r"
  by (induction ds) auto

lemma parse_unsigned_to_fixed:
  assumes "0 < dm"
  shows "parse_unsigned (to_fixed n dm) = RFin (of_nat n / 10 ^ dm)"
proof -
  let ?ip = "show_nat (n div 10 ^ dm)" and ?fp = "digits_of dm (n mod 10 ^ dm)"
  have s: "to_fixed n dm = ?ip @ CHR ''.'' # ?fp" using assms by (simp add: to_fixed_def)
  have fp: "\<forall>c \<in> set ?fp. is_digit c" using digits_of_digits by blast
  have dot: "\<not> is_digit CHR ''.''" by (simp add: is_digit_def)
  have tw: "takeWhile is_digit (to_fixed n dm) = ?ip" "dropWhile is_digit (to_fixed n dm) = CHR ''.'' # ?fp"
    using takeWhile_digits [OF show_nat_digits dot] by (simp_all add: s)
  have tw': "takeWhile is_digit ?fp = ?fp" "dropWhile is_digit ?fp = []"
    using fp by (simp_all add: takeWhile_eq_all_conv dropWhile_eq_Nil_conv)
  obtain c cs where c: "?ip = c # cs" "is_digit c"
    using show_nat_digits [of "n div 10 ^ dm"] by (cases ?ip) auto
  then have ninf: "take 8 (to_fixed n dm) \<noteq> ''Infinity''"
    by (auto simp: s is_digit_def)
  have v: "digits_val (?ip @ ?fp) = n"
    by (simp add: digits_val_append_digits)
  show ?thesis
    using ninf by (simp add: parse_unsigned_def tw tw' v Let_def parse_exponent_def scale10_def)
qed

lemma parse_float_to_fixed:
  assumes "0 < dm"
  shows "parse_float (to_fixed n dm) = RFin (of_nat n / 10 ^ dm)"
proof -
  obtain c cs where c: "show_nat (n div 10 ^ dm) = c # cs" "is_digit c"
    using show_nat_digits [of "n div 10 ^ dm"] by (cases "show_nat (n div 10 ^ dm)") auto
  then obtain cs' where "to_fixed n dm = c # cs'" using assms by (simp add: to_fixed_def)
  then show ?thesis
    using parse_unsigned_to_fixed [OF assms, of n] is_digit_props [OF c(2)]
    by (simp add: parse_float_def)
qed

lemma scaled_error: "\<bar>of_int (scaled x dm) - x * 10 ^ dm\<bar> \<le> 1 / 2"
  unfolding scaled_def by linarith

lemma scaled_nonneg: "0 \<le> x \<Longrightarrow> 0 \<le> scaled x dm"
  unfolding scaled_def by (simp add: add_nonneg_nonneg)

section \<open>formatBytes\<close>

definition byte_units :: "string list" where
  "byte_units = [''B'', ''KB'', ''MB'', ''GB'', ''TB'', ''PB'', ''EB'', ''ZB'', ''YB'']"

fun log1024 :: "nat \<Rightarrow> nat" where
  "log1024 n = (if n < 1024 then 0 else Suc (log1024 (n div 1024)))"

declare log1024.simps [simp del]

definition formatBytes :: "int \<Rightarrow> int \<Rightarrow> string" where
  "formatBytes bytes decimals =
     (if bytes = 0 then ''0 B''
      else if bytes < 0 then ''NaN undefined''
      else
        (let dm = nat (if decimals < 0 then 0 else decimals);
             i = log1024 (nat bytes);
             n = nat (scaled (of_int bytes / 1024 ^ i) dm)
         in shortest n dm @ '' '' @ (if i < length byte_units then byte_units ! i else ''undefined'')))"

abbreviation format_bytes :: "int \<Rightarrow> string" where
  "format_bytes b \<equiv> formatBytes b 2"

lemma log1024_bounds: "0 < n \<Longrightarrow> 1024 ^ log1024 n \<le> n \<and> n < 1024 ^ Suc (log1024 n)"
proof (induction n rule: log1024.induct)
  case (1 n)
  show ?case
  proof (cases "n < 1024")
    case True
    with "1.prems" show ?thesis by (simp add: log1024.simps [of n])
  next
    case False
    then have "0 < n div 1024" by simp
    with 1 False have "1024 ^ log1024 (n div 1024) \<le> n div 1024"
      "n div 1024 < 1024 ^ Suc (log1024 (n div 1024))" by auto
    then have "1024 * 1024 ^ log1024 (n div 1024) \<le> n" "n < 1024 * 1024 ^ Suc (log1024 (n div 1024))"
      by (simp_all add: less_mult_imp_div_less div_less_iff_less_mult less_eq_div_iff_mult_less_eq mult.commute)
    with False show ?thesis by (simp add: log1024.simps [of n])
  qed
qed

section \<open>Gigabyte fields\<close>

definition BYTES_PER_GB :: int where
  "BYTES_PER_GB = 1024 * 1024 * 1024"

definition bytesToGbString :: "int option \<Rightarrow> string" where
  "bytesToGbString bytes =
     (case bytes of
        Some b \<Rightarrow>
          if 0 < b then to_fixed (nat (scaled (of_int b / of_int BYTES_PER_GB) 2)) 2 else []
      | None \<Rightarrow> [])"

fun replace_comma :: "string \<Rightarrow> string" where
  \<comment> \<open>\<open>input.replace(',', '.')\<close> replaces the first comma\<close>
  "replace_comma [] = []"
| "replace_comma (c # cs) = (if c = CHR '','' then CHR ''.'' # cs else c # replace_comma cs)"

definition parseGbToBytes :: "string \<Rightarrow> jsnum" where
  "parseGbToBytes input =
     (let normalized = trim (replace_comma input)
      in if normalized = [] then Fin 0
         else (case parse_float normalized of
                 RNaN \<Rightarrow> Fin 0
               | RInf neg \<Rightarrow> if neg then Fin 0 else Infinity
               | RFin v \<Rightarrow> if v \<le> 0 then Fin 0 else Fin \<lfloor>v * of_int BYTES_PER_GB + 1 / 2\<rfloor>))"

section \<open>formatTimeAgo\<close>

text \<open>\<open>now\<close> is \<open>Date.now()\<close>, in milliseconds.\<close>

definition formatTimeAgo :: "int \<Rightarrow> int \<Rightarrow> string" where
  "formatTimeAgo now timestamp =
     (if timestamp \<le> 0 then ''Never''
      else
        (let seconds = now div 1000 - timestamp
         in if seconds < 60 then ''Just now''
            else (let minutes = seconds div 60
                  in if minutes < 60 then show_int minutes @ ''m ago''
                     else (let hours = minutes div 60
                           in if hours < 24 then show_int hours @ ''h ago''
                              else show_int (hours div 24) @ ''d ago''))))"

section \<open>Properties\<close>

text \<open>formatBytes writes a positive count below 1024^9 in the one unit in which it lies
  between 1 and 1024, and the number it writes is within half a unit of its last decimal of the exact
  quotient.\<close>

theorem formatBytes_unit:
  assumes "0 < bytes" and "bytes < 1024 ^ 9" and "0 \<le> decimals"
  shows "\<exists>i n. i < 9 \<and> formatBytes bytes decimals = shortest n (nat decimals) @ '' '' @ byte_units ! i \<and>
     1024 ^ i \<le> bytes \<and> bytes < 1024 ^ Suc i \<and>
     \<bar>of_nat n - of_int bytes / 1024 ^ i * 10 ^ nat decimals\<bar> \<le> (1 / 2 :: rat)"
proof -
  define i where "i = log1024 (nat bytes)"
  define n where "n = nat (scaled (of_int bytes / 1024 ^ i) (nat decimals))"
  have nb: "1024 ^ i \<le> nat bytes" "nat bytes < 1024 ^ Suc i"
    using log1024_bounds [of "nat bytes"] assms(1) by (simp_all add: i_def)
  then have b: "1024 ^ i \<le> bytes" "bytes < 1024 ^ Suc i"
    using assms(1) by (simp_all add: nat_less_iff le_nat_iff)
  have "(1024 :: int) ^ i < 1024 ^ 9" using b(1) assms(2) by (rule le_less_trans)
  then have i: "i < 9" by (rule power_less_imp_less_exp [rotated]) simp
  have "of_nat n = (of_int (scaled (of_int bytes / 1024 ^ i) (nat decimals)) :: rat)"
    using assms(1) by (simp add: n_def scaled_nonneg)
  then have "\<bar>of_nat n - of_int bytes / 1024 ^ i * 10 ^ nat decimals\<bar> \<le> (1 / 2 :: rat)"
    by (simp only: scaled_error)
  moreover have "formatBytes bytes decimals = shortest n (nat decimals) @ '' '' @ byte_units ! i"
    using assms i by (simp add: formatBytes_def Let_def byte_units_def flip: i_def n_def)
  ultimately show ?thesis using i b by blast
qed

text \<open>A quota shown in gigabytes and read back is off by at most half a hundredth of a gigabyte
  (and the rounding to a byte).\<close>

theorem gb_field_roundtrip:
  assumes "0 < b"
  shows "\<exists>b'. parseGbToBytes (bytesToGbString (Some b)) = Fin b' \<and> \<bar>b' - b\<bar> \<le> 5368710"
proof -
  let ?x = "of_int b / of_int BYTES_PER_GB :: rat"
  define n where "n = nat (scaled ?x 2)"
  have x: "0 < ?x" using assms by (simp add: BYTES_PER_GB_def)
  have n: "\<bar>of_nat n - ?x * 100\<bar> \<le> 1 / 2"
    using scaled_error [of ?x 2] x by (simp add: n_def scaled_nonneg)
  obtain c cs where s: "to_fixed n 2 = c # cs" "is_digit c"
    using show_nat_digits [of "n div 10 ^ 2"] by (cases "show_nat (n div 10 ^ 2)") (auto simp: to_fixed_def)
  have chars: "\<forall>d \<in> set (to_fixed n 2). is_digit d \<or> d = CHR ''.''"
    using show_nat_digits digits_of_digits by (auto simp: to_fixed_def numeral_2_eq_2)
  have "replace_comma t = t" if "\<forall>d \<in> set t. is_digit d \<or> d = CHR ''.''" for t
    using that by (induction t) (auto simp: is_digit_def)
  moreover have "trim t = t" if "\<forall>d \<in> set t. is_digit d \<or> d = CHR ''.''" for t
  proof -
    have "dropWhile is_space u = u" if "\<forall>d \<in> set u. is_digit d \<or> d = CHR ''.''" for u
      using that by (cases u) (auto simp: is_space_def is_digit_def)
    with that show ?thesis by (simp add: trim_def)
  qed
  ultimately have norm: "trim (replace_comma (to_fixed n 2)) = to_fixed n 2"
    using chars by simp
  have g: "bytesToGbString (Some b) = to_fixed n 2"
    using assms by (simp add: bytesToGbString_def n_def)
  have p: "parse_float (to_fixed n 2) = RFin (of_nat n / 100)"
    using parse_float_to_fixed [of 2 n] by simp
  define v :: rat where "v = of_nat n / 100"
  define b' where "b' = (if v \<le> 0 then 0 else \<lfloor>v * of_int BYTES_PER_GB + 1 / 2\<rfloor>)"
  have "parseGbToBytes (bytesToGbString (Some b)) = Fin b'"
    using norm p s by (simp add: parseGbToBytes_def g b'_def v_def Let_def)
  moreover have "\<bar>b' - b\<bar> \<le> 5368710"
  proof -
    have "\<bar>v * of_int BYTES_PER_GB - of_int b\<bar> \<le> 1073741824 / 200"
      using n unfolding v_def BYTES_PER_GB_def by (simp add: abs_le_iff field_simps)
    moreover have "\<bar>of_int b' - v * of_int BYTES_PER_GB\<bar> \<le> (1 / 2 :: rat)"
    proof (cases "v \<le> 0")
      case True
      then have "v = 0" by (simp add: v_def)
      then show ?thesis by (simp add: b'_def)
    next
      case False
      then have "b' = \<lfloor>v * of_int BYTES_PER_GB + 1 / 2\<rfloor>" by (simp add: b'_def)
      then show ?thesis by linarith
    qed
    ultimately have "\<bar>of_int b' - of_int b\<bar> \<le> (1073741824 / 200 + 1 / 2 :: rat)" by linarith
    then have "\<bar>of_int (b' - b) :: rat\<bar> < of_int 5368711" by (simp add: abs_le_iff)
    then show ?thesis by linarith
  qed
  ultimately show ?thesis by blast
qed

lemma time_unit:
  assumes "0 < timestamp" and sec: "seconds = now div 1000 - timestamp"
  shows "formatTimeAgo 0 0 = ''Never'' \<and>
    (seconds < 60 \<longleftrightarrow> formatTimeAgo now timestamp = ''Just now'') \<and>
    (60 \<le> seconds \<longrightarrow>
      (\<exists>n unit len. formatTimeAgo now timestamp = show_int n @ unit \<and>
         (unit, len) \<in> {(''m ago'', 60), (''h ago'', 3600), (''d ago'', 86400)} \<and>
         1 \<le> n \<and> n * len \<le> seconds \<and> seconds < (n + 1) * len \<and>
         (len = 60 \<longrightarrow> n < 60) \<and> (len = 3600 \<longrightarrow> n < 24)))"
proof -
  have d: "show_int k \<noteq> ''Just now''" "show_int k @ c # cs \<noteq> ''Just now''"
    if "0 \<le> k" for k c and cs :: string
    using that show_nat_digits [of "nat k"] by (cases "show_nat (nat k)"; auto simp: show_int_def is_digit_def)+
  have dd: "seconds div 60 div 60 = seconds div 3600" "seconds div 3600 div 24 = seconds div 86400"
    by (simp_all add: zdiv_zmult2_eq [symmetric])
  show ?thesis
  proof (cases "seconds < 60")
    case True
    then show ?thesis using assms by (simp add: formatTimeAgo_def sec)
  next
    case False
    then have f: "formatTimeAgo now timestamp =
      (if seconds div 60 < 60 then show_int (seconds div 60) @ ''m ago''
       else if seconds div 3600 < 24 then show_int (seconds div 3600) @ ''h ago''
       else show_int (seconds div 86400) @ ''d ago'')"
      using assms(1) by (simp add: formatTimeAgo_def Let_def dd flip: sec)
    have "formatTimeAgo now timestamp \<noteq> ''Just now''"
      using False unfolding f by (auto simp: d)
    moreover have "\<exists>n unit len. formatTimeAgo now timestamp = show_int n @ unit \<and>
         (unit, len) \<in> {(''m ago'', 60), (''h ago'', 3600), (''d ago'', 86400)} \<and>
         1 \<le> n \<and> n * len \<le> seconds \<and> seconds < (n + 1) * len \<and>
         (len = 60 \<longrightarrow> n < 60) \<and> (len = 3600 \<longrightarrow> n < 24)"
    proof -
      consider "seconds div 60 < 60" | "\<not> seconds div 60 < 60" "seconds div 3600 < 24"
        | "\<not> seconds div 60 < 60" "\<not> seconds div 3600 < 24" by blast
      then show ?thesis
      proof cases
        case 1
        then show ?thesis unfolding f using False
          by (intro exI [of _ "seconds div 60"] exI [of _ "''m ago''"] exI [of _ 60]) auto
      next
        case 2
        then show ?thesis unfolding f using False
          by (intro exI [of _ "seconds div 3600"] exI [of _ "''h ago''"] exI [of _ 3600]) auto
      next
        case 3
        then show ?thesis unfolding f using False
          by (intro exI [of _ "seconds div 86400"] exI [of _ "''d ago''"] exI [of _ 86400]) auto
      qed
    qed
    ultimately show ?thesis using False by (simp add: formatTimeAgo_def)
  qed
qed

text \<open>The age of a past timestamp is written in the largest unit of minutes, hours and days
  that it fills, as the number of whole units, and below a minute as Just now; no timestamp is Never.\<close>

theorem formatTimeAgo_unit:
  assumes "0 < timestamp"
  shows "formatTimeAgo 0 0 = ''Never'' \<and>
    (now div 1000 - timestamp < 60 \<longleftrightarrow> formatTimeAgo now timestamp = ''Just now'') \<and>
    (60 \<le> now div 1000 - timestamp \<longrightarrow>
      (\<exists>n unit len. formatTimeAgo now timestamp = show_int n @ unit \<and>
         (unit, len) \<in> {(''m ago'', 60), (''h ago'', 3600), (''d ago'', 86400)} \<and>
         1 \<le> n \<and> n * len \<le> now div 1000 - timestamp \<and> now div 1000 - timestamp < (n + 1) * len \<and>
         (len = 60 \<longrightarrow> n < 60) \<and> (len = 3600 \<longrightarrow> n < 24)))"
  by (rule time_unit [OF assms refl])

section \<open>Witnesses\<close>

theorem formatBytes_unit_witness:
  "\<exists>i n. i < 9 \<and> formatBytes 1536 2 = shortest n 2 @ '' '' @ byte_units ! i \<and>
     1024 ^ i \<le> (1536 :: int) \<and> 1536 < (1024 :: int) ^ Suc i \<and>
     \<bar>of_nat n - 1536 / 1024 ^ i * 10 ^ 2\<bar> \<le> (1 / 2 :: rat)"
  using formatBytes_unit [of 1536 2] by simp

theorem gb_field_roundtrip_witness:
  "\<exists>b'. parseGbToBytes (bytesToGbString (Some 5000000000)) = Fin b' \<and> \<bar>b' - 5000000000\<bar> \<le> 5368710"
  using gb_field_roundtrip [of 5000000000] by simp

theorem formatTimeAgo_unit_witness:
  "\<exists>n unit len. formatTimeAgo 8000000 100 = show_int n @ unit \<and>
     (unit, len) \<in> {(''m ago'', 60), (''h ago'', 3600), (''d ago'', 86400 :: int)} \<and>
     1 \<le> n \<and> n * len \<le> 7900 \<and> 7900 < (n + 1) * len"
  using formatTimeAgo_unit [of 100 8000000] by simp blast

end
