(* ===== verification/Js_Sort.thy ===== *)
theory Js_Sort
  imports Complex_Main "HOL-Library.Multiset"
begin

text \<open>
  \<open>Array.prototype.sort\<close> with a comparator, and what it guarantees under a consistent one: the
  contract \<open>comparator\<close>, which each table interprets with its own comparisons, and the collation
  \<open>localeCompare\<close> of the browser's locale, of which only the documented laws are known.
\<close>

section \<open>Sorting\<close>

datatype sort_dir = Asc | Desc

fun dir_sign :: "sort_dir \<Rightarrow> rat" where
  "dir_sign Asc = 1"
| "dir_sign Desc = - 1"

text \<open>
  \<open>Array.prototype.sort\<close> as an insertion sort that keeps the order of equal elements. For a
  consistent comparator every engine gives this result.
\<close>

fun insert_sorted :: "('a \<Rightarrow> 'a \<Rightarrow> rat) \<Rightarrow> 'a \<Rightarrow> 'a list \<Rightarrow> 'a list" where
  "insert_sorted cmp x [] = [x]"
| "insert_sorted cmp x (y # ys) = (if cmp x y \<le> 0 then x # y # ys else y # insert_sorted cmp x ys)"

definition js_sort :: "('a \<Rightarrow> 'a \<Rightarrow> rat) \<Rightarrow> 'a list \<Rightarrow> 'a list" where
  "js_sort cmp xs = foldr (insert_sorted cmp) xs []"

lemma set_insert_sorted: "set (insert_sorted cmp x ys) = insert x (set ys)"
  by (induction ys) auto

lemma set_js_sort [simp]: "set (js_sort cmp xs) = set xs"
  by (induction xs) (auto simp: js_sort_def set_insert_sorted)

section \<open>Sorting under a consistent comparator\<close>

locale comparator =
  fixes cmp :: "'a \<Rightarrow> 'a \<Rightarrow> rat"
  assumes swap: "sgn (cmp y x) = - sgn (cmp x y)"
    and trans: "cmp x y \<le> 0 \<Longrightarrow> cmp y z \<le> 0 \<Longrightarrow> cmp x z \<le> 0"
begin

lemma mset_insert_sorted: "mset (insert_sorted cmp x ys) = add_mset x (mset ys)"
  by (induction ys) auto

lemma mset_js_sort: "mset (js_sort cmp xs) = mset xs"
  by (induction xs) (auto simp: js_sort_def mset_insert_sorted)

lemma total: "\<not> cmp x y \<le> 0 \<Longrightarrow> cmp y x \<le> 0"
  using swap [of x y] by (auto simp: sgn_if split: if_splits)

lemma sorted_insert_sorted:
  "sorted_wrt (\<lambda>x y. cmp x y \<le> 0) ys \<Longrightarrow> sorted_wrt (\<lambda>x y. cmp x y \<le> 0) (insert_sorted cmp x ys)"
proof (induction ys)
  case Nil
  then show ?case by simp
next
  case (Cons y ys)
  have "set (insert_sorted cmp x ys) = insert x (set ys)"
    by (metis mset_insert_sorted set_mset_add_mset_insert set_mset_mset)
  with Cons show ?case using total [of x y] trans by auto
qed

lemma sorted_js_sort: "sorted_wrt (\<lambda>x y. cmp x y \<le> 0) (js_sort cmp xs)"
  by (induction xs) (auto simp: js_sort_def sorted_insert_sorted)

lemma stable_insert_sorted:
  assumes "\<And>x y. P x \<Longrightarrow> P y \<Longrightarrow> cmp x y \<le> 0"
  shows "filter P (insert_sorted cmp x ys) = (if P x then x # filter P ys else filter P ys)"
  using assms by (induction ys) auto

lemma stable_js_sort:
  assumes "\<And>x y. P x \<Longrightarrow> P y \<Longrightarrow> cmp x y \<le> 0"
  shows "filter P (js_sort cmp xs) = filter P xs"
  by (induction xs) (auto simp: js_sort_def stable_insert_sorted [OF assms])

lemma tied: "cmp u x = 0 \<Longrightarrow> cmp u y = 0 \<Longrightarrow> cmp x y \<le> 0"
  using trans [of x u y] swap [of x u] by (auto simp: sgn_if split: if_splits)

lemma js_sort_correct:
  "mset (js_sort cmp xs) = mset xs \<and> sorted_wrt (\<lambda>x y. cmp x y \<le> 0) (js_sort cmp xs) \<and>
     (\<forall>u. filter (\<lambda>v. cmp u v = 0) (js_sort cmp xs) = filter (\<lambda>v. cmp u v = 0) xs)"
  using mset_js_sort sorted_js_sort stable_js_sort [of "\<lambda>v. cmp _ v = 0"] tied by blast

end

lemma dir_sign_cases: "dir_sign d = 1 \<or> dir_sign d = - 1"
  by (cases d) auto

lemma sgn_swap_diff: "sgn ((y - x) * c) = - sgn ((x - y) * c)" for x y c :: rat
proof -
  have "(y - x) * c = - ((x - y) * c)" by (simp add: algebra_simps)
  then show ?thesis by (simp add: sgn_if)
qed

lemma sgn_flip: "sgn b = - sgn a \<Longrightarrow> b \<le> 0 \<longleftrightarrow> 0 \<le> a" for a b :: int
  by (auto simp: sgn_if split: if_splits)

lemma sgn_of_int_rat: "sgn (of_int i :: rat) = of_int (sgn i)"
  by (simp add: sgn_if)

section \<open>Collation\<close>

text \<open>
  What ECMA-402 promises of \<open>localeCompare\<close>: a consistent comparison, whose value is known up to
  its sign.
\<close>

definition collation :: "(string \<Rightarrow> string \<Rightarrow> int) \<Rightarrow> bool" where
  "collation lc \<longleftrightarrow> (\<forall>a b. sgn (lc b a) = - sgn (lc a b)) \<and> (\<forall>a b c. lc a b \<le> 0 \<and> lc b c \<le> 0 \<longrightarrow> lc a c \<le> 0)"

lemma collation_sym_trans:
  assumes "collation lc" and "0 \<le> lc a b" and "0 \<le> lc b c"
  shows "0 \<le> lc a c"
proof -
  have flip: "lc y x \<le> 0 \<longleftrightarrow> 0 \<le> lc x y" for x y
    by (rule sgn_flip) (use assms(1) in \<open>unfold collation_def, blast\<close>)
  have "lc c b \<le> 0" "lc b a \<le> 0" using assms(2,3) flip by blast+
  then have "lc c a \<le> 0" using assms(1) unfolding collation_def by blast
  then show ?thesis using flip by blast
qed

definition by_length :: "string \<Rightarrow> string \<Rightarrow> int" where
  \<comment> \<open>a concrete collation: by length\<close>
  "by_length a b = sgn (int (length a) - int (length b))"

lemma collation_by_length: "collation by_length"
  by (auto simp: collation_def by_length_def sgn_if)

end
