(* ===== verification/Users_State.thy ===== *)
theory Users_State
  imports Api_Facts Format Js_Sort
begin

text \<open>
  The state of components/UserManagement.tsx and the parts of it that send nothing: the lookups of
  inbounds by tag and by type, the validity of the form, the filtered and sorted table, the sort
  buttons, the selection, the fields of the forms, the status of a row. The page's handlers are in
  \<open>Users\<close>. \<open>localeCompare\<close> (the collation of the browser's locale) is a parameter.
\<close>

section \<open>State\<close>

datatype modal_type = MCreate | MBulk | MQr | MUsage | MDeleteConfirm | MSelectInbounds

record modal_state =
  m_type :: "modal_type option"
  m_data :: "user_status option"

datatype sort_key = ByUser | ByQuota | ByUsage | ByStatus | ByLastSeen

record inbound_row =
  row_tag :: string
  row_flow :: string

record bulk_config =
  bk_prefix :: string
  bk_count :: jsnum
  bk_start_index :: jsnum
  bk_mode :: string
  bk_suffix :: string
  bk_flow :: string
  bk_quota_limit :: jsnum
  bk_quota_period :: string
  bk_reset_day :: jsnum
  bk_inbound_tag :: string

record users_state = browser +
  users :: "user_status list"
  selectedUsers :: "string list"
  inbounds :: "json list"
  userType :: string
  singboxPendingChanges :: bool
  modalState :: modal_state
  selectedInboundsToRemove :: "string list"
  isEditing :: bool
  sortKey :: sort_key
  sortDir :: sort_dir
  originalName :: string
  filterInbound :: string
  usageStart :: string
  usageEnd :: string
  usageLimitGb :: string
  usageData :: "json list"
  loadingUsage :: bool
  newUser :: create_user_request
  quotaInput :: string
  inboundRows :: "inbound_row list"
  originalInboundTags :: "string list"
  bulkConfig :: bulk_config
  bulkQuotaInput :: string
  copied :: bool
  selectedQrInbound :: string
  qrLink :: string
  qrLoading :: bool
  qrError :: string
  qrLinkCache :: "(string \<times> string option) list"
  random_draws :: "nat \<Rightarrow> string"
  uuid_draws :: "nat \<Rightarrow> string"
  draws_used :: nat
  uuids_used :: nat

text \<open>
  The last four fields are the random sources of the page: the strings \<open>Math.random().toString(36)\<close>
  and \<open>uuidv4()\<close> (package \<open>uuid\<close>) yield, in order, and how many have been drawn.
\<close>

definition modal_closed :: modal_state where
  "modal_closed = \<lparr>m_type = None, m_data = None\<rparr>"

definition modal_of :: "modal_type \<Rightarrow> modal_state" where
  "modal_of t = \<lparr>m_type = Some t, m_data = None\<rparr>"

definition vision :: string where
  "vision = ''xtls-rprx-vision''"

definition supportedUserTypes :: "string list" where
  "supportedUserTypes = [''vless'', ''vmess'', ''trojan'']"

definition empty_user :: "bool option \<Rightarrow> string \<Rightarrow> create_user_request" where
  "empty_user en tag =
     \<lparr>cr_name = [], cr_original_name = None, cr_uuid = [], cr_flow = vision,
      cr_vmess_security = Some ''auto'', cr_vmess_alter_id = Some 0, cr_quota_limit = Fin 0,
      cr_quota_period = ''monthly'', cr_reset_day = Fin 1, cr_enabled = en, cr_inbound_tag = Some tag\<rparr>"

section \<open>Inbounds\<close>

definition inb_type :: "json \<Rightarrow> string" where
  \<comment> \<open>\<open>String(inb.type || '').toLowerCase()\<close>\<close>
  "inb_type inb = to_lower (str_of (jget ''type'' inb))"

definition inb_tag :: "json \<Rightarrow> string" where
  "inb_tag inb = str_of (jget ''tag'' inb)"

text \<open>\<open>new Map\<close> keeps the last entry of a key.\<close>

definition inboundTypeByTag :: "users_state \<Rightarrow> string \<Rightarrow> string option" where
  "inboundTypeByTag s = map_of (rev (map (\<lambda>inb. (inb_tag inb, inb_type inb)) (inbounds s)))"

definition getInboundType :: "users_state \<Rightarrow> string \<Rightarrow> string option" where
  "getInboundType s tag = inboundTypeByTag s tag"

definition getFirstInboundTagForType :: "users_state \<Rightarrow> string \<Rightarrow> string" where
  "getFirstInboundTagForType s ty =
     (case find (\<lambda>inb. inb_type inb = ty) (inbounds s) of
        Some inb \<Rightarrow> inb_tag inb
      | None \<Rightarrow> [])"

definition getDefaultUserType :: "users_state \<Rightarrow> string" where
  "getDefaultUserType s =
     (case find (\<lambda>ty. getFirstInboundTagForType s ty \<noteq> []) supportedUserTypes of
        Some ty \<Rightarrow> ty
      | None \<Rightarrow> hd supportedUserTypes)"

section \<open>Validity of the form\<close>

definition form_tags :: "users_state \<Rightarrow> string list" where
  "form_tags s = filter (\<lambda>t. t \<noteq> []) (map (\<lambda>row. trim (row_tag row)) (inboundRows s))"

definition hasEmptyInbound :: "users_state \<Rightarrow> bool" where
  "hasEmptyInbound s = list_ex (\<lambda>row. trim (row_tag row) = []) (inboundRows s)"

definition hasDuplicateInbound :: "users_state \<Rightarrow> bool" where
  "hasDuplicateInbound s = (length (js_set (form_tags s)) \<noteq> length (form_tags s))"

definition inboundTypeMismatch :: "users_state \<Rightarrow> bool" where
  "inboundTypeMismatch s =
     list_ex (\<lambda>row. str_truthy (getInboundType s (row_tag row)) \<and>
                    getInboundType s (row_tag row) \<noteq> Some (userType s)) (inboundRows s)"

definition unsupportedUserType :: "users_state \<Rightarrow> bool" where
  "unsupportedUserType s = (userType s \<notin> set supportedUserTypes)"

definition hasTypeInbounds :: "users_state \<Rightarrow> bool" where
  "hasTypeInbounds s = list_ex (\<lambda>inb. inb_type inb = userType s) (inbounds s)"

definition inboundValid :: "users_state \<Rightarrow> bool" where
  "inboundValid s =
     (0 < length (inboundRows s) \<and> \<not> hasEmptyInbound s \<and> \<not> hasDuplicateInbound s \<and>
      \<not> inboundTypeMismatch s \<and> \<not> unsupportedUserType s \<and> hasTypeInbounds s)"

section \<open>The sorted table\<close>

definition exceeded :: "user_status \<Rightarrow> bool" where
  "exceeded u = (us_quota_limit u \<noteq> 0 \<and> us_quota_limit u < us_total u)"

definition quota_ratio :: "user_status \<Rightarrow> rat" where
  "quota_ratio u = (if us_quota_limit u \<noteq> 0 then of_int (us_total u) / of_int (us_quota_limit u) else 0)"

definition compare_users ::
  "(string \<Rightarrow> string \<Rightarrow> int) \<Rightarrow> sort_key \<Rightarrow> sort_dir \<Rightarrow> user_status \<Rightarrow> user_status \<Rightarrow> rat" where
  "compare_users localeCompare key d a b =
     (case key of
        ByQuota \<Rightarrow>
          (if \<bar>quota_ratio a - quota_ratio b\<bar> < 1 / 10000
           then of_int (us_total a - us_total b) * dir_sign d
           else (quota_ratio a - quota_ratio b) * dir_sign d)
      | ByUsage \<Rightarrow> of_int (us_total a - us_total b) * dir_sign d
      | ByStatus \<Rightarrow> (if exceeded a then 1 else 0 - (if exceeded b then 1 else 0)) * dir_sign d
      | ByLastSeen \<Rightarrow> of_int (nullish (us_last_seen a) 0 - nullish (us_last_seen b) 0) * dir_sign d
      | ByUser \<Rightarrow> of_int (localeCompare (us_name a) (us_name b)) * dir_sign d)"

definition in_filter :: "string \<Rightarrow> user_status \<Rightarrow> bool" where
  "in_filter flt u \<longleftrightarrow>
     (flt = [] \<or> (case us_inbound_tags u of Some tags \<Rightarrow> flt \<in> set tags | None \<Rightarrow> False) \<or>
      (us_inbound_tags u = None \<and> flt = []))"

definition sortedUsers :: "(string \<Rightarrow> string \<Rightarrow> int) \<Rightarrow> users_state \<Rightarrow> user_status list" where
  "sortedUsers localeCompare s =
     js_sort (compare_users localeCompare (sortKey s) (sortDir s))
       (filter (in_filter (filterInbound s)) (users s))"

definition toggleSort :: "sort_key \<Rightarrow> users_state \<Rightarrow> users_state" where
  "toggleSort key s =
     (if sortKey s = key then s\<lparr>sortDir := (if sortDir s = Asc then Desc else Asc)\<rparr>
      else s\<lparr>sortKey := key,
             sortDir := (if key \<in> {ByQuota, ByUsage, ByLastSeen, ByStatus} then Desc else Asc)\<rparr>)"

text \<open>The columns with a sort button, and the key each button sorts by.\<close>

definition sort_buttons :: "(string \<times> sort_key) list" where
  "sort_buttons =
     [(''Last Seen'', ByStatus), (''Name/Alias'', ByUser), (''Quota'', ByQuota), (''Data Usage'', ByUsage)]"

section \<open>Selection\<close>

definition handleSelectAll :: "bool \<Rightarrow> users_state \<Rightarrow> users_state" where
  "handleSelectAll ticked s =
     (if ticked then s\<lparr>selectedUsers := js_set (map us_name (users s))\<rparr> else s\<lparr>selectedUsers := []\<rparr>)"

definition handleSelectUser :: "string \<Rightarrow> users_state \<Rightarrow> users_state" where
  "handleSelectUser name s =
     (let newSelected = selectedUsers s
      in s\<lparr>selectedUsers :=
             (if name \<in> set newSelected then set_delete name newSelected else set_add name newSelected)\<rparr>)"

text \<open>The pruning of \<open>fetchUsers\<close>: a selected user that is not in the new list is dropped.\<close>

definition setFetchedUsers :: "user_status list \<Rightarrow> users_state \<Rightarrow> users_state" where
  "setFetchedUsers data s =
     s\<lparr>users := data,
       selectedUsers :=
         fold (\<lambda>name next. if name \<in> set (map us_name data) then set_add name next else next)
           (selectedUsers s) []\<rparr>"

section \<open>Form fields\<close>

definition openCreate :: "users_state \<Rightarrow> users_state" where
  "openCreate s =
     (let nextType = getDefaultUserType s
      in s\<lparr>isEditing := False, userType := nextType,
           inboundRows := [\<lparr>row_tag = getFirstInboundTagForType s nextType,
                            row_flow = (if nextType = ''vless'' then vision else [])\<rparr>],
           originalInboundTags := [],
           newUser := empty_user (Some True) (getFirstInboundTagForType s (getDefaultUserType s)),
           quotaInput := [], modalState := modal_of MCreate\<rparr>)"

definition changeUserType :: "string \<Rightarrow> users_state \<Rightarrow> users_state" where
  "changeUserType nextType s =
     s\<lparr>userType := nextType,
       inboundRows := [\<lparr>row_tag = getFirstInboundTagForType s nextType,
                        row_flow = (if nextType = ''vless'' then vision else [])\<rparr>]\<rparr>"

definition changeRowTag :: "nat \<Rightarrow> string \<Rightarrow> users_state \<Rightarrow> users_state" where
  "changeRowTag idx v s =
     s\<lparr>inboundRows := update_at idx (\<lambda>r. r\<lparr>row_tag := v\<rparr>) (inboundRows s)\<rparr>"

definition changeRowFlow :: "nat \<Rightarrow> string \<Rightarrow> users_state \<Rightarrow> users_state" where
  "changeRowFlow idx v s =
     s\<lparr>inboundRows := update_at idx (\<lambda>r. r\<lparr>row_flow := v\<rparr>) (inboundRows s)\<rparr>"

definition removeRow :: "nat \<Rightarrow> users_state \<Rightarrow> users_state" where
  "removeRow idx s =
     (if length (inboundRows s) = 1 then s else s\<lparr>inboundRows := remove_at idx (inboundRows s)\<rparr>)"

definition addRow :: "users_state \<Rightarrow> users_state" where
  "addRow s =
     s\<lparr>inboundRows := inboundRows s @
         [\<lparr>row_tag = [], row_flow = (if userType s = ''vless'' then vision else [])\<rparr>]\<rparr>"

definition setNewUser :: "(create_user_request \<Rightarrow> create_user_request) \<Rightarrow> users_state \<Rightarrow> users_state" where
  "setNewUser f s = s\<lparr>newUser := f (newUser s)\<rparr>"

definition changeQuota :: "string \<Rightarrow> users_state \<Rightarrow> users_state" where
  "changeQuota v s = s\<lparr>quotaInput := v, newUser := (newUser s)\<lparr>cr_quota_limit := parseGbToBytes v\<rparr>\<rparr>"

definition changeResetDay :: "string \<Rightarrow> users_state \<Rightarrow> users_state" where
  "changeResetDay v = setNewUser (\<lambda>u. u\<lparr>cr_reset_day := num_of_parse (parse_int v)\<rparr>)"

definition changeBulkCount :: "string \<Rightarrow> users_state \<Rightarrow> users_state" where
  "changeBulkCount v s = s\<lparr>bulkConfig := (bulkConfig s)\<lparr>bk_count := num_of_parse (parse_int v)\<rparr>\<rparr>"

definition changeBulkQuota :: "string \<Rightarrow> users_state \<Rightarrow> users_state" where
  "changeBulkQuota v s =
     s\<lparr>bulkQuotaInput := v, bulkConfig := (bulkConfig s)\<lparr>bk_quota_limit := parseGbToBytes v\<rparr>\<rparr>"

definition toggleInboundToRemove :: "string \<Rightarrow> bool \<Rightarrow> users_state \<Rightarrow> users_state" where
  "toggleInboundToRemove tag ticked s =
     (let newSet = selectedInboundsToRemove s
      in s\<lparr>selectedInboundsToRemove := (if ticked then set_add tag newSet else set_delete tag newSet)\<rparr>)"

definition cancelInboundSelection :: "users_state \<Rightarrow> users_state" where
  "cancelInboundSelection s = s\<lparr>modalState := modal_closed, selectedInboundsToRemove := []\<rparr>"

section \<open>Status of a row\<close>

text \<open>The colour, the text and the online mark of a row; \<open>now\<close> is \<open>Date.now()\<close>.\<close>

definition row_status :: "int \<Rightarrow> user_status \<Rightarrow> string \<times> string \<times> bool" where
  "row_status now user =
     (let (col, txt, online) =
        (if us_enabled user = Some True then
           (case us_last_seen user of
              Some t \<Rightarrow>
                if t \<noteq> 0 then
                  (let diff = now div 1000 - t
                   in if diff < 300 then (''bg-emerald-500'', formatTimeAgo now t, True)
                      else (''bg-slate-700'', formatTimeAgo now t, False))
                else (''bg-slate-700'', ''Never'', False)
            | None \<Rightarrow> (''bg-slate-700'', ''Never'', False))
         else (''bg-red-500'', ''Disabled'', False))
      in if exceeded user then (''bg-amber-500'', ''Exceeded'', online) else (col, txt, online))"

end
