(* ===== verification/Users_Table.thy ===== *)
theory Users_Table
  imports Users_State
begin

text \<open>
  The table of users: what the sort guarantees under a consistent comparator, which of the page's sort
  keys have one, and the validity of the form.
\<close>

section \<open>The consistent keys\<close>

interpretation by_usage: comparator "compare_users localeCompare ByUsage d" for localeCompare d
proof
  fix x y z
  show "sgn (compare_users localeCompare ByUsage d y x) = - sgn (compare_users localeCompare ByUsage d x y)"
    unfolding compare_users_def of_int_diff sort_key.case by (rule sgn_swap_diff)
  show "compare_users localeCompare ByUsage d x y \<le> 0 \<Longrightarrow>
      compare_users localeCompare ByUsage d y z \<le> 0 \<Longrightarrow>
      compare_users localeCompare ByUsage d x z \<le> 0"
    using dir_sign_cases [of d] by (auto simp: compare_users_def)
qed

interpretation by_last_seen: comparator "compare_users localeCompare ByLastSeen d" for localeCompare d
proof
  fix x y z
  show "sgn (compare_users localeCompare ByLastSeen d y x) = - sgn (compare_users localeCompare ByLastSeen d x y)"
    unfolding compare_users_def of_int_diff sort_key.case by (rule sgn_swap_diff)
  show "compare_users localeCompare ByLastSeen d x y \<le> 0 \<Longrightarrow>
      compare_users localeCompare ByLastSeen d y z \<le> 0 \<Longrightarrow>
      compare_users localeCompare ByLastSeen d x z \<le> 0"
    using dir_sign_cases [of d] by (auto simp: compare_users_def)
qed

lemma by_name:
  assumes lc: "collation lc"
  shows "comparator (compare_users lc ByUser d)"
proof
  fix x y z :: user_status
  have "sgn (lc (us_name y) (us_name x)) = - sgn (lc (us_name x) (us_name y))"
    using lc unfolding collation_def by blast
  then have "sgn (of_int (lc (us_name y) (us_name x)) :: rat) = - sgn (of_int (lc (us_name x) (us_name y)))"
    by (simp only: sgn_of_int_rat of_int_minus)
  then show "sgn (compare_users lc ByUser d y x) = - sgn (compare_users lc ByUser d x y)"
    by (simp only: compare_users_def sort_key.case sgn_mult mult_minus_left)
  have le: "lc (us_name x) (us_name y) \<le> 0 \<Longrightarrow> lc (us_name y) (us_name z) \<le> 0 \<Longrightarrow>
      lc (us_name x) (us_name z) \<le> 0"
    using lc unfolding collation_def by blast
  have ge: "0 \<le> lc (us_name x) (us_name y) \<Longrightarrow> 0 \<le> lc (us_name y) (us_name z) \<Longrightarrow>
      0 \<le> lc (us_name x) (us_name z)"
    by (rule collation_sym_trans [OF lc])
  show "compare_users lc ByUser d x y \<le> 0 \<Longrightarrow> compare_users lc ByUser d y z \<le> 0 \<Longrightarrow>
      compare_users lc ByUser d x z \<le> 0"
    using le ge by (cases d) (simp_all add: compare_users_def)
qed

section \<open>Properties\<close>

text \<open>C17: sorted by name, usage or last activity, the table holds exactly the users of the chosen
  inbound, in the chosen order and direction, and users that compare equal keep the order in which
  the server listed them.\<close>

theorem sortedUsers_correct:
  assumes "collation localeCompare" and "sortKey s \<in> {ByUser, ByUsage, ByLastSeen}"
  shows "let cmp = compare_users localeCompare (sortKey s) (sortDir s);
             shown = filter (in_filter (filterInbound s)) (users s);
             sorted_list = sortedUsers localeCompare s
         in mset sorted_list = mset shown \<and> sorted_wrt (\<lambda>a b. cmp a b \<le> 0) sorted_list \<and>
            (\<forall>u. filter (\<lambda>v. cmp u v = 0) sorted_list = filter (\<lambda>v. cmp u v = 0) shown)"
proof -
  have "comparator (compare_users localeCompare (sortKey s) (sortDir s))"
    using assms by_name by_usage.comparator_axioms by_last_seen.comparator_axioms by auto
  then show ?thesis
    unfolding Let_def sortedUsers_def by (rule comparator.js_sort_correct)
qed

definition sample_user :: "string \<Rightarrow> int \<Rightarrow> int \<Rightarrow> user_status" where
  "sample_user name used quota =
     \<lparr>us_name = name, us_uuid = None, us_flow = None, us_vmess_security = None,
      us_vmess_alter_id = None, us_uplink = 0, us_downlink = used, us_total = used,
      us_quota_limit = quota, us_quota_period = ''monthly'', us_reset_day = 1, us_enabled = Some True,
      us_last_seen = None, us_inbound_tags = None\<rparr>"

text \<open>The other two keys have no consistent order. By status, each of two exceeded users comes
  after the other; by quota, the tolerance on the ratios makes three users precede each other in a
  circle.\<close>

theorem inconsistent_sort_keys:
  "(\<exists>a b. compare_users lc ByStatus Asc a b = 1 \<and> compare_users lc ByStatus Asc b a = 1) \<and>
   (\<exists>a b c. 0 < compare_users lc ByQuota Asc a b \<and> 0 < compare_users lc ByQuota Asc b c \<and>
            0 < compare_users lc ByQuota Asc c a)"
proof
  show "\<exists>a b. compare_users lc ByStatus Asc a b = 1 \<and> compare_users lc ByStatus Asc b a = 1"
    by (intro exI [of _ "sample_user ''a'' 2 1"] exI [of _ "sample_user ''b'' 2 1"])
      (simp add: compare_users_def exceeded_def sample_user_def)
  show "\<exists>a b c. 0 < compare_users lc ByQuota Asc a b \<and> 0 < compare_users lc ByQuota Asc b c \<and>
            0 < compare_users lc ByQuota Asc c a"
    by (intro exI [of _ "sample_user ''a'' 300000 3000000"] exI [of _ "sample_user ''b'' 200120 2000000"]
        exI [of _ "sample_user ''c'' 100120 1000000"])
      (simp add: compare_users_def quota_ratio_def sample_user_def)
qed

text \<open>Pressing a sort button twice turns the direction round and keeps the key; no button sorts
  by last activity, the button of that column sorts by status.\<close>

theorem toggleSort_buttons:
  "(\<forall>key. sortKey (toggleSort key s) = key \<and>
      sortKey (toggleSort key (toggleSort key s)) = key \<and>
      sortDir (toggleSort key (toggleSort key s)) \<noteq> sortDir (toggleSort key s)) \<and>
   ByLastSeen \<notin> snd ` set sort_buttons \<and> map_of sort_buttons ''Last Seen'' = Some ByStatus"
  by (simp add: toggleSort_def sort_buttons_def)

section \<open>Witnesses\<close>

definition sample_users_state :: users_state where
  "sample_users_state = browser.extend sample_browser
     \<lparr>users = [sample_user ''bob'' 5 0, sample_user ''al'' 7 0], selectedUsers = [], inbounds = [],
      userType = ''vless'', singboxPendingChanges = False, modalState = modal_closed,
      selectedInboundsToRemove = [], isEditing = False, sortKey = ByUser, sortDir = Asc,
      originalName = [], filterInbound = [], usageStart = [], usageEnd = [], usageLimitGb = ''0'',
      usageData = [], loadingUsage = False, newUser = empty_user None [], quotaInput = [],
      inboundRows = [], originalInboundTags = [],
      bulkConfig = \<lparr>bk_prefix = ''user'', bk_count = Fin 1, bk_start_index = Fin 1,
        bk_mode = ''sequential'', bk_suffix = [], bk_flow = vision, bk_quota_limit = Fin 0,
        bk_quota_period = ''monthly'', bk_reset_day = Fin 1, bk_inbound_tag = []\<rparr>,
      bulkQuotaInput = [], copied = False, selectedQrInbound = [], qrLink = [], qrLoading = False,
      qrError = [], qrLinkCache = [], random_draws = show_nat, uuid_draws = show_nat, draws_used = 0,
      uuids_used = 0\<rparr>"

theorem sortedUsers_correct_witness:
  "mset (sortedUsers by_length sample_users_state) = mset (users sample_users_state) \<and>
   map us_name (sortedUsers by_length sample_users_state) = [''al'', ''bob'']"
proof
  show "mset (sortedUsers by_length sample_users_state) = mset (users sample_users_state)"
    using sortedUsers_correct [OF collation_by_length, of sample_users_state]
    by (simp add: Let_def sample_users_state_def browser.defs in_filter_def)
  show "map us_name (sortedUsers by_length sample_users_state) = [''al'', ''bob'']"
    by (simp add: sortedUsers_def sample_users_state_def browser.defs in_filter_def js_sort_def
        compare_users_def by_length_def sample_user_def)
qed

end
