(* ===== verification/Api_Plan.thy ===== *)
theory Api_Plan
  imports Api_Facts
begin

text \<open>
  Sequences of requests. Many handlers send several requests, one after the other, and stop at the
  first that fails. \<open>performs p s qs\<close> says so of a handler: from state \<open>s\<close> it sends the requests \<open>qs\<close> in
  order as long as they are accepted; at the first that is not it throws, with nothing sent after it,
  and the state is as before, but for the session that a 401 ends.
\<close>

definition ok_answer :: "fetch_result \<Rightarrow> bool" where
  "ok_answer r = (case r of Answered rs \<Rightarrow> res_ok rs | Rejected _ \<Rightarrow> False)"

lemma ok_answer_simps [simp]: "ok_answer (Answered rs) = res_ok rs" "\<not> ok_answer (Rejected e)"
  by (simp_all add: ok_answer_def)

type_synonym answers = "http_request list \<Rightarrow> http_request \<Rightarrow> fetch_result"

primrec accepted :: "answers \<Rightarrow> http_request list \<Rightarrow> http_request list \<Rightarrow> bool" where
  "accepted answer log [] = True"
| "accepted answer log (q # qs) = (ok_answer (answer log q) \<and> accepted answer (log @ [q]) qs)"

lemma accepted_append:
  "accepted answer log (qs @ rs) \<longleftrightarrow> accepted answer log qs \<and> accepted answer (log @ qs) rs"
  by (induction qs arbitrary: log) auto

lemma accepted_take: "accepted answer log qs \<Longrightarrow> accepted answer log (take k qs)"
  by (metis accepted_append append_take_drop_id)

definition failed_at ::
  "answers \<Rightarrow> http_request list \<Rightarrow> http_request list \<Rightarrow> nat \<Rightarrow> bool" where
  "failed_at answer log qs k \<longleftrightarrow> k < length qs \<and> accepted answer log (take k qs) \<and>
     \<not> ok_answer (answer (log @ take k qs) (qs ! k))"

lemma failed_at_append1: "failed_at answer log qs k \<Longrightarrow> failed_at answer log (qs @ rs) k"
  by (auto simp: failed_at_def nth_append)

lemma failed_at_append2:
  "accepted answer log qs \<Longrightarrow> failed_at answer (log @ qs) rs k \<Longrightarrow>
     failed_at answer log (qs @ rs) (length qs + k)"
  by (auto simp: failed_at_def accepted_append)

definition performs ::
  "(http_request, fetch_result, 'b browser_scheme, unit) io \<Rightarrow> 'b browser_scheme \<Rightarrow> http_request list \<Rightarrow> bool" where
  "performs p s qs \<longleftrightarrow> (\<forall>answer log.
     (accepted answer log qs \<longrightarrow> run p (logging answer) s log = (Inr (), s, log @ qs)) \<and>
     (\<not> accepted answer log qs \<longrightarrow> (\<exists>k e t. failed_at answer log qs k \<and> t \<in> {s, logout s} \<and>
        run p (logging answer) s log = (Inl e, t, log @ take (Suc k) qs))))"

lemma performs_ok:
  "performs p s qs \<Longrightarrow> accepted answer log qs \<Longrightarrow> run p (logging answer) s log = (Inr (), s, log @ qs)"
  by (simp add: performs_def)

lemma performs_fail:
  assumes "performs p s qs" and "\<not> accepted answer log qs"
  obtains k e t where "failed_at answer log qs k" "t \<in> {s, logout s}"
    "run p (logging answer) s log = (Inl e, t, log @ take (Suc k) qs)"
  using assms unfolding performs_def by blast

lemma performs_skip: "performs skip s []"
  by (simp add: performs_def run_simps)

lemma performs_void: "performs (call_void meth url ct bdy msg) s [request meth url ct bdy s]"
  unfolding performs_def
proof (intro allI conjI impI)
  fix answer log
  let ?q = "request meth url ct bdy s"
  assume "accepted answer log [?q]"
  then show "run (call_void meth url ct bdy msg) (logging answer) s log = (Inr (), s, log @ [?q])"
    by (cases "answer log ?q") (auto simp: run_simps)
next
  fix answer log
  let ?q = "request meth url ct bdy s"
  assume "\<not> accepted answer log [?q]"
  then show "\<exists>k e t. failed_at answer log [?q] k \<and> t \<in> {s, logout s} \<and>
      run (call_void meth url ct bdy msg) (logging answer) s log = (Inl e, t, log @ take (Suc k) [?q])"
    by (cases "answer log ?q")
      (auto simp: run_simps failed_at_def Api_Facts.checked_def)
qed

lemma performs_seq:
  assumes p: "performs p s qs" and p': "performs p' s rs"
  shows "performs (seq p p') s (qs @ rs)"
  unfolding performs_def
proof (intro allI conjI impI)
  fix answer log
  assume "accepted answer log (qs @ rs)"
  then show "run (seq p p') (logging answer) s log = (Inr (), s, log @ qs @ rs)"
    using p p' by (simp add: performs_def run_simps accepted_append)
next
  fix answer log
  assume na: "\<not> accepted answer log (qs @ rs)"
  show "\<exists>k e t. failed_at answer log (qs @ rs) k \<and> t \<in> {s, logout s} \<and>
      run (seq p p') (logging answer) s log = (Inl e, t, log @ take (Suc k) (qs @ rs))"
  proof (cases "accepted answer log qs")
    case True
    with na have "\<not> accepted answer (log @ qs) rs" by (simp add: accepted_append)
    with p' obtain k e t where k: "failed_at answer (log @ qs) rs k" "t \<in> {s, logout s}"
      and r: "run p' (logging answer) s (log @ qs) = (Inl e, t, (log @ qs) @ take (Suc k) rs)"
      by (rule performs_fail)
    have "failed_at answer log (qs @ rs) (length qs + k)"
      using True k(1) by (rule failed_at_append2)
    moreover have "run (seq p p') (logging answer) s log
        = (Inl e, t, log @ take (Suc (length qs + k)) (qs @ rs))"
      using performs_ok [OF p True] r by (simp add: run_simps)
    ultimately show ?thesis using k(2) by blast
  next
    case False
    with p obtain k e t where k: "failed_at answer log qs k" "t \<in> {s, logout s}"
      and r: "run p (logging answer) s log = (Inl e, t, log @ take (Suc k) qs)"
      by (rule performs_fail)
    have "failed_at answer log (qs @ rs) k" using k(1) by (rule failed_at_append1)
    moreover have "run (seq p p') (logging answer) s log = (Inl e, t, log @ take (Suc k) (qs @ rs))"
      using r k(1) by (simp add: run_simps failed_at_def)
    ultimately show ?thesis using k(2) by blast
  qed
qed

lemma performs_for_each:
  "(\<And>x. x \<in> set xs \<Longrightarrow> performs (f x) s (g x)) \<Longrightarrow> performs (for_each xs f) s (concat (map g xs))"
  by (induction xs) (auto intro: performs_skip performs_seq)

lemma performs_for_each1:
  "(\<And>x. x \<in> set xs \<Longrightarrow> performs (f x) s [g x]) \<Longrightarrow> performs (for_each xs f) s (map g xs)"
  using performs_for_each [of xs f s "\<lambda>x. [g x]"] by simp

lemma performs_if:
  "(b \<Longrightarrow> performs p s qs) \<Longrightarrow> (\<not> b \<Longrightarrow> performs p' s rs) \<Longrightarrow>
     performs (if b then p else p') s (if b then qs else rs)"
  by simp

section \<open>Calls under a contract on the requests\<close>

lemma guarded_void_sends:
  "logout_closed I \<Longrightarrow> I s \<Longrightarrow> (\<And>t. I t \<Longrightarrow> Q t (request meth url ct bdy t)) \<Longrightarrow>
     guarded I Q (call_void meth url ct bdy msg) s"
  unfolding call_void_def logout_closed_def by (intro guard_intros) auto

lemma guarded_json_sends:
  "logout_closed I \<Longrightarrow> I s \<Longrightarrow> (\<And>t. I t \<Longrightarrow> Q t (request meth url ct bdy t)) \<Longrightarrow>
     guarded I Q (call_json meth url ct bdy msg decode) s"
  unfolding call_json_def logout_closed_def by (intro guard_intros) (auto split: option.splits)

lemma guarded_text_sends:
  "logout_closed I \<Longrightarrow> I s \<Longrightarrow> (\<And>t. I t \<Longrightarrow> Q t (request meth url ct bdy t)) \<Longrightarrow>
     guarded I Q (call_text meth url ct bdy msg) s"
  unfolding call_text_def logout_closed_def by (intro guard_intros) auto

lemma authorised_request: "authorised s (request meth url ct bdy s)"
  by (simp add: authorised_def authorised_buildHeaders)

end
