(* ===== verification/Users.thy ===== *)
theory Users
  imports Users_Table Api_Plan
begin

text \<open>
  The handlers of components/UserManagement.tsx: loading, the usage report, deleting, editing, saving,
  bulk creation, links. A handler takes the state \<open>c\<close> of the render that created it (what its closure
  captured) and acts on the state of the page at the time it runs. The answer of \<open>confirm\<close>, whether
  the clipboard accepts a text and \<open>new Date(text).getTime()\<close> are parameters.
\<close>

type_synonym 'a users_io = "(http_request, fetch_result, users_state, 'a) io"

abbreviation success :: "string \<Rightarrow> unit users_io" where
  "success msg \<equiv> modify (toast_success msg)"

abbreviation toastError :: "string \<Rightarrow> unit users_io" where
  "toastError msg \<equiv> modify (toast_error msg)"

definition uuidv4 :: "string users_io" where
  "uuidv4 = Get (\<lambda>s. Put (s\<lparr>uuids_used := Suc (uuids_used s)\<rparr>) (Return (uuid_draws s (uuids_used s))))"

definition random_base36 :: "string users_io" where
  "random_base36 =
     Get (\<lambda>s. Put (s\<lparr>draws_used := Suc (draws_used s)\<rparr>) (Return (random_draws s (draws_used s))))"

section \<open>Loading\<close>

definition fetchUsers :: "unit users_io" where
  "fetchUsers =
     try_catch (bind getUsers (\<lambda>data. modify (setFetchedUsers data)))
       (\<lambda>err. toastError (''Failed to fetch users: '' @ show_err err))"

text \<open>The page takes the inbounds to be an array, as the type \<open>any[]\<close> of the client function says.\<close>

definition fetchInbounds :: "unit users_io" where
  "fetchInbounds =
     try_catch
       (bind getSingboxInbounds (\<lambda>data.
          case data of JArr xs \<Rightarrow> modify (\<lambda>s. s\<lparr>inbounds := xs\<rparr>) | _ \<Rightarrow> Throw ill_typed))
       (\<lambda>err. toastError (''Failed to fetch inbounds: '' @ show_err err))"

definition pending_of :: "dashboard_data \<Rightarrow> bool" where
  "pending_of data = nullish (dd_singbox_pending_changes data) False"

text \<open>The same request on mounting and every ten seconds; an error is only logged.\<close>

definition fetchPending :: "unit users_io" where
  "fetchPending =
     try_catch
       (bind (getDashboardData ''24h'' None None)
         (\<lambda>data. modify (\<lambda>s. s\<lparr>singboxPendingChanges := pending_of data\<rparr>)))
       (\<lambda>_. skip)"

section \<open>The link dialog\<close>

text \<open>The effect that follows a change of \<open>modalState\<close>.\<close>

definition resetQr :: "users_state \<Rightarrow> users_state" where
  "resetQr s =
     (let s1 =
        (case (m_type (modalState s), m_data (modalState s)) of
           (Some MQr, Some user) \<Rightarrow>
             (case us_inbound_tags user of
                Some (tag # _) \<Rightarrow> s\<lparr>selectedQrInbound := tag, qrLink := [], qrError := [], qrLinkCache := []\<rparr>
              | _ \<Rightarrow> s)
         | _ \<Rightarrow> s)
      in if m_type (modalState s) \<noteq> Some MQr
         then s1\<lparr>selectedQrInbound := [], qrLink := [], qrError := [], qrLinkCache := []\<rparr> else s1)"

definition cache_link :: "string \<Rightarrow> string option \<Rightarrow> (string \<times> string option) list \<Rightarrow> (string \<times> string option) list" where
  "cache_link tag link cache = (tag, link) # filter (\<lambda>(t, _). t \<noteq> tag) cache"

text \<open>The effect that loads the link of the selected inbound.\<close>

definition loadQr :: "users_state \<Rightarrow> unit users_io" where
  "loadQr c =
     (case m_data (modalState c) of
        None \<Rightarrow> skip
      | Some user \<Rightarrow>
          if m_type (modalState c) \<noteq> Some MQr \<or> selectedQrInbound c = [] then skip
          else
            (case map_of (qrLinkCache c) (selectedQrInbound c) of
               Some (Some (ch # link)) \<Rightarrow> modify (\<lambda>s. s\<lparr>qrLink := ch # link, qrError := []\<rparr>)
             | _ \<Rightarrow>
                 seq (modify (\<lambda>s. s\<lparr>qrLoading := True, qrError := []\<rparr>))
                   (try_finally
                     (try_catch
                       (bind (getUserLink (us_name user) (selectedQrInbound c)) (\<lambda>link.
                          seq (modify (\<lambda>s. s\<lparr>qrLink := opt_str_or link []\<rparr>))
                              (modify (\<lambda>s. s\<lparr>qrLinkCache :=
                                  cache_link (selectedQrInbound c) link (qrLinkCache s)\<rparr>))))
                       (\<lambda>err. modify (\<lambda>s. s\<lparr>qrLink := [],
                           qrError := str_or (err_message err) ''Failed to load link''\<rparr>)))
                     (modify (\<lambda>s. s\<lparr>qrLoading := False\<rparr>)))))"

definition openQr :: "user_status \<Rightarrow> users_state \<Rightarrow> users_state" where
  "openQr user s = s\<lparr>modalState := \<lparr>m_type = Some MQr, m_data = Some user\<rparr>\<rparr>"

definition closeModal :: "users_state \<Rightarrow> users_state" where
  "closeModal s = s\<lparr>modalState := modal_closed\<rparr>"

section \<open>Usage report\<close>

definition date_string :: "(string \<Rightarrow> int option) \<Rightarrow> string \<Rightarrow> string" where
  \<comment> \<open>\<open>Math.floor(new Date(text).getTime() / 1000).toString()\<close>\<close>
  "date_string getTime text =
     (case getTime text of Some ms \<Rightarrow> show_int (ms div 1000) | None \<Rightarrow> ''NaN'')"

definition positive_num :: "jsnum \<Rightarrow> bool" where
  "positive_num n = (case n of Fin i \<Rightarrow> 0 < i | Infinity \<Rightarrow> True | NaN \<Rightarrow> False)"

definition fetchUsage :: "(string \<Rightarrow> int option) \<Rightarrow> users_state \<Rightarrow> unit users_io" where
  "fetchUsage getTime c =
     seq (modify (\<lambda>s. s\<lparr>loadingUsage := True\<rparr>))
       (try_finally
         (try_catch
           (let start = (if usageStart c \<noteq> [] then date_string getTime (usageStart c) else []);
                stop = (if usageEnd c \<noteq> [] then date_string getTime (usageEnd c) else []);
                limitBytes = parseGbToBytes (usageLimitGb c)
            in bind (getReportSummary (Some start) (Some stop)
                      (if positive_num limitBytes then Some limitBytes else None))
                 (\<lambda>data. modify (\<lambda>s. s\<lparr>usageData := (case data of JArr rows \<Rightarrow> rows | _ \<Rightarrow> [])\<rparr>)))
           (\<lambda>err. toastError (''Failed to fetch usage: '' @ show_err err)))
         (modify (\<lambda>s. s\<lparr>loadingUsage := False\<rparr>)))"

section \<open>Deleting\<close>

definition handleDeleteSelected :: "users_state \<Rightarrow> users_state" where
  "handleDeleteSelected s = s\<lparr>modalState := modal_of MDeleteConfirm\<rparr>"

definition in_many_inbounds :: "user_status \<Rightarrow> bool" where
  "in_many_inbounds u = (case us_inbound_tags u of Some tags \<Rightarrow> 1 < length tags | None \<Rightarrow> False)"

definition multiInboundUsers :: "users_state \<Rightarrow> string list" where
  "multiInboundUsers c =
     filter (\<lambda>name. case find (\<lambda>u. us_name u = name) (users c) of
                      Some user \<Rightarrow> in_many_inbounds user
                    | None \<Rightarrow> False)
       (selectedUsers c)"

text \<open>The loop counts its failures; each is caught, and the next user is tried.\<close>

fun delete_each :: "string list \<Rightarrow> nat \<Rightarrow> nat users_io" where
  "delete_each [] failed = Return failed"
| "delete_each (name # names) failed =
     bind (try_catch (seq (deleteUser name) (Return failed)) (\<lambda>_. Return (Suc failed)))
       (\<lambda>failed'. delete_each names failed')"

definition confirmDeleteSelected :: "users_state \<Rightarrow> unit users_io" where
  "confirmDeleteSelected c =
     (if 0 < length (multiInboundUsers c)
      then seq (modify (\<lambda>s. s\<lparr>modalState := modal_closed\<rparr>))
        (toastError (''User '' @ [CHR 0x22] @ hd (multiInboundUsers c) @ [CHR 0x22] @
           '' exists in multiple inbounds. Please delete manually.''))
      else
        seq (modify (\<lambda>s. s\<lparr>modalState := modal_closed\<rparr>))
          (bind (delete_each (selectedUsers c) 0) (\<lambda>failed.
             seq (if 0 < failed
                  then toastError (''Failed to delete '' @ show_nat failed @ '' users.'')
                  else success (''Deleted '' @ show_nat (length (selectedUsers c)) @ '' users successfully.''))
               (seq (modify (\<lambda>s. s\<lparr>selectedUsers := []\<rparr>)) fetchUsers))))"

definition tag_count :: "user_status \<Rightarrow> nat" where
  "tag_count user = (case us_inbound_tags user of Some tags \<Rightarrow> length tags | None \<Rightarrow> 0)"

definition handleRemoveFromSelectedInbounds :: "users_state \<Rightarrow> unit users_io" where
  "handleRemoveFromSelectedInbounds c =
     (case m_data (modalState c) of
        None \<Rightarrow> skip
      | Some user \<Rightarrow>
          (let inboundsToRemove = selectedInboundsToRemove c
           in seq (modify (\<lambda>s. s\<lparr>modalState := modal_closed, selectedInboundsToRemove := []\<rparr>))
                (try_catch
                  (seq
                    (if length inboundsToRemove = tag_count user
                     then seq (deleteUser (us_name user)) (success ''User deleted successfully'')
                     else seq (for_each inboundsToRemove (removeUserFromInbound (us_name user)))
                       (success (''User removed from '' @ show_nat (length inboundsToRemove) @ '' inbound(s)'')))
                    fetchUsers)
                  (\<lambda>err. toastError (''Failed to remove user: '' @ show_err err)))))"

text \<open>The delete button of a row of the table, and of a card of the narrow layout.\<close>

definition deleteRow :: "bool \<Rightarrow> user_status \<Rightarrow> unit users_io" where
  "deleteRow confirmed user =
     (if in_many_inbounds user
      then modify (\<lambda>s. s\<lparr>selectedInboundsToRemove := js_set (nullish (us_inbound_tags user) []),
                         modalState := \<lparr>m_type = Some MSelectInbounds, m_data = Some user\<rparr>\<rparr>)
      else if confirmed
      then try_catch (seq (deleteUser (us_name user)) (seq (success ''User deleted'') fetchUsers))
             (\<lambda>err. toastError (''Failed to delete: '' @ show_err err))
      else skip)"

definition deleteCard :: "bool \<Rightarrow> user_status \<Rightarrow> unit users_io" where
  "deleteCard confirmed user =
     (if confirmed
      then try_catch (seq (deleteUser (us_name user)) (seq (success ''User deleted'') fetchUsers))
             (\<lambda>e. toastError (show_err e))
      else skip)"

section \<open>Editing\<close>

definition detected_type :: "users_state \<Rightarrow> string list \<Rightarrow> string" where
  \<comment> \<open>the type of the first inbound that has one, or the default\<close>
  "detected_type c tags =
     (case filter (\<lambda>t. t \<noteq> []) (List.map_filter (getInboundType c) tags) of
        ty # _ \<Rightarrow> ty
      | [] \<Rightarrow> getDefaultUserType c)"

definition openEdit :: "users_state \<Rightarrow> user_status \<Rightarrow> users_state \<Rightarrow> users_state" where
  "openEdit c user s =
     (let inboundTags = nullish (us_inbound_tags user) [];
          nextType = detected_type c inboundTags
      in s\<lparr>userType := nextType,
           newUser := \<lparr>cr_name = us_name user, cr_original_name = None,
             cr_uuid = opt_str_or (us_uuid user) [], cr_flow = opt_str_or (us_flow user) [],
             cr_vmess_security = Some (opt_str_or (us_vmess_security user) ''auto''),
             cr_vmess_alter_id = Some (nullish (us_vmess_alter_id user) 0),
             cr_quota_limit = Fin (us_quota_limit user), cr_quota_period = us_quota_period user,
             cr_reset_day = Fin (us_reset_day user), cr_enabled = us_enabled user,
             cr_inbound_tag = Some (case inboundTags of t # _ \<Rightarrow> t | [] \<Rightarrow> [])\<rparr>,
           originalInboundTags := inboundTags,
           inboundRows :=
             (if inboundTags \<noteq> [] then map (\<lambda>tag. \<lparr>row_tag = tag, row_flow = []\<rparr>) inboundTags
              else [\<lparr>row_tag = getFirstInboundTagForType c nextType,
                     row_flow = (if nextType = ''vless'' then vision else [])\<rparr>]),
           quotaInput := bytesToGbString (Some (us_quota_limit user)),
           originalName := us_name user, isEditing := True, modalState := modal_of MCreate\<rparr>)"

text \<open>What arrives later from \<open>getUserInbounds\<close> goes into the form as it then is.\<close>

definition applyUserInbounds :: "string \<Rightarrow> user_inbound list \<Rightarrow> users_state \<Rightarrow> users_state" where
  "applyUserInbounds nextType entries s =
     (if entries = [] then s
      else
        (let s1 =
           (if nextType = ''vless''
            then s\<lparr>inboundRows := map (\<lambda>row.
                   case find (\<lambda>i. ui_tag i = row_tag row) entries of
                     None \<Rightarrow> row
                   | Some m \<Rightarrow> row\<lparr>row_flow := opt_str_or (ui_flow m) []\<rparr>) (inboundRows s)\<rparr>
            else s)
         in if nextType = ''vmess''
            then setNewUser (\<lambda>prev. prev\<lparr>
                   cr_vmess_security :=
                     Some (opt_str_or (ui_vmess_security (hd entries))
                            (opt_str_or (cr_vmess_security prev) ''auto'')),
                   cr_vmess_alter_id :=
                     Some (case ui_vmess_alter_id (hd entries) of
                             Some i \<Rightarrow> if i \<noteq> 0 then i else nullish (cr_vmess_alter_id prev) 0
                           | None \<Rightarrow> nullish (cr_vmess_alter_id prev) 0)\<rparr>) s1
            else s1))"

definition handleEditClick :: "users_state \<Rightarrow> user_status \<Rightarrow> unit users_io" where
  "handleEditClick c user =
     seq (modify (openEdit c user))
       (try_catch
         (bind (getUserInbounds (us_name user)) (\<lambda>entries.
            modify (applyUserInbounds (detected_type c (nullish (us_inbound_tags user) [])) entries)))
         (\<lambda>_. skip))"

section \<open>Saving\<close>

definition normalizedRows :: "users_state \<Rightarrow> inbound_row list" where
  "normalizedRows c =
     map (\<lambda>row. \<lparr>row_tag = trim (row_tag row),
                 row_flow = (if userType c = ''vless'' then row_flow row else [])\<rparr>) (inboundRows c)"

definition rows_invalid :: "inbound_row list \<Rightarrow> bool" where
  "rows_invalid rows =
     (length rows = 0 \<or> list_ex (\<lambda>row. row_tag row = []) rows \<or>
      length (js_set (map row_tag rows)) \<noteq> length (map row_tag rows))"

definition name_changed :: "users_state \<Rightarrow> bool" where
  "name_changed c = (originalName c \<noteq> [] \<and> originalName c \<noteq> cr_name (newUser c))"

definition vmess_security_of :: "users_state \<Rightarrow> string" where
  "vmess_security_of c = (if userType c = ''vmess'' then opt_str_or (cr_vmess_security (newUser c)) [] else [])"

definition vmess_alter_id_of :: "users_state \<Rightarrow> int" where
  "vmess_alter_id_of c = (if userType c = ''vmess'' then nullish (cr_vmess_alter_id (newUser c)) 0 else 0)"

definition row_flow_of :: "users_state \<Rightarrow> inbound_row \<Rightarrow> string" where
  "row_flow_of c row = (if userType c = ''vless'' then row_flow row else [])"

definition fill_uuid :: "string \<Rightarrow> string users_io" where
  \<comment> \<open>\<open>if (!payload.uuid) payload.uuid = uuidv4()\<close>\<close>
  "fill_uuid u = (if u = [] then uuidv4 else Return u)"

definition edit_payload :: "users_state \<Rightarrow> string \<Rightarrow> create_user_request" where
  "edit_payload c uuid =
     (newUser c)\<lparr>
       cr_uuid := uuid,
       cr_original_name := Some (str_or (originalName c) (cr_name (newUser c))),
       cr_inbound_tag := Some (row_tag (hd (normalizedRows c))),
       cr_flow := (if userType c = ''vless'' \<and> name_changed c \<and> length (normalizedRows c) = 1
                   then row_flow (hd (normalizedRows c)) else []),
       cr_vmess_security := Some (vmess_security_of c),
       cr_vmess_alter_id := Some (vmess_alter_id_of c)\<rparr>"

definition originalTags :: "users_state \<Rightarrow> string list" where
  "originalTags c =
     (if 0 < length (originalInboundTags c) then originalInboundTags c
      else (case m_data (modalState c) of
              Some user \<Rightarrow> nullish (us_inbound_tags user) []
            | None \<Rightarrow> []))"

definition row_credentials :: "users_state \<Rightarrow> string \<Rightarrow> inbound_row \<Rightarrow> inbound_credentials" where
  "row_credentials c uuid row =
     \<lparr>ic_uuid = uuid, ic_flow = Some (row_flow_of c row),
      ic_vmess_security = Some (vmess_security_of c), ic_vmess_alter_id = Some (vmess_alter_id_of c)\<rparr>"

definition row_user :: "users_state \<Rightarrow> string \<Rightarrow> inbound_row \<Rightarrow> create_user_request" where
  "row_user c uuid row =
     (newUser c)\<lparr>cr_uuid := uuid, cr_inbound_tag := Some (row_tag row), cr_flow := row_flow_of c row,
       cr_vmess_security := Some (vmess_security_of c), cr_vmess_alter_id := Some (vmess_alter_id_of c)\<rparr>"

text \<open>The rows of the form against the inbounds the user had: those that went are removed, those
  that stay are updated, the new ones are created.\<close>

definition sync_inbounds :: "users_state \<Rightarrow> string \<Rightarrow> unit users_io" where
  "sync_inbounds c uuid =
     seq (for_each (originalTags c) (\<lambda>tag.
            if tag \<notin> set (map row_tag (normalizedRows c))
            then removeUserFromInbound (cr_name (newUser c)) tag else skip))
         (for_each (normalizedRows c) (\<lambda>row.
            if row_tag row \<in> set (originalTags c)
            then updateUserInbound (cr_name (newUser c)) (row_tag row) (row_credentials c uuid row)
            else createUser (row_user c uuid row)))"

definition reset_form :: "users_state \<Rightarrow> users_state \<Rightarrow> users_state" where
  "reset_form c s =
     s\<lparr>modalState := modal_closed,
       newUser := empty_user None (getFirstInboundTagForType c (getDefaultUserType c)),
       quotaInput := [], originalName := [], isEditing := False, inboundRows := [],
       originalInboundTags := []\<rparr>"

definition handleSaveUser :: "users_state \<Rightarrow> unit users_io" where
  "handleSaveUser c =
     try_catch
       (if rows_invalid (normalizedRows c) then toastError ''Please fix inbound entries before saving''
        else if isEditing c \<and> name_changed c \<and> 1 < length (normalizedRows c)
        then toastError ''Renaming users with multiple inbounds is not supported yet''
        else
          seq
            (if isEditing c then
               bind (fill_uuid (cr_uuid (newUser c))) (\<lambda>uuid.
                 seq (updateUser (edit_payload c uuid))
                   (seq (if cr_enabled (newUser c) \<noteq> Some False \<and> \<not> name_changed c
                         then sync_inbounds c uuid else skip)
                     (success ''User updated successfully'')))
             else
               bind (fill_uuid (cr_uuid (newUser c))) (\<lambda>uuid.
                 seq (for_each (normalizedRows c) (\<lambda>row. createUser (row_user c uuid row)))
                   (success ''User created successfully'')))
            (seq (modify (reset_form c)) fetchUsers))
       (\<lambda>err. toastError (''Failed to save user: '' @ show_err err))"

section \<open>Bulk creation\<close>

text \<open>The number of rounds of \<open>for (let i = 0; i < count; i++)\<close>; a count that is no number gives none.
  \<open>parseInt\<close> never yields an infinite one.\<close>

definition rounds :: "jsnum \<Rightarrow> nat" where
  "rounds n = (case n of Fin i \<Rightarrow> nat i | _ \<Rightarrow> 0)"

fun num_plus :: "jsnum \<Rightarrow> nat \<Rightarrow> jsnum" where
  "num_plus (Fin k) i = Fin (k + int i)"
| "num_plus n i = n"

definition bulk_user :: "users_state \<Rightarrow> string \<Rightarrow> string \<Rightarrow> create_user_request" where
  "bulk_user c fullName uuid =
     (let b = bulkConfig c; ty = getInboundType c (bk_inbound_tag b)
      in \<lparr>cr_name = fullName, cr_original_name = None, cr_uuid = uuid,
          cr_flow = (if ty = Some ''vless'' then bk_flow b else []),
          cr_vmess_security = Some (if ty = Some ''vmess'' then ''auto'' else []),
          cr_vmess_alter_id = Some 0, cr_quota_limit = bk_quota_limit b,
          cr_quota_period = bk_quota_period b, cr_reset_day = bk_reset_day b, cr_enabled = None,
          cr_inbound_tag = Some (bk_inbound_tag b)\<rparr>)"

definition bulk_name :: "users_state \<Rightarrow> nat \<Rightarrow> string users_io" where
  "bulk_name c i =
     (let b = bulkConfig c
      in if bk_mode b = ''sequential''
         then Return (bk_prefix b @ ''-'' @ num_string (num_plus (bk_start_index b) i) @ bk_suffix b)
         else bind random_base36 (\<lambda>r. Return (bk_prefix b @ ''-'' @ take 4 (drop 2 r) @ bk_suffix b)))"

fun bulk_loop :: "users_state \<Rightarrow> nat list \<Rightarrow> create_user_request list \<Rightarrow> create_user_request list users_io" where
  "bulk_loop c [] usersToCreate = Return usersToCreate"
| "bulk_loop c (i # is) usersToCreate =
     bind (bulk_name c i) (\<lambda>fullName.
       bind uuidv4 (\<lambda>uuid. bulk_loop c is (usersToCreate @ [bulk_user c fullName uuid])))"

definition handleBulkCreate :: "users_state \<Rightarrow> unit users_io" where
  "handleBulkCreate c =
     try_catch
       (bind (bulk_loop c [0..<rounds (bk_count (bulkConfig c))] []) (\<lambda>usersToCreate.
          seq (bulkCreateUsers usersToCreate)
            (seq (success (''Bulk created '' @ show_nat (length usersToCreate) @ '' users successfully''))
              (seq (modify (\<lambda>s. s\<lparr>modalState := modal_closed\<rparr>)) fetchUsers))))
       (\<lambda>err. toastError (''Failed to bulk create: '' @ show_err err))"

section \<open>Links, pending changes\<close>

text \<open>\<open>setTimeout\<close> of two seconds is a handler of its own, \<open>resetCopied\<close>.\<close>

definition handleCopyLink :: "bool \<Rightarrow> string \<Rightarrow> unit users_io" where
  "handleCopyLink clipboard_ok link =
     (if clipboard_ok
      then seq (modify (\<lambda>s. s\<lparr>copied := True\<rparr>)) (success ''Link copied to clipboard'')
      else toastError ''Failed to copy link'')"

definition resetCopied :: "users_state \<Rightarrow> users_state" where
  "resetCopied s = s\<lparr>copied := False\<rparr>"

definition handleApplySingboxChanges :: "unit users_io" where
  "handleApplySingboxChanges =
     try_catch
       (seq applySingboxChanges
         (seq (modify (\<lambda>s. s\<lparr>singboxPendingChanges := False\<rparr>))
           (success ''Sing-box configuration applied successfully'')))
       (\<lambda>_. toastError ''Failed to apply changes. Please try again.'')"

end
