(* ===== verification/Users_Facts.thy ===== *)
theory Users_Facts
  imports Users
begin

text \<open>
  What the handlers of UserManagement.tsx do: the requests a save sends and the inbounds it leaves the
  user in, the names of a bulk creation, the deletions, and the selection over all interleavings.
\<close>

section \<open>Reloading\<close>

lemma request_unchanged:
  "storage s' = storage s \<Longrightarrow> request meth url ct bdy s' = request meth url ct bdy s"
  by (simp add: request_def buildHeaders_def stored_token_def)

definition users_request :: "'b browser_scheme \<Rightarrow> http_request" where
  "users_request s = request ''GET'' ''/api/users'' None None s"

lemma users_request_frame [simp]:
  "users_request (s\<lparr>modalState := x\<rparr>) = users_request s"
  "users_request (s\<lparr>uuids_used := n\<rparr>) = users_request s"
  "users_request (s\<lparr>selectedUsers := xs\<rparr>) = users_request s"
  "users_request (toast_success m s) = users_request s"
  "users_request (toast_error m s) = users_request s"
  by (simp_all add: users_request_def request_def buildHeaders_def stored_token_def)

definition after_fetch :: "fetch_result \<Rightarrow> users_state \<Rightarrow> users_state" where
  "after_fetch r s =
     (case r of
        Rejected e \<Rightarrow> toast_error (''Failed to fetch users: '' @ show_err e) s
      | Answered rs \<Rightarrow>
          if \<not> res_ok rs
          then toast_error (''Failed to fetch users: '' @ show_err (Error ''Failed to fetch users'')) s
          else (case rs_json rs of
                  Inl e \<Rightarrow> toast_error (''Failed to fetch users: '' @ show_err e) s
                | Inr p \<Rightarrow>
                    (case as_users p of
                       Some us \<Rightarrow> setFetchedUsers us s
                     | None \<Rightarrow> toast_error (''Failed to fetch users: '' @ show_err ill_typed) s)))"

lemma run_fetchUsers [run_simps]:
  "run fetchUsers (logging answer) s w =
     (Inr (), after_fetch (answer w (users_request s)) s, w @ [users_request s])"
  by (auto simp: fetchUsers_def getUsers_def run_simps after_fetch_def users_request_def
      split: fetch_result.splits sum.splits option.splits)

text \<open>What the form shows: a reload and a toast leave it alone.\<close>

definition form_of :: "users_state \<Rightarrow>
    modal_state \<times> create_user_request \<times> inbound_row list \<times> string list \<times> bool \<times> string \<times> string \<times> string" where
  "form_of s = (modalState s, newUser s, inboundRows s, originalInboundTags s, isEditing s,
     originalName s, quotaInput s, userType s)"

lemma form_of_toast [simp]: "form_of (toast_error m s) = form_of s" "form_of (toast_success m s) = form_of s"
  by (simp_all add: form_of_def toast_error_def toast_success_def showToast_def Let_def)

lemma form_of_frame [simp]:
  "form_of (setFetchedUsers us s) = form_of s" "form_of (logout s) = form_of s"
  "form_of (s\<lparr>uuids_used := n\<rparr>) = form_of s"
  by (simp_all add: form_of_def setFetchedUsers_def logout_def)

lemma after_fetch_toasts: "set (map t_message (toasts s)) \<subseteq> set (map t_message (toasts (after_fetch r s)))"
  by (auto simp: after_fetch_def setFetchedUsers_def toast_error_def showToast_def Let_def
      split: fetch_result.splits sum.splits option.splits)

lemma form_of_after_fetch [simp]: "form_of (after_fetch r s) = form_of s"
  by (auto simp: after_fetch_def split: fetch_result.splits sum.splits option.splits)

section \<open>Saving\<close>

lemma run_uuidv4 [run_simps]:
  "run uuidv4 srv s w = (Inr (uuid_draws s (uuids_used s)), s\<lparr>uuids_used := Suc (uuids_used s)\<rparr>, w)"
  by (simp add: uuidv4_def run_simps)

definition saved_uuid :: "users_state \<Rightarrow> string" where
  "saved_uuid s = (if cr_uuid (newUser s) = [] then uuid_draws s (uuids_used s) else cr_uuid (newUser s))"

definition uuid_taken :: "users_state \<Rightarrow> users_state" where
  "uuid_taken s = (if cr_uuid (newUser s) = [] then s\<lparr>uuids_used := Suc (uuids_used s)\<rparr> else s)"

lemma run_fill_uuid [run_simps]:
  "run (fill_uuid (cr_uuid (newUser s))) srv s w = (Inr (saved_uuid s), uuid_taken s, w)"
  by (simp add: fill_uuid_def saved_uuid_def uuid_taken_def run_simps)

lemma uuid_taken_simps [simp]:
  "storage (uuid_taken s) = storage s" "form_of (uuid_taken s) = form_of s"
  by (simp_all add: uuid_taken_def)

definition inbound_url :: "string \<Rightarrow> string \<Rightarrow> string" where
  "inbound_url name tag =
     ''/api/users/'' @ encodeURIComponent name @ ''/inbounds/'' @ encodeURIComponent tag"

definition post_user :: "create_user_request \<Rightarrow> 'b browser_scheme \<Rightarrow> http_request" where
  "post_user u s = request ''POST'' ''/api/users'' json_type (Some (JsonBody (create_user_json u))) s"

definition put_user :: "create_user_request \<Rightarrow> 'b browser_scheme \<Rightarrow> http_request" where
  "put_user u s = request ''PUT'' ''/api/users'' json_type (Some (JsonBody (create_user_json u))) s"

definition remove_request :: "string \<Rightarrow> string \<Rightarrow> 'b browser_scheme \<Rightarrow> http_request" where
  "remove_request name tag s = request ''DELETE'' (inbound_url name tag) None None s"

definition update_request :: "string \<Rightarrow> string \<Rightarrow> inbound_credentials \<Rightarrow> 'b browser_scheme \<Rightarrow> http_request" where
  "update_request name tag ic s =
     request ''PUT'' (inbound_url name tag) json_type (Some (JsonBody (inbound_credentials_json ic))) s"

text \<open>The requests of a save, in order.\<close>

definition row_request :: "users_state \<Rightarrow> string \<Rightarrow> inbound_row \<Rightarrow> http_request" where
  "row_request c uuid row =
     (if row_tag row \<in> set (originalTags c)
      then update_request (cr_name (newUser c)) (row_tag row) (row_credentials c uuid row) c
      else post_user (row_user c uuid row) c)"

definition sync_plan :: "users_state \<Rightarrow> string \<Rightarrow> http_request list" where
  "sync_plan c uuid =
     map (\<lambda>tag. remove_request (cr_name (newUser c)) tag c)
       (filter (\<lambda>tag. tag \<notin> set (map row_tag (normalizedRows c))) (originalTags c)) @
     map (row_request c uuid) (normalizedRows c)"

definition save_plan :: "users_state \<Rightarrow> string \<Rightarrow> http_request list" where
  "save_plan c uuid =
     (if isEditing c then
        put_user (edit_payload c uuid) c #
        (if cr_enabled (newUser c) \<noteq> Some False \<and> \<not> name_changed c then sync_plan c uuid else [])
      else map (\<lambda>row. post_user (row_user c uuid row) c) (normalizedRows c))"

lemma performs_createUser: "performs (createUser u) s [post_user u s]"
  unfolding createUser_def post_user_def by (rule performs_void)

lemma performs_updateUser: "performs (updateUser u) s [put_user u s]"
  unfolding updateUser_def put_user_def by (rule performs_void)

lemma performs_remove: "performs (removeUserFromInbound name tag) s [remove_request name tag s]"
  unfolding removeUserFromInbound_def remove_request_def inbound_url_def by (rule performs_void)

lemma performs_update: "performs (updateUserInbound name tag ic) s [update_request name tag ic s]"
  unfolding updateUserInbound_def update_request_def inbound_url_def by (rule performs_void)

lemmas performs_user_calls =
  performs_createUser performs_updateUser performs_remove performs_update performs_skip

lemma concat_map_if: "concat (map (\<lambda>x. if P x then [f x] else []) xs) = map f (filter P xs)"
  by (induction xs) auto

lemma request_frames:
  assumes "storage s = storage c"
  shows "post_user u s = post_user u c" "put_user u s = put_user u c"
    "remove_request name tag s = remove_request name tag c"
    "update_request name tag ic s = update_request name tag ic c"
    "users_request s = users_request c"
  using request_unchanged [OF assms]
  by (simp_all add: post_user_def put_user_def remove_request_def update_request_def users_request_def)

lemma performs_sync:
  assumes "storage s = storage c"
  shows "performs (sync_inbounds c uuid) s (sync_plan c uuid)"
proof -
  have "performs (if tag \<notin> set (map row_tag (normalizedRows c))
        then removeUserFromInbound (cr_name (newUser c)) tag else skip) s
      (if tag \<notin> set (map row_tag (normalizedRows c))
        then [remove_request (cr_name (newUser c)) tag c] else [])" for tag
    using performs_remove [of "cr_name (newUser c)" tag s]
    by (simp add: performs_skip request_frames [OF assms])
  moreover have "performs (if row_tag row \<in> set (originalTags c)
        then updateUserInbound (cr_name (newUser c)) (row_tag row) (row_credentials c uuid row)
        else createUser (row_user c uuid row)) s [row_request c uuid row]" for row
    using performs_update [of "cr_name (newUser c)" "row_tag row" "row_credentials c uuid row" s]
      performs_createUser [of "row_user c uuid row" s]
    by (simp add: row_request_def request_frames [OF assms])
  ultimately show ?thesis
    unfolding sync_inbounds_def sync_plan_def concat_map_if [symmetric]
    by (intro performs_seq performs_for_each performs_for_each1) simp_all
qed

text \<open>The requests of a save, without its closing part.\<close>

definition save_body :: "users_state \<Rightarrow> string \<Rightarrow> unit users_io" where
  "save_body c uuid =
     (if isEditing c then
        seq (updateUser (edit_payload c uuid))
          (if cr_enabled (newUser c) \<noteq> Some False \<and> \<not> name_changed c then sync_inbounds c uuid else skip)
      else for_each (normalizedRows c) (\<lambda>row. createUser (row_user c uuid row)))"

lemma performs_save_body:
  assumes "storage s = storage c"
  shows "performs (save_body c uuid) s (save_plan c uuid)"
proof -
  have u: "performs (updateUser (edit_payload c uuid)) s [put_user (edit_payload c uuid) c]"
    using performs_updateUser [of "edit_payload c uuid" s] by (simp add: request_frames [OF assms])
  have r: "performs (createUser (row_user c uuid row)) s [post_user (row_user c uuid row) c]" for row
    using performs_createUser [of "row_user c uuid row" s] by (simp add: request_frames [OF assms])
  show ?thesis
    unfolding save_body_def save_plan_def
    using performs_seq [OF u performs_sync [OF assms, of uuid]] performs_seq [OF u performs_skip]
    by (auto intro: performs_for_each1 r)
qed

definition saved_message :: "users_state \<Rightarrow> string" where
  "saved_message c = (if isEditing c then ''User updated successfully'' else ''User created successfully'')"

definition savable :: "users_state \<Rightarrow> bool" where
  "savable c \<longleftrightarrow> \<not> rows_invalid (normalizedRows c) \<and>
     \<not> (isEditing c \<and> name_changed c \<and> 1 < length (normalizedRows c))"

lemma handleSaveUser_savable:
  assumes "savable c"
  shows "handleSaveUser c =
    try_catch
      (bind (fill_uuid (cr_uuid (newUser c))) (\<lambda>uuid.
         seq (save_body c uuid)
           (seq (success (saved_message c)) (seq (modify (reset_form c)) fetchUsers))))
      (\<lambda>err. toastError (''Failed to save user: '' @ show_err err))"
  using assms by (auto simp: handleSaveUser_def savable_def save_body_def saved_message_def)

lemma form_of_reset: "form_of (reset_form c s) =
    (modal_closed, empty_user None (getFirstInboundTagForType c (getDefaultUserType c)), [], [], False,
     [], [], userType s)"
  by (simp add: reset_form_def form_of_def)

text \<open>The page after a save: closed and reset, or as it was with an error.\<close>

lemma save_ok:
  assumes "savable s" and acc: "accepted answer [] (save_plan s (saved_uuid s))"
  shows "\<exists>s'. run (handleSaveUser s) (logging answer) s [] =
      (Inr (), s', save_plan s (saved_uuid s) @ [users_request s]) \<and> form_of s' = form_of (reset_form s s) \<and>
      saved_message s \<in> set (map t_message (toasts s'))"
proof -
  let ?plan = "save_plan s (saved_uuid s)"
  let ?t = "reset_form s (toast_success (saved_message s) (uuid_taken s))"
  have body: "run (save_body s (saved_uuid s)) (logging answer) (uuid_taken s) [] =
      (Inr (), uuid_taken s, ?plan)"
    using performs_ok [OF performs_save_body [of "uuid_taken s" s] acc] by simp
  have st: "storage ?t = storage s" by (simp add: reset_form_def)
  have "run (handleSaveUser s) (logging answer) s [] =
      (Inr (), after_fetch (answer ?plan (users_request s)) ?t, ?plan @ [users_request s])"
    by (simp add: handleSaveUser_savable [OF assms(1)] run_simps body request_frames(5) [OF st])
  moreover have "form_of (after_fetch r ?t) = form_of (reset_form s s)" for r
  proof -
    have "userType (toast_success (saved_message s) (uuid_taken s)) = userType s"
      by (simp add: toast_success_def showToast_def Let_def uuid_taken_def)
    then show ?thesis by (simp add: form_of_reset)
  qed
  moreover have "saved_message s \<in> set (map t_message (toasts (after_fetch r ?t)))" for r
  proof -
    have "map t_message (toasts ?t) = map t_message (toasts s) @ [saved_message s]"
      by (simp add: reset_form_def uuid_taken_def)
    then show ?thesis using after_fetch_toasts [of ?t r] by auto
  qed
  ultimately show ?thesis by blast
qed

lemma save_fail:
  assumes "savable s" and na: "\<not> accepted answer [] (save_plan s (saved_uuid s))"
  shows "\<exists>s' k e. run (handleSaveUser s) (logging answer) s [] =
      (Inr (), s', take (Suc k) (save_plan s (saved_uuid s))) \<and>
      failed_at answer [] (save_plan s (saved_uuid s)) k \<and> form_of s' = form_of s \<and>
      t_message (last (toasts s')) = ''Failed to save user: '' @ show_err e"
proof -
  obtain k e t where k: "failed_at answer [] (save_plan s (saved_uuid s)) k"
    and t: "t \<in> {uuid_taken s, logout (uuid_taken s)}"
    and r: "run (save_body s (saved_uuid s)) (logging answer) (uuid_taken s) [] =
      (Inl e, t, [] @ take (Suc k) (save_plan s (saved_uuid s)))"
    by (rule performs_fail [OF performs_save_body [OF uuid_taken_simps(1)] na]) auto
  have "run (handleSaveUser s) (logging answer) s [] =
      (Inr (), toast_error (''Failed to save user: '' @ show_err e) t,
       take (Suc k) (save_plan s (saved_uuid s)))"
    using r by (simp add: handleSaveUser_savable [OF assms(1)] run_simps)
  moreover have "form_of t = form_of s" using t by auto
  moreover have "t_message (last (toasts (toast_error m t))) = m" for m
    by (simp add: toast_error_def showToast_def Let_def)
  ultimately show ?thesis using k by fastforce
qed

section \<open>What a save means for the server\<close>

text \<open>
  The inbounds of one user as the server keeps them: the credentials (id and flow) per inbound. The
  routes of the API say what each request does to them: POST on the users adds the user to the
  inbound of the body, PUT on one of the user's inbounds replaces the credentials there, DELETE on it
  removes the user from it; any other request leaves them.
\<close>

type_synonym memberships = "string \<rightharpoonup> string \<times> string"

definition json_str :: "string \<Rightarrow> body option \<Rightarrow> string" where
  "json_str k b = (case b of Some (JsonBody j) \<Rightarrow> str_of (jget k j) | _ \<Rightarrow> [])"

definition user_of_route :: "string \<Rightarrow> (string \<times> string) option" where
  "user_of_route url =
     (case route_segments url of
        [[], x, y, a, z, b] \<Rightarrow>
          if x = ''api'' \<and> y = ''users'' \<and> z = ''inbounds'' then
            (case (decodeURIComponent a, decodeURIComponent b) of
               (Some name, Some tag) \<Rightarrow> Some (name, tag)
             | _ \<Rightarrow> None)
          else None
      | _ \<Rightarrow> None)"

definition member_effect :: "string \<Rightarrow> http_request \<Rightarrow> memberships \<Rightarrow> memberships" where
  "member_effect name q m =
     (let creds = (json_str ''uuid'' (rq_body q), json_str ''flow'' (rq_body q))
      in case user_of_route (rq_url q) of
           Some (n, tag) \<Rightarrow>
             if n \<noteq> name then m
             else if rq_method q = ''DELETE'' then m(tag := None)
             else if rq_method q = ''PUT'' \<and> m tag \<noteq> None then m(tag \<mapsto> creds)
             else m
         | None \<Rightarrow>
             if rq_method q = ''POST'' \<and> rq_url q = ''/api/users'' \<and>
                json_str ''name'' (rq_body q) = name
             then m(json_str ''inbound_tag'' (rq_body q) \<mapsto> creds)
             else m)"

lemma user_of_inbound_url: "user_of_route (inbound_url name tag) = Some (name, tag)"
proof -
  have "route_segments (inbound_url name tag) =
      [[], ''api'', ''users'', encodeURIComponent name, ''inbounds'', encodeURIComponent tag]"
    using split_on_sep [OF slash_not_encoded, of name "''inbounds/'' @ encodeURIComponent tag"]
      split_on_free [OF slash_not_encoded, of tag]
    by (simp add: route_segments_def inbound_url_def)
  then show ?thesis by (simp add: user_of_route_def decode_encode)
qed

lemma user_of_users_url: "user_of_route ''/api/users'' = None"
  by (simp add: user_of_route_def route_segments_def)

lemma effect_remove: "member_effect name (remove_request name tag s) m = m(tag := None)"
  by (simp add: member_effect_def remove_request_def user_of_inbound_url)

lemma effect_put_user: "member_effect name (put_user u s) m = m"
  by (simp add: member_effect_def put_user_def user_of_users_url)

lemma effect_update:
  "ic_flow ic = Some f \<Longrightarrow> member_effect name (update_request name tag ic s) m =
     (if m tag \<noteq> None then m(tag \<mapsto> (ic_uuid ic, f)) else m)"
  by (simp add: member_effect_def update_request_def user_of_inbound_url json_str_def
      inbound_credentials_json_def jget_obj)

lemma effect_post:
  "cr_inbound_tag u = Some tag \<Longrightarrow> member_effect (cr_name u) (post_user u s) m =
     m(tag \<mapsto> (cr_uuid u, cr_flow u))"
  by (simp add: member_effect_def post_user_def user_of_users_url json_str_def
      create_user_json_def jget_obj)

definition desired :: "users_state \<Rightarrow> string \<Rightarrow> memberships" where
  "desired c uuid = map_of (map (\<lambda>row. (row_tag row, (uuid, row_flow_of c row))) (normalizedRows c))"

lemma row_request_effect:
  assumes "row_tag row \<in> set (originalTags c) \<Longrightarrow> m (row_tag row) \<noteq> None"
  shows "member_effect (cr_name (newUser c)) (row_request c uuid row) m =
     m(row_tag row \<mapsto> (uuid, row_flow_of c row))"
  using assms effect_post [of "row_user c uuid row" "row_tag row" c m]
    effect_update [of "row_credentials c uuid row" "row_flow_of c row" "cr_name (newUser c)" "row_tag row" c m]
  by (auto simp: row_request_def row_user_def row_credentials_def)

lemma fold_removes:
  "fold (member_effect name) (map (\<lambda>tag. remove_request name tag s) tags) m =
     (\<lambda>t. if t \<in> set tags then None else m t)"
  by (induction tags arbitrary: m) (auto simp: effect_remove fun_eq_iff)

lemma map_add_late: "k \<notin> dom f \<Longrightarrow> m(k \<mapsto> v) ++ f = m ++ (\<lambda>x. if x = k then Some v else f x)"
  by (auto simp: map_add_def fun_eq_iff split: option.splits)

lemma fold_rows:
  assumes "distinct (map row_tag rows)"
    and "\<And>row. row \<in> set rows \<Longrightarrow> row_tag row \<in> set (originalTags c) \<Longrightarrow> m (row_tag row) \<noteq> None"
  shows "fold (member_effect (cr_name (newUser c))) (map (row_request c uuid) rows) m =
     m ++ map_of (map (\<lambda>row. (row_tag row, (uuid, row_flow_of c row))) rows)"
  using assms
proof (induction rows arbitrary: m)
  case Nil
  then show ?case by simp
next
  case (Cons row rows)
  let ?m = "m(row_tag row \<mapsto> (uuid, row_flow_of c row))"
  have "fold (member_effect (cr_name (newUser c))) (map (row_request c uuid) rows) ?m =
      ?m ++ map_of (map (\<lambda>row. (row_tag row, (uuid, row_flow_of c row))) rows)"
    using Cons.prems by (intro Cons.IH) auto
  moreover have "row_tag row \<notin> dom (map_of (map (\<lambda>row. (row_tag row, (uuid, row_flow_of c row))) rows))"
    using Cons.prems(1) by (auto simp: dom_map_of_conv_image_fst)
  ultimately show ?case
    using Cons.prems(2) [of row] row_request_effect [of row c m uuid]
    by (simp add: map_add_late)
qed

lemma sync_plan_effect:
  assumes "\<not> rows_invalid (normalizedRows c)" and "dom m = set (originalTags c)"
  shows "fold (member_effect (cr_name (newUser c))) (sync_plan c uuid) m = desired c uuid"
proof -
  let ?rows = "normalizedRows c"
  let ?gone = "filter (\<lambda>tag. tag \<notin> set (map row_tag ?rows)) (originalTags c)"
  let ?m = "\<lambda>t. if t \<in> set ?gone then None else m t"
  have d: "distinct (map row_tag ?rows)"
    using assms(1) js_set_size_iff [of "map row_tag ?rows"] by (simp add: rows_invalid_def)
  have known: "m t \<noteq> None" if "t \<in> set (originalTags c)" for t
    using that assms(2) domIff by metis
  have "fold (member_effect (cr_name (newUser c))) (sync_plan c uuid) m = ?m ++ desired c uuid"
    unfolding sync_plan_def desired_def fold_append comp_def fold_removes
    by (intro fold_rows d) (use known in auto)
  also have "\<dots> = desired c uuid"
  proof
    fix t
    show "(?m ++ desired c uuid) t = desired c uuid t"
    proof (cases "desired c uuid t")
      case (Some v)
      then show ?thesis by simp
    next
      case None
      then have "t \<notin> row_tag ` set ?rows" by (auto simp: desired_def map_of_eq_None_iff image_image)
      then have "?m t = None" using assms(2) by auto
      then show ?thesis using None by (simp add: map_add_def)
    qed
  qed
  finally show ?thesis .
qed

lemma create_plan_effect:
  assumes "\<not> rows_invalid (normalizedRows c)"
  shows "fold (member_effect (cr_name (newUser c)))
     (map (\<lambda>row. post_user (row_user c uuid row) c) (normalizedRows c)) (\<lambda>_. None) = desired c uuid"
proof -
  have d: "distinct (map row_tag (normalizedRows c))"
    using assms js_set_size_iff [of "map row_tag (normalizedRows c)"] by (simp add: rows_invalid_def)
  have step: "member_effect (cr_name (newUser c)) (post_user (row_user c uuid row) c) m =
      m(row_tag row \<mapsto> (uuid, row_flow_of c row))" for row m
    using effect_post [of "row_user c uuid row" "row_tag row" c m] by (simp add: row_user_def)
  have "fold (member_effect (cr_name (newUser c)))
      (map (\<lambda>row. post_user (row_user c uuid row) c) rows) m =
      m ++ map_of (map (\<lambda>row. (row_tag row, (uuid, row_flow_of c row))) rows)"
    if "distinct (map row_tag rows)" for rows m
    using that
  proof (induction rows arbitrary: m)
    case Nil
    then show ?case by simp
  next
    case (Cons row rows)
    then have "row_tag row \<notin> dom (map_of (map (\<lambda>row. (row_tag row, (uuid, row_flow_of c row))) rows))"
      by (auto simp: dom_map_of_conv_image_fst)
    with Cons show ?case by (simp add: step map_add_late)
  qed
  from this [OF d] show ?thesis by (simp add: desired_def)
qed

lemma effect_users_request [simp]: "member_effect name (users_request s) m = m"
  by (simp add: member_effect_def users_request_def user_of_users_url)

lemma inboundValid_rows: "inboundValid s \<Longrightarrow> \<not> rows_invalid (normalizedRows s)"
proof -
  assume v: "inboundValid s"
  let ?tags = "map (\<lambda>row. trim (row_tag row)) (inboundRows s)"
  have full: "\<forall>t \<in> set ?tags. t \<noteq> []"
    using v by (auto simp: inboundValid_def hasEmptyInbound_def list_ex_iff)
  then have "form_tags s = ?tags" by (simp add: form_tags_def)
  then have "distinct ?tags"
    using v js_set_size_iff [of ?tags] by (simp add: inboundValid_def hasDuplicateInbound_def)
  moreover have "map row_tag (normalizedRows s) = ?tags" by (simp add: normalizedRows_def comp_def)
  ultimately show ?thesis
    using full v js_set_size_iff [of ?tags]
    by (auto simp: rows_invalid_def list_ex_iff normalizedRows_def inboundValid_def comp_def)
qed

section \<open>Properties of saving\<close>

text \<open>C1: saving the edit of an enabled, not renamed user. When the server accepts the requests, the
  handler sends the update of the user, one DELETE per inbound that went, one PUT or POST per row, and
  reloads; read as the routes say, they turn the inbounds the user had into exactly those of the rows,
  each with the user's id and the row's flow. The dialog is closed and its form reset.\<close>

theorem save_syncs_inbounds:
  assumes "savable s" and "isEditing s" and "cr_enabled (newUser s) \<noteq> Some False"
    and "\<not> name_changed s" and "accepted answer [] (save_plan s (saved_uuid s))"
    and "dom m = set (originalTags s)"
  shows "\<exists>s' sent. run (handleSaveUser s) (logging answer) s [] = (Inr (), s', sent) \<and>
     fold (member_effect (cr_name (newUser s))) sent m =
       map_of (map (\<lambda>row. (row_tag row, (saved_uuid s, row_flow_of s row))) (normalizedRows s)) \<and>
     form_of s' = form_of (reset_form s s)"
proof -
  obtain s' where r: "run (handleSaveUser s) (logging answer) s [] =
      (Inr (), s', save_plan s (saved_uuid s) @ [users_request s])"
    and f: "form_of s' = form_of (reset_form s s)"
    using save_ok [OF assms(1,5)] by blast
  have "\<not> rows_invalid (normalizedRows s)" using assms(1) by (simp add: savable_def)
  from sync_plan_effect [OF this assms(6), of "saved_uuid s"] r f assms(2-4) show ?thesis
    by (simp add: save_plan_def effect_put_user desired_def)
qed

text \<open>C11: creating a user from a valid form: one POST per row, and the new user is then in exactly the
  inbounds of the rows.\<close>

theorem create_enters_inbounds:
  assumes "inboundValid s" and "\<not> isEditing s" and "accepted answer [] (save_plan s (saved_uuid s))"
  shows "\<exists>s' sent. run (handleSaveUser s) (logging answer) s [] = (Inr (), s', sent) \<and>
     length sent = Suc (length (inboundRows s)) \<and>
     fold (member_effect (cr_name (newUser s))) sent (\<lambda>_. None) =
       map_of (map (\<lambda>row. (row_tag row, (saved_uuid s, row_flow_of s row))) (normalizedRows s)) \<and>
     form_of s' = form_of (reset_form s s)"
proof -
  have v: "\<not> rows_invalid (normalizedRows s)" using assms(1) by (rule inboundValid_rows)
  then have "savable s" using assms(2) by (simp add: savable_def)
  then obtain s' where r: "run (handleSaveUser s) (logging answer) s [] =
      (Inr (), s', save_plan s (saved_uuid s) @ [users_request s])"
    and f: "form_of s' = form_of (reset_form s s)"
    using save_ok [OF _ assms(3)] by blast
  have "length (normalizedRows s) = length (inboundRows s)" by (simp add: normalizedRows_def)
  with create_plan_effect [OF v, of "saved_uuid s"] r f assms(2) show ?thesis
    by (simp add: save_plan_def desired_def)
qed

text \<open>C12: a save that fails stops at the request that failed, sends nothing after it, and keeps the
  dialog open with everything the user entered; the error is shown.\<close>

theorem failed_save_keeps_form:
  assumes "savable s" and "\<not> accepted answer [] (save_plan s (saved_uuid s))"
  shows "\<exists>s' k e. run (handleSaveUser s) (logging answer) s [] =
      (Inr (), s', take (Suc k) (save_plan s (saved_uuid s))) \<and>
      failed_at answer [] (save_plan s (saved_uuid s)) k \<and> form_of s' = form_of s \<and>
      t_message (last (toasts s')) = ''Failed to save user: '' @ show_err e"
  using assms by (rule save_fail)



end
