(* ===== verification/Users_Page.thy ===== *)
theory Users_Page
  imports Users_Facts
begin

text \<open>
  The page of UserManagement.tsx in the event loop: everything that may be started on it, the invariant
  of its selection over all interleavings, and its deletions and bulk creation.
\<close>

section \<open>What may be started\<close>

inductive page_update :: "users_state \<Rightarrow> (users_state \<Rightarrow> users_state) \<Rightarrow> bool" for s where
  "page_update s resetQr"
| "page_update s (toggleSort key)"
| "page_update s (\<lambda>t. t\<lparr>filterInbound := tag\<rparr>)"
| "page_update s (handleSelectAll b)"
| "u \<in> set (users s) \<Longrightarrow> page_update s (handleSelectUser (us_name u))"
| "page_update s handleDeleteSelected"
| "page_update s openCreate"
| "page_update s (changeUserType ty)"
| "page_update s (changeRowTag i tag)"
| "page_update s (changeRowFlow i fl)"
| "page_update s (removeRow i)"
| "page_update s addRow"
| "page_update s (setNewUser f)"
| "page_update s (changeQuota v)"
| "page_update s (changeBulkCount v)"
| "page_update s (changeBulkQuota v)"
| "page_update s (toggleInboundToRemove tag b)"
| "page_update s cancelInboundSelection"
| "u \<in> set (users s) \<Longrightarrow> page_update s (openQr u)"
| "page_update s closeModal"
| "page_update s (\<lambda>t. t\<lparr>selectedQrInbound := tag\<rparr>)"
| "page_update s (\<lambda>t. t\<lparr>usageStart := v\<rparr>)"
| "page_update s (\<lambda>t. t\<lparr>usageEnd := v\<rparr>)"
| "page_update s (\<lambda>t. t\<lparr>usageLimitGb := v\<rparr>)"
| "page_update s (\<lambda>t. t\<lparr>bulkConfig := g (bulkConfig t)\<rparr>)"
| "page_update s resetCopied"
| "page_update s logout"
| "ty \<in> {MBulk, MUsage} \<Longrightarrow> page_update s (\<lambda>t. t\<lparr>modalState := modal_of ty\<rparr>)"
| "page_update s (removeToast tid)"
| "page_update s (fire_timer n)"

inductive users_handler :: "users_state \<Rightarrow> unit users_io \<Rightarrow> bool" for s where
  "users_handler s fetchUsers"
| "users_handler s fetchInbounds"
| "users_handler s fetchPending"
| "users_handler s (loadQr s)"
| "users_handler s (fetchUsage getTime s)"
| "users_handler s (confirmDeleteSelected s)"
| "users_handler s (handleRemoveFromSelectedInbounds s)"
| "users_handler s (deleteRow b u)"
| "users_handler s (deleteCard b u)"
| "users_handler s (handleEditClick s u)"
| "users_handler s (handleSaveUser s)"
| "users_handler s (handleBulkCreate s)"
| "users_handler s (handleCopyLink b link)"
| "users_handler s handleApplySingboxChanges"
| "page_update s f \<Longrightarrow> users_handler s (modify f)"

definition users_handlers :: "users_state \<Rightarrow> unit users_io set" where
  "users_handlers s = {h. users_handler s h}"

text \<open>The selection names listed users, each once; the form of a user has a row while it is open, and the
  dialogs of a user have one.\<close>

definition dialog_ok :: "users_state \<Rightarrow> bool" where
  "dialog_ok s \<longleftrightarrow>
     (m_type (modalState s) = Some MCreate \<longrightarrow> inboundRows s \<noteq> []) \<and>
     (m_type (modalState s) \<in> {Some MQr, Some MSelectInbounds} \<longrightarrow> m_data (modalState s) \<noteq> None)"

definition users_inv :: "users_state \<Rightarrow> bool" where
  "users_inv s \<longleftrightarrow>
     distinct (selectedUsers s) \<and> set (selectedUsers s) \<subseteq> us_name ` set (users s) \<and> dialog_ok s"

lemma selection_toast [simp]:
  "selectedUsers (toast_error m s) = selectedUsers s" "users (toast_error m s) = users s"
  "selectedUsers (toast_success m s) = selectedUsers s" "users (toast_success m s) = users s"
  by (simp_all add: toast_error_def toast_success_def showToast_def Let_def)

lemma dialog_toast [simp]:
  "modalState (toast_error m s) = modalState s" "inboundRows (toast_error m s) = inboundRows s"
  "modalState (toast_success m s) = modalState s" "inboundRows (toast_success m s) = inboundRows s"
  by (simp_all add: toast_error_def toast_success_def showToast_def Let_def)

lemmas users_inv_unfold = users_inv_def dialog_ok_def modal_closed_def modal_of_def

lemma users_inv_toast [simp]:
  "users_inv (toast_error m s) = users_inv s" "users_inv (toast_success m s) = users_inv s"
  by (simp_all add: users_inv_def dialog_ok_def)

lemma logout_closed_users [simp]: "logout_closed users_inv"
  by (simp add: logout_closed_def users_inv_unfold logout_def)

lemma pruned_selection:
  "distinct (acc @ sel) \<Longrightarrow>
     fold (\<lambda>name next. if name \<in> A then set_add name next else next) sel acc = acc @ filter (\<lambda>n. n \<in> A) sel"
  by (induction sel arbitrary: acc) (auto simp: set_add_def)

lemma users_inv_fetched: "users_inv s \<Longrightarrow> users_inv (setFetchedUsers us s)"
  using pruned_selection [of "[]" "selectedUsers s" "set (map us_name us)"]
  by (auto simp: users_inv_unfold setFetchedUsers_def)

lemma users_inv_update: "page_update s f \<Longrightarrow> users_inv s \<Longrightarrow> users_inv (f s)"
proof (induction rule: page_update.induct)
  case (5 u)
  then show ?case by (auto simp: users_inv_unfold handleSelectUser_def Let_def)
qed (auto simp: resetQr_def toggleSort_def handleSelectAll_def handleDeleteSelected_def openCreate_def
    changeUserType_def changeRowTag_def changeRowFlow_def removeRow_def addRow_def setNewUser_def
    changeQuota_def changeBulkCount_def changeBulkQuota_def toggleInboundToRemove_def
    cancelInboundSelection_def openQr_def closeModal_def resetCopied_def logout_def Let_def users_inv_unfold
    removeToast_def fire_timer_def remove_at_Nil
    split: option.splits list.splits modal_type.splits)

section \<open>Each handler keeps the selection\<close>

lemma guarded_uuidv4 [guard_intros]: "users_inv s \<Longrightarrow> guarded users_inv Q uuidv4 s"
  by (simp add: uuidv4_def users_inv_unfold)

lemma guarded_fill_uuid [guard_intros]: "users_inv s \<Longrightarrow> guarded users_inv Q (fill_uuid u) s"
  unfolding fill_uuid_def by (intro guard_intros)

lemma guarded_random [guard_intros]: "users_inv s \<Longrightarrow> guarded users_inv Q random_base36 s"
  by (simp add: random_base36_def users_inv_unfold)

lemma guarded_bulk_name [guard_intros]: "users_inv s \<Longrightarrow> guarded users_inv Q (bulk_name c i) s"
  unfolding bulk_name_def Let_def by (intro guard_intros)

lemma guarded_fetchUsers [guard_intros]: "users_inv s \<Longrightarrow> guarded users_inv authorised fetchUsers s"
  unfolding fetchUsers_def by (intro guard_intros) (simp_all add: users_inv_fetched)

lemma guarded_delete_each [guard_intros]:
  "users_inv s \<Longrightarrow> guarded users_inv authorised (delete_each names failed) s"
  by (induction names failed arbitrary: s rule: delete_each.induct)
    (auto simp: deleteUser_def intro!: guard_intros)

lemma guarded_bulk_loop [guard_intros]:
  "users_inv s \<Longrightarrow> guarded users_inv authorised (bulk_loop c is us) s"
  by (induction c "is" us arbitrary: s rule: bulk_loop.induct) (auto intro!: guard_intros)

lemma guarded_sync [guard_intros]:
  "users_inv s \<Longrightarrow> guarded users_inv authorised (sync_inbounds c uuid) s"
  unfolding sync_inbounds_def removeUserFromInbound_def updateUserInbound_def createUser_def
  by (intro guard_intros) simp_all

lemma guarded_loadQr: "users_inv s \<Longrightarrow> guarded users_inv authorised (loadQr c) s"
  unfolding loadQr_def getUserLink_def
  by (auto split: option.splits list.splits intro!: guard_intros simp: users_inv_unfold)

lemma guarded_save: "users_inv s \<Longrightarrow> guarded users_inv authorised (handleSaveUser c) s"
  unfolding handleSaveUser_def updateUser_def createUser_def
  by (intro guard_intros) (simp_all add: users_inv_unfold reset_form_def)

lemma guarded_bulk: "users_inv s \<Longrightarrow> guarded users_inv authorised (handleBulkCreate c) s"
  unfolding handleBulkCreate_def bulkCreateUsers_def
  by (intro guard_intros) (simp_all add: users_inv_unfold)

lemma guarded_confirmDelete: "users_inv s \<Longrightarrow> guarded users_inv authorised (confirmDeleteSelected c) s"
  unfolding confirmDeleteSelected_def
  by (intro guard_intros) (auto simp: users_inv_unfold)

lemma guarded_removeSelected:
  "users_inv s \<Longrightarrow> guarded users_inv authorised (handleRemoveFromSelectedInbounds c) s"
  unfolding handleRemoveFromSelectedInbounds_def deleteUser_def removeUserFromInbound_def Let_def
  by (auto intro!: guard_intros simp: users_inv_unfold split: option.splits)

lemma guarded_fetchInbounds: "users_inv s \<Longrightarrow> guarded users_inv authorised fetchInbounds s"
  by (auto simp: fetchInbounds_def getSingboxInbounds_def intro!: guard_intros split: json.splits)
    (simp_all add: users_inv_unfold)

lemma guarded_fetchPending: "users_inv s \<Longrightarrow> guarded users_inv authorised fetchPending s"
  by (auto simp: fetchPending_def getDashboardData_def intro!: guard_intros) (simp_all add: users_inv_unfold)

lemma guarded_fetchUsage: "users_inv s \<Longrightarrow> guarded users_inv authorised (fetchUsage getTime c) s"
  by (auto simp: fetchUsage_def getReportSummary_def Let_def intro!: guard_intros) (simp_all add: users_inv_unfold)

lemma guarded_deletes:
  "users_inv s \<Longrightarrow> guarded users_inv authorised (deleteRow b u) s"
  "users_inv s \<Longrightarrow> guarded users_inv authorised (deleteCard b u) s"
  by (auto simp: deleteRow_def deleteCard_def deleteUser_def intro!: guard_intros) (simp_all add: users_inv_unfold)

lemma guarded_editClick: "users_inv s \<Longrightarrow> guarded users_inv authorised (handleEditClick c u) s"
proof -
  have "users_inv t \<Longrightarrow> users_inv (openEdit c u t)" "users_inv t \<Longrightarrow> users_inv (applyUserInbounds ty es t)" for t ty es
    by (auto simp: users_inv_unfold openEdit_def applyUserInbounds_def setNewUser_def Let_def)
  then show "users_inv s \<Longrightarrow> ?thesis"
    by (auto simp: handleEditClick_def getUserInbounds_def intro!: guard_intros)
qed

lemma guarded_copyLink: "users_inv s \<Longrightarrow> guarded users_inv authorised (handleCopyLink b link) s"
  by (auto simp: handleCopyLink_def intro!: guard_intros) (simp_all add: users_inv_unfold)

lemma guarded_apply: "users_inv s \<Longrightarrow> guarded users_inv authorised handleApplySingboxChanges s"
  by (auto simp: handleApplySingboxChanges_def applySingboxChanges_def intro!: guard_intros)
    (simp_all add: users_inv_unfold)

lemma guarded_users_handler:
  assumes inv: "users_inv s" and "users_handler s h"
  shows "guarded users_inv authorised h s"
  using assms(2)
  by cases (use inv in \<open>simp_all add: guarded_fetchUsers guarded_fetchInbounds guarded_fetchPending guarded_loadQr
      guarded_fetchUsage guarded_confirmDelete guarded_removeSelected guarded_deletes guarded_editClick guarded_save
      guarded_bulk guarded_copyLink guarded_apply guarded_modify users_inv_update\<close>)

interpretation users_page: guarded_page users_handlers users_inv authorised
  by unfold_locales (auto simp: users_handlers_def guarded_users_handler)

section \<open>Deleting\<close>

definition delete_url :: "string \<Rightarrow> string" where
  "delete_url name = ''/api/users?name='' @ encodeURIComponent name"

definition delete_request :: "string \<Rightarrow> 'b browser_scheme \<Rightarrow> http_request" where
  "delete_request name s = request ''DELETE'' (delete_url name) None None s"

lemma performs_deleteUser: "performs (deleteUser name) s [delete_request name s]"
  unfolding deleteUser_def delete_request_def delete_url_def by (rule performs_void)

text \<open>What a request asks, whoever asks it.\<close>

abbreviation line_of :: "http_request \<Rightarrow> string \<times> string" where
  "line_of q \<equiv> (rq_method q, rq_url q)"

lemma run_deleteUser_cases:
  obtains (ok) "run (deleteUser name) (logging answer) s w = (Inr (), s, w @ [delete_request name s])"
      "ok_answer (answer w (delete_request name s))"
    | (failed) e t where "t \<in> {s, logout s}" "\<not> ok_answer (answer w (delete_request name s))"
      "run (deleteUser name) (logging answer) s w = (Inl e, t, w @ [delete_request name s])"
proof (cases "accepted answer w [delete_request name s]")
  case True
  from performs_ok [OF performs_deleteUser True] True show ?thesis by (intro ok) simp_all
next
  case False
  from performs_fail [OF performs_deleteUser False] obtain k e t where
    "failed_at answer w [delete_request name s] k" "t \<in> {s, logout s}"
    "run (deleteUser name) (logging answer) s w = (Inl e, t, w @ take (Suc k) [delete_request name s])"
    by blast
  then show ?thesis using False by (intro failed) auto
qed

text \<open>Every name gets its request, whatever the answers to the others; the count is that of the
  failures.\<close>

lemma run_delete_each:
  "\<exists>t sent n. run (delete_each names k) (logging answer) s w = (Inr (k + n), t, w @ sent) \<and>
     map line_of sent = map (\<lambda>name. (''DELETE'', delete_url name)) names \<and>
     selectedUsers t = selectedUsers s \<and> toasts t = toasts s \<and> n \<le> length names \<and>
     (n = 0 \<longleftrightarrow> (\<forall>i < length sent. ok_answer (answer (w @ take i sent) (sent ! i))))"
proof (induction names arbitrary: k s w)
  case Nil
  then show ?case by (simp add: run_simps)
next
  case (Cons name names)
  let ?q = "delete_request name s"
  have q: "line_of ?q = (''DELETE'', delete_url name)" by (simp add: delete_request_def)
  obtain s' d where d: "run (try_catch (seq (deleteUser name) (Return k)) (\<lambda>_. Return (Suc k)))
        (logging answer) s w = (Inr (k + d), s', w @ [?q])"
      "s' \<in> {s, logout s}" "d \<le> 1" "d = 0 \<longleftrightarrow> ok_answer (answer w ?q)"
  proof (cases rule: run_deleteUser_cases [of name answer s w])
    case ok
    then show ?thesis using that [of 0 s] by (simp add: run_simps)
  next
    case (failed e t)
    then show ?thesis using that [of 1 t] by (simp add: run_simps)
  qed
  obtain t sent n where ih: "run (delete_each names (k + d)) (logging answer) s' (w @ [?q]) =
        (Inr (k + d + n), t, (w @ [?q]) @ sent)"
      "map line_of sent = map (\<lambda>name. (''DELETE'', delete_url name)) names"
      "selectedUsers t = selectedUsers s'" "toasts t = toasts s'" "n \<le> length names"
      "n = 0 \<longleftrightarrow> (\<forall>i < length sent. ok_answer (answer ((w @ [?q]) @ take i sent) (sent ! i)))"
    using Cons.IH [of "k + d" s' "w @ [?q]"] by blast
  have "run (delete_each (name # names) k) (logging answer) s w = (Inr (k + (d + n)), t, w @ ?q # sent)"
    using d(1) ih(1) by (simp add: run_bind add.assoc)
  moreover have "map line_of (?q # sent) = map (\<lambda>name. (''DELETE'', delete_url name)) (name # names)"
    using ih(2) q by simp
  moreover have "selectedUsers t = selectedUsers s" "toasts t = toasts s"
    using d(2) ih(3,4) by (auto simp: logout_def)
  moreover have "d + n = 0 \<longleftrightarrow> (\<forall>i < length (?q # sent). ok_answer (answer (w @ take i (?q # sent)) ((?q # sent) ! i)))"
    using d(4) ih(6) by (auto simp: All_less_Suc2 take_Cons')
  moreover have "d + n \<le> length (name # names)" using d(3) ih(5) by simp
  ultimately show ?case by blast
qed

lemma run_delete_all:
  "\<exists>t sent n. run (delete_each names 0) (logging answer) s [] = (Inr n, t, sent) \<and>
     map line_of sent = map (\<lambda>name. (''DELETE'', delete_url name)) names \<and>
     toasts t = toasts s \<and> n \<le> length names \<and>
     (n = 0 \<longleftrightarrow> (\<forall>i < length sent. ok_answer (answer (take i sent) (sent ! i))))"
  using run_delete_each [of names 0 answer s "[]"] unfolding append_Nil add_0_left by blast

lemma after_fetch_message:
  "\<exists>rest. map t_message (toasts (after_fetch r s)) = map t_message (toasts s) @ rest"
  by (auto simp: after_fetch_def setFetchedUsers_def split: fetch_result.splits sum.splits option.splits)

lemma after_fetch_selection: "selectedUsers s = [] \<Longrightarrow> selectedUsers (after_fetch r s) = []"
  by (auto simp: after_fetch_def setFetchedUsers_def split: fetch_result.splits sum.splits option.splits)

section \<open>Bulk creation\<close>

definition sequential_name :: "users_state \<Rightarrow> nat \<Rightarrow> string" where
  "sequential_name c i =
     bk_prefix (bulkConfig c) @ ''-'' @ num_string (num_plus (bk_start_index (bulkConfig c)) i) @
       bk_suffix (bulkConfig c)"

lemma run_bulk_loop:
  assumes "bk_mode (bulkConfig c) = ''sequential''"
  shows "run (bulk_loop c is acc) srv s w =
    (Inr (acc @ map2 (\<lambda>i j. bulk_user c (sequential_name c i) (uuid_draws s j)) is
            [uuids_used s..<uuids_used s + length is]),
     s\<lparr>uuids_used := uuids_used s + length is\<rparr>, w)"
  using assms
proof (induction "is" arbitrary: s acc)
  case Nil
  then show ?case by (simp add: run_simps)
next
  case (Cons i "is")
  have "[uuids_used s..<uuids_used s + length (i # is)] =
      uuids_used s # [Suc (uuids_used s)..<Suc (uuids_used s) + length is]"
    by (simp add: upt_rec)
  with Cons show ?case
    by (simp add: run_simps bulk_name_def sequential_name_def Let_def del: upt_Suc)
qed

lemma sequential_name_inj:
  "bk_start_index (bulkConfig c) = Fin k \<Longrightarrow> sequential_name c i = sequential_name c j \<longleftrightarrow> i = j"
  by (auto simp: sequential_name_def show_int_inj)

definition bulk_users :: "users_state \<Rightarrow> create_user_request list" where
  "bulk_users s =
     map2 (\<lambda>i j. bulk_user s (sequential_name s i) (uuid_draws s j))
       [0..<rounds (bk_count (bulkConfig s))]
       [uuids_used s..<uuids_used s + rounds (bk_count (bulkConfig s))]"

lemma bulk_users_simps:
  "length (bulk_users s) = rounds (bk_count (bulkConfig s))"
  "map cr_name (bulk_users s) = map (sequential_name s) [0..<rounds (bk_count (bulkConfig s))]"
  "map cr_uuid (bulk_users s) =
     map (uuid_draws s) [uuids_used s..<uuids_used s + rounds (bk_count (bulkConfig s))]"
proof -
  show "length (bulk_users s) = rounds (bk_count (bulkConfig s))" by (simp add: bulk_users_def)
  show "map cr_name (bulk_users s) = map (sequential_name s) [0..<rounds (bk_count (bulkConfig s))]"
    by (rule nth_equalityI) (simp_all add: bulk_users_def bulk_user_def Let_def)
  show "map cr_uuid (bulk_users s) =
     map (uuid_draws s) [uuids_used s..<uuids_used s + rounds (bk_count (bulkConfig s))]"
    by (rule nth_equalityI) (simp_all add: bulk_users_def bulk_user_def Let_def)
qed

definition bulk_request :: "users_state \<Rightarrow> http_request" where
  "bulk_request s = request ''POST'' ''/api/users/bulk'' json_type
     (Some (JsonBody (JArr (map create_user_json (bulk_users s))))) s"

lemma run_handleBulkCreate:
  assumes "bk_mode (bulkConfig s) = ''sequential''"
  shows "\<exists>s'. run (handleBulkCreate s) (logging answer) s [] =
      (Inr (), s', bulk_request s #
         (if ok_answer (answer [] (bulk_request s)) then [users_request s] else [])) \<and>
     modalState s' = (if ok_answer (answer [] (bulk_request s)) then modal_closed else modalState s)"
proof -
  let ?n = "rounds (bk_count (bulkConfig s))"
  let ?t = "s\<lparr>uuids_used := uuids_used s + ?n\<rparr>"
  have loop: "run (bulk_loop s [0..<?n] []) (logging answer) s [] = (Inr (bulk_users s), ?t, [])"
    using run_bulk_loop [OF assms, of "[0..<?n]" "[]" "logging answer" s "[]"]
    by (simp add: bulk_users_def)
  have perf: "performs (bulkCreateUsers (bulk_users s)) ?t [bulk_request s]"
    using performs_void [of "''POST''" "''/api/users/bulk''" json_type
        "Some (JsonBody (JArr (map create_user_json (bulk_users s))))" "''Failed to bulk create users''" ?t]
      request_unchanged [of ?t s]
    by (simp add: bulkCreateUsers_def bulk_request_def)
  have modal: "modalState (after_fetch r t) = modalState t" "modalState (toast_success m t) = modalState t"
    "modalState (toast_error m t) = modalState t" "modalState (logout t) = modalState t" for r m t
    using form_of_after_fetch [of r t] form_of_toast [of m t] form_of_frame(2) [of t]
    by (simp_all add: form_of_def)
  show ?thesis
  proof (cases "ok_answer (answer [] (bulk_request s))")
    case True
    then have "run (bulkCreateUsers (bulk_users s)) (logging answer) ?t [] = (Inr (), ?t, [bulk_request s])"
      using performs_ok [OF perf, of answer "[]"] by simp
    then show ?thesis
      using True by (simp add: handleBulkCreate_def run_simps loop modal)
  next
    case False
    then have na: "\<not> accepted answer [] [bulk_request s]" by simp
    obtain k e t where "failed_at answer [] [bulk_request s] k" "t \<in> {?t, logout ?t}"
      "run (bulkCreateUsers (bulk_users s)) (logging answer) ?t [] =
        (Inl e, t, [] @ take (Suc k) [bulk_request s])"
      by (rule performs_fail [OF perf na])
    then show ?thesis
      using False by (auto simp: handleBulkCreate_def run_simps loop modal)
  qed
qed

section \<open>Properties\<close>

text \<open>In every interleaving of the handlers of the page, of their responses and of the reloads, the
  selection names listed users, each once, and every request carries the token stored when it is
  sent.\<close>

theorem selection_stays_listed:
  assumes "reachable users_handlers answers init c" and "users_inv init"
  shows "distinct (selectedUsers (loop_page c)) \<and>
     set (selectedUsers (loop_page c)) \<subseteq> us_name ` set (users (loop_page c)) \<and>
     (\<forall>(u, q) \<in> set (loop_sent c). map_of (rq_headers q) ''Authorization'' = expected_authorization u)"
  using users_page.reachable_inv [OF assms] users_page.reachable_sends [OF assms]
  by (auto simp: users_inv_unfold authorised_def)

lemma confirmDeleteSelected_effect:
  "(multiInboundUsers s \<noteq> [] \<longrightarrow>
     (\<exists>s'. run (confirmDeleteSelected s) (logging answer) s [] = (Inr (), s', []) \<and>
        selectedUsers s' = selectedUsers s \<and> modalState s' = modal_closed)) \<and>
   (multiInboundUsers s = [] \<longrightarrow>
     (\<exists>s' sent n others. run (confirmDeleteSelected s) (logging answer) s [] = (Inr (), s', sent) \<and>
        map line_of sent = map (\<lambda>name. (''DELETE'', delete_url name)) (selectedUsers s) @
          [(''GET'', ''/api/users'')] \<and>
        selectedUsers s' = [] \<and> n \<le> length (selectedUsers s) \<and>
        (n = 0 \<longleftrightarrow> (\<forall>i < length (selectedUsers s). ok_answer (answer (take i sent) (sent ! i)))) \<and>
        map t_message (toasts s') = map t_message (toasts s) @
          [if n = 0 then ''Deleted '' @ show_nat (length (selectedUsers s)) @ '' users successfully.''
           else ''Failed to delete '' @ show_nat n @ '' users.''] @ others))"
proof (intro conjI impI)
  assume m: "multiInboundUsers s \<noteq> []"
  have "modalState (toast_error msg t) = modalState t" for msg and t :: users_state
    using form_of_toast(1) [of msg t] by (simp add: form_of_def)
  with m show "\<exists>s'. run (confirmDeleteSelected s) (logging answer) s [] = (Inr (), s', []) \<and>
        selectedUsers s' = selectedUsers s \<and> modalState s' = modal_closed"
    by (simp add: confirmDeleteSelected_def run_simps)
next
  assume m: "multiInboundUsers s = []"
  let ?s1 = "s\<lparr>modalState := modal_closed\<rparr>"
  obtain t sent n where d: "run (delete_each (selectedUsers s) 0) (logging answer) ?s1 [] = (Inr n, t, sent)"
      "map line_of sent = map (\<lambda>name. (''DELETE'', delete_url name)) (selectedUsers s)"
      "toasts t = toasts ?s1" "n \<le> length (selectedUsers s)"
      "n = 0 \<longleftrightarrow> (\<forall>i < length sent. ok_answer (answer (take i sent) (sent ! i)))"
    using run_delete_all by blast
  have t1: "toasts t = toasts s" unfolding d(3) by simp
  have len: "length sent = length (selectedUsers s)" using arg_cong [OF d(2), of length] by simp
  let ?msg = "if n = 0 then ''Deleted '' @ show_nat (length (selectedUsers s)) @ '' users successfully.''
           else ''Failed to delete '' @ show_nat n @ '' users.''"
  let ?t2 = "(if 0 < n then toast_error ?msg t else toast_success ?msg t)\<lparr>selectedUsers := []\<rparr>"
  have r: "run (confirmDeleteSelected s) (logging answer) s [] =
      (Inr (), after_fetch (answer sent (users_request ?t2)) ?t2, sent @ [users_request ?t2])"
    using m d(1) by (simp add: confirmDeleteSelected_def run_simps)
  obtain others where o: "map t_message (toasts (after_fetch (answer sent (users_request ?t2)) ?t2)) =
      map t_message (toasts s) @ [?msg] @ others"
    using after_fetch_message [of "answer sent (users_request ?t2)" ?t2] t1
    by (auto split: if_splits)
  have "(\<forall>i < length sent. ok_answer (answer (take i sent) (sent ! i))) \<longleftrightarrow>
      (\<forall>i < length (selectedUsers s). ok_answer
         (answer (take i (sent @ [users_request ?t2])) ((sent @ [users_request ?t2]) ! i)))"
    by (auto simp: len [symmetric] nth_append)
  with d(5) have n: "n = 0 \<longleftrightarrow> (\<forall>i < length (selectedUsers s). ok_answer
         (answer (take i (sent @ [users_request ?t2])) ((sent @ [users_request ?t2]) ! i)))" by simp
  have "map line_of (sent @ [users_request ?t2]) =
      map (\<lambda>name. (''DELETE'', delete_url name)) (selectedUsers s) @ [(''GET'', ''/api/users'')]"
    by (simp add: d(2) users_request_def)
  then show "\<exists>s' sent n others. run (confirmDeleteSelected s) (logging answer) s [] = (Inr (), s', sent) \<and>
        map line_of sent = map (\<lambda>name. (''DELETE'', delete_url name)) (selectedUsers s) @
          [(''GET'', ''/api/users'')] \<and>
        selectedUsers s' = [] \<and> n \<le> length (selectedUsers s) \<and>
        (n = 0 \<longleftrightarrow> (\<forall>i < length (selectedUsers s). ok_answer (answer (take i sent) (sent ! i)))) \<and>
        map t_message (toasts s') = map t_message (toasts s) @
          [if n = 0 then ''Deleted '' @ show_nat (length (selectedUsers s)) @ '' users successfully.''
           else ''Failed to delete '' @ show_nat n @ '' users.''] @ others"
    using r n o d(4) after_fetch_selection [of ?t2]
    by (intro exI [of _ "after_fetch (answer sent (users_request ?t2)) ?t2"]
        exI [of _ "sent @ [users_request ?t2]"] exI [of _ n] exI [of _ others] conjI) simp_all
qed


text \<open>The box that selects all users selects them under a filter too, those the table does not
  show included; they are then deleted with the others.\<close>

theorem select_all_ignores_filter:
  "set (selectedUsers (handleSelectAll True s)) = us_name ` set (users s) \<and>
   (\<exists>s u. u \<in> set (users s) \<and> u \<notin> set (sortedUsers localeCompare s) \<and>
      (\<exists>s' sent. run (confirmDeleteSelected (handleSelectAll True s)) (logging answer)
          (handleSelectAll True s) [] = (Inr (), s', sent) \<and>
        (''DELETE'', delete_url (us_name u)) \<in> line_of ` set sent))"
proof
  show "set (selectedUsers (handleSelectAll True s)) = us_name ` set (users s)"
    by (simp add: handleSelectAll_def)
  let ?u = "sample_user ''bob'' 5 0"
  let ?s = "sample_users_state\<lparr>filterInbound := ''in''\<rparr>"
  let ?t = "handleSelectAll True ?s"
  have "multiInboundUsers ?t = []" by code_simp
  then obtain s' sent where "run (confirmDeleteSelected ?t) (logging answer) ?t [] = (Inr (), s', sent)"
    and l: "map line_of sent = map (\<lambda>name. (''DELETE'', delete_url name)) (selectedUsers ?t) @
          [(''GET'', ''/api/users'')]"
    using confirmDeleteSelected_effect [of ?t answer] by blast
  moreover have "(''DELETE'', delete_url (us_name ?u)) \<in> set (map line_of sent)"
    unfolding l by (simp add: handleSelectAll_def sample_users_state_def browser.defs sample_user_def)
  then have "(''DELETE'', delete_url (us_name ?u)) \<in> line_of ` set sent"
    unfolding set_map .
  moreover have "?u \<in> set (users ?s)" by (simp add: sample_users_state_def browser.defs)
  moreover have "?u \<notin> set (sortedUsers localeCompare ?s)"
    by (simp add: sortedUsers_def sample_users_state_def browser.defs in_filter_def js_sort_def
        sample_user_def)
  ultimately show "\<exists>s u. u \<in> set (users s) \<and> u \<notin> set (sortedUsers localeCompare s) \<and>
      (\<exists>s' sent. run (confirmDeleteSelected (handleSelectAll True s)) (logging answer)
          (handleSelectAll True s) [] = (Inr (), s', sent) \<and>
        (''DELETE'', delete_url (us_name u)) \<in> line_of ` set sent)"
    by (intro exI [of _ ?s] exI [of _ ?u] exI [of _ s'] exI [of _ sent] conjI)
qed

definition removal_plan :: "users_state \<Rightarrow> user_status \<Rightarrow> http_request list" where
  "removal_plan s user =
     (if set (selectedInboundsToRemove s) = set (nullish (us_inbound_tags user) [])
      then [delete_request (us_name user) s]
      else map (\<lambda>tag. remove_request (us_name user) tag s) (selectedInboundsToRemove s))"

lemma same_size_iff:
  assumes "distinct xs" and "distinct ys" and "set xs \<subseteq> set ys"
  shows "length xs = length ys \<longleftrightarrow> set xs = set ys"
proof
  assume "length xs = length ys"
  then have "card (set xs) = card (set ys)"
    using assms(1,2) by (simp add: distinct_card)
  then show "set xs = set ys" using assms(3) by (simp add: card_subset_eq)
next
  assume "set xs = set ys"
  then show "length xs = length ys"
    using assms(1,2) by (metis distinct_card)
qed

abbreviation removal_body :: "users_state \<Rightarrow> user_status \<Rightarrow> unit users_io" where
  "removal_body s user \<equiv>
     (if set (selectedInboundsToRemove s) = set (nullish (us_inbound_tags user) []) then deleteUser (us_name user)
      else for_each (selectedInboundsToRemove s) (removeUserFromInbound (us_name user)))"

lemma performs_removal:
  assumes "storage t = storage s"
  shows "performs (removal_body s user) t (removal_plan s user)"
proof (cases "set (selectedInboundsToRemove s) = set (nullish (us_inbound_tags user) [])")
  case True
  then show ?thesis
    using performs_deleteUser [of "us_name user" t] request_unchanged [OF assms]
    by (simp add: removal_plan_def delete_request_def)
next
  case False
  then show ?thesis
    using performs_for_each1 [of "selectedInboundsToRemove s" "removeUserFromInbound (us_name user)" t,
        OF performs_remove] request_frames(3) [OF assms]
    by (simp add: removal_plan_def)
qed

text \<open>C15: removing a user from selected inbounds deletes the user exactly when all of its inbounds are
  selected; otherwise each selected inbound gets its DELETE, up to the first that fails. The list is
  reloaded only when all went well.\<close>

theorem remove_from_selected_inbounds:
  assumes "m_data (modalState s) = Some user" and "us_inbound_tags user = Some tags"
    and "distinct tags" and "distinct (selectedInboundsToRemove s)"
    and "set (selectedInboundsToRemove s) \<subseteq> set tags"
  shows "\<exists>s' sent. run (handleRemoveFromSelectedInbounds s) (logging answer) s [] = (Inr (), s', sent) \<and>
     (accepted answer [] (removal_plan s user) \<longrightarrow> sent = removal_plan s user @ [users_request s]) \<and>
     (\<not> accepted answer [] (removal_plan s user) \<longrightarrow>
        (\<exists>k. failed_at answer [] (removal_plan s user) k \<and> sent = take (Suc k) (removal_plan s user)))"
proof -
  let ?s1 = "s\<lparr>modalState := modal_closed, selectedInboundsToRemove := []\<rparr>"
  let ?all = "set (selectedInboundsToRemove s) = set tags"
  let ?msg = "if ?all then ''User deleted successfully''
    else ''User removed from '' @ show_nat (length (selectedInboundsToRemove s)) @ '' inbound(s)''"
  have test: "(length (selectedInboundsToRemove s) = tag_count user) = ?all"
    using same_size_iff [OF assms(4,3,5)] assms(2) by (simp add: tag_count_def)
  have h: "handleRemoveFromSelectedInbounds s =
      seq (modify (\<lambda>s. s\<lparr>modalState := modal_closed, selectedInboundsToRemove := []\<rparr>))
        (try_catch (seq (removal_body s user) (seq (success ?msg) fetchUsers))
          (\<lambda>err. toastError (''Failed to remove user: '' @ show_err err)))"
    using assms(1,2) by (simp add: handleRemoveFromSelectedInbounds_def Let_def test)
  have st: "storage ?s1 = storage s" by simp
  note perf = performs_removal [OF st, of user]
  show ?thesis
  proof (cases "accepted answer [] (removal_plan s user)")
    case True
    have fr: "users_request ?s1 = users_request s" by (rule request_frames(5) [OF st])
    show ?thesis
      using performs_ok [OF perf True] True fr by (simp add: h run_simps)
  next
    case False
    obtain k e t where "failed_at answer [] (removal_plan s user) k"
      "run (removal_body s user) (logging answer) ?s1 [] = (Inl e, t, [] @ take (Suc k) (removal_plan s user))"
      by (rule performs_fail [OF perf False])
    then show ?thesis using False by (auto simp: h run_simps)
  qed
qed

text \<open>C16: bulk creation in sequential mode sends one request, with as many users as asked, whose names
  carry consecutive numbers and are distinct, and whose ids are distinct when the generator does not
  repeat itself; the dialog closes only when the server accepts.\<close>

theorem bulk_create_sequential:
  assumes "bk_mode (bulkConfig s) = ''sequential''" and "bk_start_index (bulkConfig s) = Fin k"
    and "inj (uuid_draws s)"
  shows "\<exists>s' q us others. run (handleBulkCreate s) (logging answer) s [] = (Inr (), s', q # others) \<and>
     line_of q = (''POST'', ''/api/users/bulk'') \<and>
     rq_body q = Some (JsonBody (JArr (map create_user_json us))) \<and>
     map cr_name us = map (\<lambda>i. bk_prefix (bulkConfig s) @ ''-'' @ show_int (k + int i) @ bk_suffix (bulkConfig s))
       [0..<rounds (bk_count (bulkConfig s))] \<and>
     distinct (map cr_name us) \<and> distinct (map cr_uuid us) \<and>
     others = (if ok_answer (answer [] q) then [users_request s] else []) \<and>
     modalState s' = (if ok_answer (answer [] q) then modal_closed else modalState s)"
proof -
  obtain s' where r: "run (handleBulkCreate s) (logging answer) s [] =
      (Inr (), s', bulk_request s #
         (if ok_answer (answer [] (bulk_request s)) then [users_request s] else []))"
    "modalState s' = (if ok_answer (answer [] (bulk_request s)) then modal_closed else modalState s)"
    using run_handleBulkCreate [OF assms(1), of answer] by blast
  have name: "sequential_name s = (\<lambda>i. bk_prefix (bulkConfig s) @ ''-'' @ show_int (k + int i) @ bk_suffix (bulkConfig s))"
    using assms(2) by (auto simp: sequential_name_def)
  have names: "distinct (map cr_name (bulk_users s))"
    unfolding bulk_users_simps(2) using sequential_name_inj [OF assms(2)]
    by (simp add: distinct_map inj_on_def)
  have ids: "distinct (map cr_uuid (bulk_users s))"
    using assms(3) by (auto simp: bulk_users_simps(3) distinct_map intro: inj_on_subset)
  have q: "line_of (bulk_request s) = (''POST'', ''/api/users/bulk'')"
    "rq_body (bulk_request s) = Some (JsonBody (JArr (map create_user_json (bulk_users s))))"
    by (simp_all add: bulk_request_def)
  show ?thesis
    using r q names ids bulk_users_simps(2) [of s, unfolded name] by blast
qed

text \<open>With an empty start index, all users of a bulk creation get the same name.\<close>

theorem bulk_create_empty_start:
  assumes "bk_mode (bulkConfig s) = ''sequential''" and "bk_start_index (bulkConfig s) = num_of_parse (parse_int [])"
  shows "\<exists>s' q us others. run (handleBulkCreate s) (logging answer) s [] = (Inr (), s', q # others) \<and>
     rq_body q = Some (JsonBody (JArr (map create_user_json us))) \<and>
     length us = rounds (bk_count (bulkConfig s)) \<and>
     (\<forall>u \<in> set us. cr_name u = bk_prefix (bulkConfig s) @ ''-NaN'' @ bk_suffix (bulkConfig s))"
proof -
  have nan: "num_of_parse (parse_int []) = NaN" by code_simp
  have "sequential_name s i = bk_prefix (bulkConfig s) @ ''-NaN'' @ bk_suffix (bulkConfig s)" for i
    using assms(2) by (simp add: sequential_name_def nan)
  moreover have "cr_name u \<in> sequential_name s ` UNIV" if "u \<in> set (bulk_users s)" for u
  proof -
    have "cr_name u \<in> set (map cr_name (bulk_users s))" using that by simp
    then show ?thesis unfolding bulk_users_simps(2) by auto
  qed
  ultimately have "\<forall>u \<in> set (bulk_users s). cr_name u = bk_prefix (bulkConfig s) @ ''-NaN'' @ bk_suffix (bulkConfig s)"
    by auto
  moreover have "rq_body (bulk_request s) = Some (JsonBody (JArr (map create_user_json (bulk_users s))))"
    by (simp add: bulk_request_def)
  ultimately show ?thesis
    using run_handleBulkCreate [OF assms(1), of answer] bulk_users_simps(1) [of s] by blast
qed

end
