(* ===== verification/Users_Races.thy ===== *)
theory Users_Races
  imports Users_Page
begin

text \<open>
  Late responses. Nothing in UserManagement.tsx cancels a request whose dialog has been closed, and a
  response is applied to the page as it is when it arrives. Two concrete executions of the event loop
  show what that does to the link dialog and to the edit form.
\<close>

section \<open>Executions\<close>

lemma launch_modify:
  "launch (modify f) c = c\<lparr>loop_page := f (loop_page c), loop_tasks := loop_tasks c @ [Return ()]\<rparr>"
  by (simp add: launch_def modify_def)

lemma reach_update:
  "reachable users_handlers answers init c \<Longrightarrow> page_update (loop_page c) f \<Longrightarrow>
     reachable users_handlers answers init (launch (modify f) c)"
  by (rule reachable.further, assumption, rule loop_step.fire)
    (simp add: users_handlers_def users_handler.intros)

lemma reach_handler:
  "reachable users_handlers answers init c \<Longrightarrow> users_handler (loop_page c) h \<Longrightarrow>
     reachable users_handlers answers init (launch h c)"
  by (rule reachable.further, assumption, rule loop_step.fire) (simp add: users_handlers_def)

definition start_loop :: "users_state \<Rightarrow> (http_request, fetch_result, users_state) loop" where
  "start_loop s = \<lparr>loop_page = s, loop_tasks = [], loop_sent = []\<rparr>"

lemma reachable_start: "reachable users_handlers answers s (start_loop s)"
  unfolding start_loop_def by (rule reachable.initial)

fun waits :: "(http_request, fetch_result, users_state, unit) io \<Rightarrow> http_request \<Rightarrow> bool" where
  "waits (Await q' k) q = (q' = q)"
| "waits p q = False"

definition waits_for :: "nat \<Rightarrow> http_request \<Rightarrow> (http_request, fetch_result, users_state) loop \<Rightarrow> bool" where
  "waits_for i q c = (i < length (loop_tasks c) \<and> waits (loop_tasks c ! i) q)"

lemma reach_resume:
  assumes "reachable users_handlers answers init c" and "waits_for i q c" and "answers q r"
  shows "reachable users_handlers answers init (resume i r c)"
proof -
  obtain k where "loop_tasks c ! i = Await q k"
    using assms(2) by (cases "loop_tasks c ! i") (auto simp: waits_for_def)
  with assms show ?thesis
    by (auto simp: waits_for_def intro: reachable.further loop_step.arrive)
qed

definition race_user :: "string \<Rightarrow> user_status" where
  "race_user name = (sample_user name 0 0)\<lparr>us_inbound_tags := Some [''in'']\<rparr>"

definition race_state :: users_state where
  "race_state = sample_users_state\<lparr>users := [race_user ''al'', race_user ''bo''],
     inbounds := [JObj [(''tag'', JStr ''in''), (''type'', JStr ''vless'')]]\<rparr>"

section \<open>The link dialog\<close>

text \<open>A server whose link for a user and an inbound is the URL it was asked with.\<close>

definition link_answer :: "http_request \<Rightarrow> fetch_result" where
  "link_answer q = Answered \<lparr>rs_status = 200, rs_text = [], rs_json = Inr (PLink (Some (rq_url q)))\<rparr>"

text \<open>The dialog of \<open>al\<close> is opened and asks for the link; it is closed, the dialog of \<open>bo\<close> is opened
  and asks too; the two answers arrive in the other order.\<close>

definition qr_race1 :: "(http_request, fetch_result, users_state) loop" where
  "qr_race1 =
     (let c = launch (modify resetQr) (launch (modify (openQr (race_user ''al''))) (start_loop race_state))
      in launch (loadQr (loop_page c)) c)"

definition qr_race2 :: "(http_request, fetch_result, users_state) loop" where
  "qr_race2 =
     (let c = launch (modify resetQr) (launch (modify (openQr (race_user ''bo'')))
                (launch (modify resetQr) (launch (modify closeModal) qr_race1)))
      in launch (loadQr (loop_page c)) c)"

definition link_request :: "string \<Rightarrow> users_state \<Rightarrow> http_request" where
  "link_request name s =
     request ''GET'' (''/api/users/'' @ encodeURIComponent name @ ''/link?inbound='' @ encodeURIComponent ''in'')
       None None s"

definition qr_race3 :: "(http_request, fetch_result, users_state) loop" where
  "qr_race3 = resume 2 (link_answer (link_request ''al'' race_state))
     (resume 7 (link_answer (link_request ''bo'' race_state)) qr_race2)"


lemma qr_race_page:
  "m_data (modalState (loop_page qr_race3)) = Some (race_user ''bo'') \<and>
   m_type (modalState (loop_page qr_race3)) = Some MQr \<and>
   qrLink (loop_page qr_race3) = rq_url (link_request ''al'' race_state) \<and>
   map_of (qrLinkCache (loop_page qr_race3)) ''in'' = Some (Some (rq_url (link_request ''al'' race_state)))"
  by code_simp

lemma qr_race_waits:
  "waits_for 7 (link_request ''bo'' race_state) qr_race2"
  "waits_for 2 (link_request ''al'' race_state) (resume 7 (link_answer (link_request ''bo'' race_state)) qr_race2)"
  by code_simp+

lemma qr_race_reachable: "reachable users_handlers (\<lambda>q r. r = link_answer q) race_state qr_race3"
proof -
  have users: "race_user ''al'' \<in> set (users race_state)" "race_user ''bo'' \<in> set (users race_state)"
    by (simp_all add: race_state_def)
  have frame: "users (resetQr s) = users s" "users (openQr u s) = users s" "users (closeModal s) = users s"
    for s u
    by (auto simp: resetQr_def openQr_def closeModal_def split: option.splits modal_type.splits list.splits)
  have page1: "users (loop_page (launch (loadQr c) l)) = users (loop_page l)" for c l
    by (auto simp: launch_def loadQr_def Let_def modify_def try_finally_def getUserLink_def call_json_def
        send_def fetch_def split: prod.splits option.splits list.splits)
  have r1: "reachable users_handlers (\<lambda>q r. r = link_answer q) race_state qr_race1"
    unfolding qr_race1_def Let_def
    by (intro reach_handler reach_update page_update.intros users_handler.intros reachable_start)
      (simp_all add: start_loop_def users)
  have u1: "users (loop_page qr_race1) = users race_state"
    by (simp add: qr_race1_def Let_def page1 launch_modify frame start_loop_def)
  have r2: "reachable users_handlers (\<lambda>q r. r = link_answer q) race_state qr_race2"
    unfolding qr_race2_def Let_def
    by (intro reach_handler reach_update page_update.intros users_handler.intros r1)
      (simp_all add: launch_modify frame u1 users)
  show ?thesis
    unfolding qr_race3_def
    by (rule reach_resume [OF reach_resume [OF r2 qr_race_waits(1) refl] qr_race_waits(2) refl])
qed

section \<open>The edit form\<close>

text \<open>A server on which \<open>al\<close> has the flow \<open>vision\<close> in the inbound and \<open>bo\<close> has none.\<close>

definition flow_answer :: "http_request \<Rightarrow> fetch_result" where
  "flow_answer q = Answered \<lparr>rs_status = 200, rs_text = [], rs_json = Inr (PUserInbounds
     [\<lparr>ui_tag = ''in'', ui_uuid = [],
       ui_flow = (if rq_url q = ''/api/users/al/inbounds'' then Some vision else None),
       ui_vmess_security = None, ui_vmess_alter_id = None\<rparr>])\<rparr>"

definition inbounds_request :: "string \<Rightarrow> users_state \<Rightarrow> http_request" where
  "inbounds_request name s =
     request ''GET'' (''/api/users/'' @ encodeURIComponent name @ ''/inbounds'') None None s"

definition edit_race2 :: "(http_request, fetch_result, users_state) loop" where
  "edit_race2 =
     (let c = launch (handleEditClick race_state (race_user ''al'')) (start_loop race_state);
          d = launch (modify closeModal) c
      in launch (handleEditClick (loop_page d) (race_user ''bo'')) d)"

definition edit_race3 :: "(http_request, fetch_result, users_state) loop" where
  "edit_race3 = resume 0 (flow_answer (inbounds_request ''al'' race_state))
     (resume 2 (flow_answer (inbounds_request ''bo'' race_state)) edit_race2)"

lemma edit_race_page:
  "originalName (loop_page edit_race3) = ''bo'' \<and> isEditing (loop_page edit_race3) \<and>
   inboundRows (loop_page edit_race3) = [\<lparr>row_tag = ''in'', row_flow = vision\<rparr>] \<and>
   inboundRows (loop_page (resume 2 (flow_answer (inbounds_request ''bo'' race_state)) edit_race2)) =
     [\<lparr>row_tag = ''in'', row_flow = []\<rparr>]"
  by code_simp

lemma edit_race_waits:
  "waits_for 2 (inbounds_request ''bo'' race_state) edit_race2"
  "waits_for 0 (inbounds_request ''al'' race_state)
     (resume 2 (flow_answer (inbounds_request ''bo'' race_state)) edit_race2)"
  by code_simp+

lemma edit_race_reachable: "reachable users_handlers (\<lambda>q r. r = flow_answer q) race_state edit_race3"
proof -
  have "users_handler (loop_page (start_loop race_state)) (handleEditClick race_state u)" for u
    using users_handler.intros(10) [of race_state u] by (simp add: start_loop_def)
  then have r: "reachable users_handlers (\<lambda>q r. r = flow_answer q) race_state edit_race2"
    unfolding edit_race2_def Let_def
    by (intro reach_handler reach_update page_update.intros reachable_start
        users_handler.intros(10)) simp_all
  show ?thesis
    unfolding edit_race3_def
    by (rule reach_resume [OF reach_resume [OF r edit_race_waits(1) refl] edit_race_waits(2) refl])
qed

section \<open>Properties\<close>

text \<open>The link dialog of one user can show, and keep in its cache, the link of another: an answer
  that arrives after its dialog was closed goes into the dialog that is open, when both users share the
  inbound. The server answers every link request with a link that names the user it was asked for.\<close>

theorem late_link_in_other_dialog:
  "\<exists>c user. reachable users_handlers (\<lambda>q r. r = link_answer q) race_state c \<and>
     m_type (modalState (loop_page c)) = Some MQr \<and> m_data (modalState (loop_page c)) = Some user \<and>
     us_name user = ''bo'' \<and> qrLink (loop_page c) = ''/api/users/al/link?inbound=in'' \<and>
     map_of (qrLinkCache (loop_page c)) ''in'' = Some (Some ''/api/users/al/link?inbound=in'')"
proof -
  have url: "rq_url (link_request ''al'' race_state) = ''/api/users/al/link?inbound=in''" by code_simp
  show ?thesis
    using qr_race_reachable qr_race_page
    by (intro exI [of _ qr_race3] exI [of _ "race_user ''bo''"])
      (simp add: url race_user_def sample_user_def)
qed

text \<open>The same of the edit form: the flow of the user edited before can overwrite, in the rows of
  the user being edited, the flow that was loaded for that user.\<close>

theorem late_flow_in_other_form:
  "\<exists>c. reachable users_handlers (\<lambda>q r. r = flow_answer q) race_state c \<and>
     isEditing (loop_page c) \<and> originalName (loop_page c) = ''bo'' \<and>
     inboundRows (loop_page c) = [\<lparr>row_tag = ''in'', row_flow = vision\<rparr>]"
  using edit_race_reachable edit_race_page by blast

end
