(* ===== verification/Users_Witnesses.thy ===== *)
theory Users_Witnesses
  imports Users_Races
begin

text \<open>The properties of the page of users at concrete states and answers.\<close>

abbreviation all_ok :: "http_request list \<Rightarrow> http_request \<Rightarrow> fetch_result" where
  "all_ok \<equiv> \<lambda>_ _. Answered (answer_status 200 [])"

abbreviation all_fail :: "http_request list \<Rightarrow> http_request \<Rightarrow> fetch_result" where
  "all_fail \<equiv> \<lambda>_ _. Answered (answer_status 500 ''down'')"

text \<open>Editing \<open>bob\<close>, from the inbounds \<open>a\<close> and \<open>b\<close> to \<open>b\<close> and \<open>c\<close>.\<close>

definition edit_state :: users_state where
  "edit_state = sample_users_state\<lparr>isEditing := True, originalName := ''bob'',
     newUser := (empty_user (Some True) [])\<lparr>cr_name := ''bob'', cr_uuid := ''u1''\<rparr>,
     originalInboundTags := [''a'', ''b''],
     inboundRows := [\<lparr>row_tag = ''b'', row_flow = vision\<rparr>, \<lparr>row_tag = ''c'', row_flow = []\<rparr>],
     modalState := modal_of MCreate\<rparr>"

definition create_state :: users_state where
  "create_state = sample_users_state\<lparr>
     inbounds := [JObj [(''tag'', JStr ''b''), (''type'', JStr ''vless'')],
                  JObj [(''tag'', JStr ''c''), (''type'', JStr ''vless'')]],
     newUser := (empty_user (Some True) [])\<lparr>cr_name := ''bob''\<rparr>,
     inboundRows := [\<lparr>row_tag = ''b'', row_flow = vision\<rparr>, \<lparr>row_tag = ''c'', row_flow = []\<rparr>],
     modalState := modal_of MCreate\<rparr>"

theorem save_syncs_inbounds_witness:
  "\<exists>s' sent. run (handleSaveUser edit_state) (logging all_ok) edit_state [] = (Inr (), s', sent) \<and>
     fold (member_effect ''bob'') sent ((\<lambda>_. None)(''a'' \<mapsto> (''u0'', []), ''b'' \<mapsto> (''u0'', []))) =
       map_of [(''b'', (''u1'', vision)), (''c'', (''u1'', []))] \<and>
     form_of s' = form_of (reset_form edit_state edit_state)"
proof -
  have c: "savable edit_state" "isEditing edit_state" "cr_enabled (newUser edit_state) \<noteq> Some False"
    "\<not> name_changed edit_state" "accepted all_ok [] (save_plan edit_state (saved_uuid edit_state))"
    by code_simp+
  have d: "dom ((\<lambda>_. None)(''a'' \<mapsto> (''u0'', []), ''b'' \<mapsto> (''u0'', []))) = set (originalTags edit_state)"
    by (auto simp: originalTags_def edit_state_def)
  have r: "map (\<lambda>row. (row_tag row, (saved_uuid edit_state, row_flow_of edit_state row)))
      (normalizedRows edit_state) = [(''b'', (''u1'', vision)), (''c'', (''u1'', []))]"
    "cr_name (newUser edit_state) = ''bob''"
    by code_simp+
  show ?thesis using save_syncs_inbounds [OF c d] unfolding r .
qed

theorem create_enters_inbounds_witness:
  "\<exists>s' sent. run (handleSaveUser create_state) (logging all_ok) create_state [] = (Inr (), s', sent) \<and>
     length sent = 3 \<and>
     fold (member_effect ''bob'') sent (\<lambda>_. None) =
       map_of [(''b'', (''0'', vision)), (''c'', (''0'', []))] \<and>
     form_of s' = form_of (reset_form create_state create_state)"
proof -
  have c: "inboundValid create_state" "\<not> isEditing create_state"
    "accepted all_ok [] (save_plan create_state (saved_uuid create_state))"
    by code_simp+
  have r: "map (\<lambda>row. (row_tag row, (saved_uuid create_state, row_flow_of create_state row)))
      (normalizedRows create_state) = [(''b'', (''0'', vision)), (''c'', (''0'', []))]"
    "cr_name (newUser create_state) = ''bob''" "Suc (length (inboundRows create_state)) = 3"
    by code_simp+
  show ?thesis using create_enters_inbounds [OF c] unfolding r .
qed

theorem failed_save_keeps_form_witness:
  "\<exists>s' k e. run (handleSaveUser edit_state) (logging all_fail) edit_state [] =
      (Inr (), s', take (Suc k) (save_plan edit_state (saved_uuid edit_state))) \<and>
      failed_at all_fail [] (save_plan edit_state (saved_uuid edit_state)) k \<and>
      form_of s' = form_of edit_state \<and>
      t_message (last (toasts s')) = ''Failed to save user: '' @ show_err e"
proof (rule failed_save_keeps_form)
  show "savable edit_state" "\<not> accepted all_fail [] (save_plan edit_state (saved_uuid edit_state))"
    by code_simp+
qed



theorem selection_stays_listed_witness:
  "\<exists>c :: (http_request, fetch_result, users_state) loop. loop_sent c = [(race_state, users_request race_state)] \<and> distinct (selectedUsers (loop_page c)) \<and>
     (\<forall>(u, q) \<in> set (loop_sent c). map_of (rq_headers q) ''Authorization'' = expected_authorization u)"
proof -
  let ?c = "launch fetchUsers (start_loop race_state)"
  have "reachable users_handlers (\<lambda>_ _. True) race_state ?c"
    by (intro reach_handler reachable_start users_handler.intros)
  moreover have "users_inv race_state"
    by (simp add: users_inv_unfold race_state_def sample_users_state_def browser.defs)
  moreover have "loop_sent ?c = [(race_state, users_request race_state)]"
    by (simp add: launch_def start_loop_def fetchUsers_def getUsers_def send_def fetch_def
        users_request_def request_def)
  ultimately show ?thesis
    using selection_stays_listed [of "\<lambda>_ _. True" race_state ?c] by (intro exI [of _ ?c]) simp
qed


theorem remove_from_selected_inbounds_witness:
  "let s = sample_users_state\<lparr>selectedInboundsToRemove := [''b''],
         modalState := \<lparr>m_type = Some MSelectInbounds,
           m_data = Some ((sample_user ''bob'' 5 0)\<lparr>us_inbound_tags := Some [''a'', ''b'']\<rparr>)\<rparr>\<rparr>
   in \<exists>s'. run (handleRemoveFromSelectedInbounds s) (logging all_ok) s [] =
      (Inr (), s', [remove_request ''bob'' ''b'' s, users_request s])"
proof -
  let ?u = "(sample_user ''bob'' 5 0)\<lparr>us_inbound_tags := Some [''a'', ''b'']\<rparr>"
  let ?s = "sample_users_state\<lparr>selectedInboundsToRemove := [''b''],
         modalState := \<lparr>m_type = Some MSelectInbounds, m_data = Some ?u\<rparr>\<rparr>"
  have plan: "removal_plan ?s ?u = [remove_request ''bob'' ''b'' ?s]"
    by (simp add: removal_plan_def sample_user_def)
  moreover have "accepted all_ok [] [remove_request ''bob'' ''b'' ?s]"
    by (simp add: res_ok_def)
  ultimately show ?thesis
    using remove_from_selected_inbounds [of ?s ?u "[''a'', ''b'']" all_ok]
    by (auto simp: Let_def)
qed

theorem bulk_create_sequential_witness:
  "\<exists>s' q us others. run (handleBulkCreate sample_users_state) (logging all_ok) sample_users_state [] =
       (Inr (), s', q # others) \<and>
     rq_body q = Some (JsonBody (JArr (map create_user_json us))) \<and> map cr_name us = [''user-1'']"
proof -
  let ?s = sample_users_state
  have c: "bk_mode (bulkConfig ?s) = ''sequential''" "bk_start_index (bulkConfig ?s) = Fin 1"
    by code_simp+
  have "uuid_draws ?s = show_nat" by (simp add: sample_users_state_def browser.defs)
  then have i: "inj (uuid_draws ?s)" using show_nat_inj by (simp add: inj_def)
  have n: "map (\<lambda>i. bk_prefix (bulkConfig ?s) @ ''-'' @ show_int (1 + int i) @ bk_suffix (bulkConfig ?s))
       [0..<rounds (bk_count (bulkConfig ?s))] = [''user-1'']"
    by code_simp
  show ?thesis using bulk_create_sequential [OF c i, of all_ok] unfolding n
    by (elim ex_forward) (elim conjE, intro conjI, assumption+)
qed

theorem bulk_create_empty_start_witness:
  "let s = sample_users_state\<lparr>bulkConfig := (bulkConfig sample_users_state)\<lparr>
         bk_count := Fin 2, bk_start_index := num_of_parse (parse_int [])\<rparr>\<rparr>
   in \<exists>s' q (us :: create_user_request list) others. run (handleBulkCreate s) (logging all_ok) s [] = (Inr (), s', q # others) \<and>
     length us = 2 \<and> (\<forall>u \<in> set us. cr_name u = ''user-NaN'')"
proof -
  let ?s = "sample_users_state\<lparr>bulkConfig := (bulkConfig sample_users_state)\<lparr>
         bk_count := Fin 2, bk_start_index := num_of_parse (parse_int [])\<rparr>\<rparr>"
  have c: "bk_mode (bulkConfig ?s) = ''sequential''"
    "bk_start_index (bulkConfig ?s) = num_of_parse (parse_int [])" by code_simp+
  have n: "rounds (bk_count (bulkConfig ?s)) = 2"
    "bk_prefix (bulkConfig ?s) @ ''-NaN'' @ bk_suffix (bulkConfig ?s) = ''user-NaN''"
    by code_simp+
  show ?thesis unfolding Let_def using bulk_create_empty_start [OF c, of all_ok] unfolding n
    by (elim ex_forward) (elim conjE, intro conjI, assumption+)
qed

end
