(* ===== verification/Auth.thy ===== *)
theory Auth
  imports Api_Facts
begin

text \<open>
  The session: \<open>login\<close> and \<open>logout\<close> of context/AuthContext.tsx, the form of components/Login.tsx, the
  gate of components/ProtectedRoute.tsx and the sign-out of components/Layout.tsx. The page of this
  theory is the event loop over all of them and over every client function of api.ts.
\<close>

record login_state = browser +
  username :: string
  password :: string
  error :: string
  loading :: bool

section \<open>Logging in and out\<close>

definition setToken :: "string \<Rightarrow> 'b browser_scheme \<Rightarrow> 'b browser_scheme" where
  "setToken t s = s\<lparr>auth_token := Some t\<rparr>"

fun token_member :: "payload \<Rightarrow> string option" where
  "token_member (PJson j) = (case jget ''token'' j of Some (JStr t) \<Rightarrow> Some t | _ \<Rightarrow> None)"
| "token_member _ = None"

definition login :: "string \<Rightarrow> string \<Rightarrow> ('b, unit) client" where
  "login user pass =
     bind (fetch \<lparr>rq_method = ''POST'', rq_url = ''/api/login'',
                  rq_headers = [(''Content-Type'', ''application/json'')],
                  rq_body = Some (JsonBody (obj [(''username'', Some (JStr user)),
                                                 (''password'', Some (JStr pass))]))\<rparr>)
       (\<lambda>res. if \<not> res_ok res then Throw (Error ''Login failed'')
         else bind (json_body res)
           (\<lambda>data. case token_member data of
              Some t \<Rightarrow> modify (setToken t)
            | None \<Rightarrow> Throw ill_typed))"

definition handleSubmit :: "login_state \<Rightarrow> (http_request, fetch_result, login_state, unit) io" where
  "handleSubmit c =
     seq (modify (\<lambda>s. s\<lparr>error := [], loading := True\<rparr>))
       (try_finally
         (try_catch
           (seq (login (username c) (password c)) (modify (navigate ''/'')))
           (\<lambda>_. modify (\<lambda>s. s\<lparr>error := ''Invalid credentials''\<rparr>)))
         (modify (\<lambda>s. s\<lparr>loading := False\<rparr>)))"

text \<open>The effect of the login page: a signed-in visitor is sent to the dashboard.\<close>

definition login_effect :: "login_state \<Rightarrow> login_state" where
  "login_effect s = (if isAuthenticated s then navigate ''/'' s else s)"

definition handleLogout :: "'b browser_scheme \<Rightarrow> 'b browser_scheme" where
  "handleLogout s = navigate ''/login'' (logout s)"

datatype gate = Outlet | NavigateTo string

definition ProtectedRoute :: "'b browser_scheme \<Rightarrow> gate" where
  "ProtectedRoute s = (if \<not> isAuthenticated s then NavigateTo ''/login'' else Outlet)"

section \<open>The session page\<close>

text \<open>Everything that may start while the client is open, seen from the session.\<close>

definition session_handlers :: "login_state \<Rightarrow> (http_request, fetch_result, login_state, unit) io set" where
  "session_handlers s =
     {p. checked_call p} \<union>
     {forget getUsers, handleSubmit s, modify handleLogout, modify token_effect, modify login_effect}"

text \<open>The session invariant: no token is stored that the provider does not hold.\<close>

definition session_inv :: "'b browser_scheme \<Rightarrow> bool" where
  "session_inv s \<longleftrightarrow> (auth_token s = None \<longrightarrow> stored_token s = None)"

definition session_sends :: "'b browser_scheme \<Rightarrow> http_request \<Rightarrow> bool" where
  "session_sends s q \<longleftrightarrow>
     (rq_url q = ''/api/login'' \<and> map_of (rq_headers q) ''Authorization'' = None) \<or> authorised s q"

lemma checked_call_guarded:
  assumes "checked_call p" and "logout_closed I" and "I s"
  shows "guarded I authorised p s"
proof -
  obtain meth url ct bdy msg k where k: "\<And>res. settled (k res)"
    and p: "p = bind (send meth url ct bdy) (\<lambda>res. seq (handleResponse res msg) (k res))"
    using checked_call_endpoint [OF assms(1)] unfolding endpoint_call_def by blast
  have "guarded I authorised (k res) t" if "I t" for res t
    using k [of res] that by (cases rule: settled.cases) auto
  then show ?thesis
    using assms(2,3) unfolding p logout_closed_def
    by (intro guard_intros) (auto simp: authorised_def authorised_buildHeaders)
qed

lemma session_inv_simps [simp]:
  "session_inv (logout s)" "session_inv (setToken t s)" "session_inv (handleLogout s)"
  "session_inv s \<Longrightarrow> session_inv (token_effect s)"
  "session_inv (navigate p s) = session_inv s"
  by (auto simp: session_inv_def setToken_def handleLogout_def navigate_def token_effect_def
      stored_token_def isAuthenticated_def logout_def)

lemma session_inv_form [simp]:
  "session_inv (s\<lparr>error := e\<rparr>) = session_inv s" "session_inv (s\<lparr>loading := l\<rparr>) = session_inv s"
  "session_inv (s\<lparr>error := e, loading := l\<rparr>) = session_inv s"
  by (simp_all add: session_inv_def stored_token_def)

lemma guarded_login:
  "session_inv s \<Longrightarrow> guarded session_inv session_sends (login u p) s"
  unfolding login_def
  by (auto simp: fetch_def session_sends_def intro!: guard_intros
      split: fetch_result.splits option.splits)

lemma guarded_handleSubmit:
  "session_inv s \<Longrightarrow> guarded session_inv session_sends (handleSubmit c) s"
  unfolding handleSubmit_def by (intro guard_intros guarded_login) auto

interpretation session: guarded_page session_handlers session_inv session_sends
proof
  fix s h
  assume inv: "session_inv s" and h: "h \<in> session_handlers s"
  have weaken: "guarded session_inv authorised p s \<Longrightarrow> guarded session_inv session_sends p s" for p
    by (erule guarded_imp) (simp add: session_sends_def)
  have "session_inv (login_effect s)" "session_inv (token_effect s)" "session_inv (handleLogout s)"
    using inv by (simp_all add: login_effect_def)
  with h have "checked_call h \<or> h = forget getUsers \<or> h = handleSubmit s \<or>
      (\<exists>f. h = modify f \<and> session_inv (f s))"
    unfolding session_handlers_def by blast
  then consider "checked_call h" | "h = forget getUsers" | "h = handleSubmit s"
    | "\<exists>f. h = modify f \<and> session_inv (f s)" by blast
  then show "guarded session_inv session_sends h s"
  proof cases
    case 1
    then show ?thesis
      using inv by (intro weaken checked_call_guarded) (auto simp: logout_closed_def)
  next
    case 2
    then show ?thesis using inv by (auto intro!: weaken guard_intros)
  next
    case 3
    then show ?thesis using inv guarded_handleSubmit by simp
  next
    case 4
    then show ?thesis by (auto intro: guard_intros)
  qed
qed

section \<open>Properties\<close>

text \<open>C2: in every interleaving of the client's handlers and of the responses, each request carries
  the token of the local storage at the moment it is sent, or none; and once the session has ended no
  request carries a token.\<close>

theorem requests_follow_session:
  assumes "reachable session_handlers answers init c" and "session_inv init"
    and "(u, q) \<in> set (loop_sent c)"
  shows "map_of (rq_headers q) ''Authorization'' \<in> {None, expected_authorization u} \<and>
     (auth_token u = None \<longrightarrow> map_of (rq_headers q) ''Authorization'' = None)"
proof -
  have "session_inv u" and "session_sends u q"
    using session.reachable_sends [OF assms] by auto
  then show ?thesis
    by (auto simp: session_sends_def authorised_def expected_authorization_def session_inv_def)
qed



section \<open>Witnesses\<close>

definition sample_login :: login_state where
  "sample_login = browser.extend sample_browser
     \<lparr>username = ''admin'', password = ''admin'', error = [], loading = False\<rparr>"

definition sample_delete :: http_request where
  "sample_delete = request ''DELETE'' ''/api/users?name=bob'' None None sample_login"

lemma launch_deleteUser:
  "loop_sent (launch (deleteUser ''bob'') \<lparr>loop_page = sample_login, loop_tasks = [], loop_sent = []\<rparr>)
     = [(sample_login, sample_delete)]"
  by (simp add: launch_def deleteUser_def call_void_def send_def fetch_def sample_delete_def
      request_def encodeURIComponent_def encode_char_def uri_unreserved_def is_alnum_def)

theorem requests_follow_session_witness:
  "auth_token sample_login = Some ''t0'' \<and>
   map_of (rq_headers sample_delete) ''Authorization'' \<in> {None, expected_authorization sample_login}"
proof -
  let ?c = "\<lparr>loop_page = sample_login, loop_tasks = [], loop_sent = []\<rparr>"
  have "reachable session_handlers (\<lambda>_ _. True) sample_login (launch (deleteUser ''bob'') ?c)"
    by (rule reachable.further [OF reachable.initial], rule loop_step.fire)
      (simp add: session_handlers_def checked_call.intros)
  moreover have "session_inv sample_login"
    by (simp add: session_inv_def sample_login_def sample_browser_def browser.defs)
  ultimately have "map_of (rq_headers sample_delete) ''Authorization'' \<in> {None, expected_authorization sample_login}"
    by (rule requests_follow_session [THEN conjunct1]) (simp add: launch_deleteUser)
  then show ?thesis by (simp add: sample_login_def sample_browser_def browser.defs)
qed


end
