(* ===== verification/WireGuard.thy ===== *)
theory WireGuard
  imports Api_Plan Format Js_Sort "HOL-Library.Word"
begin

text \<open>
  components/WireGuard.tsx: the peers, the interface, the dialogs, the undo of a deletion, the sort of
  the table. A handler takes the state \<open>c\<close> its closure captured. \<open>localeCompare\<close> and the text of the
  expiry time are parameters. \<open>fetchData\<close> starts three independent requests and awaits none of them;
  each handles its own response and its own errors, whenever they arrive.
\<close>

section \<open>State\<close>

datatype sort_key = ByAlias | ByIp | ByEndpoint | ByTraffic | ByHandshake

datatype config_tab = TabQr | TabDetails

record wg_state = browser +
  peers :: "wg_peer list"
  interfaceConfig :: "wg_interface option"
  showPeerModal :: bool
  showInterfaceModal :: bool
  editingPeer :: "wg_peer option"
  newName :: string
  newIp :: string
  newEndpoint :: string
  generatedTab :: config_tab
  editInterface :: "wg_interface option"
  sortKey :: sort_key
  sortDir :: sort_dir
  configModalPeer :: "wg_peer option"
  configText :: string
  configLoading :: bool
  configExpiry :: string
  configPrivateKey :: string
  copiedConfig :: bool
  pendingRestart :: bool
  systemctlAvailable :: "bool option"
  confirmDeletePeer :: "wg_peer option"
  lastDeletedPeer :: "wg_peer option"

type_synonym 'a wg_io = "(http_request, fetch_result, wg_state, 'a) io"

abbreviation success :: "string \<Rightarrow> unit wg_io" where
  "success msg \<equiv> modify (toast_success msg)"

abbreviation toastError :: "string \<Rightarrow> unit wg_io" where
  "toastError msg \<equiv> modify (toast_error msg)"

section \<open>Loading\<close>

definition fetchPeers :: "unit wg_io" where
  "fetchPeers =
     try_catch (bind getWireGuardPeers (\<lambda>data. modify (\<lambda>s. s\<lparr>peers := data\<rparr>)))
       (\<lambda>err. seq (modify (\<lambda>s. s\<lparr>peers := []\<rparr>))
                (toastError (''Failed to fetch peers: '' @ show_err err)))"

definition fetchInterface :: "unit wg_io" where
  "fetchInterface =
     try_catch (bind getWireGuardInterface (\<lambda>cfg. modify (\<lambda>s. s\<lparr>interfaceConfig := cfg\<rparr>)))
       (\<lambda>err. seq (modify (\<lambda>s. s\<lparr>interfaceConfig := None\<rparr>))
                (toastError (''Failed to fetch interface: '' @ show_err err)))"

definition fetchStatus :: "unit wg_io" where
  "fetchStatus =
     try_catch
       (bind getSystemStatus (\<lambda>status.
          seq (modify (\<lambda>s. s\<lparr>pendingRestart := nullish (ss_wireguard_pending_restart status) False\<rparr>))
              (modify (\<lambda>s. s\<lparr>systemctlAvailable := ss_systemctl_available status\<rparr>))))
       (\<lambda>_. modify (\<lambda>s. s\<lparr>pendingRestart := False\<rparr>))"

definition fetchData :: "unit wg_io" where
  "fetchData = seq (spawn fetchPeers) (seq (spawn fetchInterface) (spawn fetchStatus))"

section \<open>The configuration of a peer\<close>

definition key_label :: string where
  "key_label = ''PrivateKey''"

text \<open>The first match of \<open>/PrivateKey\s*=\s*([^\s]+)/\<close>: its group.\<close>

fun match_here :: "string \<Rightarrow> string option" where
  "match_here s =
     (if take (length key_label) s = key_label then
        (case dropWhile is_space (drop (length key_label) s) of
           c # cs \<Rightarrow>
             (let v = takeWhile (\<lambda>d. \<not> is_space d) (dropWhile is_space cs)
              in if c = CHR ''='' \<and> v \<noteq> [] then Some v else None)
         | [] \<Rightarrow> None)
      else None)"

fun match_private_key :: "string \<Rightarrow> string option" where
  "match_private_key [] = None"
| "match_private_key (c # cs) =
     (case match_here (c # cs) of Some v \<Rightarrow> Some v | None \<Rightarrow> match_private_key cs)"

definition openConfigModal :: "string \<Rightarrow> wg_peer \<Rightarrow> unit wg_io" where
  "openConfigModal expires peer =
     seq (modify (\<lambda>s. s\<lparr>generatedTab := TabQr, configModalPeer := Some peer, configText := [],
            configLoading := True, configExpiry := [],
            configPrivateKey := opt_str_or (wp_private_key peer) [], copiedConfig := False\<rparr>))
       (try_finally
         (try_catch
           (bind (getWireGuardPeerConfig (wp_public_key peer) None) (\<lambda>config.
              seq (modify (\<lambda>s. s\<lparr>configText := config, configExpiry := expires\<rparr>))
                (case match_private_key config of
                   Some key \<Rightarrow> modify (\<lambda>s. s\<lparr>configPrivateKey := key\<rparr>)
                 | None \<Rightarrow> skip)))
           (\<lambda>_. modify (\<lambda>s. s\<lparr>configText := [], configPrivateKey := []\<rparr>)))
         (modify (\<lambda>s. s\<lparr>configLoading := False\<rparr>)))"

definition closeConfigTop :: "wg_state \<Rightarrow> wg_state" where
  "closeConfigTop s =
     s\<lparr>configModalPeer := None, configText := [], configLoading := False, configExpiry := [],
       copiedConfig := False, generatedTab := TabQr\<rparr>"

definition closeConfigBottom :: "wg_state \<Rightarrow> wg_state" where
  "closeConfigBottom s = (closeConfigTop s)\<lparr>configPrivateKey := []\<rparr>"

section \<open>Peers\<close>

definition openAddPeer :: "wg_state \<Rightarrow> wg_state" where
  "openAddPeer s =
     s\<lparr>editingPeer := None, generatedTab := TabQr, newIp := [], newEndpoint := [], showPeerModal := True\<rparr>"

definition openEditPeer :: "wg_peer \<Rightarrow> wg_state \<Rightarrow> wg_state" where
  "openEditPeer peer s = s\<lparr>editingPeer := Some peer, showPeerModal := True\<rparr>"

definition cancelEditPeer :: "wg_state \<Rightarrow> wg_state" where
  "cancelEditPeer s = s\<lparr>showPeerModal := False, editingPeer := None\<rparr>"

definition changeEditingPeer :: "(wg_peer \<Rightarrow> wg_peer) \<Rightarrow> wg_state \<Rightarrow> wg_state" where
  "changeEditingPeer f s = s\<lparr>editingPeer := map_option f (editingPeer s)\<rparr>"

definition handleCreatePeer :: "string \<Rightarrow> wg_state \<Rightarrow> unit wg_io" where
  "handleCreatePeer expires c =
     (if trim (newName c) = [] then modify (alert ''Alias is required'')
      else
        try_catch
          (bind (createWireGuardPeer (newName c) (newIp c) (Some (newEndpoint c))) (\<lambda>peer.
             seq (modify (\<lambda>s. s\<lparr>newName := [], newIp := [], newEndpoint := [], generatedTab := TabQr,
                                showPeerModal := False\<rparr>))
               (seq (spawn (openConfigModal expires peer)) fetchData)))
          (\<lambda>err. toastError (''Failed to create peer: '' @ show_err err)))"

text \<open>What remains of a peer after \<open>const { persistent_keepalive, private_key, ...rest }\<close>.\<close>

definition peer_rest :: "wg_peer \<Rightarrow> json" where
  "peer_rest p = wg_peer_json (p\<lparr>wp_persistent_keepalive := None, wp_private_key := None\<rparr>)"

definition handleUpdatePeer :: "wg_state \<Rightarrow> unit wg_io" where
  "handleUpdatePeer c =
     (case editingPeer c of
        None \<Rightarrow> skip
      | Some peer \<Rightarrow>
          try_catch
            (seq (updateWireGuardPeer (wp_public_key peer) (peer_rest peer))
              (seq (modify (\<lambda>s. s\<lparr>editingPeer := None, showPeerModal := False\<rparr>)) fetchData))
            (\<lambda>err. toastError (''Failed to update peer: '' @ show_err err)))"

definition handleDeletePeer :: "string \<Rightarrow> wg_state \<Rightarrow> wg_state" where
  "handleDeletePeer publicKey s =
     s\<lparr>confirmDeletePeer := find (\<lambda>p. wp_public_key p = publicKey) (peers s)\<rparr>"

definition confirmDelete :: "wg_state \<Rightarrow> unit wg_io" where
  "confirmDelete c =
     (case confirmDeletePeer c of
        None \<Rightarrow> skip
      | Some target \<Rightarrow>
          seq (modify (\<lambda>s. s\<lparr>confirmDeletePeer := None\<rparr>))
            (try_catch
              (seq (deleteWireGuardPeer (wp_public_key target))
                (seq (modify (\<lambda>s. s\<lparr>lastDeletedPeer := Some target\<rparr>))
                  (seq (success ''Peer deleted'') fetchData)))
              (\<lambda>err. toastError (''Failed to delete peer: '' @ show_err err))))"

definition restore_of :: "wg_peer \<Rightarrow> restore_peer" where
  "restore_of p =
     \<lparr>rp_public_key = wp_public_key p, rp_allowed_ips = wp_allowed_ips p, rp_endpoint = wp_endpoint p,
      rp_alias = wp_alias p, rp_preshared_key = wp_preshared_key p\<rparr>"

definition handleRestorePeer :: "wg_state \<Rightarrow> unit wg_io" where
  "handleRestorePeer c =
     (case lastDeletedPeer c of
        None \<Rightarrow> skip
      | Some peer \<Rightarrow>
          try_catch
            (seq (restoreWireGuardPeer (restore_of peer))
              (seq (success ''Peer restored'')
                (seq (modify (\<lambda>s. s\<lparr>lastDeletedPeer := None\<rparr>)) fetchData)))
            (\<lambda>err. toastError (''Failed to restore peer: '' @ show_err err)))"

section \<open>Interface, restart\<close>

definition default_interface :: wg_interface where
  "default_interface =
     \<lparr>wi_address = [], wi_bind_address = None, wi_private_key = [], wi_listen_port = Fin 51820,
      wi_post_up = Some [], wi_post_down = Some [], wi_mtu = Some (Fin 1420), wi_dns = Some []\<rparr>"

definition openInterface :: "wg_state \<Rightarrow> wg_state" where
  "openInterface s =
     s\<lparr>editInterface := Some (nullish (interfaceConfig s) default_interface), showInterfaceModal := True\<rparr>"

definition changeListenPort :: "string \<Rightarrow> wg_interface \<Rightarrow> wg_interface" where
  "changeListenPort v i = i\<lparr>wi_listen_port := num_of_parse (parse_int v)\<rparr>"

definition handleUpdateInterface :: "wg_state \<Rightarrow> unit wg_io" where
  "handleUpdateInterface c =
     (case editInterface c of
        None \<Rightarrow> skip
      | Some cfg \<Rightarrow>
          try_catch
            (seq (updateWireGuardInterface cfg)
              (modify (\<lambda>s. s\<lparr>interfaceConfig := Some cfg, showInterfaceModal := False\<rparr>)))
            (\<lambda>err. toastError (''Failed to update interface: '' @ show_err err)))"

definition handleRestartWireGuard :: "unit wg_io" where
  "handleRestartWireGuard =
     try_catch
       (seq (restartService ''wireguard'')
         (seq (modify (\<lambda>s. s\<lparr>pendingRestart := False\<rparr>)) fetchData))
       (\<lambda>err. modify (alert (''Failed to restart WireGuard: '' @ show_err err)))"

section \<open>The sorted table\<close>

definition primaryAllowedIp :: "string \<Rightarrow> string" where
  "primaryAllowedIp allowed = trim (hd (split_on (CHR '','') allowed))"

text \<open>\<open>x << k\<close> is taken modulo \<open>2^32\<close> and read as a signed number; the sum is an exact number.\<close>

definition shl32 :: "int \<Rightarrow> nat \<Rightarrow> int" where
  "shl32 x k = sint (push_bit k (word_of_int x :: 32 word))"

definition ipToNum :: "string \<Rightarrow> int" where
  "ipToNum ip =
     (let base = hd (split_on (CHR ''/'') (primaryAllowedIp ip));
          parts = map parse_int (split_on (CHR ''.'') base)
      in case parts of
           [Some p0, Some p1, Some p2, Some p3] \<Rightarrow> shl32 p0 24 + shl32 p1 16 + shl32 p2 8 + p3
         | _ \<Rightarrow> 0)"

definition peer_endpoint :: "wg_peer \<Rightarrow> string" where
  "peer_endpoint p =
     to_lower (opt_str_or (map_option ws_endpoint (wp_stats p)) (opt_str_or (wp_endpoint p) []))"

definition peer_traffic :: "wg_peer \<Rightarrow> int" where
  "peer_traffic p = (case wp_stats p of Some t \<Rightarrow> ws_transfer_rx t + ws_transfer_tx t | None \<Rightarrow> 0)"

definition peer_handshake :: "wg_peer \<Rightarrow> int" where
  "peer_handshake p = (case wp_stats p of Some t \<Rightarrow> ws_latest_handshake t | None \<Rightarrow> 0)"

definition peer_alias :: "wg_peer \<Rightarrow> string" where
  "peer_alias p = to_lower (opt_str_or (wp_alias p) (opt_str_or (wp_name p) []))"

definition compare_peers ::
  "(string \<Rightarrow> string \<Rightarrow> int) \<Rightarrow> sort_key \<Rightarrow> sort_dir \<Rightarrow> wg_peer \<Rightarrow> wg_peer \<Rightarrow> rat" where
  "compare_peers localeCompare key d a b =
     (case key of
        ByEndpoint \<Rightarrow> of_int (localeCompare (peer_endpoint a) (peer_endpoint b)) * dir_sign d
      | ByTraffic \<Rightarrow> of_int (peer_traffic a - peer_traffic b) * dir_sign d
      | ByHandshake \<Rightarrow> of_int (peer_handshake a - peer_handshake b) * dir_sign d
      | ByIp \<Rightarrow> of_int (ipToNum (wp_allowed_ips a) - ipToNum (wp_allowed_ips b)) * dir_sign d
      | ByAlias \<Rightarrow> of_int (localeCompare (peer_alias a) (peer_alias b)) * dir_sign d)"

definition sortedPeers :: "(string \<Rightarrow> string \<Rightarrow> int) \<Rightarrow> wg_state \<Rightarrow> wg_peer list" where
  "sortedPeers localeCompare s = js_sort (compare_peers localeCompare (sortKey s) (sortDir s)) (peers s)"

definition toggleSort :: "sort_key \<Rightarrow> wg_state \<Rightarrow> wg_state" where
  "toggleSort key s =
     (if sortKey s = key then s\<lparr>sortDir := (if sortDir s = Asc then Desc else Asc)\<rparr>
      else s\<lparr>sortKey := key, sortDir := Asc\<rparr>)"

end
