(* ===== verification/WireGuard_Facts.thy ===== *)
theory WireGuard_Facts
  imports WireGuard
begin

text \<open>
  The page of WireGuard peers: the comparisons of its table, the secrets it sends, the deletion of a peer
  and its undo.
\<close>

section \<open>The table\<close>

interpretation by_traffic: comparator "compare_peers localeCompare ByTraffic d" for localeCompare d
proof
  fix x y z
  show "sgn (compare_peers localeCompare ByTraffic d y x) = - sgn (compare_peers localeCompare ByTraffic d x y)"
    unfolding compare_peers_def of_int_diff sort_key.case by (rule sgn_swap_diff)
  show "compare_peers localeCompare ByTraffic d x y \<le> 0 \<Longrightarrow>
      compare_peers localeCompare ByTraffic d y z \<le> 0 \<Longrightarrow>
      compare_peers localeCompare ByTraffic d x z \<le> 0"
    using dir_sign_cases [of d] by (auto simp: compare_peers_def)
qed

interpretation by_ip: comparator "compare_peers localeCompare ByIp d" for localeCompare d
proof
  fix x y z
  show "sgn (compare_peers localeCompare ByIp d y x) = - sgn (compare_peers localeCompare ByIp d x y)"
    unfolding compare_peers_def of_int_diff sort_key.case by (rule sgn_swap_diff)
  show "compare_peers localeCompare ByIp d x y \<le> 0 \<Longrightarrow> compare_peers localeCompare ByIp d y z \<le> 0 \<Longrightarrow>
      compare_peers localeCompare ByIp d x z \<le> 0"
    using dir_sign_cases [of d] by (auto simp: compare_peers_def)
qed

section \<open>Addresses\<close>

lemma shl32_eq: "shl32 x k = signed_take_bit 31 (x * 2 ^ k)"
proof -
  have "push_bit k (word_of_int x :: 32 word) = word_of_int (x * 2 ^ k)"
    by (simp only: push_bit_eq_mult of_int_mult of_int_power of_int_numeral)
  then have "shl32 x k = sint (word_of_int (x * 2 ^ k) :: 32 word)"
    by (simp only: shl32_def)
  then show ?thesis unfolding sint_sbintrunc' by simp
qed

lemma shl32_small: "0 \<le> x \<Longrightarrow> x * 2 ^ k < 2 ^ 31 \<Longrightarrow> shl32 x k = x * 2 ^ k"
  unfolding shl32_eq by (rule signed_take_bit_int_eq_self) (auto intro: order_trans [of _ 0])

lemma shl32_large: "128 \<le> x \<Longrightarrow> x < 256 \<Longrightarrow> shl32 x 24 = x * 2 ^ 24 - 2 ^ 32"
proof -
  assume x: "128 \<le> x" "x < 256"
  have "(x * 16777216 + 2147483648) mod 4294967296 = x * 16777216 + 2147483648 - 4294967296"
    using x by (simp add: mod_pos_geq mod_pos_pos_trivial)
  then show ?thesis
    by (simp add: shl32_eq signed_take_bit_eq_take_bit_shift take_bit_eq_mod)
qed

definition dotted :: "nat \<Rightarrow> nat \<Rightarrow> nat \<Rightarrow> nat \<Rightarrow> string" where
  "dotted a b c d = show_nat a @ ''.'' @ show_nat b @ ''.'' @ show_nat c @ ''.'' @ show_nat d"

definition address_value :: "nat \<Rightarrow> nat \<Rightarrow> nat \<Rightarrow> nat \<Rightarrow> int" where
  "address_value a b c d = ((int a * 256 + int b) * 256 + int c) * 256 + int d"

lemma show_nat_free: "\<not> is_digit x \<Longrightarrow> x \<notin> set (show_nat n)"
  using show_nat_digits by blast

lemma dotted_chars: "x \<in> set (dotted a b c d) \<Longrightarrow> is_digit x \<or> x = CHR ''.''"
  using show_nat_digits by (auto simp: dotted_def)

lemma split_dotted:
  "split_on (CHR ''.'') (dotted a b c d) = [show_nat a, show_nat b, show_nat c, show_nat d]"
proof -
  have dot: "CHR ''.'' \<notin> set (show_nat n)" for n by (rule show_nat_free) (simp add: is_digit_def)
  show ?thesis
    by (simp add: dotted_def split_on_sep [OF dot] split_on_free [OF dot])
qed

lemma ipToNum_dotted:
  "ipToNum (dotted a b c d @ ''/'' @ show_nat n) = shl32 (int a) 24 + shl32 (int b) 16 + shl32 (int c) 8 + int d"
proof -
  let ?ip = "dotted a b c d @ ''/'' @ show_nat n"
  have slash: "CHR ''/'' \<notin> set (dotted a b c d)" by (auto dest: dotted_chars simp: is_digit_def)
  have chars: "is_digit x \<or> x = CHR ''.'' \<or> x = CHR ''/''" if "x \<in> set ?ip" for x
    using that dotted_chars [of x a b c d] show_nat_digits [of n] by auto
  have comma: "CHR '','' \<notin> set ?ip" using chars by (force simp: is_digit_def)
  have sp: "\<forall>c \<in> set ?ip. \<not> is_space c"
    using chars is_digit_props by (force simp: is_space_def)
  have prim: "primaryAllowedIp ?ip = ?ip"
    unfolding primaryAllowedIp_def split_on_free [OF comma] list.sel by (rule trim_no_space [OF sp])
  have "hd (split_on (CHR ''/'') ?ip) = dotted a b c d"
    using split_on_sep [OF slash] by simp
  moreover have "parse_int (show_nat m) = Some (int m)" for m
    using parse_int_show_int [of "int m"] by (simp add: show_int_def)
  ultimately show ?thesis
    unfolding ipToNum_def prim by (simp add: Let_def split_dotted)
qed

section \<open>What is sent\<close>

text \<open>An update of a peer carries no private key.\<close>

definition keeps_secret :: "http_request \<Rightarrow> bool" where
  "keeps_secret q \<longleftrightarrow>
     (rq_method q = ''PUT'' \<and> take 25 (rq_url q) = ''/api/wireguard/peer?publi'' \<longrightarrow>
        (case rq_body q of
           Some (JsonBody j) \<Rightarrow> jget ''private_key'' j = None \<and> jget ''persistent_keepalive'' j = None
         | _ \<Rightarrow> False))"

definition wg_sends :: "wg_state \<Rightarrow> http_request \<Rightarrow> bool" where
  "wg_sends s q \<longleftrightarrow> authorised s q \<and> keeps_secret q"

inductive wg_handler :: "wg_state \<Rightarrow> unit wg_io \<Rightarrow> bool" for s where
  "wg_handler s fetchPeers"
| "wg_handler s fetchInterface"
| "wg_handler s fetchStatus"
| "wg_handler s (openConfigModal expires p)"
| "wg_handler s (handleCreatePeer expires s)"
| "wg_handler s (handleUpdatePeer s)"
| "wg_handler s (confirmDelete s)"
| "wg_handler s (handleRestorePeer s)"
| "wg_handler s (handleUpdateInterface s)"
| "wg_handler s handleRestartWireGuard"
| "wg_handler s (modify f)"
| "wg_handler s fetchData"

definition wg_handlers :: "wg_state \<Rightarrow> unit wg_io set" where
  "wg_handlers s = {h. wg_handler s h}"

lemma wg_sends_request: "keeps_secret (request meth url ct bdy t) \<Longrightarrow> wg_sends t (request meth url ct bdy t)"
  by (simp add: wg_sends_def authorised_request)

lemma keeps_secret_other [simp]: "meth \<noteq> ''PUT'' \<Longrightarrow> keeps_secret (request meth url ct bdy t)"
  by (simp add: keeps_secret_def)

lemma keeps_secret_update [simp]:
  "keeps_secret (request ''PUT'' (''/api/wireguard/peer?public_key='' @ u) ct (Some (JsonBody (peer_rest p))) t)"
  by (simp add: keeps_secret_def peer_rest_def wg_peer_json_def jget_obj)

lemma keeps_secret_interface [simp]: "keeps_secret (request ''PUT'' ''/api/wireguard/interface'' ct b t)"
  by (simp add: keeps_secret_def)

lemma logout_closed_True [simp]: "logout_closed (\<lambda>_. True)"
  by (simp add: logout_closed_def)

lemmas wg_call_intros = guarded_void_sends guarded_json_sends guarded_text_sends

lemma guarded_fetchPeers [guard_intros]: "guarded (\<lambda>_. True) wg_sends fetchPeers s"
  unfolding fetchPeers_def getWireGuardPeers_def
  by (intro guard_intros wg_call_intros wg_sends_request) simp_all

lemma guarded_fetchInterface [guard_intros]: "guarded (\<lambda>_. True) wg_sends fetchInterface s"
  unfolding fetchInterface_def getWireGuardInterface_def
  by (intro guard_intros wg_call_intros wg_sends_request) simp_all

lemma guarded_fetchStatus [guard_intros]: "guarded (\<lambda>_. True) wg_sends fetchStatus s"
  unfolding fetchStatus_def getSystemStatus_def
  by (intro guard_intros wg_call_intros wg_sends_request) simp_all

lemma guarded_fetchData [guard_intros]: "guarded (\<lambda>_. True) wg_sends fetchData s"
  unfolding fetchData_def by (intro guard_intros)

lemma guarded_openConfig [guard_intros]: "guarded (\<lambda>_. True) wg_sends (openConfigModal expires p) s"
  unfolding openConfigModal_def getWireGuardPeerConfig_def
  by (auto intro!: guard_intros wg_call_intros wg_sends_request split: option.splits)

lemma guarded_updatePeer: "guarded (\<lambda>_. True) wg_sends (updateWireGuardPeer key (peer_rest p)) s"
  unfolding updateWireGuardPeer_def
  by (rule guarded_void_sends [OF logout_closed_True TrueI]) (rule wg_sends_request, rule keeps_secret_update)

lemma guarded_wg_handler:
  assumes "wg_handler c h"
  shows "guarded (\<lambda>_. True) wg_sends h s"
  using assms
proof cases
  case 5
  then show ?thesis
    by (auto simp: handleCreatePeer_def createWireGuardPeer_def
        intro!: guard_intros wg_call_intros wg_sends_request)
next
  case 6
  then show ?thesis
    by (auto simp: handleUpdatePeer_def split: option.splits intro!: guard_intros guarded_updatePeer)
next
  case 7
  then show ?thesis
    by (auto simp: confirmDelete_def deleteWireGuardPeer_def split: option.splits
        intro!: guard_intros wg_call_intros wg_sends_request)
next
  case 8
  then show ?thesis
    by (auto simp: handleRestorePeer_def restoreWireGuardPeer_def split: option.splits
        intro!: guard_intros wg_call_intros wg_sends_request)
next
  case 9
  then show ?thesis
    by (auto simp: handleUpdateInterface_def updateWireGuardInterface_def split: option.splits
        intro!: guard_intros wg_call_intros wg_sends_request)
next
  case 10
  then show ?thesis
    by (auto simp: handleRestartWireGuard_def restartService_def
        intro!: guard_intros wg_call_intros wg_sends_request)
qed (auto intro!: guard_intros)

interpretation wg_page: guarded_page wg_handlers "\<lambda>_. True" wg_sends
  by unfold_locales (auto simp: wg_handlers_def guarded_wg_handler)

section \<open>Deleting and restoring\<close>

definition delete_peer_request :: "string \<Rightarrow> 'b browser_scheme \<Rightarrow> http_request" where
  "delete_peer_request key s =
     request ''DELETE'' (''/api/wireguard/peers?public_key='' @ encodeURIComponent key) None None s"

definition restore_request :: "restore_peer \<Rightarrow> 'b browser_scheme \<Rightarrow> http_request" where
  "restore_request r s =
     request ''POST'' ''/api/wireguard/peers/restore'' json_type (Some (JsonBody (restore_peer_json r))) s"

text \<open>A reload changes neither the undo nor the dialogs.\<close>

definition undo_of :: "wg_state \<Rightarrow> wg_peer option \<times> wg_peer option" where
  "undo_of s = (confirmDeletePeer s, lastDeletedPeer s)"

lemma undo_of_toast [simp]: "undo_of (toast_error m s) = undo_of s" "undo_of (toast_success m s) = undo_of s"
  by (simp_all add: undo_of_def toast_error_def toast_success_def showToast_def Let_def)

lemma deleted_toast [simp]:
  "confirmDeletePeer (toast_success m s) = confirmDeletePeer s"
  "lastDeletedPeer (toast_success m s) = lastDeletedPeer s"
  "confirmDeletePeer (toast_error m s) = confirmDeletePeer s"
  "lastDeletedPeer (toast_error m s) = lastDeletedPeer s"
  by (simp_all add: toast_error_def toast_success_def showToast_def Let_def)

lemma undo_of_frame [simp]:
  "undo_of (logout s) = undo_of s" "undo_of (s\<lparr>peers := p\<rparr>) = undo_of s"
  "undo_of (s\<lparr>interfaceConfig := i\<rparr>) = undo_of s" "undo_of (s\<lparr>pendingRestart := b\<rparr>) = undo_of s"
  "undo_of (s\<lparr>systemctlAvailable := a\<rparr>) = undo_of s"
  by (simp_all add: undo_of_def logout_def)

lemma checked_undo: "checked rs msg s = (x, t) \<Longrightarrow> undo_of t = undo_of s"
  by (auto simp: Api_Facts.checked_def split: if_splits)

lemma run_fetchPeers:
  "\<exists>t q. run fetchPeers (logging answer) s w = (Inr (), t, w @ [q]) \<and> undo_of t = undo_of s \<and>
     rq_method q = ''GET''"
  by (auto simp: fetchPeers_def getWireGuardPeers_def run_simps dest!: checked_undo
      split: fetch_result.splits prod.splits sum.splits option.splits)

lemma run_fetchInterface:
  "\<exists>t q. run fetchInterface (logging answer) s w = (Inr (), t, w @ [q]) \<and> undo_of t = undo_of s \<and>
     rq_method q = ''GET''"
  by (auto simp: fetchInterface_def getWireGuardInterface_def run_simps dest!: checked_undo
      split: fetch_result.splits prod.splits sum.splits option.splits)

lemma run_fetchStatus:
  "\<exists>t q. run fetchStatus (logging answer) s w = (Inr (), t, w @ [q]) \<and> undo_of t = undo_of s \<and>
     rq_method q = ''GET''"
  by (auto simp: fetchStatus_def getSystemStatus_def run_simps dest!: checked_undo
      split: fetch_result.splits prod.splits sum.splits option.splits)

lemma run_fetchData:
  "\<exists>t qs. run fetchData (logging answer) s w = (Inr (), t, w @ qs) \<and> undo_of t = undo_of s \<and>
     (\<forall>q \<in> set qs. rq_method q = ''GET'')"
proof -
  obtain t1 q1 where 1: "run fetchPeers (logging answer) s w = (Inr (), t1, w @ [q1])"
    "undo_of t1 = undo_of s" "rq_method q1 = ''GET''" using run_fetchPeers by blast
  obtain t2 q2 where 2: "run fetchInterface (logging answer) t1 (w @ [q1]) = (Inr (), t2, (w @ [q1]) @ [q2])"
    "undo_of t2 = undo_of t1" "rq_method q2 = ''GET''" using run_fetchInterface by blast
  obtain t3 q3 where 3: "run fetchStatus (logging answer) t2 ((w @ [q1]) @ [q2]) =
      (Inr (), t3, ((w @ [q1]) @ [q2]) @ [q3])"
    "undo_of t3 = undo_of t2" "rq_method q3 = ''GET''" using run_fetchStatus by blast
  have "run fetchData (logging answer) s w = (Inr (), t3, w @ [q1, q2, q3])"
    using 1(1) 2(1) 3(1) by (simp add: fetchData_def run_bind run_spawn)
  then show ?thesis using 1 2 3 by auto
qed

lemma performs_deletePeer: "performs (deleteWireGuardPeer key) s [delete_peer_request key s]"
  unfolding deleteWireGuardPeer_def delete_peer_request_def by (rule performs_void)

lemma performs_restorePeer: "performs (restoreWireGuardPeer r) s [restore_request r s]"
  unfolding restoreWireGuardPeer_def restore_request_def by (rule performs_void)

lemma run_confirmDelete:
  assumes "confirmDeletePeer s = Some target"
  shows "\<exists>t qs. run (confirmDelete s) (logging answer) s [] =
      (Inr (), t, delete_peer_request (wp_public_key target) s # qs) \<and>
    (\<forall>q \<in> set qs. rq_method q = ''GET'') \<and> confirmDeletePeer t = None \<and>
    (if ok_answer (answer [] (delete_peer_request (wp_public_key target) s))
     then lastDeletedPeer t = Some target else qs = [] \<and> lastDeletedPeer t = lastDeletedPeer s)"
proof -
  let ?q = "delete_peer_request (wp_public_key target) s"
  let ?s1 = "s\<lparr>confirmDeletePeer := None\<rparr>"
  have q: "delete_peer_request (wp_public_key target) ?s1 = ?q"
    by (simp add: delete_peer_request_def request_def buildHeaders_def stored_token_def)
  have perf: "performs (deleteWireGuardPeer (wp_public_key target)) ?s1 [?q]"
    using performs_deletePeer [of "wp_public_key target" ?s1] unfolding q .
  show ?thesis
  proof (cases "accepted answer [] [?q]")
    case True
    let ?s2 = "toast_success ''Peer deleted'' (?s1\<lparr>lastDeletedPeer := Some target\<rparr>)"
    obtain t qs where f: "run fetchData (logging answer) ?s2 [?q] = (Inr (), t, [?q] @ qs)"
      "undo_of t = undo_of ?s2" "\<forall>q \<in> set qs. rq_method q = ''GET''"
      using run_fetchData by blast
    have "run (confirmDelete s) (logging answer) s [] = (Inr (), t, ?q # qs)"
      using performs_ok [OF perf True] f(1) assms by (simp add: confirmDelete_def run_simps)
    then show ?thesis using f(2,3) True by (auto simp: undo_of_def)
  next
    case False
    obtain k e t where k: "failed_at answer [] [?q] k" "t \<in> {?s1, logout ?s1}"
      "run (deleteWireGuardPeer (wp_public_key target)) (logging answer) ?s1 [] =
         (Inl e, t, [] @ take (Suc k) [?q])"
      by (rule performs_fail [OF perf False])
    let ?t = "toast_error (''Failed to delete peer: '' @ show_err e) t"
    have "run (confirmDelete s) (logging answer) s [] = (Inr (), ?t, [?q])"
      using k(3) assms by (simp add: confirmDelete_def run_simps)
    moreover have "undo_of ?t = undo_of ?s1" using k(2) by auto
    ultimately show ?thesis using False by (auto simp: undo_of_def)
  qed
qed

lemma run_handleRestorePeer:
  assumes "lastDeletedPeer s = Some target"
  shows "\<exists>t qs. run (handleRestorePeer s) (logging answer) s [] =
      (Inr (), t, restore_request (restore_of target) s # qs) \<and>
    (\<forall>q \<in> set qs. rq_method q = ''GET'') \<and>
    (if ok_answer (answer [] (restore_request (restore_of target) s))
     then lastDeletedPeer t = None else qs = [] \<and> lastDeletedPeer t = Some target)"
proof -
  let ?q = "restore_request (restore_of target) s"
  have perf: "performs (restoreWireGuardPeer (restore_of target)) s [?q]" by (rule performs_restorePeer)
  show ?thesis
  proof (cases "accepted answer [] [?q]")
    case True
    let ?s2 = "(toast_success ''Peer restored'' s)\<lparr>lastDeletedPeer := None\<rparr>"
    obtain t qs where f: "run fetchData (logging answer) ?s2 [?q] = (Inr (), t, [?q] @ qs)"
      "undo_of t = undo_of ?s2" "\<forall>q \<in> set qs. rq_method q = ''GET''"
      using run_fetchData by blast
    have "run (handleRestorePeer s) (logging answer) s [] = (Inr (), t, ?q # qs)"
      using performs_ok [OF perf True] f(1) assms by (simp add: handleRestorePeer_def run_simps)
    then show ?thesis using f(2,3) True by (auto simp: undo_of_def)
  next
    case False
    obtain k e t where k: "failed_at answer [] [?q] k" "t \<in> {s, logout s}"
      "run (restoreWireGuardPeer (restore_of target)) (logging answer) s [] =
         (Inl e, t, [] @ take (Suc k) [?q])"
      by (rule performs_fail [OF perf False])
    let ?t = "toast_error (''Failed to restore peer: '' @ show_err e) t"
    have "run (handleRestorePeer s) (logging answer) s [] = (Inr (), ?t, [?q])"
      using k(3) assms by (simp add: handleRestorePeer_def run_simps)
    moreover have "undo_of ?t = undo_of s" using k(2) by auto
    ultimately show ?thesis using False assms by (auto simp: undo_of_def)
  qed
qed

section \<open>Properties\<close>


text \<open>A deletion that the server accepts can be undone: the peer is kept, and restoring it sends its
  key, its addresses, its endpoint, its alias and its preshared key as they were. A deletion that fails
  leaves what could be undone before; a restore that fails can be tried again.\<close>

theorem delete_then_restore:
  assumes "confirmDeletePeer s = Some target"
  shows "\<exists>s' deleted. run (confirmDelete s) (logging answer) s [] = (Inr (), s', deleted) \<and>
     hd deleted = delete_peer_request (wp_public_key target) s \<and>
     (if ok_answer (answer [] (hd deleted))
      then lastDeletedPeer s' = Some target \<and>
        (\<forall>answer'. \<exists>s'' q reloads. run (handleRestorePeer s') (logging answer') s' [] = (Inr (), s'', q # reloads) \<and>
           rq_body q = Some (JsonBody (obj
             [(''public_key'', Some (JStr (wp_public_key target))),
              (''allowed_ips'', Some (JStr (wp_allowed_ips target))),
              (''endpoint'', map_option JStr (wp_endpoint target)),
              (''alias'', map_option JStr (wp_alias target)),
              (''preshared_key'', map_option JStr (wp_preshared_key target))])) \<and>
           lastDeletedPeer s'' = (if ok_answer (answer' [] q) then None else Some target))
      else lastDeletedPeer s' = lastDeletedPeer s \<and> length deleted = 1)"
proof -
  obtain s' qs where d: "run (confirmDelete s) (logging answer) s [] =
      (Inr (), s', delete_peer_request (wp_public_key target) s # qs)"
    "if ok_answer (answer [] (delete_peer_request (wp_public_key target) s))
     then lastDeletedPeer s' = Some target else qs = [] \<and> lastDeletedPeer s' = lastDeletedPeer s"
    using run_confirmDelete [OF assms, of answer] by blast
  have body: "rq_body (restore_request (restore_of target) t) = Some (JsonBody (obj
             [(''public_key'', Some (JStr (wp_public_key target))),
              (''allowed_ips'', Some (JStr (wp_allowed_ips target))),
              (''endpoint'', map_option JStr (wp_endpoint target)),
              (''alias'', map_option JStr (wp_alias target)),
              (''preshared_key'', map_option JStr (wp_preshared_key target))]))" for t :: wg_state
    by (simp add: restore_request_def restore_peer_json_def restore_of_def)
  have restore: "\<exists>s'' q reloads. run (handleRestorePeer s') (logging answer') s' [] = (Inr (), s'', q # reloads) \<and>
      rq_body q = Some (JsonBody (obj
             [(''public_key'', Some (JStr (wp_public_key target))),
              (''allowed_ips'', Some (JStr (wp_allowed_ips target))),
              (''endpoint'', map_option JStr (wp_endpoint target)),
              (''alias'', map_option JStr (wp_alias target)),
              (''preshared_key'', map_option JStr (wp_preshared_key target))])) \<and>
      lastDeletedPeer s'' = (if ok_answer (answer' [] q) then None else Some target)"
    if "lastDeletedPeer s' = Some target" for answer'
    using run_handleRestorePeer [OF that, of answer'] body [of s'] by (metis (full_types))
  show ?thesis
    by (rule exI [of _ s'], rule exI [of _ "delete_peer_request (wp_public_key target) s # qs"])
      (use d restore in \<open>simp split: if_splits\<close>)
qed

text \<open>C20: the number by which addresses are sorted is the value of the address when its first octet is
  below 128, and is 2^32 less from 128 on, where the shift by 24 overflows into the sign; so
  192.168.0.1 comes before 10.0.0.1 in ascending order.\<close>

theorem ip_sort_value:
  assumes "a < 256" and "b < 256" and "c < 256" and "d < 256"
  shows "ipToNum (dotted a b c d @ ''/'' @ show_nat n) =
     (if a < 128 then address_value a b c d else address_value a b c d - 2 ^ 32) \<and>
   ipToNum ''192.168.0.1/32'' < ipToNum ''10.0.0.1/32''"
proof
  have "shl32 (int b) 16 = int b * 2 ^ 16" "shl32 (int c) 8 = int c * 2 ^ 8"
    using assms by (simp_all add: shl32_small)
  moreover have "shl32 (int a) 24 = int a * 2 ^ 24 - (if a < 128 then 0 else 2 ^ 32)"
    using assms(1) shl32_small [of "int a" 24] shl32_large [of "int a"] by auto
  ultimately show "ipToNum (dotted a b c d @ ''/'' @ show_nat n) =
     (if a < 128 then address_value a b c d else address_value a b c d - 2 ^ 32)"
    unfolding ipToNum_dotted address_value_def by simp
  show "ipToNum ''192.168.0.1/32'' < ipToNum ''10.0.0.1/32''" by code_simp
qed

section \<open>Witnesses\<close>

definition sample_peer :: wg_peer where
  "sample_peer =
     \<lparr>wp_public_key = ''k1'', wp_private_key = Some ''secret'', wp_allowed_ips = ''10.0.0.2/32'',
      wp_endpoint = None, wp_alias = Some ''phone'', wp_name = None, wp_preshared_key = None,
      wp_persistent_keepalive = Some 25, wp_qr_available = None, wp_traffic = None, wp_stats = None\<rparr>"

definition sample_wg_state :: wg_state where
  "sample_wg_state = browser.extend sample_browser
     \<lparr>peers = [sample_peer], interfaceConfig = None, showPeerModal = True, showInterfaceModal = False,
      editingPeer = Some sample_peer, newName = [], newIp = [], newEndpoint = [], generatedTab = TabQr,
      editInterface = None, sortKey = ByAlias, sortDir = Asc, configModalPeer = None, configText = [],
      configLoading = False, configExpiry = [], configPrivateKey = [], copiedConfig = False,
      pendingRestart = False, systemctlAvailable = None, confirmDeletePeer = Some sample_peer,
      lastDeletedPeer = None\<rparr>"

definition sample_update :: http_request where
  "sample_update = request ''PUT'' (''/api/wireguard/peer?public_key='' @ encodeURIComponent ''k1'') json_type
     (Some (JsonBody (peer_rest sample_peer))) sample_wg_state"


theorem delete_then_restore_witness:
  "\<exists>s' deleted. run (confirmDelete sample_wg_state) (logging (\<lambda>_ _. Answered (answer_status 200 [])))
       sample_wg_state [] = (Inr (), s', deleted) \<and>
     hd deleted = delete_peer_request ''k1'' sample_wg_state \<and> lastDeletedPeer s' = Some sample_peer"
proof -
  have "confirmDeletePeer sample_wg_state = Some sample_peer" "wp_public_key sample_peer = ''k1''"
    by (simp_all add: sample_wg_state_def browser.defs sample_peer_def)
  moreover have "ok_answer (Answered (answer_status 200 []))" by (simp add: res_ok_def)
  ultimately show ?thesis
    using delete_then_restore [of sample_wg_state sample_peer "\<lambda>_ _. Answered (answer_status 200 [])"]
    by auto
qed

theorem ip_sort_value_witness:
  "ipToNum (dotted 172 16 0 9 @ ''/'' @ show_nat 24) = address_value 172 16 0 9 - 2 ^ 32"
  using ip_sort_value [of 172 16 0 9 24] by simp

end
