(* ===== verification/Api_Late.thy ===== *)
theory Api_Late
  imports Api_Plan
begin

text \<open>
  Late responses. A handler that waits for a client call goes on, when the response arrives, in the state
  the page has by then: \<open>result\<close> is what the call makes of a response in a given state, and the lemmas
  say how a suspended handler continues with it.
\<close>

section \<open>Atomic steps of composed handlers\<close>

lemma settle_bind [run_simps]:
  "settle (bind p f) s =
     (case settle p s of (p', t) \<Rightarrow>
        (case p' of
           Return a \<Rightarrow> settle (f a) t
         | Throw e \<Rightarrow> (Throw e, t)
         | _ \<Rightarrow> (bind p' f, t)))"
proof (induction p arbitrary: s)
  case (Get k)
  show ?case using Get.IH [OF rangeI] by simp
qed simp_all

lemma settle_try_catch [run_simps]:
  "settle (try_catch p h) s =
     (case settle p s of (p', t) \<Rightarrow>
        (case p' of
           Return a \<Rightarrow> (Return a, t)
         | Throw e \<Rightarrow> settle (h e) t
         | _ \<Rightarrow> (try_catch p' h, t)))"
proof (induction p arbitrary: s)
  case (Get k)
  show ?case using Get.IH [OF rangeI] by simp
qed simp_all

lemma settle_modify [run_simps]: "settle (modify f) s = (Return (), f s)"
  by (simp add: modify_def)

lemma forked_bind [run_simps]:
  "forked (bind p f) s =
     forked p s @ (case settle p s of (p', t) \<Rightarrow> (case p' of Return a \<Rightarrow> forked (f a) t | _ \<Rightarrow> []))"
proof (induction p arbitrary: s)
  case (Get k)
  show ?case using Get.IH [OF rangeI] by simp
next
  case (Fork u p)
  then show ?case by (simp split: prod.splits)
qed simp_all

lemma forked_try_catch [run_simps]:
  "forked (try_catch p h) s =
     forked p s @ (case settle p s of (p', t) \<Rightarrow> (case p' of Throw e \<Rightarrow> forked (h e) t | _ \<Rightarrow> []))"
proof (induction p arbitrary: s)
  case (Get k)
  show ?case using Get.IH [OF rangeI] by simp
next
  case (Fork u p)
  then show ?case by (simp split: prod.splits)
qed simp_all

lemma forked_modify [run_simps]: "forked (modify f) s = []"
  by (simp add: modify_def)

lemma settle_spawn [run_simps]: "settle (spawn p) s = (Return (), fst (starts (task_of p) s))"
  by (simp add: spawn_def)

lemma forked_spawn [run_simps]: "forked (spawn p) s = snd (starts (task_of p) s)"
  by (simp add: spawn_def split: prod.splits)

text \<open>A forked handler starts as it would alone.\<close>

lemma starts_task_of [run_simps]:
  "starts (task_of p) s =
     (case settle p s of (p', t) \<Rightarrow> (t, forked p s @ (case p' of Await q k \<Rightarrow> [(t, task_of p')] | _ \<Rightarrow> [])))"
proof (induction p arbitrary: s)
  case (Get k)
  show ?case using Get.IH [OF rangeI] by simp
next
  case (Fork u p)
  then show ?case by (simp split: prod.splits)
qed simp_all

section \<open>What a call makes of a response\<close>

definition result :: "('q, 'r, 's, 'a) io \<Rightarrow> 'r \<Rightarrow> 's \<Rightarrow> (js_error + 'a) \<times> 's" where
  "result p r s = (case run p (\<lambda>_ w. (r, w)) s () of (x, s', _) \<Rightarrow> (x, s'))"

text \<open>\<open>waits_as k p\<close>: the continuation \<open>k\<close> of a suspended call makes of every response what the call \<open>p\<close>
  would in the state the response finds.\<close>

definition waits_as ::
  "('r \<Rightarrow> ('q, 'r, 's, 'a) io) \<Rightarrow> ('q, 'r, 's, 'a) io \<Rightarrow> bool" where
  "waits_as k p \<longleftrightarrow> (\<forall>r t. forked (k r) t = [] \<and> settle (k r) t =
     (case result p r t of (Inr x, t') \<Rightarrow> (Return x, t') | (Inl e, t') \<Rightarrow> (Throw e, t')))"

lemma waits_as_settle [run_simps]:
  "waits_as k p \<Longrightarrow> settle (k r) t =
     (case result p r t of (Inr x, t') \<Rightarrow> (Return x, t') | (Inl e, t') \<Rightarrow> (Throw e, t'))"
  "waits_as k p \<Longrightarrow> forked (k r) t = []"
  by (simp_all add: waits_as_def)

lemma settle_call_json:
  "\<exists>k. waits_as k (call_json meth url ct bdy msg decode) \<and>
     (\<forall>s. settle (call_json meth url ct bdy msg decode) s = (Await (request meth url ct bdy s) k, s))"
proof (intro exI conjI allI)
  let ?k = "\<lambda>r. bind (case r of Answered rs \<Rightarrow> Return rs | Rejected e \<Rightarrow> Throw e)
    (\<lambda>res. seq (handleResponse res msg)
       (bind (json_body res) (\<lambda>p. case decode p of Some x \<Rightarrow> Return x | None \<Rightarrow> Throw ill_typed)))"
  show "settle (call_json meth url ct bdy msg decode) s = (Await (request meth url ct bdy s) ?k, s)" for s
    by (simp add: call_json_def send_def fetch_def request_def)
  show "waits_as ?k (call_json meth url ct bdy msg decode)"
    unfolding waits_as_def
  proof (intro allI)
    fix r t
    show "forked (?k r) t = [] \<and> settle (?k r) t = (case result (call_json meth url ct bdy msg decode) r t of
        (Inr x, t') \<Rightarrow> (Return x, t') | (Inl e, t') \<Rightarrow> (Throw e, t'))"
      by (cases r) (auto simp: result_def run_simps handleResponse_def checked_def json_body_def
          handleUnauthorized_def split: sum.splits option.splits)
  qed
qed

text \<open>What a call makes of a response does not depend on the page, and it can only end the session.\<close>

lemma json_outcome:
  fixes s t :: "'b browser_scheme"
  assumes "result (call_json meth url ct bdy msg decode) r t = (x, t')"
  shows "x = fst (result (call_json meth url ct bdy msg decode) r s) \<and> (t' = t \<or> t' = logout t)"
  using assms
  by (cases r) (auto simp: result_def run_simps checked_def split: sum.splits option.splits if_splits)

end
