(* ===== verification/WireGuard_Reload.thy ===== *)
theory WireGuard_Reload
  imports WireGuard_Facts Api_Late
begin

text \<open>
  The three requests of a reload of the WireGuard page are under way at once: their responses may arrive
  in any order. What a response does to the page does not depend on the others.
\<close>

section \<open>What one response does\<close>

text \<open>The fields that a reload sets.\<close>

record loaded =
  ld_peers :: "wg_peer list"
  ld_interface :: "wg_interface option"
  ld_pending :: bool
  ld_systemctl :: "bool option"

definition loaded_of :: "wg_state \<Rightarrow> loaded" where
  "loaded_of s = \<lparr>ld_peers = peers s, ld_interface = interfaceConfig s, ld_pending = pendingRestart s,
     ld_systemctl = systemctlAvailable s\<rparr>"

lemma loaded_frame [simp]:
  "loaded_of (toast_error m s) = loaded_of s" "loaded_of (logout s) = loaded_of s"
  "loaded_of (s\<lparr>peers := p\<rparr>) = (loaded_of s)\<lparr>ld_peers := p\<rparr>"
  "loaded_of (s\<lparr>interfaceConfig := i\<rparr>) = (loaded_of s)\<lparr>ld_interface := i\<rparr>"
  "loaded_of (s\<lparr>pendingRestart := b\<rparr>) = (loaded_of s)\<lparr>ld_pending := b\<rparr>"
  "loaded_of (s\<lparr>systemctlAvailable := a\<rparr>) = (loaded_of s)\<lparr>ld_systemctl := a\<rparr>"
  by (simp_all add: loaded_of_def toast_error_def showToast_def Let_def logout_def)

definition load_peers :: "js_error + wg_peer list \<Rightarrow> loaded \<Rightarrow> loaded" where
  "load_peers x d = d\<lparr>ld_peers := (case x of Inr ps \<Rightarrow> ps | Inl _ \<Rightarrow> [])\<rparr>"

definition load_interface :: "js_error + wg_interface option \<Rightarrow> loaded \<Rightarrow> loaded" where
  "load_interface x d = d\<lparr>ld_interface := (case x of Inr cfg \<Rightarrow> cfg | Inl _ \<Rightarrow> None)\<rparr>"

definition load_status :: "js_error + system_status \<Rightarrow> loaded \<Rightarrow> loaded" where
  "load_status x d =
     (case x of
        Inr st \<Rightarrow> d\<lparr>ld_pending := nullish (ss_wireguard_pending_restart st) False, ld_systemctl := ss_systemctl_available st\<rparr>
      | Inl _ \<Rightarrow> d\<lparr>ld_pending := False\<rparr>)"

text \<open>A task of the reload: suspended at its call, and what its response does to the fields.\<close>

definition loads ::
  "unit wg_io \<Rightarrow> (fetch_result \<Rightarrow> loaded \<Rightarrow> loaded) \<Rightarrow> bool" where
  "loads p f \<longleftrightarrow> (\<exists>q k. p = Await q k \<and> (\<forall>r t. fst (settle (k r) t) = Return () \<and> forked (k r) t = [] \<and>
     loaded_of (snd (settle (k r) t)) = f r (loaded_of t)))"

lemma loads_resume:
  assumes "loads (loop_tasks c ! i) f" and "i < length (loop_tasks c)"
  shows "loaded_of (loop_page (resume i r c)) = f r (loaded_of (loop_page c)) \<and>
     loop_tasks (resume i r c) = (loop_tasks c)[i := Return ()] \<and> loop_sent (resume i r c) = loop_sent c"
proof -
  obtain q k where k: "loop_tasks c ! i = Await q k"
    "\<And>r t. fst (settle (k r) t) = Return () \<and> forked (k r) t = [] \<and> loaded_of (snd (settle (k r) t)) = f r (loaded_of t)"
    using assms(1) unfolding loads_def by blast
  obtain t where t: "settle (k r) (loop_page c) = (Return (), t)" using k(2) by (metis prod.collapse)
  then show ?thesis using k(1) k(2) [of r "loop_page c"] by (simp add: resume_def)
qed

text \<open>A load as the page writes it: a call, what is done with its value, what is done with its error.\<close>

lemma load_starts:
  fixes f :: "'c \<Rightarrow> unit wg_io" and s :: wg_state
  assumes "h = try_catch (bind (call_json meth url ct bdy msg decode) f) g"
    and "\<And>x t. \<exists>u. settle (f x) t = (Return (), u) \<and> forked (f x) t = [] \<and> loaded_of u = upd (Inr x) (loaded_of t)"
    and "\<And>e t. \<exists>u. settle (g e) t = (Return (), u) \<and> forked (g e) t = [] \<and> loaded_of u = upd (Inl e) (loaded_of t)"
  shows "\<exists>k. (\<forall>q. loads (Await q k) (\<lambda>r. upd (fst (result (call_json meth url ct bdy msg decode) r s)))) \<and>
    (\<forall>t. starts (task_of h) t = (t, [(t, TAwait (request meth url ct bdy t) (\<lambda>r. task_of (k r)))]))"
proof -
  let ?call = "call_json meth url ct bdy msg decode :: 'c wg_io"
  obtain k where k: "waits_as k ?call" "\<And>t. settle ?call t = (Await (request meth url ct bdy t) k, t)"
    using settle_call_json by blast
  let ?k = "\<lambda>r. try_catch (bind (k r) f) g"
  have "loads (Await q ?k) (\<lambda>r. upd (fst (result ?call r s)))" for q
    unfolding loads_def
  proof (intro exI conjI allI)
    fix r t
    obtain x t' where x: "result ?call r t = (x, t')" by force
    have o: "fst (result ?call r s) = x" "loaded_of t' = loaded_of t" using json_outcome [OF x, of s] by auto
    show "fst (settle (?k r) t) = Return ()" "forked (?k r) t = []"
      "loaded_of (snd (settle (?k r) t)) = upd (fst (result ?call r s)) (loaded_of t)"
    proof (atomize (full), cases x)
      case (Inl e)
      obtain u where "settle (g e) t' = (Return (), u)" "forked (g e) t' = []" "loaded_of u = upd (Inl e) (loaded_of t')"
        using assms(3) by blast
      then show "fst (settle (?k r) t) = Return () \<and> forked (?k r) t = [] \<and>
          loaded_of (snd (settle (?k r) t)) = upd (fst (result ?call r s)) (loaded_of t)"
        using x Inl o by (simp add: run_simps waits_as_settle [OF k(1)])
    next
      case (Inr v)
      obtain u where "settle (f v) t' = (Return (), u)" "forked (f v) t' = []" "loaded_of u = upd (Inr v) (loaded_of t')"
        using assms(2) by blast
      then show "fst (settle (?k r) t) = Return () \<and> forked (?k r) t = [] \<and>
          loaded_of (snd (settle (?k r) t)) = upd (fst (result ?call r s)) (loaded_of t)"
        using x Inr o by (simp add: run_simps waits_as_settle [OF k(1)])
    qed
  qed simp
  moreover have "starts (task_of h) t = (t, [(t, TAwait (request meth url ct bdy t) (\<lambda>r. task_of (?k r)))])" for t
    unfolding assms(1) by (simp add: run_simps k(2) fork_free_forked [OF fork_free_json])
  ultimately show ?thesis by blast
qed

lemma peers_start:
  fixes s :: wg_state
  shows "\<exists>k. (\<forall>q. loads (Await q k) (\<lambda>r. load_peers (fst (result getWireGuardPeers r s)))) \<and>
    (\<forall>t. starts (task_of fetchPeers) t = (t, [(t, TAwait (request ''GET'' ''/api/wireguard/peers'' None None t) (\<lambda>r. task_of (k r)))]))"
  unfolding getWireGuardPeers_def
  by (rule load_starts [OF fetchPeers_def [unfolded getWireGuardPeers_def], where upd = load_peers])
    (simp_all add: run_simps load_peers_def)

lemma interface_start:
  fixes s :: wg_state
  shows "\<exists>k. (\<forall>q. loads (Await q k) (\<lambda>r. load_interface (fst (result getWireGuardInterface r s)))) \<and>
    (\<forall>t. starts (task_of fetchInterface) t = (t, [(t, TAwait (request ''GET'' ''/api/wireguard/interface'' None None t) (\<lambda>r. task_of (k r)))]))"
  unfolding getWireGuardInterface_def
  by (rule load_starts [OF fetchInterface_def [unfolded getWireGuardInterface_def], where upd = load_interface])
    (simp_all add: run_simps load_interface_def)

lemma status_start:
  fixes s :: wg_state
  shows "\<exists>k. (\<forall>q. loads (Await q k) (\<lambda>r. load_status (fst (result getSystemStatus r s)))) \<and>
    (\<forall>t. starts (task_of fetchStatus) t = (t, [(t, TAwait (request ''GET'' ''/api/status'' None None t) (\<lambda>r. task_of (k r)))]))"
  unfolding getSystemStatus_def
  by (rule load_starts [OF fetchStatus_def [unfolded getSystemStatus_def], where upd = load_status])
    (simp_all add: run_simps load_status_def)

section \<open>All three\<close>

definition arrive_all ::
  "(nat \<times> fetch_result) list \<Rightarrow> (http_request, fetch_result, wg_state) loop \<Rightarrow> (http_request, fetch_result, wg_state) loop" where
  "arrive_all order c = fold (\<lambda>(i, r). resume i r) order c"

definition reload_requests :: "wg_state \<Rightarrow> http_request list" where
  "reload_requests s =
     [request ''GET'' ''/api/wireguard/peers'' None None s, request ''GET'' ''/api/wireguard/interface'' None None s,
      request ''GET'' ''/api/status'' None None s]"

lemma reload_launch:
  fixes s :: wg_state
  shows "\<exists>p1 p2 p3. loop_page (launch fetchData l) = loop_page l \<and>
    loop_tasks (launch fetchData l) = loop_tasks l @ [Return (), p1, p2, p3] \<and>
    loop_sent (launch fetchData l) = loop_sent l @ map (Pair (loop_page l)) (reload_requests (loop_page l)) \<and>
    loads p1 (\<lambda>r. load_peers (fst (result getWireGuardPeers r s))) \<and>
    loads p2 (\<lambda>r. load_interface (fst (result getWireGuardInterface r s))) \<and>
    loads p3 (\<lambda>r. load_status (fst (result getSystemStatus r s)))"
proof -
  obtain k1 where k1: "\<forall>q. loads (Await q k1) (\<lambda>r. load_peers (fst (result getWireGuardPeers r s)))"
    "\<And>t. starts (task_of fetchPeers) t =
       (t, [(t, TAwait (request ''GET'' ''/api/wireguard/peers'' None None t) (\<lambda>r. task_of (k1 r)))])"
    using peers_start by blast
  obtain k2 where k2: "\<forall>q. loads (Await q k2) (\<lambda>r. load_interface (fst (result getWireGuardInterface r s)))"
    "\<And>t. starts (task_of fetchInterface) t =
       (t, [(t, TAwait (request ''GET'' ''/api/wireguard/interface'' None None t) (\<lambda>r. task_of (k2 r)))])"
    using interface_start by blast
  obtain k3 where k3: "\<forall>q. loads (Await q k3) (\<lambda>r. load_status (fst (result getSystemStatus r s)))"
    "\<And>t. starts (task_of fetchStatus) t =
       (t, [(t, TAwait (request ''GET'' ''/api/status'' None None t) (\<lambda>r. task_of (k3 r)))])"
    using status_start by blast
  show ?thesis
    by (rule exI [of _ "Await _ k1"], rule exI [of _ "Await _ k2"], rule exI [of _ "Await _ k3"])
      (simp add: launch_def fetchData_def spawn_def k1 k2 k3 reload_requests_def)
qed

lemma three_orders:
  "mset xs = {#a, b, c#} \<Longrightarrow> xs \<in> {[a, b, c], [a, c, b], [b, a, c], [b, c, a], [c, a, b], [c, b, a]}"
proof -
  assume m: "mset xs = {#a, b, c#}"
  then have "length xs = 3" by (metis size_mset size_add_mset size_empty numeral_3_eq_3)
  then obtain x y z where xs: "xs = [x, y, z]"
    by (auto simp: numeral_3_eq_3 length_Suc_conv)
  have "{#x, y, z#} = {#a, b, c#}" using m unfolding xs by simp
  then show ?thesis unfolding xs by (auto simp: add_eq_conv_ex add_mset_eq_single)
qed

section \<open>Properties\<close>

text \<open>C38: a reload ends in the same peers, interface and marks in whatever order its three responses arrive,
  answers and failures alike: each sets its own fields and no other, and a failure clears them. The three
  requests are sent at once, before any response, and no response sends another.\<close>

theorem reload_any_order:
  assumes "mset order = {#(length (loop_tasks l) + 1, r1), (length (loop_tasks l) + 2, r2), (length (loop_tasks l) + 3, r3)#}"
  shows "let d = arrive_all order (launch fetchData l) in
     loaded_of (loop_page d) =
       load_status (fst (result getSystemStatus r3 (loop_page l)))
         (load_interface (fst (result getWireGuardInterface r2 (loop_page l)))
           (load_peers (fst (result getWireGuardPeers r1 (loop_page l))) (loaded_of (loop_page l)))) \<and>
     loop_sent d = loop_sent l @ map (Pair (loop_page l)) (reload_requests (loop_page l)) \<and>
     loop_tasks d = loop_tasks l @ replicate 4 (Return ())"
proof -
  let ?n = "length (loop_tasks l)" and ?s = "loop_page l"
  obtain p1 p2 p3 where l: "loop_page (launch fetchData l) = loop_page l"
    "loop_tasks (launch fetchData l) = loop_tasks l @ [Return (), p1, p2, p3]"
    "loop_sent (launch fetchData l) = loop_sent l @ map (Pair ?s) (reload_requests ?s)"
    and p: "loads p1 (\<lambda>r. load_peers (fst (result getWireGuardPeers r ?s)))"
      "loads p2 (\<lambda>r. load_interface (fst (result getWireGuardInterface r ?s)))"
      "loads p3 (\<lambda>r. load_status (fst (result getSystemStatus r ?s)))"
    using reload_launch [of l ?s] by blast
  let ?peers = "load_peers (fst (result getWireGuardPeers r1 ?s))"
    and ?interface = "load_interface (fst (result getWireGuardInterface r2 ?s))"
    and ?status = "load_status (fst (result getSystemStatus r3 ?s))"
  define i1 i2 i3 where i: "i1 = ?n + 1" "i2 = ?n + 2" "i3 = ?n + 3"
  have steps: "loop_tasks c = loop_tasks l @ [Return (), p1, x, y] \<Longrightarrow>
      loaded_of (loop_page (resume i1 r1 c)) = ?peers (loaded_of (loop_page c)) \<and>
      loop_tasks (resume i1 r1 c) = loop_tasks l @ [Return (), Return (), x, y] \<and> loop_sent (resume i1 r1 c) = loop_sent c"
    "loop_tasks c = loop_tasks l @ [Return (), x, p2, y] \<Longrightarrow>
      loaded_of (loop_page (resume i2 r2 c)) = ?interface (loaded_of (loop_page c)) \<and>
      loop_tasks (resume i2 r2 c) = loop_tasks l @ [Return (), x, Return (), y] \<and> loop_sent (resume i2 r2 c) = loop_sent c"
    "loop_tasks c = loop_tasks l @ [Return (), x, y, p3] \<Longrightarrow>
      loaded_of (loop_page (resume i3 r3 c)) = ?status (loaded_of (loop_page c)) \<and>
      loop_tasks (resume i3 r3 c) = loop_tasks l @ [Return (), x, y, Return ()] \<and> loop_sent (resume i3 r3 c) = loop_sent c"
    for c x y
    using loads_resume [of c i1, OF _ _] loads_resume [of c i2, OF _ _] loads_resume [of c i3, OF _ _] p
    by (simp_all add: nth_append list_update_append i)
  have swap: "?peers (?interface d) = ?interface (?peers d)" "?peers (?status d) = ?status (?peers d)"
    "?interface (?status d) = ?status (?interface d)" for d
    by (simp_all add: load_peers_def load_interface_def load_status_def split: sum.split)
  show ?thesis
    using three_orders [OF assms [folded i]]
    by (auto simp: Let_def arrive_all_def l steps swap numeral_eq_Suc)
qed

section \<open>Witnesses\<close>

definition mounted_wg :: "(http_request, fetch_result, wg_state) loop" where
  "mounted_wg = \<lparr>loop_page = sample_wg_state, loop_tasks = [], loop_sent = []\<rparr>"

definition offline :: fetch_result where
  "offline = Rejected (Error ''offline'')"

definition no_peers :: fetch_result where
  "no_peers = Answered \<lparr>rs_status = 200, rs_text = [], rs_json = Inr (PPeers [])\<rparr>"

theorem reload_any_order_witness:
  "let d = arrive_all [(3, offline), (1, no_peers), (2, offline)] (launch fetchData mounted_wg) in
     peers (loop_page d) = [] \<and> interfaceConfig (loop_page d) = None \<and> \<not> pendingRestart (loop_page d) \<and>
     length (loop_sent d) = 3"
proof -
  let ?order = "[(3, offline), (1, no_peers), (2, offline)]"
  let ?d = "arrive_all ?order (launch fetchData mounted_wg)"
  have page: "loop_page mounted_wg = sample_wg_state" "loop_tasks mounted_wg = []" "loop_sent mounted_wg = []"
    by (simp_all add: mounted_wg_def)
  have r: "fst (result getWireGuardPeers no_peers sample_wg_state) = Inr []"
    "\<exists>e. fst (result getWireGuardInterface offline sample_wg_state) = Inl e"
    "\<exists>e. fst (result getSystemStatus offline sample_wg_state) = Inl e"
    by (simp_all add: result_def getWireGuardPeers_def getWireGuardInterface_def getSystemStatus_def run_simps
        no_peers_def offline_def res_ok_def)
  have m: "mset ?order = {#(length (loop_tasks mounted_wg) + 1, no_peers), (length (loop_tasks mounted_wg) + 2, offline),
      (length (loop_tasks mounted_wg) + 3, offline)#}"
    by (simp add: page)
  show ?thesis
    using reload_any_order [OF m] r
    by (auto simp: Let_def page load_peers_def load_interface_def load_status_def loaded_of_def reload_requests_def)
qed

end
