(* ===== verification/Users_View.thy ===== *)
theory Users_View
  imports Users_Page "HOL-Library.Word"
begin

text \<open>
  What components/UserManagement.tsx shows and the remaining fields of its forms: the rows of the table
  and the cards of the narrow layout, the usage report, the options and warnings of the form, the
  identifier that the form draws. Colours and layout are left out but for those that carry a state. A
  missing limit, shown as infinity, is \<open>None\<close>. Ratios are exact.
\<close>

unbundle bit_operations_syntax

section \<open>A random identifier\<close>

text \<open>\<open>crypto.randomUUID\<close> is a parameter, which a browser may not have; the draws are the values of
  \<open>Math.random()\<close>, at least 0 and below 1.\<close>

definition uuid_template :: string where
  "uuid_template = ''xxxxxxxx-xxxx-4xxx-yxxx-xxxxxxxxxxxx''"

definition hex_lower :: "32 word \<Rightarrow> char" where
  "hex_lower v = ''0123456789abcdef'' ! unat v"

definition template_digit :: "char \<Rightarrow> rat \<Rightarrow> char" where
  "template_digit c draw =
     (let r = word_of_int \<lfloor>draw * 16\<rfloor> :: 32 word;
          v = (if c = CHR ''x'' then r else r AND 3 OR 8)
      in hex_lower v)"

fun fill_template :: "(nat \<Rightarrow> rat) \<Rightarrow> nat \<Rightarrow> string \<Rightarrow> string" where
  "fill_template draws n [] = []"
| "fill_template draws n (c # cs) =
     (if c \<in> {CHR ''x'', CHR ''y''} then template_digit c (draws n) # fill_template draws (Suc n) cs
      else c # fill_template draws n cs)"

definition drawUuid :: "string option \<Rightarrow> (nat \<Rightarrow> rat) \<Rightarrow> users_state \<Rightarrow> users_state" where
  "drawUuid native draws =
     setNewUser (\<lambda>u. u\<lparr>cr_uuid := (case native of Some v \<Rightarrow> v | None \<Rightarrow> fill_template draws 0 uuid_template)\<rparr>)"

definition fits_template :: "char \<Rightarrow> char \<Rightarrow> bool" where
  "fits_template t c =
     (if t = CHR ''x'' then c \<in> set ''0123456789abcdef''
      else if t = CHR ''y'' then c \<in> set ''89ab'' else c = t)"

section \<open>The other fields of the forms\<close>

definition changeName :: "string \<Rightarrow> users_state \<Rightarrow> users_state" where
  "changeName v = setNewUser (\<lambda>u. u\<lparr>cr_name := v\<rparr>)"

definition changeUuid :: "string \<Rightarrow> users_state \<Rightarrow> users_state" where
  "changeUuid v = setNewUser (\<lambda>u. u\<lparr>cr_uuid := v\<rparr>)"

definition changeVmessSecurity :: "string \<Rightarrow> users_state \<Rightarrow> users_state" where
  "changeVmessSecurity v = setNewUser (\<lambda>u. u\<lparr>cr_vmess_security := Some v\<rparr>)"

definition changeAlterId :: "string \<Rightarrow> users_state \<Rightarrow> users_state" where
  \<comment> \<open>\<open>Number(v) || 0\<close> of a number field that holds a whole number or nothing\<close>
  "changeAlterId v =
     setNewUser (\<lambda>u. u\<lparr>cr_vmess_alter_id := Some (case parse_int v of Some n \<Rightarrow> n | None \<Rightarrow> 0)\<rparr>)"

definition changeEnabled :: "bool \<Rightarrow> users_state \<Rightarrow> users_state" where
  "changeEnabled b = setNewUser (\<lambda>u. u\<lparr>cr_enabled := Some b\<rparr>)"

definition changeQuotaPeriod :: "string \<Rightarrow> users_state \<Rightarrow> users_state" where
  "changeQuotaPeriod v = setNewUser (\<lambda>u. u\<lparr>cr_quota_period := v\<rparr>)"

definition setBulk :: "(bulk_config \<Rightarrow> bulk_config) \<Rightarrow> users_state \<Rightarrow> users_state" where
  "setBulk f s = s\<lparr>bulkConfig := f (bulkConfig s)\<rparr>"

definition changeBulkInbound :: "string \<Rightarrow> users_state \<Rightarrow> users_state" where
  "changeBulkInbound v = setBulk (\<lambda>b. b\<lparr>bk_inbound_tag := v\<rparr>)"

definition changeBulkPrefix :: "string \<Rightarrow> users_state \<Rightarrow> users_state" where
  "changeBulkPrefix v = setBulk (\<lambda>b. b\<lparr>bk_prefix := v\<rparr>)"

definition changeBulkSuffix :: "string \<Rightarrow> users_state \<Rightarrow> users_state" where
  "changeBulkSuffix v = setBulk (\<lambda>b. b\<lparr>bk_suffix := v\<rparr>)"

definition changeBulkStart :: "string \<Rightarrow> users_state \<Rightarrow> users_state" where
  "changeBulkStart v = setBulk (\<lambda>b. b\<lparr>bk_start_index := num_of_parse (parse_int v)\<rparr>)"

definition changeBulkMode :: "string \<Rightarrow> users_state \<Rightarrow> users_state" where
  "changeBulkMode v = setBulk (\<lambda>b. b\<lparr>bk_mode := v\<rparr>)"

definition changeBulkFlow :: "string \<Rightarrow> users_state \<Rightarrow> users_state" where
  "changeBulkFlow v = setBulk (\<lambda>b. b\<lparr>bk_flow := v\<rparr>)"

definition changeBulkResetDay :: "string \<Rightarrow> users_state \<Rightarrow> users_state" where
  "changeBulkResetDay v = setBulk (\<lambda>b. b\<lparr>bk_reset_day := num_of_parse (parse_int v)\<rparr>)"

definition changeFilter :: "string \<Rightarrow> users_state \<Rightarrow> users_state" where
  "changeFilter v s = s\<lparr>filterInbound := v\<rparr>"

definition changeUsageStart :: "string \<Rightarrow> users_state \<Rightarrow> users_state" where
  "changeUsageStart v s = s\<lparr>usageStart := v\<rparr>"

definition changeUsageEnd :: "string \<Rightarrow> users_state \<Rightarrow> users_state" where
  "changeUsageEnd v s = s\<lparr>usageEnd := v\<rparr>"

definition changeUsageLimit :: "string \<Rightarrow> users_state \<Rightarrow> users_state" where
  "changeUsageLimit v s = s\<lparr>usageLimitGb := v\<rparr>"

definition selectQrInbound :: "string \<Rightarrow> users_state \<Rightarrow> users_state" where
  "selectQrInbound v s = s\<lparr>selectedQrInbound := v\<rparr>"

text \<open>The buttons of the inbounds in the dialog of the link: none for a user of at most one.\<close>

definition qr_tags :: "users_state \<Rightarrow> string list" where
  "qr_tags s =
     (case m_data (modalState s) of
        Some user \<Rightarrow> (case us_inbound_tags user of Some tags \<Rightarrow> if 1 < length tags then tags else [] | None \<Rightarrow> [])
      | None \<Rightarrow> [])"

definition deleteSelected_label :: "users_state \<Rightarrow> string option" where
  "deleteSelected_label s =
     (if 0 < length (selectedUsers s)
      then Some (''Delete ('' @ show_int (int (length (selectedUsers s))) @ '')'') else None)"

definition filter_options :: "users_state \<Rightarrow> (string \<times> string) list" where
  "filter_options s = ([], ''All Inbounds'') # map (\<lambda>inb. (inb_tag inb, inb_tag inb)) (inbounds s)"

section \<open>Options and warnings of the form\<close>

text \<open>The types with the mark that says whether the option is disabled.\<close>

definition type_options :: "users_state \<Rightarrow> (string \<times> bool) list" where
  "type_options s =
     map (\<lambda>ty. (ty, \<not> list_ex (\<lambda>inb. inb_type inb = ty) (inbounds s) \<or> ty \<notin> set supportedUserTypes))
       [''vless'', ''vmess'', ''trojan'']"

definition inbound_options :: "users_state \<Rightarrow> string list" where
  "inbound_options s = map inb_tag (filter (\<lambda>inb. inb_type inb = userType s) (inbounds s))"

definition showFlow :: "users_state \<Rightarrow> bool" where
  "showFlow s = (userType s = ''vless'')"

definition form_warnings :: "users_state \<Rightarrow> string list" where
  "form_warnings s =
     (if \<not> hasTypeInbounds s then [''No inbounds available for this type.''] else []) @
     (if hasEmptyInbound s then [''Each inbound row must have a selected inbound.''] else []) @
     (if hasDuplicateInbound s then [''Duplicate inbounds are not allowed.''] else []) @
     (if inboundTypeMismatch s then [''All inbounds must match the selected user type.''] else [])"

definition save_button :: "users_state \<Rightarrow> string \<times> bool" where
  \<comment> \<open>its text, and whether it is disabled\<close>
  "save_button s = (if isEditing s then ''Save Changes'' else ''Create User'', \<not> inboundValid s)"

section \<open>The rows of the table\<close>

definition quota_bar :: "user_status \<Rightarrow> (string \<times> rat) option" where
  "quota_bar user =
     (if us_quota_limit user = 0 then None
      else
        (let ratio = of_int (us_total user) / of_int (us_quota_limit user)
         in Some (if 1 < ratio then ''bg-red-500'' else if 8 / 10 < ratio then ''bg-amber-500'' else ''bg-blue-500'',
                  min (ratio * 100) 100)))"

definition quota_texts :: "user_status \<Rightarrow> string \<times> string option" where
  "quota_texts user =
     (formatBytes (us_total user) 2,
      if us_quota_limit user = 0 then None else Some (formatBytes (us_quota_limit user) 2))"

definition inbound_badges :: "user_status \<Rightarrow> string list" where
  "inbound_badges user =
     (case us_inbound_tags user of
        Some tags \<Rightarrow> if 0 < length tags then tags else [''All'']
      | None \<Rightarrow> [''All''])"

record row_view =
  rv_name :: string
  rv_selected :: bool
  rv_status :: "string \<times> string \<times> bool"
  rv_quota :: "string \<times> string option"
  rv_bar :: "(string \<times> rat) option"
  rv_uplink :: string
  rv_downlink :: string
  rv_badges :: "string list option"

definition user_row :: "int \<Rightarrow> users_state \<Rightarrow> user_status \<Rightarrow> row_view" where
  "user_row now s user =
     \<lparr>rv_name = us_name user, rv_selected = (us_name user \<in> set (selectedUsers s)), rv_status = row_status now user,
      rv_quota = quota_texts user, rv_bar = quota_bar user, rv_uplink = formatBytes (us_uplink user) 2,
      rv_downlink = formatBytes (us_downlink user) 2, rv_badges = Some (inbound_badges user)\<rparr>"

definition table_rows :: "(string \<Rightarrow> string \<Rightarrow> int) \<Rightarrow> int \<Rightarrow> users_state \<Rightarrow> row_view list" where
  "table_rows localeCompare now s = (if users s = [] then [] else map (user_row now s) (sortedUsers localeCompare s))"

text \<open>The cards of the narrow layout repeat the code of the rows, without the badges.\<close>

definition card_status :: "int \<Rightarrow> user_status \<Rightarrow> string \<times> string \<times> bool" where
  "card_status now user =
     (let (col, txt, online) = (''bg-slate-600'', ''Never'', False);
          (col, txt, online) =
            (if us_enabled user = Some True then
               (if nullish (us_last_seen user) 0 \<noteq> 0 then
                  (let diff = now div 1000 - nullish (us_last_seen user) 0;
                       txt = formatTimeAgo now (nullish (us_last_seen user) 0)
                   in if diff < 300 then (''bg-emerald-500'', txt, True) else (''bg-slate-700'', txt, online))
                else (''bg-slate-700'', txt, online))
             else (''bg-red-500'', ''Disabled'', online))
      in if exceeded user then (''bg-amber-500'', ''Exceeded'', online) else (col, txt, online))"

definition user_card :: "int \<Rightarrow> users_state \<Rightarrow> user_status \<Rightarrow> row_view" where
  "user_card now s user = (user_row now s user)\<lparr>rv_status := card_status now user, rv_badges := None\<rparr>"

definition allSelected :: "users_state \<Rightarrow> bool" where
  "allSelected s \<longleftrightarrow> 0 < length (users s) \<and> length (selectedUsers s) = length (users s)"

section \<open>The dialogs\<close>

definition usage_row :: "json \<Rightarrow> string \<times> string \<times> string \<times> string \<times> string" where
  "usage_row row =
     (let bytes = (\<lambda>k. case jget k row of Some (JNum n) \<Rightarrow> formatBytes n 2 | _ \<Rightarrow> ''0 B'')
      in (str_of (jget ''name'' row), bytes ''uplink'', bytes ''downlink'', bytes ''total'',
          if truthy_opt (jget ''exceeded'' row) then ''Exceeded'' else ''OK''))"

definition qr_value :: "users_state \<Rightarrow> string option" where
  "qr_value s = (if qrError s \<noteq> [] then None else Some (str_or (qrLink s) '' ''))"

definition copy_button :: "users_state \<Rightarrow> string \<times> bool" where
  "copy_button s = (if copied s then ''Copied'' else ''Copy'', qrLink s = [])"

definition removal_deletes :: "users_state \<Rightarrow> bool" where
  "removal_deletes s =
     (case m_data (modalState s) of
        Some user \<Rightarrow>
          (case us_inbound_tags user of
             Some tags \<Rightarrow> length (selectedInboundsToRemove s) = length tags
           | None \<Rightarrow> False)
      | None \<Rightarrow> False)"

section \<open>Facts\<close>

lemma card_as_row: "card_status now user = row_status now user"
  by (auto simp: card_status_def row_status_def Let_def nullish_def split: option.splits)

lemma save_disabled: "snd (save_button s) \<longleftrightarrow>
    form_warnings s \<noteq> [] \<or> inboundRows s = [] \<or> userType s \<notin> set supportedUserTypes"
  by (auto simp: save_button_def inboundValid_def form_warnings_def unsupportedUserType_def)

lemma chosen_option_valid:
  "userType s \<in> set supportedUserTypes \<Longrightarrow> inbound_options s \<noteq> [] \<Longrightarrow> (userType s, False) \<in> set (type_options s)"
  by (auto simp: inbound_options_def type_options_def supportedUserTypes_def list_ex_iff filter_empty_conv)

text \<open>The bar of the quota agrees with the status of the row: it is red exactly for an exceeded quota.\<close>

lemma quota_bar_red:
  assumes "0 < us_quota_limit u" and "0 \<le> us_total u"
  obtains col width where "quota_bar u = Some (col, width)" "0 \<le> width" "width \<le> 100"
    "col = ''bg-red-500'' \<longleftrightarrow> exceeded u"
proof
  let ?r = "of_int (us_total u) / of_int (us_quota_limit u) :: rat"
  have "1 < ?r \<longleftrightarrow> us_quota_limit u < us_total u"
    using assms by (simp add: less_divide_eq)
  then show "quota_bar u = Some (fst (the (quota_bar u)), snd (the (quota_bar u)))"
    "0 \<le> snd (the (quota_bar u))" "snd (the (quota_bar u)) \<le> 100"
    "fst (the (quota_bar u)) = ''bg-red-500'' \<longleftrightarrow> exceeded u"
    using assms by (auto simp: quota_bar_def exceeded_def Let_def)
qed

lemma hex_lower_mem: "unat v < 16 \<Longrightarrow> hex_lower v \<in> set ''0123456789abcdef''"
  using nth_mem [of "unat v" "''0123456789abcdef''"] unfolding hex_lower_def by simp

lemma draw_digit:
  assumes "0 \<le> d" and "d < (1 :: rat)"
  shows "unat (word_of_int \<lfloor>d * 16\<rfloor> :: 32 word) < 16"
proof -
  have "0 \<le> \<lfloor>d * 16\<rfloor>" "\<lfloor>d * 16\<rfloor> < 16" using assms by (simp_all add: floor_less_iff)
  then show ?thesis
    by (simp add: unat_eq_nat_uint uint_word_of_int nat_less_iff take_bit_int_eq_self)
qed

lemma low_bits: "r AND 3 \<in> {0, 1, 2, 3 :: 32 word}"
proof -
  have "r AND 3 = take_bit 2 r" by (simp add: take_bit_eq_mask mask_eq_exp_minus_1)
  moreover have "unat (take_bit 2 r) < 4" using take_bit_nat_less_exp [of 2 "unat r"] by (simp add: unsigned_take_bit_eq)
  ultimately obtain n where "r AND 3 = word_of_nat n" "n < 4" by (metis of_nat_unat ucast_id)
  then have "n \<in> {0, 1, 2, 3}" "r AND 3 = word_of_nat n" by auto
  then show ?thesis by auto
qed

lemma variant_digit: "hex_lower (r AND 3 OR 8) \<in> set ''89ab''"
proof -
  consider "r AND 3 = 0" | "r AND 3 = 1" | "r AND 3 = 2" | "r AND 3 = 3" using low_bits [of r] by auto
  then show ?thesis by cases (simp_all add: hex_lower_def)
qed

lemma fill_fits:
  assumes "\<And>i. 0 \<le> draws i \<and> draws i < 1"
  shows "list_all2 fits_template cs (fill_template draws n cs)"
proof (induction cs arbitrary: n)
  case (Cons c cs)
  have "c = CHR ''x'' \<Longrightarrow> fits_template c (template_digit c (draws n))"
    using hex_lower_mem [OF draw_digit] assms [of n] by (simp add: fits_template_def template_digit_def Let_def)
  moreover have "c = CHR ''y'' \<Longrightarrow> fits_template c (template_digit c (draws n))"
    using variant_digit by (simp add: fits_template_def template_digit_def Let_def)
  ultimately show ?case
    using Cons.IH by (auto simp: fits_template_def)
qed simp

section \<open>Properties\<close>

text \<open>The identifier that the form draws where the browser has no randomUUID is a version 4 UUID:
  for all random numbers it has the dashes and the version digit of the template, hexadecimal digits in
  the free places, and the variant digit among 8, 9, a and b, which the two bit operations are for.\<close>

theorem drawn_uuid_shape:
  assumes "\<forall>i. 0 \<le> draws i \<and> draws i < 1"
  shows "list_all2 fits_template uuid_template (cr_uuid (newUser (drawUuid None draws s)))"
  using fill_fits [of draws uuid_template 0] assms by (simp add: drawUuid_def setNewUser_def)

theorem drawn_uuid_shape_witness:
  "list_all2 fits_template uuid_template (cr_uuid (newUser (drawUuid None (\<lambda>i. 1 / 2) sample_users_state))) \<and>
   cr_uuid (newUser (drawUuid None (\<lambda>i. 1 / 2) sample_users_state)) = ''88888888-8888-4888-8888-888888888888''"
proof -
  have "cr_uuid (newUser (drawUuid None (\<lambda>i. 1 / 2) sample_users_state)) = ''88888888-8888-4888-8888-888888888888''"
    by code_simp
  then show ?thesis using drawn_uuid_shape [of "\<lambda>i. 1 / 2" sample_users_state] by simp
qed

end
