(* ===== verification/Js_Quiet.thy ===== *)
theory Js_Quiet
  imports Api_Facts "HOL-Library.Multiset"
begin

text \<open>
  What becomes of a page when its user does nothing more and the responses arrive. Every sequence of
  arrivals is finite, because a response replaces a suspended task by what is left of it, and ends with
  no task suspended. The locale \<open>busy_page\<close> is the interface of a page with a flag that shows that it is
  working: from the promise that each handler either turns the flag off on every path, or never turns it
  on, follows that the flag is on only while a response is outstanding.
\<close>

section \<open>Arrivals\<close>

fun suspended :: "('q, 'r, 's, 'a) io \<Rightarrow> bool" where
  "suspended (Await q k) = True"
| "suspended p = False"

definition idle :: "('q, 'r, 's) loop \<Rightarrow> bool" where
  "idle c \<longleftrightarrow> (\<forall>p \<in> set (loop_tasks c). \<not> suspended p)"

inductive arrival :: "('q \<Rightarrow> 'r \<Rightarrow> bool) \<Rightarrow> ('q, 'r, 's) loop \<Rightarrow> ('q, 'r, 's) loop \<Rightarrow> bool" for answers where
  arrival: "i < length (loop_tasks c) \<Longrightarrow> loop_tasks c ! i = Await q k \<Longrightarrow> answers q r \<Longrightarrow>
     arrival answers c (resume i r c)"

text \<open>What a response may leave of a suspended task: the task itself and the tasks it has started.\<close>

definition remainder :: "(('q, 'r, 's, unit) io \<times> ('q, 'r, 's, unit) io) set" where
  "remainder = {(p', Await q k) | p' q k. \<exists>r s. p' \<in> insert (fst (settle (k r) s)) (set (new_tasks (forked (k r) s)))}"

lemma remainder_of:
  "(p', p) \<in> remainder \<Longrightarrow> \<exists>q k r s. p = Await q k \<and>
     p' \<in> insert (fst (settle (k r) s)) (set (new_tasks (forked (k r) s)))"
  unfolding remainder_def by blast

lemma acc_unless_await: "(\<And>q k. p \<noteq> Await q k) \<Longrightarrow> p \<in> Wellfounded.acc remainder"
  by (rule Wellfounded.accI) (use remainder_of in blast)

lemma acc_await:
  assumes "\<And>r s. fst (settle (k r) s) \<in> Wellfounded.acc remainder"
    and "\<And>r s. set (new_tasks (forked (k r) s)) \<subseteq> Wellfounded.acc remainder"
  shows "Await q k \<in> Wellfounded.acc remainder"
proof (rule Wellfounded.accI)
  fix p' assume "(p', Await q k) \<in> remainder"
  then obtain r s where "p' \<in> insert (fst (settle (k r) s)) (set (new_tasks (forked (k r) s)))"
    using remainder_of by blast
  then show "p' \<in> Wellfounded.acc remainder" using assms by blast
qed

lemma settle_io_of: "settle (io_of t) s = (p', s') \<Longrightarrow> s' = fst (starts t s)"
proof (induction t arbitrary: s)
  case (TGet k)
  then have "settle (io_of (k s)) s = (p', s')" by simp
  from TGet.IH [OF rangeI this] show ?case by simp
next
  case (TFork t p)
  then have "settle (io_of p) (fst (starts t s)) = (p', s')" by simp
  from TFork.IH(2) [OF this] show ?case by (simp split: prod.splits)
qed auto

lemma remainder_task:
  "fst (settle (io_of t) s) \<in> Wellfounded.acc remainder \<and>
   set (new_tasks (snd (starts t s))) \<subseteq> Wellfounded.acc remainder \<and>
   set (new_tasks (forked (io_of t) s)) \<subseteq> Wellfounded.acc remainder"
proof (induction t arbitrary: s)
  case (TGet k)
  show ?case using TGet.IH [OF rangeI] by simp
next
  case (TAwait q k)
  have "Await q (\<lambda>r. io_of (k r)) \<in> Wellfounded.acc remainder"
    by (rule acc_await) (use TAwait.IH [OF rangeI] in blast)+
  then show ?case by simp
next
  case (TFork t p)
  obtain s' l where s': "starts t s = (s', l)" by force
  obtain s'' l' where s'': "starts p s' = (s'', l')" by force
  show ?case using TFork.IH(1) [of s] TFork.IH(2) [of s'] s' s'' by simp
qed (simp_all add: acc_unless_await)

lemma remainder_settle:
  "fst (settle p s) \<in> Wellfounded.acc remainder \<and> set (new_tasks (forked p s)) \<subseteq> Wellfounded.acc remainder"
  using remainder_task [of "task_of p" s] by simp

lemma wf_remainder: "wf (remainder :: (('q, 'r, 's, unit) io \<times> ('q, 'r, 's, unit) io) set)"
proof (rule acc_wfI, rule allI)
  fix p :: "('q, 'r, 's, unit) io"
  show "p \<in> Wellfounded.acc remainder"
  proof (cases p)
    case (Await q k)
    show ?thesis unfolding Await
      by (rule acc_await [OF remainder_settle [THEN conjunct1] remainder_settle [THEN conjunct2]])
  qed (simp_all add: acc_unless_await)
qed

lemma arrival_tasks:
  assumes "arrival answers c d"
  shows "(mset (loop_tasks d), mset (loop_tasks c)) \<in> mult1 remainder"
  using assms
proof cases
  case (arrival i q k r)
  obtain p t where pt: "settle (k r) (loop_page c) = (p, t)" by force
  let ?new = "new_tasks (forked (k r) (loop_page c))"
  have m: "mset (loop_tasks c) = add_mset (Await q k) (mset (loop_tasks c) - {#Await q k#})"
    using arrival(2,3) by (metis insert_DiffM nth_mem_mset)
  have d: "mset (loop_tasks d) = (mset (loop_tasks c) - {#Await q k#}) + mset (p # ?new)"
    using arrival pt by (simp add: resume_def mset_update)
  have "\<forall>p'. p' \<in># mset (p # ?new) \<longrightarrow> (p', Await q k) \<in> remainder"
    using pt unfolding remainder_def
    by (auto intro!: exI [of _ r] exI [of _ "loop_page c"])
  then show ?thesis
    unfolding mult1_def mem_Collect_eq prod.case
    using m d by blast
qed

lemma arrivals_finite: "wfp (arrival answers)\<inverse>\<inverse>"
proof -
  have "wf (inv_image (mult1 remainder) (\<lambda>c. mset (loop_tasks c)))"
    by (rule wf_inv_image [OF wf_mult1 [OF wf_remainder]])
  then show ?thesis
    unfolding wfp_def by (rule wf_subset) (auto intro: arrival_tasks)
qed

lemma arrivals_to_idle:
  assumes "\<And>q. \<exists>r. answers q r"
  shows "\<exists>d. (arrival answers)\<^sup>*\<^sup>* c d \<and> idle d"
  using arrivals_finite [of answers]
proof (induction c rule: wfp_induct_rule)
  case (less c)
  show ?case
  proof (cases "idle c")
    case False
    then obtain p where "p \<in> set (loop_tasks c)" "suspended p" by (auto simp: idle_def)
    then obtain i q k where "i < length (loop_tasks c)" "loop_tasks c ! i = Await q k"
      by (metis in_set_conv_nth suspended.elims(2))
    moreover obtain r where "answers q r" using assms by blast
    ultimately have a: "arrival answers c (resume i r c)" by (rule arrival.intros)
    then obtain d where "(arrival answers)\<^sup>*\<^sup>* (resume i r c) d" "idle d" using less by blast
    then show ?thesis using a by (meson converse_rtranclp_into_rtranclp)
  qed blast
qed

section \<open>Handlers that turn a flag off\<close>

text \<open>\<open>ends_in N T p s\<close>: on every path on which \<open>p\<close> returns, the state then satisfies \<open>N\<close>, and on every path
  on which it throws, \<open>T\<close>, whatever happens between. The judgement is for handlers that await what they
  call: a forked task would go on beyond the end of its caller.\<close>

primrec ends_in :: "('s \<Rightarrow> bool) \<Rightarrow> ('s \<Rightarrow> bool) \<Rightarrow> ('q, 'r, 's, 'a) io \<Rightarrow> 's \<Rightarrow> bool" where
  "ends_in N T (Return a) = N"
| "ends_in N T (Throw e) = T"
| "ends_in N T (Get k) = (\<lambda>s. ends_in N T (k s) s)"
| "ends_in N T (Put t p) = (\<lambda>s. ends_in N T p t)"
| "ends_in N T (Await q k) = (\<lambda>s. \<forall>r t. ends_in N T (k r) t)"
| "ends_in N T (Fork t p) = (\<lambda>s. False)"

abbreviation anywhere :: "'s \<Rightarrow> bool" where
  "anywhere \<equiv> \<lambda>_. True"

lemma ends_anywhere [flag_intros]: "fork_free p \<Longrightarrow> ends_in anywhere anywhere p s"
  by (induction p arbitrary: s) auto

lemma ends_bind [flag_intros]:
  "ends_in anywhere T p s \<Longrightarrow> (\<And>a t. ends_in N T (f a) t) \<Longrightarrow> ends_in N T (bind p f) s"
  by (induction p arbitrary: s) auto

lemma ends_try_catch [flag_intros]:
  "ends_in N anywhere p s \<Longrightarrow> (\<And>e t. ends_in N T (h e) t) \<Longrightarrow> ends_in N T (try_catch p h) s"
  by (induction p arbitrary: s) auto

lemma ends_modify [flag_intros]: "N (f s) \<Longrightarrow> ends_in N T (modify f) s"
  by (simp add: modify_def)

lemma ends_finally [flag_intros]:
  assumes "\<And>t. N (f t)" and "\<And>t. T (f t)" and "fork_free p"
  shows "ends_in N T (try_finally p (modify f)) s"
  using assms(3) unfolding try_finally_def
proof (induction p arbitrary: s)
  case (Get k)
  then show ?case using Get.IH [OF rangeI] by simp
next
  case (Await q k)
  then show ?case using Await.IH [OF rangeI] by simp
qed (simp_all add: modify_def assms)

text \<open>\<open>keeps_off b p s\<close>: no step of \<open>p\<close> turns \<open>b\<close> on; a task that it forks may, if it turns it off again.\<close>

primrec ends_task :: "('s \<Rightarrow> bool) \<Rightarrow> ('q, 'r, 's) task \<Rightarrow> 's \<Rightarrow> bool" where
  "ends_task b Done = (\<lambda>s. \<not> b s)"
| "ends_task b (Failed e) = (\<lambda>s. \<not> b s)"
| "ends_task b (TGet k) = (\<lambda>s. ends_task b (k s) s)"
| "ends_task b (TPut t p) = (\<lambda>s. ends_task b p t)"
| "ends_task b (TAwait q k) = (\<lambda>s. \<forall>r t. ends_task b (k r) t)"
| "ends_task b (TFork t p) = (\<lambda>s. False)"

primrec keeps_task :: "('s \<Rightarrow> bool) \<Rightarrow> ('q, 'r, 's) task \<Rightarrow> 's \<Rightarrow> bool" where
  "keeps_task b Done = (\<lambda>s. True)"
| "keeps_task b (Failed e) = (\<lambda>s. True)"
| "keeps_task b (TGet k) = (\<lambda>s. keeps_task b (k s) s)"
| "keeps_task b (TPut t p) = (\<lambda>s. (b t \<longrightarrow> b s) \<and> keeps_task b p t)"
| "keeps_task b (TAwait q k) = (\<lambda>s. \<forall>r t. keeps_task b (k r) t)"
| "keeps_task b (TFork t p) = (\<lambda>s. (ends_task b t s \<or> keeps_task b t s) \<and> (\<forall>u. keeps_task b p u))"

primrec keeps_off :: "('s \<Rightarrow> bool) \<Rightarrow> ('q, 'r, 's, 'a) io \<Rightarrow> 's \<Rightarrow> bool" where
  "keeps_off b (Return a) = (\<lambda>s. True)"
| "keeps_off b (Throw e) = (\<lambda>s. True)"
| "keeps_off b (Get k) = (\<lambda>s. keeps_off b (k s) s)"
| "keeps_off b (Put t p) = (\<lambda>s. (b t \<longrightarrow> b s) \<and> keeps_off b p t)"
| "keeps_off b (Await q k) = (\<lambda>s. \<forall>r t. keeps_off b (k r) t)"
| "keeps_off b (Fork t p) = (\<lambda>s. (ends_task b t s \<or> keeps_task b t s) \<and> (\<forall>u. keeps_off b p u))"

text \<open>\<open>sheds b T p s\<close>: no step of \<open>p\<close> turns \<open>b\<close> on, until one from which on \<open>p\<close> ends with \<open>b\<close> off.\<close>

primrec sheds :: "('s \<Rightarrow> bool) \<Rightarrow> ('s \<Rightarrow> bool) \<Rightarrow> ('q, 'r, 's, 'a) io \<Rightarrow> 's \<Rightarrow> bool" where
  "sheds b T (Return a) = (\<lambda>s. True)"
| "sheds b T (Throw e) = (\<lambda>s. True)"
| "sheds b T (Get k) = (\<lambda>s. sheds b T (k s) s)"
| "sheds b T (Put t p) = (\<lambda>s. ends_in (\<lambda>s. \<not> b s) T p t \<or> (b t \<longrightarrow> b s) \<and> sheds b T p t)"
| "sheds b T (Await q k) = (\<lambda>s. \<forall>r t. ends_in (\<lambda>s. \<not> b s) T (k r) t \<or> sheds b T (k r) t)"
| "sheds b T (Fork t p) = (\<lambda>s. (ends_task b t s \<or> keeps_task b t s) \<and>
     (\<forall>u. ends_in (\<lambda>s. \<not> b s) T p u \<or> sheds b T p u))"

definition quiets :: "('s \<Rightarrow> bool) \<Rightarrow> ('s \<Rightarrow> bool) \<Rightarrow> ('q, 'r, 's, 'a) io \<Rightarrow> 's \<Rightarrow> bool" where
  "quiets b T p s \<longleftrightarrow> ends_in (\<lambda>s. \<not> b s) T p s \<or> sheds b T p s"

lemma keeps_sheds: "keeps_off b p s \<Longrightarrow> sheds b T p s"
  by (induction p arbitrary: s) auto

lemma quiets_keeps: "keeps_off b p s \<Longrightarrow> quiets b T p s"
  by (simp add: quiets_def keeps_sheds)

lemma quiets_ends: "ends_in (\<lambda>s. \<not> b s) T p s \<Longrightarrow> quiets b T p s"
  by (simp add: quiets_def)

text \<open>What never throws is not caught.\<close>

abbreviation nowhere :: "'s \<Rightarrow> bool" where
  "nowhere \<equiv> \<lambda>_. False"

lemma ends_uncaught: "ends_in N nowhere p s \<Longrightarrow> ends_in N T (try_catch p h) s"
  by (induction p arbitrary: s) auto

lemma ends_never: "ends_in N nowhere p s \<Longrightarrow> ends_in N T p s"
  by (induction p arbitrary: s) auto

lemma ends_then:
  "ends_in N nowhere p s \<Longrightarrow> (\<And>a t. N t \<Longrightarrow> ends_in N T (f a) t) \<Longrightarrow> ends_in N T (bind p f) s"
  by (induction p arbitrary: s) auto

lemma quiets_bind:
  "keeps_off b p s \<Longrightarrow> (\<And>a t. quiets b T (f a) t) \<Longrightarrow> quiets b T (bind p f) s"
  by (induction p arbitrary: s) (auto simp: quiets_def)

lemma quiets_try_catch:
  assumes "quiets b nowhere p s" and "\<And>e t. keeps_off b (h e) t"
  shows "quiets b T (try_catch p h) s"
proof -
  have "sheds b nowhere p s \<Longrightarrow> sheds b T (try_catch p h) s"
  proof (induction p arbitrary: s)
    case (Await q k)
    have "ends_in (\<lambda>s. \<not> b s) T (try_catch (k r) h) t \<or> sheds b T (try_catch (k r) h) t" for r t
    proof -
      have "ends_in (\<lambda>s. \<not> b s) nowhere (k r) t \<or> sheds b nowhere (k r) t" using Await.prems by simp
      then show ?thesis using Await.IH [OF rangeI, of r t] ends_uncaught [of "\<lambda>s. \<not> b s" "k r" t T h] by blast
    qed
    then show ?case by simp
  qed (use assms(2) in \<open>auto intro: keeps_sheds ends_uncaught\<close>)
  then show ?thesis using assms(1) by (auto simp: quiets_def ends_uncaught)
qed

lemma quiets_then:
  assumes "quiets b nowhere p s" and "\<And>a t. \<not> b t \<Longrightarrow> ends_in (\<lambda>s. \<not> b s) T (f a) t"
    and "\<And>a t. keeps_off b (f a) t"
  shows "quiets b T (bind p f) s"
proof -
  have e: "ends_in (\<lambda>s. \<not> b s) nowhere p s \<Longrightarrow> ends_in (\<lambda>s. \<not> b s) T (bind p f) s" for p s
    by (rule ends_then) (use assms(2) in auto)
  have "sheds b nowhere p s \<Longrightarrow> sheds b T (bind p f) s"
  proof (induction p arbitrary: s)
    case (Await q k)
    have "ends_in (\<lambda>s. \<not> b s) T (bind (k r) f) t \<or> sheds b T (bind (k r) f) t" for r t
    proof -
      have "ends_in (\<lambda>s. \<not> b s) nowhere (k r) t \<or> sheds b nowhere (k r) t" using Await.prems by simp
      then show ?thesis using Await.IH [OF rangeI, of r t] e by blast
    qed
    then show ?case by simp
  qed (use assms(3) in \<open>auto intro: keeps_sheds e\<close>)
  then show ?thesis using assms(1) e by (auto simp: quiets_def)
qed

lemma ends_task_of [simp]: "ends_task b (task_of p) s \<longleftrightarrow> ends_in (\<lambda>s. \<not> b s) (\<lambda>s. \<not> b s) p s"
  by (induction p arbitrary: s) auto

lemma ends_io_of [simp]: "ends_in (\<lambda>s. \<not> b s) (\<lambda>s. \<not> b s) (io_of t) s \<longleftrightarrow> ends_task b t s"
  by (induction t arbitrary: s) auto

lemma keeps_task_of [simp]: "keeps_task b (task_of p) s \<longleftrightarrow> keeps_off b p s"
  by (induction p arbitrary: s) auto

lemma keeps_io_of [simp]: "keeps_off b (io_of t) s \<longleftrightarrow> keeps_task b t s"
  by (induction t arbitrary: s) auto

lemma keeps_spawn [flag_intros]:
  "ends_in (\<lambda>s. \<not> b s) (\<lambda>s. \<not> b s) p s \<or> keeps_off b p s \<Longrightarrow> keeps_off b (spawn p) s"
  by (simp add: spawn_def)

lemma keeps_bind [flag_intros]:
  "keeps_off b p s \<Longrightarrow> (\<And>a t. keeps_off b (f a) t) \<Longrightarrow> keeps_off b (bind p f) s"
  by (induction p arbitrary: s) auto

lemma keeps_try_catch [flag_intros]:
  "keeps_off b p s \<Longrightarrow> (\<And>e t. keeps_off b (h e) t) \<Longrightarrow> keeps_off b (try_catch p h) s"
  by (induction p arbitrary: s) auto

lemma keeps_modify [flag_intros]: "(b (f s) \<Longrightarrow> b s) \<Longrightarrow> keeps_off b (modify f) s"
  by (simp add: modify_def)

lemma keeps_Return [flag_intros]: "keeps_off b (Return a) s"
  by simp

lemma keeps_Throw [flag_intros]: "keeps_off b (Throw e) s"
  by simp

lemma keeps_finally [flag_intros]:
  "keeps_off b p s \<Longrightarrow> (\<And>t. keeps_off b f t) \<Longrightarrow> keeps_off b (try_finally p f) s"
  unfolding try_finally_def by (intro flag_intros)

section \<open>Calls\<close>

declare fork_intros [flag_intros]

lemma keeps_send [flag_intros]: "keeps_off b (send meth url ct bdy) s"
  by (auto simp: send_def fetch_def split: fetch_result.splits)

lemma keeps_if [flag_intros]:
  "(c \<Longrightarrow> keeps_off b p s) \<Longrightarrow> (\<not> c \<Longrightarrow> keeps_off b q s) \<Longrightarrow> keeps_off b (if c then p else q) s"
  by simp

lemma keeps_for_each [flag_intros]: "(\<And>x t. keeps_off b (f x) t) \<Longrightarrow> keeps_off b (for_each xs f) s"
  by (induction xs arbitrary: s) (auto intro!: flag_intros)

lemma keeps_json_body [flag_intros]: "keeps_off b (json_body res) s"
  by (auto simp: json_body_def split: sum.splits)

lemma keeps_call_void [flag_intros]:
  "(\<And>t. b (logout t) \<Longrightarrow> b t) \<Longrightarrow> keeps_off b (call_void meth url ct bdy msg) s"
  unfolding call_void_def handleResponse_def handleUnauthorized_def by (intro flag_intros) (auto intro!: flag_intros)

lemma keeps_call_json [flag_intros]:
  "(\<And>t. b (logout t) \<Longrightarrow> b t) \<Longrightarrow> keeps_off b (call_json meth url ct bdy msg decode) s"
  unfolding call_json_def handleResponse_def handleUnauthorized_def
  by (intro flag_intros) (auto intro!: flag_intros split: option.splits)

section \<open>The flag of a page\<close>

lemma keeps_call_text [flag_intros]:
  "(\<And>t. b (logout t) \<Longrightarrow> b t) \<Longrightarrow> keeps_off b (call_text meth url ct bdy msg) s"
  unfolding call_text_def handleResponse_def handleUnauthorized_def by (intro flag_intros) (auto intro!: flag_intros)

lemma settle_shape: "settle p s = (p', t) \<Longrightarrow> (\<exists>a. p' = Return a) \<or> (\<exists>e. p' = Throw e) \<or> suspended p'"
proof (induction p arbitrary: s)
  case (Get k)
  then have "settle (k s) s = (p', t)" by simp
  from Get.IH [OF rangeI this] show ?case .
qed auto

lemma ends_settle: "ends_in N T p s \<Longrightarrow> settle p s = (p', t) \<Longrightarrow> ends_in N T p' t"
proof (induction p arbitrary: s)
  case (Get k)
  then have "ends_in N T (k s) s" "settle (k s) s = (p', t)" by simp_all
  from Get.IH [OF rangeI this] show ?case .
qed auto

text \<open>What a suspended task still owes: to turn the flag off, or not to turn it on.\<close>

fun owes :: "('s \<Rightarrow> bool) \<Rightarrow> ('q, 'r, 's, 'a) io \<Rightarrow> bool" where
  "owes b (Await q k) = (\<forall>r t. ends_in (\<lambda>s. \<not> b s) (\<lambda>s. \<not> b s) (k r) t)"
| "owes b p = False"

fun calm :: "('s \<Rightarrow> bool) \<Rightarrow> ('q, 'r, 's, 'a) io \<Rightarrow> bool" where
  "calm b (Await q k) = (\<forall>r t. keeps_off b (k r) t)"
| "calm b p = True"

fun mild :: "('s \<Rightarrow> bool) \<Rightarrow> ('q, 'r, 's, 'a) io \<Rightarrow> bool" where
  "mild b (Await q k) = (\<forall>r t. quiets b (\<lambda>s. \<not> b s) (k r) t)"
| "mild b p = True"

lemma calm_mild: "calm b p \<Longrightarrow> mild b p"
  by (cases p) (auto intro: quiets_keeps)

lemma ends_forked: "ends_in N T p s \<Longrightarrow> forked p s = []"
proof (induction p arbitrary: s)
  case (Get k)
  then show ?case using Get.IH [OF rangeI] by simp
qed auto

lemma ends_flag:
  assumes "ends_in (\<lambda>s. \<not> b s) (\<lambda>s. \<not> b s) p s" and "settle p s = (p', t)"
  shows "(owes b p' \<or> (\<not> b t \<and> calm b p')) \<and> forked p s = []"
  using ends_settle [OF assms] settle_shape [OF assms(2)] ends_forked [OF assms(1)] by (cases p') auto

text \<open>The tasks \<open>l\<close> that start while the page goes from \<open>s\<close> to \<open>t\<close>: each owes or is mild, and one owes if the
  flag has gone on.\<close>

definition flag_step :: "('s \<Rightarrow> bool) \<Rightarrow> 's \<Rightarrow> 's \<Rightarrow> ('q, 'r, 's, unit) io list \<Rightarrow> bool" where
  "flag_step b s t l \<longleftrightarrow> (\<forall>p \<in> set l. owes b p \<or> mild b p) \<and> (b t \<longrightarrow> b s \<or> (\<exists>p \<in> set l. owes b p))"

lemma flag_step_trans: "flag_step b s t l \<Longrightarrow> flag_step b t u l' \<Longrightarrow> flag_step b s u (l @ l')"
  by (auto simp: flag_step_def)

lemma flag_step_none: "(b t \<longrightarrow> b s) \<Longrightarrow> flag_step b s t []"
  by (simp add: flag_step_def)

lemma starts_ends: "ends_task b t s \<Longrightarrow> starts t s = (s', l) \<Longrightarrow> flag_step b u s' (new_tasks l)"
proof (induction t arbitrary: s)
  case (TGet k)
  then have "ends_task b (k s) s" "starts (k s) s = (s', l)" by simp_all
  from TGet.IH [OF rangeI this] show ?case .
qed (auto simp: flag_step_def)

lemma starts_keeps: "keeps_task b t s \<Longrightarrow> starts t s = (s', l) \<Longrightarrow> flag_step b s s' (new_tasks l)"
proof (induction t arbitrary: s s' l)
  case (TGet k)
  then have "keeps_task b (k s) s" "starts (k s) s = (s', l)" by simp_all
  from TGet.IH [OF rangeI this] show ?case .
next
  case (TPut t p)
  then have "b t \<longrightarrow> b s" "flag_step b t s' (new_tasks l)" by simp_all
  from flag_step_trans [OF flag_step_none [of b, OF this(1)] this(2)] show ?case by simp
next
  case (TFork t p)
  obtain s1 l1 l2 where st: "starts t s = (s1, l1)" "starts p s1 = (s', l2)" "l = l1 @ l2"
    using TFork.prems(2) by (auto split: prod.splits)
  have "ends_task b t s \<or> keeps_task b t s" "keeps_task b p s1" using TFork.prems(1) by simp_all
  then have "flag_step b s s1 (new_tasks l1)" "flag_step b s1 s' (new_tasks l2)"
    using starts_ends [OF _ st(1)] TFork.IH(1) [OF _ st(1)] TFork.IH(2) [OF _ st(2)] by blast+
  then show ?case unfolding st(3) new_tasks_simps by (rule flag_step_trans)
qed (auto simp: flag_step_def intro!: quiets_keeps)

lemma keeps_flag:
  "keeps_off b p s \<Longrightarrow> settle p s = (p', t) \<Longrightarrow> calm b p' \<and> flag_step b s t (new_tasks (forked p s))"
proof (induction p arbitrary: s)
  case (Get k)
  then have "keeps_off b (k s) s" "settle (k s) s = (p', t)" by simp_all
  from Get.IH [OF rangeI this] show ?case by simp
next
  case (Put u p)
  then have "b u \<longrightarrow> b s" "keeps_off b p u" "settle p u = (p', t)" by simp_all
  with Put.IH have "b u \<longrightarrow> b s" "calm b p' \<and> flag_step b u t (new_tasks (forked p u))" by blast+
  then show ?case using flag_step_trans [OF flag_step_none [of b u s]] by fastforce
next
  case (Fork t' p)
  obtain s1 l1 where st: "starts t' s = (s1, l1)" by force
  have "ends_task b t' s \<or> keeps_task b t' s" using Fork.prems(1) by simp
  then have 1: "flag_step b s s1 (new_tasks l1)" using starts_ends [OF _ st] starts_keeps [OF _ st] by blast
  have "calm b p' \<and> flag_step b s1 t (new_tasks (forked p s1))"
    using Fork.IH [of s1] Fork.prems st by simp
  then show ?case using flag_step_trans [OF 1] st by simp
qed (auto simp: flag_step_def)

lemma sheds_flag:
  "sheds b (\<lambda>s. \<not> b s) p s \<Longrightarrow> settle p s = (p', t) \<Longrightarrow> flag_step b s t (p' # new_tasks (forked p s))"
proof (induction p arbitrary: s)
  case (Get k)
  then have "sheds b (\<lambda>s. \<not> b s) (k s) s" "settle (k s) s = (p', t)" by simp_all
  from Get.IH [OF rangeI this] show ?case by simp
next
  case (Put u p)
  then have st: "settle p u = (p', t)" by simp
  from Put.prems(1) consider "ends_in (\<lambda>s. \<not> b s) (\<lambda>s. \<not> b s) p u" | "b u \<longrightarrow> b s" "sheds b (\<lambda>s. \<not> b s) p u" by auto
  then show ?case
  proof cases
    case 1
    from ends_flag [OF this st] show ?thesis by (auto simp: flag_step_def calm_mild)
  next
    case 2
    from Put.IH [OF this(2) st] 2(1) show ?thesis by (auto simp: flag_step_def)
  qed
next
  case (Fork t' p)
  obtain s1 l1 where st: "starts t' s = (s1, l1)" by force
  have "ends_task b t' s \<or> keeps_task b t' s" using Fork.prems(1) by simp
  then have 1: "flag_step b s s1 (new_tasks l1)" using starts_ends [OF _ st] starts_keeps [OF _ st] by blast
  have p: "settle p s1 = (p', t)" using Fork.prems(2) st by simp
  from Fork.prems(1) consider "ends_in (\<lambda>s. \<not> b s) (\<lambda>s. \<not> b s) p s1" | "sheds b (\<lambda>s. \<not> b s) p s1" by auto
  then have "flag_step b s1 t (p' # new_tasks (forked p s1))"
  proof cases
    case 1
    from ends_flag [OF this p] show ?thesis by (auto simp: flag_step_def calm_mild)
  next
    case 2
    from Fork.IH [OF this p] show ?thesis .
  qed
  from flag_step_trans [OF 1 this] st show ?case by (auto simp: flag_step_def)
qed (auto simp: flag_step_def quiets_def)

text \<open>Either way, with the task that is left of the handler itself.\<close>

lemma atomic_flag:
  assumes "quiets b (\<lambda>s. \<not> b s) p s" and "settle p s = (p', t)"
  shows "flag_step b s t (p' # new_tasks (forked p s))"
  using assms(1) unfolding quiets_def
proof
  assume "ends_in (\<lambda>s. \<not> b s) (\<lambda>s. \<not> b s) p s"
  from ends_flag [OF this assms(2)] show ?thesis by (auto simp: flag_step_def calm_mild)
next
  assume "sheds b (\<lambda>s. \<not> b s) p s"
  then show ?thesis using assms(2) by (rule sheds_flag)
qed

definition flag_ok :: "('s \<Rightarrow> bool) \<Rightarrow> ('q, 'r, 's) loop \<Rightarrow> bool" where
  "flag_ok b c \<longleftrightarrow> (\<forall>p \<in> set (loop_tasks c). owes b p \<or> mild b p) \<and>
     (b (loop_page c) \<longrightarrow> (\<exists>p \<in> set (loop_tasks c). owes b p))"

lemma owes_suspended: "owes b p \<Longrightarrow> suspended p"
  by (cases p) auto

lemma flag_idle: "flag_ok b c \<Longrightarrow> idle c \<Longrightarrow> \<not> b (loop_page c)"
  using owes_suspended by (auto simp: flag_ok_def idle_def)

lemma flag_launch:
  assumes ok: "flag_ok b c"
    and h: "quiets b (\<lambda>s. \<not> b s) h (loop_page c)"
  shows "flag_ok b (launch h c)"
proof -
  obtain p t where pt: "settle h (loop_page c) = (p, t)" by force
  show ?thesis
    using ok atomic_flag [OF h pt] pt by (auto simp: flag_ok_def flag_step_def launch_def)
qed

text \<open>The first handler of a page may start with the flag on.\<close>

lemma flag_first:
  assumes "ends_in (\<lambda>s. \<not> b s) (\<lambda>s. \<not> b s) h s"
  shows "flag_ok b (launch h \<lparr>loop_page = s, loop_tasks = [], loop_sent = l\<rparr>)"
proof -
  obtain p t where pt: "settle h s = (p, t)" by force
  show ?thesis
    using ends_flag [OF assms pt] pt by (auto simp: flag_ok_def launch_def calm_mild)
qed

lemma flag_resume:
  assumes ok: "flag_ok b c" and i: "i < length (loop_tasks c)" and k: "loop_tasks c ! i = Await q k"
  shows "flag_ok b (resume i r c)"
proof -
  obtain p t where pt: "settle (k r) (loop_page c) = (p, t)" by force
  let ?new = "new_tasks (forked (k r) (loop_page c))"
  have page: "loop_page (resume i r c) = t" and tasks: "loop_tasks (resume i r c) = (loop_tasks c)[i := p] @ ?new"
    using k pt by (simp_all add: resume_def)
  have "owes b (Await q k) \<or> mild b (Await q k)" using ok i k unfolding flag_ok_def by (metis nth_mem)
  then have "quiets b (\<lambda>s. \<not> b s) (k r) (loop_page c)" by (elim disjE) (simp_all add: quiets_ends)
  from atomic_flag [OF this pt] have st: "flag_step b (loop_page c) t (p # ?new)" .
  have "p \<in> set ((loop_tasks c)[i := p])" using i by (simp add: set_update_memI)
  then have all: "\<forall>p' \<in> set (loop_tasks (resume i r c)). owes b p' \<or> mild b p'"
    and new: "b t \<longrightarrow> b (loop_page c) \<or> (\<exists>p' \<in> set (loop_tasks (resume i r c)). owes b p')"
    using ok st set_update_subset_insert [of "loop_tasks c" i p]
    by (auto simp: flag_ok_def flag_step_def tasks)
  have "\<exists>p' \<in> set (loop_tasks (resume i r c)). owes b p'" if "b t"
  proof (cases "owes b (Await q k)")
    case True
    then have "owes b p" if "b t" using ends_flag [OF _ pt, of b] that by auto
    then show ?thesis using \<open>b t\<close> \<open>p \<in> set ((loop_tasks c)[i := p])\<close> by (auto simp: tasks)
  next
    case False
    show ?thesis
    proof (cases "b (loop_page c)")
      case True
      with ok obtain p' where "p' \<in> set (loop_tasks c)" "owes b p'" unfolding flag_ok_def by blast
      then obtain j where "j < length (loop_tasks c)" "owes b (loop_tasks c ! j)"
        by (auto simp: in_set_conv_nth)
      moreover from this have "j \<noteq> i" using False k by auto
      ultimately show ?thesis unfolding tasks set_append
        by (metis UnI1 length_list_update nth_list_update_neq nth_mem)
    qed (use new that in blast)
  qed
  then show ?thesis using all page by (simp add: flag_ok_def)
qed

text \<open>The contract of a page with a spinner, and the stricter one that most pages keep.\<close>

locale resting_page =
  fixes handlers :: "'s \<Rightarrow> ('q, 'r, 's, unit) io set"
    and busy :: "'s \<Rightarrow> bool"
  assumes quiets_busy: "h \<in> handlers s \<Longrightarrow> quiets busy (\<lambda>s. \<not> busy s) h s"
begin

lemma step_ok: "loop_step handlers answers c d \<Longrightarrow> flag_ok busy c \<Longrightarrow> flag_ok busy d"
  by (elim loop_stepE) (use flag_launch [OF _ quiets_busy] flag_resume in metis)+

lemma steps_ok: "(loop_step handlers answers)\<^sup>*\<^sup>* c d \<Longrightarrow> flag_ok busy c \<Longrightarrow> flag_ok busy d"
  by (induction rule: rtranclp_induct) (auto intro: step_ok)

lemma arrivals_steps: "(arrival answers)\<^sup>*\<^sup>* c d \<Longrightarrow> (loop_step handlers answers)\<^sup>*\<^sup>* c d"
proof (induction rule: rtranclp_induct)
  case (step d e)
  from step.hyps(2) have "loop_step handlers answers d e"
    by cases (auto intro: loop_step.arrive)
  then show ?case using step.IH by simp
qed simp

text \<open>Once the user does nothing more, the flag goes off.\<close>

lemma goes_off:
  assumes "(loop_step handlers answers)\<^sup>*\<^sup>* c d" and "flag_ok busy c"
    and "(arrival answers)\<^sup>*\<^sup>* d e" and "idle e"
  shows "\<not> busy (loop_page e)"
  using steps_ok [OF rtranclp_trans [OF assms(1) arrivals_steps [OF assms(3)]] assms(2)] assms(4)
  by (rule flag_idle)

text \<open>The responses run out, and when they have, the flag is off.\<close>

lemma comes_to_rest:
  assumes "(loop_step handlers answers)\<^sup>*\<^sup>* c d" and "flag_ok busy c" and "\<And>q. \<exists>r. answers q r"
  shows "wfp (arrival answers)\<inverse>\<inverse> \<and> (\<exists>e. (arrival answers)\<^sup>*\<^sup>* d e \<and> idle e) \<and>
     (\<forall>e. (arrival answers)\<^sup>*\<^sup>* d e \<and> idle e \<longrightarrow> \<not> busy (loop_page e))"
  by (intro conjI allI impI arrivals_finite arrivals_to_idle assms(3)) (elim conjE, erule (1) goes_off [OF assms(1,2)])

end

locale busy_page =
  fixes handlers :: "'s \<Rightarrow> ('q, 'r, 's, unit) io set"
    and busy :: "'s \<Rightarrow> bool"
  assumes clears_or_keeps: "h \<in> handlers s \<Longrightarrow>
    ends_in (\<lambda>s. \<not> busy s) (\<lambda>s. \<not> busy s) h s \<or> keeps_off busy h s"

sublocale busy_page \<subseteq> resting_page handlers busy
  by unfold_locales (use clears_or_keeps in \<open>blast intro: quiets_ends quiets_keeps\<close>)

text \<open>A page that has just been shown, with no task.\<close>

definition fresh :: "'s \<Rightarrow> ('q, 'r, 's) loop" where
  "fresh s = \<lparr>loop_page = s, loop_tasks = [], loop_sent = []\<rparr>"

lemma fresh_flag: "\<not> b s \<Longrightarrow> flag_ok b (fresh s)"
  by (simp add: fresh_def flag_ok_def)

end
