(* ===== verification/Ui.thy ===== *)
theory Ui
  imports Js_Quiet
begin

text \<open>
  What a page renders, and what its user can do with it. A page is rendered to the list of its elements
  in the order of the source: texts and icons, fields, selections, switches and buttons, each with the
  handler that it starts. Elements that only arrange others, styles and placeholders are left out; a
  button that shows an icon alone is labelled by its title or its icon, and a key is one that the page
  listens to. An icon is an element where it varies with the state or stands for a text; one that only
  decorates a text may be left out. Characters beyond Latin-1 in a text (bullets, dashes) are written in
  ASCII. A disabled element starts nothing,
  a selection offers its options and nothing else, a switch the value that it does not have.
  The locale \<open>rendered_page\<close> is the interface between what is rendered and the event loop: the user starts
  only what is offered.
\<close>

datatype choice = Opt (opt_value: string) (opt_text: string) (opt_disabled: bool)

datatype 'h element =
    Shown string
  | Icon string
  | Qr string
  | Field string string bool "string \<Rightarrow> 'h"
  | Choice string string "choice list" "string \<Rightarrow> 'h"
  | Switch string bool "bool \<Rightarrow> 'h"
  | Button string bool 'h
  | Key string 'h

abbreviation opt :: "string \<Rightarrow> string \<Rightarrow> choice" where
  "opt v t \<equiv> Opt v t False"

fun fires :: "'h element \<Rightarrow> 'h set" where
  "fires (Field l v off h) = (if off then {} else range h)"
| "fires (Choice l v os h) = h ` opt_value ` {c \<in> set os. \<not> opt_disabled c}"
| "fires (Switch l b h) = {h (\<not> b)}"
| "fires (Button l off h) = (if off then {} else {h})"
| "fires (Key k h) = {h}"
| "fires (Shown t) = {}"
| "fires (Icon t) = {}"
| "fires (Qr t) = {}"

definition offered :: "'h element list \<Rightarrow> 'h set" where
  "offered es = \<Union> (fires ` set es)"

lemma offered_simps [simp]:
  "offered [] = {}" "offered (e # es) = fires e \<union> offered es" "offered (es @ es') = offered es \<union> offered es'"
  "offered (concat ess) = \<Union> (offered ` set ess)" "offered (map f xs) = (\<Union>x \<in> set xs. fires (f x))"
  by (auto simp: offered_def)

lemma offered_if [simp]: "offered (if b then es else es') = (if b then offered es else offered es')"
  by simp

text \<open>What the page can start by itself, its effects and timers, is its \<open>background\<close>. What is rendered may
  depend on more than the state: the clock, texts of dates, the browser. This is the environment \<open>e\<close>, which
  may be another one at each step.\<close>

definition ui_handlers ::
  "('e \<Rightarrow> 's \<Rightarrow> ('q, 'r, 's, unit) io element list) \<Rightarrow> ('s \<Rightarrow> ('q, 'r, 's, unit) io set) \<Rightarrow> 's \<Rightarrow> ('q, 'r, 's, unit) io set" where
  "ui_handlers render background s = (\<Union>e. offered (render e s)) \<union> background s"

locale rendered_page =
  fixes render :: "'e \<Rightarrow> 's \<Rightarrow> ('q, 'r, 's, unit) io element list"
    and background :: "'s \<Rightarrow> ('q, 'r, 's, unit) io set"
    and handlers :: "'s \<Rightarrow> ('q, 'r, 's, unit) io set"
  assumes offers: "offered (render e s) \<subseteq> handlers s"
    and runs: "background s \<subseteq> handlers s"
begin

abbreviation ui :: "'s \<Rightarrow> ('q, 'r, 's, unit) io set" where
  "ui \<equiv> ui_handlers render background"

lemma ui_started: "h \<in> ui s \<Longrightarrow> h \<in> handlers s"
  by (auto simp: ui_handlers_def dest: offers [THEN subsetD] runs [THEN subsetD])

lemma ui_step: "loop_step ui answers c d \<Longrightarrow> loop_step handlers answers c d"
  by (elim loop_stepE) (auto intro: loop_step.intros ui_started)

lemma ui_steps: "(loop_step ui answers)\<^sup>*\<^sup>* c d \<Longrightarrow> (loop_step handlers answers)\<^sup>*\<^sup>* c d"
  by (induction rule: rtranclp_induct) (auto intro: ui_step rtranclp.rtrancl_into_rtrancl)

text \<open>Every state that the user can reach is reachable in the model that allows all handlers.\<close>

lemma ui_reachable: "reachable ui answers init c \<Longrightarrow> reachable handlers answers init c"
  by (induction rule: reachable.induct) (auto intro: reachable.intros ui_step)

end

locale guarded_rendered = rendered_page render background handlers + guarded_page handlers inv sends
  for render :: "'e \<Rightarrow> 's \<Rightarrow> ('q, 'r, 's, unit) io element list" and background handlers inv sends
begin

lemma ui_inv: "reachable ui answers init c \<Longrightarrow> inv init \<Longrightarrow> inv (loop_page c)"
  by (rule reachable_inv [OF ui_reachable])

lemma ui_sends:
  "reachable ui answers init c \<Longrightarrow> inv init \<Longrightarrow> (u, q) \<in> set (loop_sent c) \<Longrightarrow> inv u \<and> sends u q"
  by (rule reachable_sends [OF ui_reachable])

end

text \<open>A page whose spinner goes off again: a contract for each thing that it offers or starts.\<close>

locale busy_rendered =
  fixes render :: "'e \<Rightarrow> 's \<Rightarrow> ('q, 'r, 's, unit) io element list"
    and background :: "'s \<Rightarrow> ('q, 'r, 's, unit) io set"
    and busy :: "'s \<Rightarrow> bool"
  assumes offered_clears: "h \<in> offered (render e s) \<Longrightarrow>
      ends_in (\<lambda>s. \<not> busy s) (\<lambda>s. \<not> busy s) h s \<or> keeps_off busy h s"
    and background_clears: "h \<in> background s \<Longrightarrow>
      ends_in (\<lambda>s. \<not> busy s) (\<lambda>s. \<not> busy s) h s \<or> keeps_off busy h s"

sublocale busy_rendered \<subseteq> busy_page "ui_handlers render background" busy
  by unfold_locales (auto simp: ui_handlers_def dest: offered_clears background_clears)

section \<open>Tabs, buttons, dialogs and cards\<close>

text \<open>ui/Tabs.tsx: the first tab is active unless another is the default.\<close>

definition initial_tab :: "string option \<Rightarrow> (string \<times> 'c) list \<Rightarrow> string option" where
  "initial_tab defaultTab tabs =
     (if str_truthy defaultTab then defaultTab else (case tabs of [] \<Rightarrow> None | (tid, _) # _ \<Rightarrow> Some tid))"

definition tab_content :: "string option \<Rightarrow> (string \<times> 'c) list \<Rightarrow> 'c option" where
  "tab_content activeTab tabs = map_option snd (find (\<lambda>(tid, _). Some tid = activeTab) tabs)"

lemma first_tab_shown: "str_truthy d \<Longrightarrow> d \<in> Some ` fst ` set tabs \<or> tabs = [] \<Longrightarrow>
    tabs \<noteq> [] \<Longrightarrow> tab_content (initial_tab d tabs) tabs \<noteq> None"
  by (auto simp: tab_content_def initial_tab_def find_None_iff)

definition Tabs :: "(string \<times> string \<times> 'h element list) list \<Rightarrow> string option \<Rightarrow> (string \<Rightarrow> 'h) \<Rightarrow> 'h element list" where
  "Tabs tabs activeTab setActiveTab =
     map (\<lambda>(tid, label, _). Button label False (setActiveTab tid)) tabs @
     nullish (tab_content activeTab (map (\<lambda>(tid, _, content). (tid, content)) tabs)) []"

lemma offered_Tabs:
  "offered (Tabs tabs a select) \<subseteq> range select \<union> (\<Union>(tid, label, content) \<in> set tabs. offered content)"
  by (fastforce simp: Tabs_def tab_content_def nullish_def find_Some_iff dest: nth_mem split: option.splits)

text \<open>ui/Button.tsx: a button that loads is disabled.\<close>

definition button_disabled :: "bool \<Rightarrow> bool \<Rightarrow> bool" where
  "button_disabled disabled isLoading \<longleftrightarrow> disabled \<or> isLoading"

definition LoadButton :: "string \<Rightarrow> bool \<Rightarrow> bool \<Rightarrow> 'h \<Rightarrow> 'h element list" where
  "LoadButton children disabled isLoading onClick =
     (if isLoading then [Icon ''RotateCw''] else []) @ [Button children (button_disabled disabled isLoading) onClick]"

lemma offered_LoadButton [simp]:
  "offered (LoadButton children disabled isLoading onClick) = (if disabled \<or> isLoading then {} else {onClick})"
  by (simp add: LoadButton_def button_disabled_def)

text \<open>ui/Modal.tsx: nothing while it is closed; the Escape key and the cross close it. ui/Card.tsx.\<close>

definition Modal :: "bool \<Rightarrow> 'h \<Rightarrow> string \<Rightarrow> 'h element list \<Rightarrow> 'h element list \<Rightarrow> 'h element list" where
  "Modal isOpen onClose title children footer =
     (if \<not> isOpen then []
      else [Key ''Escape'' onClose, Shown title, Button ''X'' False onClose] @ children @ footer)"

definition Card :: "string \<Rightarrow> 'h element list \<Rightarrow> 'h element list \<Rightarrow> 'h element list" where
  "Card title action children = (if title \<noteq> [] then [Shown title] else []) @ action @ children"

lemma offered_Modal [simp]:
  "offered (Modal isOpen onClose title children footer) =
     (if isOpen then insert onClose (offered children \<union> offered footer) else {})"
  by (auto simp: Modal_def)

lemma offered_Card [simp]: "offered (Card title action children) = offered action \<union> offered children"
  by (simp add: Card_def)

section \<open>Toasts\<close>

definition toast_icon :: "toast_type \<Rightarrow> string" where
  "toast_icon ty =
     (case ty of Success \<Rightarrow> ''CheckCircle'' | ErrorT \<Rightarrow> ''AlertTriangle'' | Info \<Rightarrow> ''Info'' | Warning \<Rightarrow> ''AlertTriangle'')"

definition toast_elements :: "'b browser_scheme \<Rightarrow> ('q, 'r, 'b browser_scheme, unit) io element list" where
  "toast_elements s =
     concat (map (\<lambda>t. [Icon (toast_icon (t_type t)), Shown (t_message t), Button ''X'' False (modify (removeToast (t_id t)))])
       (toasts s))"

text \<open>What the provider of the toasts adds to every page: the buttons that close them, and their timers.\<close>

definition toast_events :: "'b browser_scheme \<Rightarrow> ('q, 'r, 'b browser_scheme, unit) io set" where
  "toast_events s = offered (toast_elements s) \<union> range (\<lambda>i. modify (fire_timer i))"

lemma toast_events_cases:
  assumes "h \<in> toast_events s"
  obtains tid where "h = modify (removeToast tid)" | i where "h = modify (fire_timer i)"
  using assms by (auto simp: toast_events_def toast_elements_def)

end
