(* ===== verification/Users_Ui.thy ===== *)
theory Users_Ui
  imports Users_View Users_Races Ui
begin

text \<open>
  The rendering of components/UserManagement.tsx, section by section, with the handlers that its elements
  start, and the page as its user can drive it. \<open>getTime\<close> is \<open>new Date(text).getTime()\<close>; what else a render
  depends on is in its environment.
\<close>

record users_env =
  ue_now :: int
  ue_confirmed :: bool
  ue_clipboard :: bool
  ue_uuid :: "string option"
  ue_draws :: "nat \<Rightarrow> rat"

section \<open>Header\<close>

definition pending_banner :: "users_state \<Rightarrow> unit users_io element list" where
  "pending_banner s =
     (if singboxPendingChanges s
      then [Shown ''Sing-box Configuration Changes Pending'',
            Shown ''User changes have been saved but not yet applied. Click \"Apply Changes\" to restart the service.'',
            Button ''Apply Changes'' False handleApplySingboxChanges]
      else [])"

definition openDialog :: "modal_type \<Rightarrow> users_state \<Rightarrow> users_state" where
  "openDialog t s = s\<lparr>modalState := modal_of t\<rparr>"

definition inbound_option :: "json \<Rightarrow> choice" where
  "inbound_option inb = opt (inb_tag inb) (inb_tag inb @ '' ('' @ str_of (jget ''type'' inb) @ '')'')"

definition users_header :: "users_state \<Rightarrow> unit users_io element list" where
  "users_header s =
     [Shown ''User Management'', Shown ''Manage proxy users and quotas''] @
     (case deleteSelected_label s of Some l \<Rightarrow> [Button l False (modify handleDeleteSelected)] | None \<Rightarrow> []) @
     [Button ''Create User'' False (modify openCreate),
      Button ''Bulk Create'' False (modify (openDialog MBulk)),
      Choice '''' (filterInbound s) (map (\<lambda>(v, t). opt v t) (filter_options s)) (\<lambda>v. modify (changeFilter v)),
      Button ''Usage Report'' False (modify (openDialog MUsage))]"

section \<open>The table and the cards\<close>

definition sort_icon :: "sort_key \<Rightarrow> users_state \<Rightarrow> string" where
  "sort_icon key s =
     (if sortKey s \<noteq> key then ''ArrowUpDown'' else if sortDir s = Asc then ''ArrowUp'' else ''ArrowDown'')"

definition quota_elements :: "row_view \<Rightarrow> unit users_io element list" where
  "quota_elements r =
     (case rv_quota r of (used, quota) \<Rightarrow> [Shown used, (case quota of Some q \<Rightarrow> Shown q | None \<Rightarrow> Icon ''infinity'')])"

definition user_table_row :: "users_env \<Rightarrow> users_state \<Rightarrow> user_status \<Rightarrow> unit users_io element list" where
  "user_table_row e s user =
     (let r = user_row (ue_now e) s user
      in [Switch '''' (rv_selected r) (\<lambda>_. modify (handleSelectUser (us_name user))),
          Shown (fst (snd (rv_status r))), Shown (rv_name r)] @
         quota_elements r @
         [Icon ''ArrowUp'', Shown (rv_uplink r), Icon ''ArrowDown'', Shown (rv_downlink r)] @
         map Shown (inbound_badges user) @
         [Button ''Edit User'' False (handleEditClick s user),
          Button ''QR Code'' False (modify (openQr user)),
          Button ''Delete User'' False (deleteRow (ue_confirmed e) user)])"

definition select_all :: "users_state \<Rightarrow> unit users_io element" where
  "select_all s = Switch ''Select All'' (allSelected s) (\<lambda>b. modify (handleSelectAll b))"

definition users_table :: "(string \<Rightarrow> string \<Rightarrow> int) \<Rightarrow> users_env \<Rightarrow> users_state \<Rightarrow> unit users_io element list" where
  "users_table localeCompare e s =
     (if users s \<noteq> [] then [select_all s] else []) @ [select_all s] @
     concat (map (\<lambda>(title, key). [Button title False (modify (toggleSort key)), Icon (sort_icon key s)]) sort_buttons) @
     [Shown ''Inbound'', Shown ''Actions''] @
     (if users s = [] then [Shown ''No users found.'']
      else concat (map (user_table_row e s) (sortedUsers localeCompare s)))"

text \<open>The card of a narrow screen deletes without asking for the inbounds.\<close>

definition user_card_elements :: "users_env \<Rightarrow> users_state \<Rightarrow> user_status \<Rightarrow> unit users_io element list" where
  "user_card_elements e s user =
     (let r = user_card (ue_now e) s user
      in [Switch '''' (rv_selected r) (\<lambda>_. modify (handleSelectUser (us_name user))),
          Shown (rv_name r), Shown (fst (snd (rv_status r))),
          Button ''Edit'' False (handleEditClick s user),
          Button ''QrCode'' False (modify (openQr user)),
          Button ''Trash2'' False (deleteCard (ue_confirmed e) user)] @
         quota_elements r @
         [Icon ''ArrowUp'', Shown (rv_uplink r), Icon ''ArrowDown'', Shown (rv_downlink r)])"

definition users_mobile :: "(string \<Rightarrow> string \<Rightarrow> int) \<Rightarrow> users_env \<Rightarrow> users_state \<Rightarrow> unit users_io element list" where
  "users_mobile localeCompare e s =
     concat (map (user_card_elements e s) (sortedUsers localeCompare s)) @
     (if users s = [] then [Shown ''No users found.''] else [])"

section \<open>The form of a user\<close>

definition in_dialog :: "modal_type \<Rightarrow> users_state \<Rightarrow> bool" where
  "in_dialog t s \<longleftrightarrow> m_type (modalState s) = Some t"

definition upper :: "string \<Rightarrow> string" where
  "upper v = (if v = ''vless'' then ''VLESS'' else if v = ''vmess'' then ''VMESS'' else if v = ''trojan'' then ''TROJAN'' else v)"

definition account_fields :: "users_env \<Rightarrow> users_state \<Rightarrow> unit users_io element list" where
  "account_fields e s =
     [Field ''Username'' (cr_name (newUser s)) False (\<lambda>v. modify (changeName v)),
      Field ((if userType s = ''trojan'' then ''Password'' else ''UUID'') @ '' (shared across inbounds)'')
        (cr_uuid (newUser s)) False (\<lambda>v. modify (changeUuid v)),
      Button ''Generate Random UUID'' False (modify (drawUuid (ue_uuid e) (ue_draws e))),
      Choice ''User Type'' (userType s) (map (\<lambda>(ty, off). Opt ty (upper ty) off) (type_options s))
        (\<lambda>v. modify (changeUserType v))] @
     (if \<not> hasTypeInbounds s then [Shown ''No inbounds available for this type.''] else []) @
     (if userType s = ''vmess''
      then [Choice ''VMess Security'' (opt_str_or (cr_vmess_security (newUser s)) ''auto'')
              (map (\<lambda>v. opt v v) [''auto'', ''aes-128-gcm'', ''chacha20-poly1305'', ''none'']) (\<lambda>v. modify (changeVmessSecurity v)),
            Field ''Alter ID'' (show_int (nullish (cr_vmess_alter_id (newUser s)) 0)) False (\<lambda>v. modify (changeAlterId v))]
      else [])"

definition flow_options :: "choice list" where
  "flow_options = [opt vision vision, opt [] ''none'']"

definition row_elements :: "users_state \<Rightarrow> nat \<Rightarrow> inbound_row \<Rightarrow> unit users_io element list" where
  "row_elements s idx row =
     [Choice ''Inbound'' (row_tag row)
        (Opt [] ''Select an Inbound'' True # map inbound_option (filter (\<lambda>inb. inb_type inb = userType s) (inbounds s)))
        (\<lambda>v. modify (changeRowTag idx v))] @
     (if showFlow s then [Choice ''Flow'' (row_flow row) flow_options (\<lambda>v. modify (changeRowFlow idx v))] else []) @
     [Button ''Remove inbound'' (length (inboundRows s) = 1) (modify (removeRow idx))]"

definition rows_elements :: "users_state \<Rightarrow> unit users_io element list" where
  "rows_elements s =
     concat (map (\<lambda>(idx, row). row_elements s idx row) (zip [0..<length (inboundRows s)] (inboundRows s))) @
     [Button ''Add Inbound'' False (modify addRow)] @
     (if hasEmptyInbound s then [Shown ''Each inbound row must have a selected inbound.''] else []) @
     (if hasDuplicateInbound s then [Shown ''Duplicate inbounds are not allowed.''] else []) @
     (if inboundTypeMismatch s then [Shown ''All inbounds must match the selected user type.''] else [])"

definition quota_fields :: "users_state \<Rightarrow> unit users_io element list" where
  "quota_fields s =
     (if isEditing s
      then [Switch ''Account Enabled'' (cr_enabled (newUser s) \<noteq> Some False) (\<lambda>b. modify (changeEnabled b))] else []) @
     [Choice ''Quota Period'' (cr_quota_period (newUser s)) [opt ''monthly'' ''Monthly'', opt ''total'' ''Total (One-time)'']
        (\<lambda>v. modify (changeQuotaPeriod v)),
      Field ''Quota (GB)'' (quotaInput s) False (\<lambda>v. modify (changeQuota v)),
      Field ''Traffic Reset Day'' (num_string (cr_reset_day (newUser s))) False (\<lambda>v. modify (changeResetDay v)),
      Shown ''Day of month (1-31)'']"

definition user_form_dialog :: "users_env \<Rightarrow> users_state \<Rightarrow> unit users_io element list" where
  "user_form_dialog e s =
     Modal (in_dialog MCreate s) (modify closeModal) (if isEditing s then ''Edit User'' else ''Create New User'')
       (account_fields e s @ rows_elements s @ quota_fields s)
       [Button ''Cancel'' False (modify closeModal), Button (fst (save_button s)) (snd (save_button s)) (handleSaveUser s)]"

section \<open>The other dialogs\<close>

definition bulk_dialog :: "users_state \<Rightarrow> unit users_io element list" where
  "bulk_dialog s =
     (let b = bulkConfig s
      in Modal (in_dialog MBulk s) (modify closeModal) ''Bulk Generate Users''
           [Choice ''Inbound (Required)'' (bk_inbound_tag b) (opt [] ''Select Inbound'' # map inbound_option (inbounds s))
              (\<lambda>v. modify (changeBulkInbound v)),
            Field ''Prefix'' (bk_prefix b) False (\<lambda>v. modify (changeBulkPrefix v)),
            Field ''Suffix (Optional)'' (bk_suffix b) False (\<lambda>v. modify (changeBulkSuffix v)),
            Field ''Count'' (num_string (bk_count b)) False (\<lambda>v. modify (changeBulkCount v)),
            Field ''Start Index'' (num_string (bk_start_index b)) (bk_mode b \<noteq> ''sequential'') (\<lambda>v. modify (changeBulkStart v)),
            Choice ''Pattern'' (bk_mode b)
              [opt ''sequential'' ''Sequential (prefix-1...)'', opt ''random'' ''Random Suffix (prefix-xyz...)'']
              (\<lambda>v. modify (changeBulkMode v)),
            Choice ''Flow'' (bk_flow b) flow_options (\<lambda>v. modify (changeBulkFlow v)),
            Field ''Quota (GB)'' (bulkQuotaInput s) False (\<lambda>v. modify (changeBulkQuota v)),
            Field ''Traffic Reset Day'' (num_string (bk_reset_day b)) False (\<lambda>v. modify (changeBulkResetDay v)),
            Shown ''Day of month (1-31)'']
           [Button ''Cancel'' False (modify closeModal), Button ''Generate Users'' False (handleBulkCreate s)])"

definition usage_dialog :: "(string \<Rightarrow> int option) \<Rightarrow> users_state \<Rightarrow> unit users_io element list" where
  "usage_dialog getTime s =
     Modal (in_dialog MUsage s) (modify closeModal) ''Usage Report''
       ([Field ''Start Date'' (usageStart s) False (\<lambda>v. modify (changeUsageStart v)),
         Field ''End Date'' (usageEnd s) False (\<lambda>v. modify (changeUsageEnd v)),
         Field ''Filter Limit (GB)'' (usageLimitGb s) False (\<lambda>v. modify (changeUsageLimit v)),
         Button ''Generate Report'' (loadingUsage s) (fetchUsage getTime s)] @
        map Shown [''User'', ''Uplink'', ''Downlink'', ''Total'', ''Status''] @
        (if usageData s = [] then [Shown ''No data available'']
         else concat (map (\<lambda>row. case usage_row row of (name, up, down, both, st) \<Rightarrow>
           [Shown name, Shown up, Shown down, Shown both, Shown st]) (usageData s))))
       [Button '' Close'' False (modify closeModal)]"

definition qr_dialog :: "users_env \<Rightarrow> users_state \<Rightarrow> unit users_io element list" where
  "qr_dialog e s =
     Modal (in_dialog MQr s) (modify closeModal) ''User Configuration''
       (if m_data (modalState s) = None then []
        else
          map (\<lambda>tag. Button tag False (modify (selectQrInbound tag))) (qr_tags s) @
          [case qr_value s of Some v \<Rightarrow> Qr v | None \<Rightarrow> Shown (qrError s)] @
          [Shown ''Link'', Field '''' (qrLink s) True (\<lambda>_. skip),
           Button (fst (copy_button s)) (snd (copy_button s)) (handleCopyLink (ue_clipboard e) (qrLink s))] @
          (if qrLoading s then [Shown ''Loading link...''] else []))
       [Button '' Close'' False (modify closeModal)]"

definition delete_dialog :: "users_state \<Rightarrow> unit users_io element list" where
  "delete_dialog s =
     Modal (in_dialog MDeleteConfirm s) (modify closeModal) ''Confirm Deletion''
       [Icon ''Trash2'', Shown (''Delete '' @ show_nat (length (selectedUsers s)) @ '' Users?''),
        Shown ''This action cannot be undone. All selected users will be permanently removed from the system.'']
       [Button ''Cancel'' False (modify closeModal), Button ''Delete Users'' False (confirmDeleteSelected s)]"

definition removal_dialog :: "users_state \<Rightarrow> unit users_io element list" where
  "removal_dialog s =
     Modal (in_dialog MSelectInbounds s) (modify cancelInboundSelection) ''Remove User from Inbounds''
       ([Shown (''Select which inbound(s) to remove user '' @
          (case m_data (modalState s) of Some u \<Rightarrow> us_name u | None \<Rightarrow> []) @ '' from:'')] @
        map (\<lambda>tag. Switch tag (tag \<in> set (selectedInboundsToRemove s)) (\<lambda>b. modify (toggleInboundToRemove tag b)))
          (case m_data (modalState s) of Some u \<Rightarrow> nullish (us_inbound_tags u) [] | None \<Rightarrow> []) @
        (if removal_deletes s then [Shown ''All inbounds selected. User will be completely deleted.''] else []))
       [Button ''Cancel'' False (modify cancelInboundSelection),
        Button (''Remove from '' @ show_nat (length (selectedInboundsToRemove s)) @ '' Inbound(s)'')
          (selectedInboundsToRemove s = []) (handleRemoveFromSelectedInbounds s)]"

section \<open>The page\<close>

definition users_elements ::
  "(string \<Rightarrow> string \<Rightarrow> int) \<Rightarrow> (string \<Rightarrow> int option) \<Rightarrow> users_env \<Rightarrow> users_state \<Rightarrow> unit users_io element list" where
  "users_elements localeCompare getTime e s =
     pending_banner s @ users_header s @ users_table localeCompare e s @ users_mobile localeCompare e s @
     user_form_dialog e s @ bulk_dialog s @ usage_dialog getTime s @ qr_dialog e s @ delete_dialog s @ removal_dialog s"

text \<open>The effects on mounting and on changes of the dialog, the polling of the pending changes, the timer of
  the copied link.\<close>

definition users_background :: "users_state \<Rightarrow> unit users_io set" where
  "users_background s =
     {fetchUsers, fetchInbounds, fetchPending, modify resetQr, loadQr s, modify resetCopied} \<union> toast_events s"

section \<open>What is offered is handled\<close>

lemma started [intro]: "page_update s f \<Longrightarrow> modify f \<in> users_handlers s"
  by (simp add: users_handlers_def users_handler.intros)

lemma field_updates:
  "changeFilter v = (\<lambda>t. t\<lparr>filterInbound := v\<rparr>)" "changeUsageStart v = (\<lambda>t. t\<lparr>usageStart := v\<rparr>)"
  "changeUsageEnd v = (\<lambda>t. t\<lparr>usageEnd := v\<rparr>)" "changeUsageLimit v = (\<lambda>t. t\<lparr>usageLimitGb := v\<rparr>)"
  "selectQrInbound v = (\<lambda>t. t\<lparr>selectedQrInbound := v\<rparr>)" "openDialog ty = (\<lambda>t. t\<lparr>modalState := modal_of ty\<rparr>)"
  "setBulk g = (\<lambda>t. t\<lparr>bulkConfig := g (bulkConfig t)\<rparr>)"
  by (simp_all add: fun_eq_iff changeFilter_def changeUsageStart_def changeUsageEnd_def changeUsageLimit_def
      selectQrInbound_def openDialog_def setBulk_def)

lemma changed_field [intro]:
  "modify (changeFilter v) \<in> users_handlers s" "modify (changeUsageStart v) \<in> users_handlers s"
  "modify (changeUsageEnd v) \<in> users_handlers s" "modify (changeUsageLimit v) \<in> users_handlers s"
  "modify (selectQrInbound v) \<in> users_handlers s" "modify (setBulk g) \<in> users_handlers s"
  "modify (setNewUser f) \<in> users_handlers s"
  unfolding field_updates by (rule started, rule page_update.intros)+

lemma opened_dialog [intro]: "ty \<in> {MBulk, MUsage} \<Longrightarrow> modify (openDialog ty) \<in> users_handlers s"
  unfolding field_updates by (rule started, rule page_update.intros)

lemma handled [intro]:
  "handleApplySingboxChanges \<in> users_handlers s" "handleEditClick s u \<in> users_handlers s"
  "deleteRow b u \<in> users_handlers s" "deleteCard b u \<in> users_handlers s" "handleSaveUser s \<in> users_handlers s"
  "handleBulkCreate s \<in> users_handlers s" "fetchUsage getTime s \<in> users_handlers s"
  "handleCopyLink b link \<in> users_handlers s" "confirmDeleteSelected s \<in> users_handlers s"
  "handleRemoveFromSelectedInbounds s \<in> users_handlers s" "fetchUsers \<in> users_handlers s"
  "fetchInbounds \<in> users_handlers s" "fetchPending \<in> users_handlers s" "loadQr s \<in> users_handlers s"
  by (simp_all add: users_handlers_def users_handler.intros)

lemma offered_head:
  "offered (pending_banner s) \<subseteq> users_handlers s" "offered (users_header s) \<subseteq> users_handlers s"
  by (auto simp: pending_banner_def users_header_def intro: page_update.intros split: option.splits)

lemma offered_users:
  "offered (users_table localeCompare e s) \<subseteq> users_handlers s"
  "offered (users_mobile localeCompare e s) \<subseteq> users_handlers s"
  by (auto simp: users_table_def users_mobile_def select_all_def user_table_row_def user_card_elements_def
      quota_elements_def sort_buttons_def sortedUsers_def Let_def intro: page_update.intros split: prod.splits option.splits)

lemma edited [intro]:
  "modify (changeUserType v) \<in> users_handlers s" "modify (changeRowTag i v) \<in> users_handlers s"
  "modify (changeRowFlow i v) \<in> users_handlers s" "modify (removeRow i) \<in> users_handlers s"
  "modify addRow \<in> users_handlers s" "modify (changeQuota v) \<in> users_handlers s"
  "modify (changeBulkCount v) \<in> users_handlers s" "modify (changeBulkQuota v) \<in> users_handlers s"
  "modify (toggleInboundToRemove v b) \<in> users_handlers s" "modify cancelInboundSelection \<in> users_handlers s"
  "modify closeModal \<in> users_handlers s"
  by (rule started, rule page_update.intros)+

lemmas new_user_fields = changeName_def changeUuid_def drawUuid_def changeVmessSecurity_def changeAlterId_def
  changeEnabled_def changeQuotaPeriod_def changeResetDay_def

lemmas bulk_fields = changeBulkInbound_def changeBulkPrefix_def changeBulkSuffix_def changeBulkStart_def
  changeBulkMode_def changeBulkFlow_def changeBulkResetDay_def

lemma offered_form:
  "offered (account_fields e s) \<subseteq> users_handlers s" "offered (rows_elements s) \<subseteq> users_handlers s"
  "offered (quota_fields s) \<subseteq> users_handlers s" "offered (user_form_dialog e s) \<subseteq> users_handlers s"
proof -
  show a: "offered (account_fields e s) \<subseteq> users_handlers s"
    by (auto simp: account_fields_def new_user_fields)
  show r: "offered (rows_elements s) \<subseteq> users_handlers s"
    by (auto simp: rows_elements_def row_elements_def split: if_splits prod.splits)
  show q: "offered (quota_fields s) \<subseteq> users_handlers s"
    by (auto simp: quota_fields_def new_user_fields)
  show "offered (user_form_dialog e s) \<subseteq> users_handlers s"
    using a r q by (auto simp: user_form_dialog_def)
qed

lemma offered_rest:
  "offered (bulk_dialog s) \<subseteq> users_handlers s" "offered (usage_dialog getTime s) \<subseteq> users_handlers s"
  "offered (qr_dialog e s) \<subseteq> users_handlers s" "offered (delete_dialog s) \<subseteq> users_handlers s"
  "offered (removal_dialog s) \<subseteq> users_handlers s"
  by (auto simp: bulk_dialog_def usage_dialog_def qr_dialog_def delete_dialog_def removal_dialog_def
      bulk_fields Let_def split: if_splits option.splits prod.splits)

lemma users_offered: "offered (users_elements localeCompare getTime e s) \<subseteq> users_handlers s"
  unfolding users_elements_def offered_simps by (intro Un_least offered_head offered_users offered_form offered_rest)

interpretation users_ui: guarded_rendered "users_elements localeCompare getTime" users_background users_handlers
  users_inv authorised
  for localeCompare getTime
proof unfold_locales
  fix e s
  show "offered (users_elements localeCompare getTime e s) \<subseteq> users_handlers s" by (rule users_offered)
  show "users_background s \<subseteq> users_handlers s"
    by (auto simp: users_background_def elim!: toast_events_cases intro: page_update.intros)
qed

section \<open>The spinners of the report and of the link\<close>

definition spinner :: "(users_state \<Rightarrow> bool) \<Rightarrow> bool" where
  "spinner b \<longleftrightarrow> b = loadingUsage \<or> b = qrLoading"

lemma spinner_keeps:
  "spinner b \<Longrightarrow> loadingUsage (f s) = loadingUsage s \<Longrightarrow> qrLoading (f s) = qrLoading s \<Longrightarrow> keeps_off b (modify f) s"
  by (auto simp: spinner_def intro!: keeps_modify)

lemma spinner_frame [simp]:
  "loadingUsage (logout s) = loadingUsage s" "loadingUsage (toast_error m s) = loadingUsage s"
  "loadingUsage (toast_success m s) = loadingUsage s" "loadingUsage (alert m s) = loadingUsage s"
  "qrLoading (logout s) = qrLoading s" "qrLoading (toast_error m s) = qrLoading s"
  "qrLoading (toast_success m s) = qrLoading s" "qrLoading (alert m s) = qrLoading s"
  by (simp_all add: logout_def toast_error_def toast_success_def showToast_def alert_def Let_def)

lemmas spinner_intros = spinner_keeps keeps_bind keeps_try_catch keeps_Return keeps_Throw keeps_finally
  keeps_if keeps_for_each keeps_json_body keeps_send keeps_call_void keeps_call_json

lemma spinner_logout [simp]: "spinner b \<Longrightarrow> b (logout s) = b s"
  by (auto simp: spinner_def)

lemma update_frame: "page_update s f \<Longrightarrow> loadingUsage (f t) = loadingUsage t \<and> qrLoading (f t) = qrLoading t"
  by (induction rule: page_update.induct)
    (auto simp: resetQr_def toggleSort_def handleSelectAll_def handleSelectUser_def handleDeleteSelected_def
      openCreate_def changeUserType_def changeRowTag_def changeRowFlow_def removeRow_def addRow_def setNewUser_def
      changeQuota_def changeBulkCount_def changeBulkQuota_def toggleInboundToRemove_def cancelInboundSelection_def
      openQr_def closeModal_def resetCopied_def removeToast_def fire_timer_def Let_def
      split: option.splits list.splits modal_type.splits)

lemma fetched_frame [simp]:
  "loadingUsage (setFetchedUsers us s) = loadingUsage s" "qrLoading (setFetchedUsers us s) = qrLoading s"
  "loadingUsage (openEdit c u s) = loadingUsage s" "qrLoading (openEdit c u s) = qrLoading s"
  "loadingUsage (reset_form c s) = loadingUsage s" "qrLoading (reset_form c s) = qrLoading s"
  "loadingUsage (applyUserInbounds ty es s) = loadingUsage s" "qrLoading (applyUserInbounds ty es s) = qrLoading s"
  by (auto simp: setFetchedUsers_def openEdit_def reset_form_def applyUserInbounds_def setNewUser_def Let_def)

lemma keeps_fetchUsers: "spinner b \<Longrightarrow> keeps_off b fetchUsers s"
  unfolding fetchUsers_def getUsers_def by (auto intro!: spinner_intros split: option.splits)

lemma keeps_delete_each: "spinner b \<Longrightarrow> keeps_off b (delete_each names failed) s"
  by (induction names failed arbitrary: s rule: delete_each.induct) (auto simp: deleteUser_def intro!: spinner_intros)

lemma keeps_drawn:
  "spinner b \<Longrightarrow> keeps_off b uuidv4 s" "spinner b \<Longrightarrow> keeps_off b random_base36 s"
  by (auto simp: uuidv4_def random_base36_def spinner_def)

lemma keeps_filled:
  "spinner b \<Longrightarrow> keeps_off b (fill_uuid u) s" "spinner b \<Longrightarrow> keeps_off b (bulk_name c i) s"
  by (auto simp: fill_uuid_def bulk_name_def Let_def intro!: spinner_intros keeps_drawn)

lemma keeps_bulk_loop: "spinner b \<Longrightarrow> keeps_off b (bulk_loop c is us) s"
  by (induction c "is" us arbitrary: s rule: bulk_loop.induct) (auto intro!: spinner_intros keeps_drawn keeps_filled)

lemma keeps_sync: "spinner b \<Longrightarrow> keeps_off b (sync_inbounds c uuid) s"
  unfolding sync_inbounds_def removeUserFromInbound_def updateUserInbound_def createUser_def
  by (auto intro!: spinner_intros)

lemma keeps_save: "spinner b \<Longrightarrow> keeps_off b (handleSaveUser c) s"
  unfolding handleSaveUser_def updateUser_def createUser_def
  by (auto intro!: spinner_intros keeps_fetchUsers keeps_filled keeps_sync)

lemma usage_ends: "ends_in (\<lambda>s. \<not> loadingUsage s) (\<lambda>s. \<not> loadingUsage s) (fetchUsage getTime c) s"
  unfolding fetchUsage_def getReportSummary_def Let_def by (auto intro!: flag_intros)

lemma usage_keeps: "keeps_off qrLoading (fetchUsage getTime c) s"
  unfolding fetchUsage_def getReportSummary_def Let_def by (auto intro!: flag_intros)

lemma qr_ends: "ends_in (\<lambda>s. \<not> qrLoading s) (\<lambda>s. \<not> qrLoading s) (loadQr c) s \<or> keeps_off qrLoading (loadQr c) s"
  unfolding loadQr_def getUserLink_def
  by (auto intro!: flag_intros disjI1 disjI2 [OF keeps_modify] split: option.splits list.splits)

lemma qr_keeps: "keeps_off loadingUsage (loadQr c) s"
  unfolding loadQr_def getUserLink_def by (auto intro!: flag_intros split: option.splits list.splits)

lemma handler_keeps:
  assumes "users_handler c h" and "spinner b" and "h \<noteq> loadQr c" and "\<forall>getTime. h \<noteq> fetchUsage getTime c"
  shows "keeps_off b h s"
  using assms(1)
proof cases
  case 2
  then show ?thesis using assms(2)
    by (auto simp: fetchInbounds_def getSingboxInbounds_def intro!: spinner_intros split: json.splits)
next
  case 11
  then show ?thesis using assms(2) keeps_save by simp
next
  case 15
  then show ?thesis using assms(2) update_frame by (auto intro!: spinner_keeps)
qed (use assms in \<open>auto simp: fetchPending_def getDashboardData_def confirmDeleteSelected_def
    handleRemoveFromSelectedInbounds_def deleteUser_def removeUserFromInbound_def deleteRow_def deleteCard_def
    handleEditClick_def getUserInbounds_def handleBulkCreate_def bulkCreateUsers_def handleCopyLink_def
    handleApplySingboxChanges_def applySingboxChanges_def Let_def intro!: spinner_intros keeps_fetchUsers
    keeps_delete_each keeps_bulk_loop split: option.splits\<close>)

lemma handler_clears:
  assumes "users_handler c h" and "spinner b"
  shows "ends_in (\<lambda>s. \<not> b s) (\<lambda>s. \<not> b s) h s \<or> keeps_off b h s"
proof -
  consider "h = loadQr c" | getTime where "h = fetchUsage getTime c" | "h \<noteq> loadQr c" "\<forall>getTime. h \<noteq> fetchUsage getTime c"
    by blast
  then show ?thesis
    using assms(2) handler_keeps [OF assms] qr_ends qr_keeps usage_ends usage_keeps
    by cases (auto simp: spinner_def)
qed

lemma users_ui_handler:
  assumes "h \<in> ui_handlers (users_elements localeCompare getTime) users_background s"
  shows "users_handler s h"
  using users_ui.ui_started [OF assms] by (simp add: users_handlers_def)

interpretation usage_spinner: busy_page "ui_handlers (users_elements localeCompare getTime) users_background" loadingUsage
  for localeCompare getTime
  by unfold_locales (rule handler_clears [OF users_ui_handler], auto simp: spinner_def)

interpretation qr_spinner: busy_page "ui_handlers (users_elements localeCompare getTime) users_background" qrLoading
  for localeCompare getTime
  by unfold_locales (rule handler_clears [OF users_ui_handler], auto simp: spinner_def)

section \<open>Properties\<close>

text \<open>C5: the page of the users as its user drives it: in every state that can be reached through the
  elements that it shows, the effects, the timers and the responses, in whatever order they arrive, the
  selection names listed users, each once, an open form has a row of an inbound, the dialogs of a user
  have one, and every request carries the token stored when it is sent.\<close>

theorem users_dialogs_ready:
  assumes "reachable (ui_handlers (users_elements localeCompare getTime) users_background) answers s c" and "users_inv s"
  defines "page \<equiv> loop_page c"
  shows "distinct (selectedUsers page) \<and> set (selectedUsers page) \<subseteq> us_name ` set (users page) \<and>
     (m_type (modalState page) = Some MCreate \<longrightarrow> inboundRows page \<noteq> []) \<and>
     (m_type (modalState page) \<in> {Some MQr, Some MSelectInbounds} \<longrightarrow> m_data (modalState page) \<noteq> None) \<and>
     (\<forall>(u, q) \<in> set (loop_sent c). map_of (rq_headers q) ''Authorization'' = expected_authorization u)"
  using users_ui.ui_inv [OF assms(1,2)] users_ui.ui_sends [OF assms(1,2)]
  unfolding page_def users_inv_def dialog_ok_def by (auto simp: authorised_def)


section \<open>Witnesses\<close>

lemma usage_offered:
  assumes "in_dialog MUsage s" and "\<not> loadingUsage s"
  shows "fetchUsage getTime s \<in> offered (users_elements localeCompare getTime e s)"
  using assms by (simp add: users_elements_def usage_dialog_def)

definition report_state :: users_state where
  "report_state = race_state\<lparr>modalState := modal_of MUsage\<rparr>"

definition reporting :: "(http_request, fetch_result, users_state) loop" where
  "reporting = launch (fetchUsage (\<lambda>_. None) report_state) (fresh report_state)"

lemma reporting_step:
  "loop_step (ui_handlers (users_elements localeCompare (\<lambda>_. None)) users_background) answers (fresh report_state) reporting"
  unfolding reporting_def
proof (rule loop_step.fire)
  have "fetchUsage (\<lambda>_. None) report_state \<in>
      offered (users_elements localeCompare (\<lambda>_. None) \<lparr>ue_now = 0, ue_confirmed = False, ue_clipboard = False, ue_uuid = None, ue_draws = (\<lambda>_. 0)\<rparr> report_state)"
    by (rule usage_offered) (code_simp, code_simp)
  then show "fetchUsage (\<lambda>_. None) report_state \<in>
      ui_handlers (users_elements localeCompare (\<lambda>_. None)) users_background (loop_page (fresh report_state))"
    unfolding ui_handlers_def fresh_def loop.select_convs by blast
qed


lemma edit_offered:
  assumes "u \<in> set (users s)" and "filterInbound s = []"
  shows "handleEditClick s u \<in> offered (users_elements localeCompare getTime e s)"
proof -
  have "u \<in> set (sortedUsers localeCompare s)" using assms by (simp add: sortedUsers_def in_filter_def)
  moreover have "users s \<noteq> []" using assms(1) by auto
  ultimately have "handleEditClick s u \<in> offered (users_table localeCompare e s)"
    by (auto simp: users_table_def user_table_row_def Let_def)
  then show ?thesis by (simp add: users_elements_def)
qed

theorem users_dialogs_ready_witness:
  "let page = loop_page (launch (handleEditClick race_state (race_user ''al'')) (start_loop race_state))
   in m_type (modalState page) = Some MCreate \<and> inboundRows page \<noteq> []"
proof -
  let ?c = "launch (handleEditClick race_state (race_user ''al'')) (start_loop race_state)"
  have e: "handleEditClick race_state (race_user ''al'') \<in> offered (users_elements (\<lambda>_ _. 0) (\<lambda>_. None) e race_state)" for e
    by (rule edit_offered) (simp_all add: race_state_def sample_users_state_def browser.defs)
  have "reachable (ui_handlers (users_elements (\<lambda>_ _. 0) (\<lambda>_. None)) users_background) (\<lambda>_ _. True) race_state ?c"
    unfolding start_loop_def
    by (rule reachable.further, rule reachable.initial, rule loop_step.fire) (use e in \<open>auto simp: ui_handlers_def\<close>)
  moreover have "users_inv race_state"
    by (simp add: users_inv_unfold race_state_def sample_users_state_def browser.defs)
  moreover have "m_type (modalState (loop_page ?c)) = Some MCreate" by code_simp
  ultimately show ?thesis
    using users_dialogs_ready [of "\<lambda>_ _. 0" "\<lambda>_. None" "\<lambda>_ _. True" race_state ?c] unfolding Let_def by blast
qed

end
