(* ===== verification/WireGuard_View.thy ===== *)
theory WireGuard_View
  imports WireGuard_Facts
begin

text \<open>
  What components/WireGuard.tsx shows, and the rest of its forms: the rows of the table, the cards of the
  interface, the titles of the dialogs, the fields of the interface form, and the copying of a
  configuration. What the clipboard of the browser does is a parameter; that the older way of copying
  reports its failure is not relied on, as the code does not read it.
\<close>

section \<open>Copying\<close>

text \<open>The browser may have no asynchronous clipboard, or have one that accepts or refuses the text; the
  older way is tried in the first and the last case.\<close>

datatype clipboard = NoClipboard | Accepts | Refuses

datatype copy = WriteText string | LegacyCopy string

definition copy_attempts :: "clipboard \<Rightarrow> string \<Rightarrow> copy list" where
  "copy_attempts cb t =
     (case cb of Accepts \<Rightarrow> [WriteText t] | Refuses \<Rightarrow> [WriteText t, LegacyCopy t] | NoClipboard \<Rightarrow> [LegacyCopy t])"

definition copyKey :: "clipboard \<Rightarrow> wg_state \<Rightarrow> copy list" where
  "copyKey cb s = (if configPrivateKey s = [] then [] else copy_attempts cb (configPrivateKey s))"

text \<open>What is copied is the text of the render, \<open>c\<close>; the mark is set on the page as it is by then.\<close>

definition copyConfig :: "clipboard \<Rightarrow> wg_state \<Rightarrow> wg_state \<Rightarrow> copy list \<times> wg_state" where
  "copyConfig cb c s =
     (if configText c = [] then ([], s) else (copy_attempts cb (configText c), s\<lparr>copiedConfig := True\<rparr>))"

definition resetCopiedConfig :: "wg_state \<Rightarrow> wg_state" where
  "resetCopiedConfig s = s\<lparr>copiedConfig := False\<rparr>"

section \<open>Fields and buttons\<close>

definition changeNewName :: "string \<Rightarrow> wg_state \<Rightarrow> wg_state" where
  "changeNewName v s = s\<lparr>newName := v\<rparr>"

definition changeNewIp :: "string \<Rightarrow> wg_state \<Rightarrow> wg_state" where
  "changeNewIp v s = s\<lparr>newIp := v\<rparr>"

definition changeNewEndpoint :: "string \<Rightarrow> wg_state \<Rightarrow> wg_state" where
  "changeNewEndpoint v s = s\<lparr>newEndpoint := v\<rparr>"

definition closeAddPeer :: "wg_state \<Rightarrow> wg_state" where
  "closeAddPeer s = s\<lparr>showPeerModal := False\<rparr>"

definition addFirstPeer :: "wg_state \<Rightarrow> wg_state" where
  \<comment> \<open>the button of the empty table\<close>
  "addFirstPeer s = s\<lparr>showPeerModal := True\<rparr>"

definition dismissUndo :: "wg_state \<Rightarrow> wg_state" where
  "dismissUndo s = s\<lparr>lastDeletedPeer := None\<rparr>"

definition changeGeneratedTab :: "config_tab \<Rightarrow> wg_state \<Rightarrow> wg_state" where
  "changeGeneratedTab t s = s\<lparr>generatedTab := t\<rparr>"

definition changeEditInterface :: "(wg_interface \<Rightarrow> wg_interface) \<Rightarrow> wg_state \<Rightarrow> wg_state" where
  "changeEditInterface f s = s\<lparr>editInterface := map_option f (editInterface s)\<rparr>"

definition changeAddress :: "string \<Rightarrow> wg_interface \<Rightarrow> wg_interface" where
  "changeAddress v i = i\<lparr>wi_address := v\<rparr>"

definition changeBindAddress :: "string \<Rightarrow> wg_interface \<Rightarrow> wg_interface" where
  "changeBindAddress v i = i\<lparr>wi_bind_address := Some v\<rparr>"

definition changeMtu :: "string \<Rightarrow> wg_interface \<Rightarrow> wg_interface" where
  \<comment> \<open>\<open>Number(raw)\<close> of a number field that holds a whole number or nothing\<close>
  "changeMtu raw i = i\<lparr>wi_mtu := (if raw = [] then None else Some (num_of_parse (parse_int raw)))\<rparr>"

definition changePostUp :: "string \<Rightarrow> wg_interface \<Rightarrow> wg_interface" where
  "changePostUp v i = i\<lparr>wi_post_up := Some v\<rparr>"

definition changePostDown :: "string \<Rightarrow> wg_interface \<Rightarrow> wg_interface" where
  "changePostDown v i = i\<lparr>wi_post_down := Some v\<rparr>"

definition changeDns :: "string \<Rightarrow> wg_interface \<Rightarrow> wg_interface" where
  "changeDns v i = i\<lparr>wi_dns := Some v\<rparr>"

definition cancelInterface :: "wg_state \<Rightarrow> wg_state" where
  "cancelInterface s = s\<lparr>showInterfaceModal := False\<rparr>"

definition cancelDelete :: "wg_state \<Rightarrow> wg_state" where
  "cancelDelete s = s\<lparr>confirmDeletePeer := None\<rparr>"

section \<open>What is shown\<close>

text \<open>\<open>Date.now() / 1000 - h < 180\<close> for a clock in whole milliseconds.\<close>

definition isOnline :: "int \<Rightarrow> wg_peer \<Rightarrow> bool" where
  "isOnline now peer =
     (case wp_stats peer of Some t \<Rightarrow> now - 1000 * ws_latest_handshake t < 180 * 1000 | None \<Rightarrow> False)"

definition seen_text :: "int \<Rightarrow> wg_peer \<Rightarrow> string" where
  "seen_text now peer =
     (case wp_stats peer of
        Some t \<Rightarrow> if ws_latest_handshake t \<noteq> 0 then formatTimeAgo now (ws_latest_handshake t) else ''Never''
      | None \<Rightarrow> ''Never'')"

record peer_view =
  pv_online :: bool
  pv_seen :: string
  pv_name :: string
  pv_allowed_ips :: string
  pv_endpoint :: string
  pv_sent :: string
  pv_received :: string
  pv_config_disabled :: bool

definition peer_row :: "int \<Rightarrow> wg_peer \<Rightarrow> peer_view" where
  "peer_row now peer =
     \<lparr>pv_online = isOnline now peer, pv_seen = seen_text now peer,
      pv_name = opt_str_or (wp_alias peer) (opt_str_or (wp_name peer) ''-''),
      pv_allowed_ips = wp_allowed_ips peer,
      pv_endpoint = opt_str_or (map_option ws_endpoint (wp_stats peer)) (opt_str_or (wp_endpoint peer) ''-''),
      pv_sent = formatBytes (case wp_stats peer of Some t \<Rightarrow> ws_transfer_tx t | None \<Rightarrow> 0) 2,
      pv_received = formatBytes (case wp_stats peer of Some t \<Rightarrow> ws_transfer_rx t | None \<Rightarrow> 0) 2,
      pv_config_disabled = (wp_qr_available peer \<noteq> Some True)\<rparr>"

definition peer_rows :: "(string \<Rightarrow> string \<Rightarrow> int) \<Rightarrow> int \<Rightarrow> wg_state \<Rightarrow> peer_view list" where
  "peer_rows localeCompare now s = map (peer_row now) (sortedPeers localeCompare s)"

definition peer_title :: "wg_peer \<Rightarrow> string" where
  \<comment> \<open>in the dialogs of the configuration and of the deletion\<close>
  "peer_title peer = opt_str_or (wp_alias peer) (str_or (primaryAllowedIp (wp_allowed_ips peer)) ''Peer'')"

definition interface_cards :: "wg_state \<Rightarrow> string \<times> string option \<times> jsnum \<times> jsnum" where
  "interface_cards s =
     (case interfaceConfig s of
        None \<Rightarrow> (''-'', None, Fin 51820, Fin 1420)
      | Some i \<Rightarrow>
          (str_or (wi_address i) ''-'',
           (case wi_bind_address i of Some (c # cs) \<Rightarrow> Some (''Bind: '' @ c # cs) | _ \<Rightarrow> None),
           (if num_truthy (wi_listen_port i) then wi_listen_port i else Fin 51820),
           (case wi_mtu i of Some n \<Rightarrow> if num_truthy n then n else Fin 1420 | None \<Rightarrow> Fin 1420)))"

definition restart_disabled :: "wg_state \<Rightarrow> bool" where
  "restart_disabled s = (systemctlAvailable s = Some False)"

section \<open>Facts\<close>

text \<open>Copying hands the text itself to one of the two ways whatever the browser can do.\<close>

lemma copied_text: "copy_attempts cb t \<noteq> [] \<and> set (copy_attempts cb t) \<subseteq> {WriteText t, LegacyCopy t}"
  by (cases cb) (auto simp: copy_attempts_def)

lemma copy_mark: "copiedConfig (snd (copyConfig cb c s)) \<longleftrightarrow> copiedConfig s \<or> configText c \<noteq> []"
  by (simp add: copyConfig_def)

text \<open>A peer is online for as long as its last handshake is shown as less than three minutes ago.\<close>

lemma online_minutes:
  assumes "wp_stats p = Some t" and "0 < ws_latest_handshake t" and "isOnline now p"
  shows "seen_text now p \<in> {''Just now'', ''1m ago'', ''2m ago''}"
proof -
  have "now div 1000 - ws_latest_handshake t < 180"
    using assms by (simp add: isOnline_def)
  then consider "now div 1000 - ws_latest_handshake t < 60" | "(now div 1000 - ws_latest_handshake t) div 60 = 1"
    | "(now div 1000 - ws_latest_handshake t) div 60 = 2"
    by linarith
  moreover have "show_int 1 = ''1''" "show_int 2 = ''2''" by code_simp+
  ultimately show ?thesis
    using assms by cases (auto simp: seen_text_def formatTimeAgo_def Let_def)
qed

lemma closed_dialog_copies_nothing: "fst (copyConfig cb (closeConfigTop s) t) = []"
  by (simp add: copyConfig_def closeConfigTop_def)

end
