(* ===== verification/WireGuard_Ui.thy ===== *)
theory WireGuard_Ui
  imports WireGuard_View Ui Api_Late
begin

text \<open>
  The rendering of components/WireGuard.tsx, section by section, with the handlers that its buttons and
  fields start, and the page as its user can drive it.
\<close>

section \<open>Header\<close>

definition sort_icon :: "sort_key \<Rightarrow> wg_state \<Rightarrow> string" where
  "sort_icon key s =
     (if sortKey s \<noteq> key then ''ArrowUpDown'' else if sortDir s = Asc then ''ArrowUp'' else ''ArrowDown'')"

definition wg_header :: "wg_state \<Rightarrow> unit wg_io element list" where
  "wg_header s =
     [Shown ''WireGuard'', Shown ''Manage WireGuard peers and settings''] @
     (if pendingRestart s
      then [Shown ''Changes pending restart'', Button ''Restart WireGuard'' (restart_disabled s) handleRestartWireGuard]
      else []) @
     [Button ''Interface Config'' False (modify openInterface), Button ''Add Peer'' False (modify openAddPeer)]"

definition wg_undo :: "wg_state \<Rightarrow> unit wg_io element list" where
  "wg_undo s =
     (if lastDeletedPeer s = None then []
      else [Shown ''Peer deleted.'', Button ''Restore'' False (handleRestorePeer s), Button ''Dismiss'' False (modify dismissUndo)])"

definition wg_cards :: "wg_state \<Rightarrow> unit wg_io element list" where
  "wg_cards s =
     (case interface_cards s of (address, bind_addr, port, mtu) \<Rightarrow>
        [Shown ''Interface Address'', Shown address] @ (case bind_addr of Some b \<Rightarrow> [Shown b] | None \<Rightarrow> []) @
        [Shown ''Port'', Shown (num_string port), Shown ''MTU'', Shown (num_string mtu)])"

section \<open>Peers\<close>

text \<open>The three buttons of a peer, in the table and in its card.\<close>

definition peer_buttons :: "string \<Rightarrow> wg_peer \<Rightarrow> unit wg_io element list" where
  "peer_buttons expires peer =
     [Button ''Edit Peer'' False (modify (openEditPeer peer)),
      Button ''View config / QR'' (wp_qr_available peer \<noteq> Some True) (openConfigModal expires peer),
      Button ''Delete Peer'' False (modify (handleDeletePeer (wp_public_key peer)))]"

definition table_row :: "string \<Rightarrow> int \<Rightarrow> wg_peer \<Rightarrow> unit wg_io element list" where
  "table_row expires now peer =
     (let r = peer_row now peer
      in [Shown (pv_seen r), Shown (pv_name r), Shown (pv_allowed_ips r), Shown (pv_endpoint r),
          Icon ''ArrowUp'', Shown (pv_sent r), Icon ''ArrowDown'', Shown (pv_received r)] @ peer_buttons expires peer)"

definition wg_table ::
  "(string \<Rightarrow> string \<Rightarrow> int) \<Rightarrow> string \<Rightarrow> int \<Rightarrow> wg_state \<Rightarrow> unit wg_io element list" where
  "wg_table localeCompare expires now s =
     concat (map (\<lambda>(title, key). [Button title False (modify (toggleSort key)), Icon (sort_icon key s)])
       [(''Last Seen'', ByHandshake), (''Name/Alias'', ByAlias), (''Allowed IPs'', ByIp), (''Endpoint'', ByEndpoint),
        (''Data Usage'', ByTraffic)]) @
     [Shown ''Actions''] @
     concat (map (table_row expires now) (sortedPeers localeCompare s)) @
     (if peers s = []
      then [Shown ''No WireGuard peers found.'', Button ''Create your first peer'' False (modify addFirstPeer)] else [])"

text \<open>The cards of narrow screens name a peer without a name differently.\<close>

definition peer_card :: "string \<Rightarrow> int \<Rightarrow> wg_peer \<Rightarrow> unit wg_io element list" where
  "peer_card expires now peer =
     (let r = peer_row now peer
      in [Shown (opt_str_or (wp_alias peer) (opt_str_or (wp_name peer) ''Unnamed Peer'')), Shown (pv_seen r)] @
         peer_buttons expires peer @
         [Shown ''Allowed IPs'', Shown (pv_allowed_ips r), Shown ''Endpoint'', Shown (pv_endpoint r),
          Icon ''ArrowUp'', Shown (pv_sent r), Icon ''ArrowDown'', Shown (pv_received r)])"

definition wg_mobile ::
  "(string \<Rightarrow> string \<Rightarrow> int) \<Rightarrow> string \<Rightarrow> int \<Rightarrow> wg_state \<Rightarrow> unit wg_io element list" where
  "wg_mobile localeCompare expires now s =
     concat (map (peer_card expires now) (sortedPeers localeCompare s)) @
     (if peers s = []
      then [Shown ''No WireGuard peers found.'', Button ''Add Peer'' False (modify addFirstPeer)] else [])"

section \<open>Dialogs\<close>

definition changeAlias :: "string \<Rightarrow> wg_peer \<Rightarrow> wg_peer" where
  "changeAlias v p = p\<lparr>wp_alias := Some v\<rparr>"

definition changeAllowedIps :: "string \<Rightarrow> wg_peer \<Rightarrow> wg_peer" where
  "changeAllowedIps v p = p\<lparr>wp_allowed_ips := v\<rparr>"

definition changeEndpoint :: "string \<Rightarrow> wg_peer \<Rightarrow> wg_peer" where
  "changeEndpoint v p = p\<lparr>wp_endpoint := Some v\<rparr>"

definition changePresharedKey :: "string \<Rightarrow> wg_peer \<Rightarrow> wg_peer" where
  "changePresharedKey v p = p\<lparr>wp_preshared_key := Some v\<rparr>"

definition edit_peer_form :: "wg_state \<Rightarrow> wg_peer \<Rightarrow> unit wg_io element list" where
  "edit_peer_form s peer =
     [Shown ''Edit Peer'',
      Field ''Public Key'' (wp_public_key peer) True (\<lambda>_. modify (\<lambda>t. t)),
      Field ''Alias'' (opt_str_or (wp_alias peer) []) False (\<lambda>v. modify (changeEditingPeer (changeAlias v))),
      Field ''Allowed IPs'' (wp_allowed_ips peer) False (\<lambda>v. modify (changeEditingPeer (changeAllowedIps v))),
      Field ''Endpoint (Optional)'' (opt_str_or (wp_endpoint peer) []) False (\<lambda>v. modify (changeEditingPeer (changeEndpoint v))),
      Field ''Preshared Key (Optional)'' (opt_str_or (wp_preshared_key peer) []) False
        (\<lambda>v. modify (changeEditingPeer (changePresharedKey v))),
      Button ''Cancel'' False (modify cancelEditPeer),
      Button ''Save Changes'' False (handleUpdatePeer s)]"

definition add_peer_form :: "string \<Rightarrow> wg_state \<Rightarrow> unit wg_io element list" where
  "add_peer_form expires s =
     [Shown ''Add WireGuard Peer'',
      Field ''Alias'' (newName s) False (\<lambda>v. modify (changeNewName v)),
      Field ''IP / Allowed IPs (optional)'' (newIp s) False (\<lambda>v. modify (changeNewIp v)),
      Field ''Endpoint (Optional, server public host:port)'' (newEndpoint s) False (\<lambda>v. modify (changeNewEndpoint v)),
      Button ''Cancel'' False (modify closeAddPeer),
      Button ''Create'' False (handleCreatePeer expires s)]"

definition wg_peer_dialog :: "string \<Rightarrow> wg_state \<Rightarrow> unit wg_io element list" where
  "wg_peer_dialog expires s =
     (if \<not> showPeerModal s then []
      else (case editingPeer s of Some peer \<Rightarrow> edit_peer_form s peer | None \<Rightarrow> add_peer_form expires s))"

definition config_qr :: "wg_state \<Rightarrow> unit wg_io element list" where
  "config_qr s =
     [Shown ''QR'', Shown (''Cache until '' @ str_or (configExpiry s) ''--:--'')] @
     (if configText s \<noteq> [] then [Qr (configText s)] else [Shown ''Config not available.''])"

text \<open>Copying the key changes nothing of the page (\<open>copyKey\<close> is what it hands to the clipboard).\<close>

definition config_details :: "clipboard \<Rightarrow> wg_state \<Rightarrow> unit wg_io element list" where
  "config_details cb s =
     [Shown ''Private Key'', Shown (str_or (configPrivateKey s) ''Not available''), Button ''Copy key'' False (modify (\<lambda>t. t)),
      Shown ''Config'', Shown (str_or (configText s) ''No config available.''),
      Button (if copiedConfig s then ''Copied!'' else ''Copy config'') False (modify (\<lambda>t. snd (copyConfig cb s t)))]"

definition wg_config_dialog :: "clipboard \<Rightarrow> wg_state \<Rightarrow> unit wg_io element list" where
  "wg_config_dialog cb s =
     (case configModalPeer s of
        None \<Rightarrow> []
      | Some peer \<Rightarrow>
          [Shown ''Peer Config / QR'', Shown (peer_title peer), Button ''Close'' False (modify closeConfigTop)] @
          (if configLoading s then [Shown ''Loading config...'']
           else
             [Button ''QR'' False (modify (changeGeneratedTab TabQr)),
              Button ''Details'' False (modify (changeGeneratedTab TabDetails))] @
             (case generatedTab s of TabQr \<Rightarrow> config_qr s | TabDetails \<Rightarrow> config_details cb s) @
             [Button ''Close'' False (modify closeConfigBottom)]))"

definition wg_interface_dialog :: "wg_state \<Rightarrow> unit wg_io element list" where
  "wg_interface_dialog s =
     (case editInterface s of
        None \<Rightarrow> []
      | Some i \<Rightarrow>
          if \<not> showInterfaceModal s then []
          else
            (let fld = (\<lambda>label v f. Field label v False (\<lambda>w. modify (changeEditInterface (f w))))
             in [Shown ''Interface Settings'',
                 fld ''Address'' (wi_address i) changeAddress,
                 fld ''Bind Address (optional)'' (opt_str_or (wi_bind_address i) []) changeBindAddress,
                 fld ''Listen Port'' (num_string (wi_listen_port i)) changeListenPort,
                 fld ''MTU'' (case wi_mtu i of Some n \<Rightarrow> num_string n | None \<Rightarrow> []) changeMtu,
                 fld ''Post Up Script'' (opt_str_or (wi_post_up i) []) changePostUp,
                 fld ''Post Down Script'' (opt_str_or (wi_post_down i) []) changePostDown,
                 fld ''DNS (optional)'' (opt_str_or (wi_dns i) []) changeDns,
                 Button ''Cancel'' False (modify cancelInterface),
                 Button ''Save Changes'' False (handleUpdateInterface s)]))"

definition wg_delete_dialog :: "wg_state \<Rightarrow> unit wg_io element list" where
  "wg_delete_dialog s =
     (case confirmDeletePeer s of
        None \<Rightarrow> []
      | Some peer \<Rightarrow>
          [Shown ''Delete peer?'', Shown (peer_title peer), Shown ''This removes the peer from WireGuard.'',
           Button ''Cancel'' False (modify cancelDelete), Button ''Delete'' False (confirmDelete s)])"

section \<open>The page\<close>

definition wg_page ::
  "(string \<Rightarrow> string \<Rightarrow> int) \<Rightarrow> string \<Rightarrow> clipboard \<Rightarrow> int \<Rightarrow> wg_state \<Rightarrow> unit wg_io element list" where
  "wg_page localeCompare expires cb now s =
     wg_header s @ wg_undo s @ wg_cards s @ wg_table localeCompare expires now s @
     wg_mobile localeCompare expires now s @ wg_peer_dialog expires s @ wg_config_dialog cb s @
     wg_interface_dialog s @ wg_delete_dialog s"

text \<open>Mounting loads the data, and so does a timer every five seconds; another timer takes the mark of a
  copied configuration back.\<close>

definition wg_background :: "wg_state \<Rightarrow> unit wg_io set" where
  "wg_background s = {fetchData, modify resetCopiedConfig} \<union> toast_events s"

text \<open>All that the page offers. An update that is made at once does not show that a configuration is
  loading.\<close>

definition no_spinner :: "(wg_state \<Rightarrow> wg_state) \<Rightarrow> bool" where
  "no_spinner f \<longleftrightarrow> (\<forall>t. configLoading (f t) \<longrightarrow> configLoading t)"

definition wg_events :: "string \<Rightarrow> wg_state \<Rightarrow> unit wg_io set" where
  "wg_events expires s =
     {handleRestartWireGuard, handleRestorePeer s, handleUpdatePeer s, handleCreatePeer expires s,
      handleUpdateInterface s, confirmDelete s} \<union> range (openConfigModal expires) \<union> modify ` Collect no_spinner"

lemma wg_event_intros [simp, intro]:
  "handleRestartWireGuard \<in> wg_events expires s" "handleRestorePeer s \<in> wg_events expires s"
  "handleUpdatePeer s \<in> wg_events expires s" "handleCreatePeer expires s \<in> wg_events expires s"
  "handleUpdateInterface s \<in> wg_events expires s" "confirmDelete s \<in> wg_events expires s"
  "openConfigModal expires p \<in> wg_events expires s" "no_spinner f \<Longrightarrow> modify f \<in> wg_events expires s"
  by (simp_all add: wg_events_def)

lemmas wg_update_defs = openInterface_def openAddPeer_def dismissUndo_def openEditPeer_def handleDeletePeer_def
  toggleSort_def addFirstPeer_def changeEditingPeer_def cancelEditPeer_def changeNewName_def changeNewIp_def
  changeNewEndpoint_def closeAddPeer_def copyConfig_def closeConfigTop_def closeConfigBottom_def
  changeGeneratedTab_def changeEditInterface_def cancelInterface_def cancelDelete_def resetCopiedConfig_def

lemma no_spinner_updates [simp]:
  "no_spinner openInterface" "no_spinner openAddPeer" "no_spinner dismissUndo" "no_spinner (openEditPeer p)"
  "no_spinner (handleDeletePeer k)" "no_spinner (toggleSort key)" "no_spinner addFirstPeer"
  "no_spinner (changeEditingPeer g)" "no_spinner cancelEditPeer" "no_spinner (changeNewName v)"
  "no_spinner (changeNewIp v)" "no_spinner (changeNewEndpoint v)" "no_spinner closeAddPeer"
  "no_spinner (\<lambda>t. snd (copyConfig cb c t))" "no_spinner closeConfigTop" "no_spinner closeConfigBottom"
  "no_spinner (changeGeneratedTab tab)" "no_spinner (changeEditInterface h)" "no_spinner cancelInterface"
  "no_spinner cancelDelete" "no_spinner resetCopiedConfig" "no_spinner (\<lambda>t. t)"
  "no_spinner (removeToast i)" "no_spinner (fire_timer n)"
  by (simp_all add: no_spinner_def wg_update_defs removeToast_def fire_timer_def)

lemma offered_peer_buttons: "offered (peer_buttons expires peer) \<subseteq> wg_events expires s"
  by (simp add: peer_buttons_def)

lemma offered_top:
  "offered (wg_header s) \<subseteq> wg_events expires s" "offered (wg_undo s) \<subseteq> wg_events expires s"
  "offered (wg_cards s) \<subseteq> wg_events expires s"
  by (auto simp: wg_header_def wg_undo_def wg_cards_def split: prod.split option.split)

lemma offered_rows:
  "offered (wg_table localeCompare expires now s) \<subseteq> wg_events expires s"
  "offered (wg_mobile localeCompare expires now s) \<subseteq> wg_events expires s"
  using offered_peer_buttons [of expires _ s]
  by (auto simp: wg_table_def table_row_def wg_mobile_def peer_card_def Let_def split: if_splits)

lemma offered_dialogs:
  "offered (wg_peer_dialog expires s) \<subseteq> wg_events expires s"
  "offered (wg_config_dialog cb s) \<subseteq> wg_events expires s"
  "offered (wg_interface_dialog s) \<subseteq> wg_events expires s"
  "offered (wg_delete_dialog s) \<subseteq> wg_events expires s"
  by (auto simp: wg_peer_dialog_def edit_peer_form_def add_peer_form_def wg_config_dialog_def config_qr_def
      config_details_def wg_interface_dialog_def wg_delete_dialog_def Let_def
      split: option.split config_tab.split if_splits)

lemma wg_offered: "offered (wg_page localeCompare expires cb now s) \<subseteq> wg_events expires s"
  unfolding wg_page_def offered_simps by (intro Un_least offered_top offered_rows offered_dialogs)

section \<open>The page as its user drives it\<close>

text \<open>The environment of a render: the text of the expiry of a configuration, the clipboard, the clock.\<close>

definition wg_render ::
  "(string \<Rightarrow> string \<Rightarrow> int) \<Rightarrow> string \<times> clipboard \<times> int \<Rightarrow> wg_state \<Rightarrow> unit wg_io element list" where
  "wg_render localeCompare e s = (case e of (expires, cb, now) \<Rightarrow> wg_page localeCompare expires cb now s)"

lemma wg_event_handled: "h \<in> wg_events expires s \<Longrightarrow> h \<in> wg_handlers s"
  by (auto simp: wg_events_def wg_handlers_def intro: wg_handler.intros)

interpretation wg_ui: guarded_rendered "wg_render localeCompare" wg_background wg_handlers "\<lambda>_. True" wg_sends
  for localeCompare
proof unfold_locales
  fix e s
  show "offered (wg_render localeCompare e s) \<subseteq> wg_handlers s"
    using wg_offered [THEN subsetD, THEN wg_event_handled] by (cases e) (auto simp: wg_render_def)
  show "wg_background s \<subseteq> wg_handlers s"
    by (auto simp: wg_background_def wg_handlers_def elim!: toast_events_cases intro: wg_handler.intros)
qed

section \<open>The spinner of the configuration\<close>

lemma loading_frame [simp]:
  "configLoading (logout s) = configLoading s" "configLoading (toast_error m s) = configLoading s"
  "configLoading (toast_success m s) = configLoading s" "configLoading (alert m s) = configLoading s"
  by (simp_all add: logout_def toast_error_def toast_success_def showToast_def alert_def Let_def)

lemma openConfig_ends: "ends_in (\<lambda>s. \<not> configLoading s) (\<lambda>s. \<not> configLoading s) (openConfigModal expires p) s"
  unfolding openConfigModal_def getWireGuardPeerConfig_def
  by (auto intro!: flag_intros split: option.splits)

lemma fetchData_keeps: "keeps_off configLoading fetchData s"
  unfolding fetchData_def fetchPeers_def fetchInterface_def fetchStatus_def getWireGuardPeers_def
    getWireGuardInterface_def getSystemStatus_def
  by (intro flag_intros disjI2) simp_all

lemma no_spinner_keeps: "no_spinner f \<Longrightarrow> keeps_off configLoading (modify f) s"
  by (auto simp: no_spinner_def intro: flag_intros)

lemmas wg_calls = createWireGuardPeer_def updateWireGuardPeer_def deleteWireGuardPeer_def
  restoreWireGuardPeer_def updateWireGuardInterface_def restartService_def

lemma wg_event_clears:
  assumes "h \<in> wg_events expires c"
  shows "ends_in (\<lambda>s. \<not> configLoading s) (\<lambda>s. \<not> configLoading s) h s \<or> keeps_off configLoading h s"
proof -
  consider "h = handleRestartWireGuard" | "h = handleRestorePeer c" | "h = handleUpdatePeer c"
    | "h = handleCreatePeer expires c" | "h = handleUpdateInterface c" | "h = confirmDelete c"
    | p where "h = openConfigModal expires p" | f where "h = modify f" "no_spinner f"
    using assms by (auto simp: wg_events_def)
  then show ?thesis
  proof cases
    case 4
    have "keeps_off configLoading (spawn (openConfigModal expires peer)) t" for peer t
      by (rule keeps_spawn, rule disjI1, rule openConfig_ends)
    then have "keeps_off configLoading (handleCreatePeer expires c) s"
      unfolding handleCreatePeer_def wg_calls
      by (auto intro!: keeps_try_catch keeps_bind keeps_call_json keeps_modify fetchData_keeps)
    then show ?thesis using 4 by simp
  next
    case 7
    then show ?thesis using openConfig_ends by blast
  next
    case 8
    then show ?thesis using no_spinner_keeps by blast
  qed (auto simp: handleRestartWireGuard_def handleRestorePeer_def handleUpdatePeer_def handleUpdateInterface_def
      confirmDelete_def wg_calls split: option.split intro!: flag_intros fetchData_keeps disjI2)
qed

interpretation wg_spinner: busy_rendered "wg_render localeCompare" wg_background configLoading for localeCompare
proof unfold_locales
  fix e s and h :: "unit wg_io" assume "h \<in> offered (wg_render localeCompare e s)"
  then show "ends_in (\<lambda>s. \<not> configLoading s) (\<lambda>s. \<not> configLoading s) h s \<or> keeps_off configLoading h s"
    by (cases e) (auto simp: wg_render_def dest!: wg_offered [THEN subsetD] wg_event_clears)
next
  fix s and h :: "unit wg_io" assume "h \<in> wg_background s"
  then show "ends_in (\<lambda>s. \<not> configLoading s) (\<lambda>s. \<not> configLoading s) h s \<or> keeps_off configLoading h s"
    by (auto simp: wg_background_def fetchData_keeps no_spinner_keeps elim!: toast_events_cases)
qed

section \<open>Properties\<close>

text \<open>The WireGuard page does not stay busy. From a page that shows no spinner, whatever the user does
  with the buttons and fields that are offered, and whatever the timers and responses do, once the user and
  the timers stop there is a way for the outstanding responses to arrive, no sequence of arrivals is
  infinite, and when all have arrived the dialog of a configuration is not loading.\<close>

theorem wireguard_ends_loading:
  assumes "(loop_step (ui_handlers (wg_render localeCompare) wg_background) answers)\<^sup>*\<^sup>* (fresh s) d"
    and "\<not> configLoading s" and "\<And>q. \<exists>r. answers q r"
  shows "wfp (arrival answers)\<inverse>\<inverse> \<and> (\<exists>e. (arrival answers)\<^sup>*\<^sup>* d e \<and> idle e) \<and>
     (\<forall>e. (arrival answers)\<^sup>*\<^sup>* d e \<and> idle e \<longrightarrow> \<not> configLoading (loop_page e))"
  by (rule wg_spinner.comes_to_rest [OF assms(1) _ assms(3)]) (rule fresh_flag, rule assms(2))

text \<open>C10: a configuration that arrives when the dialog of another peer is open is shown there: under the
  title of the other peer the page offers the code of the first one, with the private key that its
  configuration holds, and no longer says that it is loading.\<close>

theorem late_config_in_other_dialog:
  assumes "i < length (loop_tasks d)" and "loop_tasks d ! i = fst (settle (openConfigModal expires a) s)"
    and "configModalPeer (loop_page d) = Some other" and "generatedTab (loop_page d) = TabQr"
    and "result (getWireGuardPeerConfig (wp_public_key a) None) r (loop_page d) = (Inr config, loop_page d)"
    and "config \<noteq> []"
  defines "page \<equiv> loop_page (resume i r d)"
  shows "{Shown (peer_title other), Qr config} \<subseteq> set (wg_config_dialog cb page) \<and>
     (\<forall>key. match_private_key config = Some key \<longrightarrow> configPrivateKey page = key)"
proof -
  let ?call = "getWireGuardPeerConfig (wp_public_key a) None :: string wg_io"
  obtain k q where k: "waits_as k ?call" "\<And>s. settle ?call s = (Await (q s) k, s)"
    unfolding getWireGuardPeerConfig_def using settle_call_json by blast
  have "configModalPeer page = Some other \<and> generatedTab page = TabQr \<and> configText page = config \<and>
     \<not> configLoading page \<and> (\<forall>key. match_private_key config = Some key \<longrightarrow> configPrivateKey page = key)"
    unfolding page_def resume_def assms(2) openConfigModal_def try_finally_def
    using assms(3-5) by (auto simp: run_simps k(2) waits_as_settle [OF k(1)] split: option.splits)
  then show ?thesis using assms(6) by (simp add: wg_config_dialog_def config_qr_def)
qed

section \<open>Witnesses\<close>

lemma config_offered:
  assumes "p \<in> set (peers s)" and "wp_qr_available p = Some True"
  shows "openConfigModal expires p \<in> offered (wg_page localeCompare expires cb now s)"
proof -
  have "p \<in> set (sortedPeers localeCompare s)"
    using assms(1) by (simp add: sortedPeers_def)
  then have "openConfigModal expires p \<in> offered (wg_table localeCompare expires now s)"
    using assms(2) by (auto simp: wg_table_def table_row_def peer_buttons_def Let_def)
  then show ?thesis by (simp add: wg_page_def)
qed

definition shown_peer :: wg_peer where
  "shown_peer = sample_peer\<lparr>wp_qr_available := Some True\<rparr>"

definition quiet_wg :: wg_state where
  "quiet_wg = sample_wg_state\<lparr>peers := [shown_peer], configLoading := False\<rparr>"

definition opened_wg :: "(http_request, fetch_result, wg_state) loop" where
  "opened_wg = launch (openConfigModal ''10:00'' shown_peer) (fresh quiet_wg)"

lemma opened_step: "loop_step (ui_handlers (wg_render localeCompare) wg_background) answers (fresh quiet_wg) opened_wg"
  unfolding opened_wg_def
proof (rule loop_step.fire)
  have "openConfigModal ''10:00'' shown_peer \<in> offered (wg_render localeCompare (''10:00'', Accepts, 0) quiet_wg)"
    unfolding wg_render_def prod.case by (rule config_offered) (simp_all add: quiet_wg_def shown_peer_def)
  then show "openConfigModal ''10:00'' shown_peer \<in> ui_handlers (wg_render localeCompare) wg_background (loop_page (fresh quiet_wg))"
    unfolding ui_handlers_def fresh_def loop.select_convs by blast
qed

theorem wireguard_ends_loading_witness:
  "configLoading (loop_page opened_wg) \<and>
   (\<exists>e. (arrival (\<lambda>_ _. True))\<^sup>*\<^sup>* opened_wg e \<and> idle e \<and> \<not> configLoading (loop_page e))"
proof -
  have "configLoading (loop_page opened_wg)" "\<not> configLoading quiet_wg" by code_simp+
  moreover have "(loop_step (ui_handlers (wg_render (\<lambda>_ _. 0)) wg_background) (\<lambda>_ _. True))\<^sup>*\<^sup>* (fresh quiet_wg) opened_wg"
    by (rule r_into_rtranclp) (rule opened_step)
  ultimately show ?thesis using wireguard_ends_loading by blast
qed

definition other_peer :: wg_peer where
  "other_peer = shown_peer\<lparr>wp_public_key := ''other'', wp_alias := Some ''other''\<rparr>"

definition reopened_wg :: "(http_request, fetch_result, wg_state) loop" where
  "reopened_wg = launch (openConfigModal ''10:00'' other_peer) (launch (modify closeConfigBottom) opened_wg)"

definition config_answer :: fetch_result where
  "config_answer = Answered \<lparr>rs_status = 200, rs_text = [], rs_json = Inr (PPeerConfig ''PrivateKey = k1'')\<rparr>"

theorem late_config_in_other_dialog_witness:
  "{Shown ''other'', Qr ''PrivateKey = k1''} \<subseteq> set (wg_config_dialog Accepts (loop_page (resume 0 config_answer reopened_wg))) \<and>
   configPrivateKey (loop_page (resume 0 config_answer reopened_wg)) = ''k1''"
proof -
  have t: "0 < length (loop_tasks reopened_wg)"
    "loop_tasks reopened_wg ! 0 = fst (settle (openConfigModal ''10:00'' shown_peer) quiet_wg)"
    by (simp_all add: reopened_wg_def opened_wg_def launch_def fresh_def modify_def split: prod.splits)
  have p: "configModalPeer (loop_page reopened_wg) = Some other_peer" "generatedTab (loop_page reopened_wg) = TabQr"
    by (code_simp, code_simp)
  have r: "result (getWireGuardPeerConfig (wp_public_key shown_peer) None) config_answer (loop_page reopened_wg) =
      (Inr ''PrivateKey = k1'', loop_page reopened_wg)"
    by (simp add: result_def getWireGuardPeerConfig_def config_answer_def run_simps checked_def res_ok_def)
  have "match_private_key ''PrivateKey = k1'' = Some ''k1''" "peer_title other_peer = ''other''" by code_simp+
  then show ?thesis using late_config_in_other_dialog [OF t p r, of Accepts] by simp
qed

end
