(* ===== verification/Inbounds.thy ===== *)
theory Inbounds
  imports Api_Plan
begin

text \<open>
  components/singbox/InboundList.tsx with its form components/singbox/InboundModal.tsx, and
  components/singbox/InboundUserModal.tsx: listing, adding, editing and deleting the inbounds of
  sing-box. An inbound is the JSON object the server keeps, and so is the data of the form. Members
  that the form treats as objects are objects or missing. \<open>parseInt\<close> without a radix also reads
  hexadecimal numbers, which the number field of the port cannot hold.
\<close>

section \<open>Defaults of the form\<close>

definition default_alpn :: json where
  "default_alpn = JArr [JStr ''h2'', JStr ''http/1.1'']"

definition default_reality :: json where
  "default_reality = JObj
     [(''enabled'', JBool False),
      (''handshake'', JObj [(''server'', JStr []), (''server_port'', JNum 443)]),
      (''private_key'', JStr []),
      (''short_id'', JArr [JStr []])]"

definition default_inbound :: "string \<Rightarrow> string \<Rightarrow> (string \<times> json) list \<Rightarrow> json" where
  "default_inbound ty transport_type reality = JObj
     [(''type'', JStr ty), (''tag'', JStr (ty @ ''-in'')), (''listen'', JStr ''0.0.0.0''),
      (''listen_port'', JNum 443), (''external_port'', JStr []),
      (''tls'', JObj ([(''enabled'', JBool False), (''server_name'', JStr []), (''alpn'', default_alpn),
         (''certificate_path'', JStr []), (''key_path'', JStr [])] @ reality)),
      (''transport'', JObj [(''enabled'', JBool False), (''type'', JStr transport_type),
         (''path'', JStr ''/''), (''service_name'', JStr ''grpc-service'')])]"

definition DEFAULT_VLESS :: json where
  "DEFAULT_VLESS = default_inbound ''vless'' ''http'' [(''reality'', default_reality)]"

definition DEFAULT_VMESS :: json where
  "DEFAULT_VMESS = default_inbound ''vmess'' ''ws'' []"

definition DEFAULT_TROJAN :: json where
  "DEFAULT_TROJAN = default_inbound ''trojan'' ''ws'' []"

definition DEFAULT_BY_TYPE :: "json option \<Rightarrow> json" where
  \<comment> \<open>\<open>DEFAULT_BY_TYPE[type] || DEFAULT_VLESS\<close>\<close>
  "DEFAULT_BY_TYPE ty =
     (if ty = Some (JStr ''vmess'') then DEFAULT_VMESS
      else if ty = Some (JStr ''trojan'') then DEFAULT_TROJAN else DEFAULT_VLESS)"

section \<open>State\<close>

record inbounds_state = browser +
  inbounds :: "json list"
  loading :: bool
  isModalOpen :: bool
  editingInbound :: "json option"
  formData :: json
  validationError :: string
  certLoading :: bool
  certError :: string

type_synonym 'a inbounds_io = "(http_request, fetch_result, inbounds_state, 'a) io"

abbreviation success :: "string \<Rightarrow> unit inbounds_io" where
  "success msg \<equiv> modify (toast_success msg)"

abbreviation toastError :: "string \<Rightarrow> unit inbounds_io" where
  "toastError msg \<equiv> modify (toast_error msg)"

section \<open>Values of any type\<close>

text \<open>\<open>String(v)\<close>, where \<open>None\<close> is \<open>undefined\<close>, and \<open>parseInt(v)\<close>.\<close>

fun to_string :: "json \<Rightarrow> string" where
  "to_string JNull = ''null''"
| "to_string (JBool b) = (if b then ''true'' else ''false'')"
| "to_string (JNum i) = show_int i"
| "to_string (JStr s) = s"
| "to_string (JArr xs) = join_with '','' (map (\<lambda>x. if x = JNull then [] else to_string x) xs)"
| "to_string (JObj ms) = ''[object Object]''"

definition string_of :: "json option \<Rightarrow> string" where
  "string_of v = (case v of None \<Rightarrow> ''undefined'' | Some j \<Rightarrow> to_string j)"

definition or_json :: "json option \<Rightarrow> json \<Rightarrow> json" where
  \<comment> \<open>\<open>v || d\<close>\<close>
  "or_json v d = (case v of Some j \<Rightarrow> if truthy j then j else d | None \<Rightarrow> d)"

definition spread :: "json option \<Rightarrow> json" where
  \<comment> \<open>\<open>{ ...(v || {}) }\<close>\<close>
  "spread v = (case v of Some (JObj ms) \<Rightarrow> JObj ms | _ \<Rightarrow> JObj [])"

definition first_of :: "json option \<Rightarrow> json option" where
  \<comment> \<open>\<open>v?.[0]\<close>\<close>
  "first_of v = (case v of Some (JArr (x # _)) \<Rightarrow> Some x | Some (JStr (c # _)) \<Rightarrow> Some (JStr [c]) | _ \<Rightarrow> None)"

section \<open>Filling the form\<close>

definition ensure :: "string \<Rightarrow> json \<Rightarrow> json \<Rightarrow> json" where
  \<comment> \<open>\<open>if (!data.k) data.k = v\<close>\<close>
  "ensure k v data = (if truthy_opt (jget k data) then data else jset k v data)"

definition form_of_inbound :: "json \<Rightarrow> json" where
  "form_of_inbound initialData =
     (let fallback = DEFAULT_BY_TYPE (jget ''type'' initialData);
          d1 = ensure ''transport'' (spread (jget ''transport'' fallback)) initialData;
          d2 = ensure ''tls'' (spread (jget ''tls'' fallback)) d1;
          tls = or_json (jget ''tls'' d2) (JObj []);
          tls1 = (if jget ''type'' d2 = Some (JStr ''vless'') then ensure ''reality'' default_reality tls else tls);
          tls2 = ensure ''alpn'' default_alpn tls1;
          d3 = jset ''tls'' tls2 d2;
          port = jget ''external_port'' d3
      in jset ''external_port'' (JStr (if truthy_opt port then string_of port else [])) d3)"

text \<open>The effect that runs when the form opens, closes or is given another inbound, and the one that
  runs when the data of the form has changed.\<close>

definition load_form :: "inbounds_state \<Rightarrow> inbounds_state" where
  "load_form s =
     s\<lparr>formData :=
         (case editingInbound s of
            Some j \<Rightarrow> if truthy j then form_of_inbound j else DEFAULT_VLESS
          | None \<Rightarrow> DEFAULT_VLESS),
       validationError := [], certError := []\<rparr>"

definition clear_errors :: "inbounds_state \<Rightarrow> inbounds_state" where
  "clear_errors s = s\<lparr>validationError := [], certError := []\<rparr>"

definition setFormData :: "(json \<Rightarrow> json) \<Rightarrow> inbounds_state \<Rightarrow> inbounds_state" where
  "setFormData f s = clear_errors (s\<lparr>formData := f (formData s)\<rparr>)"

section \<open>Editing the form\<close>

definition changeType :: "string \<Rightarrow> json \<Rightarrow> json" where
  "changeType nextType prev =
     (let nextDefaults = DEFAULT_BY_TYPE (Some (JStr nextType));
          keep = (\<lambda>k d. or_json (jget k prev) (nullish (jget k nextDefaults) d))
      in jset ''external_port'' (or_json (jget ''external_port'' prev) (JStr []))
          (jset ''listen_port'' (keep ''listen_port'' JNull)
            (jset ''listen'' (keep ''listen'' JNull)
              (jset ''tag'' (keep ''tag'' JNull) nextDefaults))))"

definition set_tls :: "string \<Rightarrow> json \<Rightarrow> json \<Rightarrow> json" where
  "set_tls k v form = jset ''tls'' (jset k v (spread (jget ''tls'' form))) form"

definition set_reality :: "string \<Rightarrow> json \<Rightarrow> json \<Rightarrow> json" where
  "set_reality k v form =
     set_tls ''reality'' (jset k v (spread (jget_opt ''reality'' (jget ''tls'' form)))) form"

definition set_handshake :: "string \<Rightarrow> json \<Rightarrow> json \<Rightarrow> json" where
  "set_handshake k v form =
     set_reality ''handshake''
       (jset k v (spread (jget_opt ''handshake'' (jget_opt ''reality'' (jget ''tls'' form))))) form"

definition set_transport :: "string \<Rightarrow> json \<Rightarrow> json \<Rightarrow> json" where
  "set_transport k v form = jset ''transport'' (jset k v (spread (jget ''transport'' form))) form"

definition changeAlpn :: "string \<Rightarrow> json \<Rightarrow> json" where
  "changeAlpn v = set_tls ''alpn''
     (JArr (map JStr (filter (\<lambda>t. t \<noteq> []) (map trim (split_on (CHR '','') v)))))"

section \<open>Submitting the form\<close>

definition tlsEnabled :: "json \<Rightarrow> bool" where
  "tlsEnabled form = truthy_opt (jget_opt ''enabled'' (jget ''tls'' form))"

definition reality_of :: "json \<Rightarrow> json option" where
  "reality_of form = jget_opt ''reality'' (jget ''tls'' form)"

definition realityEnabled :: "json \<Rightarrow> bool" where
  "realityEnabled form = truthy_opt (jget_opt ''enabled'' (reality_of form))"

definition hasCert :: "json \<Rightarrow> bool" where
  "hasCert form \<longleftrightarrow> truthy_opt (jget_opt ''certificate_path'' (jget ''tls'' form)) \<and>
     truthy_opt (jget_opt ''key_path'' (jget ''tls'' form))"

definition is_vless :: "json \<Rightarrow> bool" where
  "is_vless form \<longleftrightarrow> jget ''type'' form = Some (JStr ''vless'')"

definition requiresCert :: "json \<Rightarrow> bool" where
  "requiresCert form \<longleftrightarrow> tlsEnabled form \<and> \<not> (is_vless form \<and> realityEnabled form)"

definition hasReality :: "json \<Rightarrow> bool" where
  "hasReality form \<longleftrightarrow>
     truthy_opt (jget_opt ''server'' (jget_opt ''handshake'' (reality_of form))) \<and>
     truthy_opt (jget_opt ''private_key'' (reality_of form)) \<and>
     truthy_opt (first_of (jget_opt ''short_id'' (reality_of form)))"

definition set_external_port :: "json \<Rightarrow> json \<Rightarrow> json option" where
  "set_external_port form submission =
     (let externalPortRaw = trim (case jget ''external_port'' form of
              None \<Rightarrow> [] | Some JNull \<Rightarrow> [] | Some j \<Rightarrow> to_string j)
      in if externalPortRaw \<noteq> []
         then (case parse_int externalPortRaw of
                 Some p \<Rightarrow> if p \<le> 0 then None else Some (jset ''external_port'' (JNum p) submission)
               | None \<Rightarrow> None)
         else Some (jdelete ''external_port'' submission))"

definition clean_transport :: "json \<Rightarrow> json" where
  "clean_transport form =
     (let transport = jget ''transport'' form;
          transportType = or_json (jget_opt ''type'' transport) (JStr ''http'');
          path = jget_opt ''path'' transport;
          service_name = jget_opt ''service_name'' transport
      in obj ([(''type'', Some transportType)] @
           (if transportType \<in> {JStr ''http'', JStr ''ws'', JStr ''httpupgrade''}
            then (if truthy_opt path then [(''path'', path)] else [])
            else if transportType = JStr ''grpc''
            then (if truthy_opt service_name then [(''service_name'', service_name)] else [])
            else [])))"

definition set_clean_transport :: "json \<Rightarrow> json \<Rightarrow> json" where
  "set_clean_transport form submission =
     (if truthy_opt (jget_opt ''enabled'' (jget ''transport'' form))
      then jset ''transport'' (clean_transport form) submission
      else jdelete ''transport'' submission)"

text \<open>\<open>delete submission.tls.reality\<close> changes the object \<open>tls\<close>, which the submission shares with the
  data of the form.\<close>

definition drop_reality :: "json \<Rightarrow> json" where
  "drop_reality submission =
     (if \<not> is_vless submission \<and> truthy_opt (reality_of submission)
      then (case jget ''tls'' submission of
              Some tls \<Rightarrow> jset ''tls'' (jdelete ''reality'' tls) submission
            | None \<Rightarrow> submission)
      else submission)"

datatype outcome = Invalid string | Alerted string | Submitted json

definition submission_of :: "json \<Rightarrow> outcome" where
  "submission_of form =
     (if requiresCert form \<and> \<not> hasCert form
      then Invalid ''TLS is enabled but certificate/key paths are missing.''
      else if is_vless form \<and> realityEnabled form \<and> \<not> hasReality form
      then Invalid ''Reality is enabled but server, private key, or short ID is missing.''
      else if \<not> truthy_opt (jget ''tag'' form) \<or> \<not> truthy_opt (jget ''listen_port'' form)
      then Alerted ''Tag and Port are required''
      else
        (case set_external_port form
                (jset ''listen_port'' (num_json (num_of_parse (parse_int (string_of (jget ''listen_port'' form))))) form) of
           None \<Rightarrow> Alerted ''External Port must be a valid number''
         | Some submission \<Rightarrow> Submitted (drop_reality (set_clean_transport form submission))))"

section \<open>The list\<close>

definition loadInbounds :: "unit inbounds_io" where
  "loadInbounds =
     seq (modify (\<lambda>s. s\<lparr>loading := True\<rparr>))
       (try_finally
         (try_catch
           (bind getSingboxInbounds (\<lambda>data.
              case data of
                JArr xs \<Rightarrow> modify (\<lambda>s. s\<lparr>inbounds := xs\<rparr>)
              | j \<Rightarrow> if truthy j then Throw ill_typed else modify (\<lambda>s. s\<lparr>inbounds := []\<rparr>)))
           (\<lambda>_. toastError ''Failed to load inbounds''))
         (modify (\<lambda>s. s\<lparr>loading := False\<rparr>)))"

definition handleDelete :: "bool \<Rightarrow> string \<Rightarrow> unit inbounds_io" where
  "handleDelete confirmed tag =
     (if \<not> confirmed then skip
      else
        try_catch
          (seq (deleteSingboxInbound tag) (seq (success ''Inbound deleted successfully'') loadInbounds))
          (\<lambda>err. toastError (''Failed to delete inbound: '' @ show_err err)))"

definition handleEdit :: "json \<Rightarrow> inbounds_state \<Rightarrow> inbounds_state" where
  "handleEdit inbound s = s\<lparr>editingInbound := Some inbound, isModalOpen := True\<rparr>"

definition handleAdd :: "inbounds_state \<Rightarrow> inbounds_state" where
  "handleAdd s = s\<lparr>editingInbound := None, isModalOpen := True\<rparr>"

definition handleSave :: "inbounds_state \<Rightarrow> json \<Rightarrow> unit inbounds_io" where
  "handleSave c config =
     try_catch
       (seq
         (if truthy_opt (editingInbound c)
          then seq (updateSingboxInbound (string_of (jget_opt ''tag'' (editingInbound c))) config)
                 (success ''Inbound updated successfully'')
          else seq (addSingboxInbound config) (success ''Inbound created successfully''))
         (seq (modify (\<lambda>s. s\<lparr>isModalOpen := False\<rparr>)) loadInbounds))
       (\<lambda>err. toastError (''Failed to save inbound: '' @ show_err err))"

definition handleSubmit :: "inbounds_state \<Rightarrow> unit inbounds_io" where
  "handleSubmit c =
     (case submission_of (formData c) of
        Invalid msg \<Rightarrow> modify (\<lambda>s. s\<lparr>validationError := msg\<rparr>)
      | Alerted msg \<Rightarrow> modify (\<lambda>s. alert msg (s\<lparr>validationError := []\<rparr>))
      | Submitted submission \<Rightarrow>
          seq (modify (\<lambda>s. s\<lparr>validationError := [], formData := drop_reality (formData s)\<rparr>))
            (handleSave c submission))"

definition handleGenerateCert :: "inbounds_state \<Rightarrow> unit inbounds_io" where
  "handleGenerateCert c =
     seq (modify (\<lambda>s. s\<lparr>certLoading := True, certError := []\<rparr>))
       (try_finally
         (try_catch
           (let server_name = str_of (jget_opt ''server_name'' (jget ''tls'' (formData c)));
                tag = str_of (jget ''tag'' (formData c));
                commonName = trim (str_or server_name tag)
            in bind (generateSelfSignedCert (Some tag) (Some (str_or commonName ''localhost''))) (\<lambda>(cert, key).
                 modify (setFormData (\<lambda>prev. set_tls ''key_path'' (JStr key)
                   (set_tls ''certificate_path'' (JStr cert) prev)))))
           (\<lambda>err. modify (\<lambda>s. s\<lparr>certError := str_or (err_message err) ''Failed to generate certificate''\<rparr>)))
         (modify (\<lambda>s. s\<lparr>certLoading := False\<rparr>)))"

section \<open>InboundUserModal\<close>

record inbound_user =
  iu_name :: string
  iu_uuid :: string
  iu_flow :: string

definition user_form :: "inbound_user option \<Rightarrow> string \<Rightarrow> inbound_user" where
  \<comment> \<open>the second argument is the id that \<open>uuidv4()\<close> draws\<close>
  "user_form initialData uuid =
     (case initialData of
        Some u \<Rightarrow> u
      | None \<Rightarrow> \<lparr>iu_name = [], iu_uuid = uuid, iu_flow = ''xtls-rprx-vision''\<rparr>)"

text \<open>\<open>handleSubmit\<close> of the user's form: the user that is handed to the parent, if any.\<close>

definition submit_user :: "inbound_user \<Rightarrow> inbound_user option" where
  "submit_user u = (if iu_name u = [] \<or> iu_uuid u = [] then None else Some u)"

end
