(* ===== verification/Inbounds_Facts.thy ===== *)
theory Inbounds_Facts
  imports Inbounds
begin

text \<open>
  What the inbound form sends, and what happens to an inbound that is opened in the form and saved again.
\<close>

section \<open>Members of updated objects\<close>

lemma jget_jset: "jget k' (jset k v j) = (if k' = k then (case j of JObj _ \<Rightarrow> Some v | _ \<Rightarrow> None) else jget k' j)"
  by (cases j) auto

lemma jget_obj_only: "jget k j = Some v \<Longrightarrow> \<exists>ms. j = JObj ms"
  by (cases j) auto

lemma truthy_jget: "truthy_opt (jget k j) \<Longrightarrow> \<exists>ms. j = JObj ms"
  by (cases j) auto

lemma object_jset: "\<exists>ms. jset k v (JObj ns) = JObj ms" "\<exists>ms. jdelete k (JObj ns) = JObj ms"
  by auto

lemma falsy_members: "\<not> truthy_opt v \<Longrightarrow> jget_opt k v = None"
  by (cases v; cases "the v") auto

section \<open>The parts of a submission\<close>

definition external_raw :: "json \<Rightarrow> string" where
  "external_raw form = trim (case jget ''external_port'' form of
      None \<Rightarrow> [] | Some JNull \<Rightarrow> [] | Some j \<Rightarrow> to_string j)"

lemma set_external_port_raw:
  "set_external_port form submission =
     (if external_raw form \<noteq> []
      then (case parse_int (external_raw form) of
              Some p \<Rightarrow> if p \<le> 0 then None else Some (jset ''external_port'' (JNum p) submission)
            | None \<Rightarrow> None)
      else Some (jdelete ''external_port'' submission))"
  by (simp only: set_external_port_def external_raw_def Let_def)

lemma set_external_port_get:
  assumes "set_external_port form (JObj ms) = Some j"
  shows "\<exists>ns. j = JObj ns" and "k \<noteq> ''external_port'' \<Longrightarrow> jget k j = jget k (JObj ms)"
    and "jget ''external_port'' j = None \<or> (\<exists>p. jget ''external_port'' j = Some (JNum p) \<and> 0 < p)"
    and "jget ''external_port'' j =
      (if external_raw form = [] then None else map_option JNum (parse_int (external_raw form)))"
  using assms by (auto simp: set_external_port_raw split: if_splits option.splits)

lemma set_clean_transport_get:
  "\<exists>ns. set_clean_transport form (JObj ms) = JObj ns"
  "k \<noteq> ''transport'' \<Longrightarrow> jget k (set_clean_transport form (JObj ms)) = jget k (JObj ms)"
  "jget ''transport'' (set_clean_transport form (JObj ms)) =
     (if truthy_opt (jget_opt ''enabled'' (jget ''transport'' form)) then Some (clean_transport form) else None)"
  by (auto simp: set_clean_transport_def)

lemma drop_reality_get:
  "k \<noteq> ''tls'' \<Longrightarrow> jget k (drop_reality j) = jget k j"
  "k \<noteq> ''reality'' \<Longrightarrow> jget_opt k (jget ''tls'' (drop_reality j)) = jget_opt k (jget ''tls'' j)"
  "reality_of (drop_reality j) = (if \<not> is_vless j \<and> truthy_opt (reality_of j) then None else reality_of j)"
proof -
  show "k \<noteq> ''tls'' \<Longrightarrow> jget k (drop_reality j) = jget k j"
    by (simp add: drop_reality_def split: option.splits)
  have obj: "\<exists>ms. j = JObj ms" if "jget ''tls'' j = Some v" for v using that by (rule jget_obj_only)
  show "k \<noteq> ''reality'' \<Longrightarrow> jget_opt k (jget ''tls'' (drop_reality j)) = jget_opt k (jget ''tls'' j)"
    using obj by (cases "jget ''tls'' j") (fastforce simp: drop_reality_def)+
  show "reality_of (drop_reality j) = (if \<not> is_vless j \<and> truthy_opt (reality_of j) then None else reality_of j)"
    using obj by (cases "jget ''tls'' j") (fastforce simp: drop_reality_def reality_of_def)+
qed

lemma clean_transport_members:
  "jget ''enabled'' (clean_transport form) = None"
  "jget ''type'' (clean_transport form) \<noteq> None"
  "truthy (clean_transport form)"
  by (auto simp: clean_transport_def Let_def obj_def List.map_filter_simps split: option.split)

lemma clean_transport_obj: "\<exists>ms. clean_transport form = JObj ms"
  by (simp add: clean_transport_def obj_def Let_def)

text \<open>What is guaranteed of an inbound that the form hands on.\<close>

definition sound_inbound :: "json \<Rightarrow> bool" where
  "sound_inbound j \<longleftrightarrow>
     truthy_opt (jget ''tag'' j) \<and>
     (tlsEnabled j \<and> \<not> (is_vless j \<and> realityEnabled j) \<longrightarrow> hasCert j) \<and>
     (is_vless j \<and> realityEnabled j \<longrightarrow> hasReality j) \<and>
     (\<not> is_vless j \<longrightarrow> \<not> truthy_opt (reality_of j)) \<and>
     (jget ''external_port'' j = None \<or> (\<exists>p. jget ''external_port'' j = Some (JNum p) \<and> 0 < p)) \<and>
     jget_opt ''enabled'' (jget ''transport'' j) = None"

definition port_of :: "json \<Rightarrow> jsnum" where
  "port_of form = num_of_parse (parse_int (string_of (jget ''listen_port'' form)))"

lemma submitted_parts:
  assumes "submission_of form = Submitted j"
  obtains ms sub where "form = JObj ms"
    "set_external_port form (jset ''listen_port'' (num_json (port_of form)) form) = Some sub"
    "j = drop_reality (set_clean_transport form sub)"
    "requiresCert form \<longrightarrow> hasCert form" "is_vless form \<and> realityEnabled form \<longrightarrow> hasReality form"
    "truthy_opt (jget ''tag'' form)"
proof -
  have t: "truthy_opt (jget ''tag'' form)"
    using assms by (auto simp: submission_of_def split: if_splits)
  then obtain ms where "form = JObj ms" using truthy_jget by blast
  with t show ?thesis
    using assms that by (auto simp: submission_of_def port_of_def split: if_splits option.splits)
qed

lemma submitted_members:
  assumes "submission_of form = Submitted j"
  shows "k \<notin> {''listen_port'', ''external_port'', ''transport'', ''tls''} \<Longrightarrow> jget k j = jget k form"
    and "jget ''listen_port'' j = Some (num_json (port_of form))"
    and "jget ''external_port'' j = None \<or> (\<exists>p. jget ''external_port'' j = Some (JNum p) \<and> 0 < p)"
    and "jget ''transport'' j =
      (if truthy_opt (jget_opt ''enabled'' (jget ''transport'' form)) then Some (clean_transport form) else None)"
    and "k \<noteq> ''reality'' \<Longrightarrow> jget_opt k (jget ''tls'' j) = jget_opt k (jget ''tls'' form)"
    and "reality_of j = (if \<not> is_vless form \<and> truthy_opt (reality_of form) then None else reality_of form)"
    and "jget ''external_port'' j =
      (if external_raw form = [] then None else map_option JNum (parse_int (external_raw form)))"
proof -
  obtain ms sub where form: "form = JObj ms"
    and sub: "set_external_port form (jset ''listen_port'' (num_json (port_of form)) form) = Some sub"
    and j: "j = drop_reality (set_clean_transport form sub)"
    using assms by (rule submitted_parts)
  obtain ps where p: "jset ''listen_port'' (num_json (port_of form)) form = JObj ps" unfolding form by auto
  obtain ns where s: "sub = JObj ns" using set_external_port_get(1) [OF sub [unfolded p]] by blast
  have get: "jget k sub = (if k = ''listen_port'' then Some (num_json (port_of form)) else jget k form)"
    if "k \<noteq> ''external_port''" for k
    using set_external_port_get(2) [OF sub [unfolded p] that] unfolding p [symmetric] form by simp
  note tr = set_clean_transport_get [where ms = ns, folded s]
  show "k \<notin> {''listen_port'', ''external_port'', ''transport'', ''tls''} \<Longrightarrow> jget k j = jget k form"
    unfolding j by (simp add: drop_reality_get tr get)
  show "jget ''listen_port'' j = Some (num_json (port_of form))"
    unfolding j by (simp add: drop_reality_get tr get)
  show "jget ''external_port'' j = None \<or> (\<exists>p. jget ''external_port'' j = Some (JNum p) \<and> 0 < p)"
    using set_external_port_get(3) [OF sub [unfolded p]] unfolding j by (simp add: drop_reality_get tr)
  show "jget ''transport'' j =
      (if truthy_opt (jget_opt ''enabled'' (jget ''transport'' form)) then Some (clean_transport form) else None)"
    unfolding j by (simp add: drop_reality_get tr)
  have vless: "is_vless (set_clean_transport form sub) = is_vless form"
    by (simp add: is_vless_def tr get)
  have tls: "jget ''tls'' (set_clean_transport form sub) = jget ''tls'' form"
    by (simp add: tr get)
  show "k \<noteq> ''reality'' \<Longrightarrow> jget_opt k (jget ''tls'' j) = jget_opt k (jget ''tls'' form)"
    unfolding j by (simp add: drop_reality_get(2) tls)
  show "reality_of j = (if \<not> is_vless form \<and> truthy_opt (reality_of form) then None else reality_of form)"
    unfolding j drop_reality_get(3) vless by (simp add: reality_of_def tls)
  show "jget ''external_port'' j =
      (if external_raw form = [] then None else map_option JNum (parse_int (external_raw form)))"
    using set_external_port_get(4) [OF sub [unfolded p]] unfolding j by (simp add: drop_reality_get tr)
qed

lemma submitted_sound: "submission_of form = Submitted j \<Longrightarrow> sound_inbound j"
proof -
  assume a: "submission_of form = Submitted j"
  note m = submitted_members [OF a]
  obtain ms sub where "form = JObj ms"
    and "set_external_port form (jset ''listen_port'' (num_json (port_of form)) form) = Some sub"
    and "j = drop_reality (set_clean_transport form sub)" and c: "requiresCert form \<longrightarrow> hasCert form"
    and r: "is_vless form \<and> realityEnabled form \<longrightarrow> hasReality form" and t: "truthy_opt (jget ''tag'' form)"
    using a by (rule submitted_parts)
  have v: "is_vless j = is_vless form" by (simp add: is_vless_def m(1))
  have e: "tlsEnabled j = tlsEnabled form" "hasCert j = hasCert form"
    by (simp_all add: tlsEnabled_def hasCert_def m(5))
  have re: "is_vless form \<Longrightarrow> realityEnabled j = realityEnabled form"
    "is_vless form \<Longrightarrow> hasReality j = hasReality form"
    by (simp_all add: realityEnabled_def hasReality_def m(6))
  obtain ts where "clean_transport form = JObj ts" using clean_transport_obj by blast
  with clean_transport_members(1) [of form]
  have "jget_opt ''enabled'' (jget ''transport'' j) = None" by (simp add: m(4))
  then show "sound_inbound j"
    unfolding sound_inbound_def v e using c r t re m(3)
    by (auto simp: m(1) m(6) requiresCert_def)
qed

section \<open>Running a submission\<close>

definition save_request :: "inbounds_state \<Rightarrow> json \<Rightarrow> http_request" where
  "save_request s j =
     (if truthy_opt (editingInbound s)
      then request ''PUT'' (''/api/singbox/inbound?tag='' @
             encodeURIComponent (string_of (jget_opt ''tag'' (editingInbound s)))) json_type (Some (JsonBody j)) s
      else request ''POST'' ''/api/singbox/inbound'' json_type (Some (JsonBody j)) s)"

definition submitting :: "inbounds_state \<Rightarrow> inbounds_state" where
  "submitting s = s\<lparr>validationError := [], formData := drop_reality (formData s)\<rparr>"

lemma save_request_submitting:
  "request m u ct b (submitting s) = request m u ct b s"
  by (simp add: request_def buildHeaders_def stored_token_def submitting_def)

lemma settle_handleSubmit:
  assumes "submission_of (formData s) = Submitted j"
  shows "\<exists>k. settle (handleSubmit s) s = (Await (save_request s j) k, submitting s)"
    "forked (handleSubmit s) s = []"
  using assms save_request_submitting [of _ _ _ _ s]
  by (simp_all add: handleSubmit_def handleSave_def updateSingboxInbound_def addSingboxInbound_def call_void_def
      send_def fetch_def modify_def save_request_def submitting_def [symmetric] request_def [symmetric])

section \<open>Opening an inbound in the form\<close>

lemma spread_default_transport:
  "jget_opt ''enabled'' (Some (spread (jget ''transport'' (DEFAULT_BY_TYPE ty)))) = Some (JBool False)"
  by (simp add: DEFAULT_BY_TYPE_def DEFAULT_VLESS_def DEFAULT_VMESS_def DEFAULT_TROJAN_def
      default_inbound_def spread_def)

lemma spread_default_tls:
  "jget_opt ''enabled'' (Some (spread (jget ''tls'' (DEFAULT_BY_TYPE ty)))) = Some (JBool False)"
  "ty = Some (JStr ''vless'') \<Longrightarrow>
     jget_opt ''reality'' (Some (spread (jget ''tls'' (DEFAULT_BY_TYPE ty)))) = Some default_reality"
  by (simp_all add: DEFAULT_BY_TYPE_def DEFAULT_VLESS_def DEFAULT_VMESS_def DEFAULT_TROJAN_def
      default_inbound_def spread_def)

lemma default_reality_off: "jget ''enabled'' default_reality = Some (JBool False)" "truthy default_reality"
  by (simp_all add: default_reality_def)

lemma jget_ensure: "jget k' (ensure k v j) =
    (if k' = k \<and> \<not> truthy_opt (jget k j) then (case j of JObj _ \<Rightarrow> Some v | _ \<Rightarrow> None) else jget k' j)"
  by (simp add: ensure_def jget_jset)

lemma ensure_object: "\<exists>ns. ensure k v (JObj ms) = JObj ns"
  by (simp add: ensure_def)

text \<open>The TLS part of the form.\<close>

definition form_tls :: "json \<Rightarrow> json" where
  "form_tls j =
     (let ty = jget ''type'' j;
          tls = (if truthy_opt (jget ''tls'' j) then the (jget ''tls'' j)
                 else spread (jget ''tls'' (DEFAULT_BY_TYPE ty)))
      in ensure ''alpn'' default_alpn
           (if ty = Some (JStr ''vless'') then ensure ''reality'' default_reality tls else tls))"

lemma form_of_inbound_get:
  assumes "j = JObj ms"
  shows "k \<notin> {''transport'', ''tls'', ''external_port''} \<Longrightarrow> jget k (form_of_inbound j) = jget k j"
    and "jget ''transport'' (form_of_inbound j) =
      (if truthy_opt (jget ''transport'' j) then jget ''transport'' j
       else Some (spread (jget ''transport'' (DEFAULT_BY_TYPE (jget ''type'' j)))))"
    and "jget ''tls'' (form_of_inbound j) = Some (form_tls j)"
    and "jget ''external_port'' (form_of_inbound j) =
      Some (JStr (if truthy_opt (jget ''external_port'' j) then string_of (jget ''external_port'' j) else []))"
proof -
  let ?dflt = "DEFAULT_BY_TYPE (jget ''type'' j)"
  obtain n1 where 1: "ensure ''transport'' (spread (jget ''transport'' ?dflt)) j = JObj n1"
    using ensure_object assms by metis
  obtain n2 where 2: "ensure ''tls'' (spread (jget ''tls'' ?dflt)) (JObj n1) = JObj n2"
    using ensure_object by metis
  have g1: "jget k (JObj n1) = (if k = ''transport'' \<and> \<not> truthy_opt (jget ''transport'' j)
      then Some (spread (jget ''transport'' ?dflt)) else jget k j)" for k
    unfolding 1 [symmetric] by (simp add: jget_ensure assms)
  have g2: "jget k (JObj n2) = (if k = ''tls'' \<and> \<not> truthy_opt (jget ''tls'' j)
      then Some (spread (jget ''tls'' ?dflt)) else jget k (JObj n1))" for k
    unfolding 2 [symmetric] using g1 [of "''tls''"] by (simp add: jget_ensure)
  have t: "truthy (spread v)" for v by (simp add: spread_def split: option.split json.split)
  have tls: "or_json (jget ''tls'' (JObj n2)) (JObj []) =
      (if truthy_opt (jget ''tls'' j) then the (jget ''tls'' j) else spread (jget ''tls'' ?dflt))"
    using t g1 [of "''tls''"] g2 [of "''tls''"] by (cases "jget ''tls'' j") (auto simp: or_json_def)
  have form: "form_of_inbound j = jset ''external_port''
      (JStr (if truthy_opt (jget ''external_port'' j) then string_of (jget ''external_port'' j) else []))
      (jset ''tls'' (form_tls j) (JObj n2))"
    unfolding form_of_inbound_def Let_def 1 2 tls
    using g1 [of "''type''"] g1 [of "''external_port''"] g2 [of "''type''"] g2 [of "''external_port''"]
    by (simp add: form_tls_def Let_def)
  show "k \<notin> {''transport'', ''tls'', ''external_port''} \<Longrightarrow> jget k (form_of_inbound j) = jget k j"
    "jget ''transport'' (form_of_inbound j) =
      (if truthy_opt (jget ''transport'' j) then jget ''transport'' j
       else Some (spread (jget ''transport'' ?dflt)))"
    "jget ''tls'' (form_of_inbound j) = Some (form_tls j)"
    "jget ''external_port'' (form_of_inbound j) =
      Some (JStr (if truthy_opt (jget ''external_port'' j) then string_of (jget ''external_port'' j) else []))"
    unfolding form using g1 g2 by (auto simp: jget_jset)
qed

text \<open>The form of an inbound asks for no more of TLS and Reality than the inbound has.\<close>

lemma form_tls_get:
  assumes "k \<notin> {''alpn'', ''reality''}"
  shows "jget k (form_tls j) =
     (if truthy_opt (jget ''tls'' j) then jget_opt k (jget ''tls'' j)
      else jget k (spread (jget ''tls'' (DEFAULT_BY_TYPE (jget ''type'' j)))))"
  using assms by (cases "jget ''tls'' j") (auto simp: form_tls_def Let_def jget_ensure)

lemma form_tls_reality:
  "jget ''reality'' (form_tls j) =
     (if is_vless j \<and> \<not> truthy_opt (reality_of j) then
        (case (if truthy_opt (jget ''tls'' j) then jget ''tls'' j else Some (JObj [])) of
           Some (JObj _) \<Rightarrow> Some default_reality | _ \<Rightarrow> None)
      else if truthy_opt (jget ''tls'' j) then reality_of j
      else jget ''reality'' (spread (jget ''tls'' (DEFAULT_BY_TYPE (jget ''type'' j)))))"
proof (cases "truthy_opt (jget ''tls'' j)")
  case True
  then obtain tls where "jget ''tls'' j = Some tls" "truthy tls" by (cases "jget ''tls'' j") auto
  then show ?thesis by (simp add: form_tls_def Let_def jget_ensure reality_of_def is_vless_def)
next
  case False
  then have r: "reality_of j = None" unfolding reality_of_def by (rule falsy_members)
  show ?thesis
    using False spread_default_tls(2) [of "jget ''type'' j"] default_reality_off(2)
    by (auto simp: form_tls_def Let_def jget_ensure is_vless_def r)
qed

lemma form_requirements:
  assumes j: "j = JObj ms" and c: "requiresCert j \<longrightarrow> hasCert j"
    and r: "is_vless j \<and> realityEnabled j \<longrightarrow> hasReality j"
  shows "requiresCert (form_of_inbound j) \<longrightarrow> hasCert (form_of_inbound j)"
    and "is_vless (form_of_inbound j) \<and> realityEnabled (form_of_inbound j) \<longrightarrow> hasReality (form_of_inbound j)"
proof -
  let ?f = "form_of_inbound j"
  note get = form_of_inbound_get [OF j]
  have v: "is_vless ?f = is_vless j" by (simp add: is_vless_def get(1))
  have ro: "reality_of ?f = jget ''reality'' (form_tls j)" by (simp add: reality_of_def get(3))
  have en: "jget_opt ''enabled'' (jget ''tls'' ?f) =
      (if truthy_opt (jget ''tls'' j) then jget_opt ''enabled'' (jget ''tls'' j) else Some (JBool False))"
    using spread_default_tls(1) by (simp add: get(3) form_tls_get)
  have te: "tlsEnabled ?f \<longleftrightarrow> truthy_opt (jget ''tls'' j) \<and> tlsEnabled j"
    unfolding tlsEnabled_def en by simp
  have re: "realityEnabled ?f = realityEnabled j \<and> (realityEnabled j \<longrightarrow> hasReality ?f = hasReality j)"
    if vl: "is_vless j"
  proof (cases "truthy_opt (reality_of j)")
    case True
    then have "truthy_opt (jget ''tls'' j)"
      using falsy_members [of "jget ''tls'' j" "''reality''"] by (cases "truthy_opt (jget ''tls'' j)") (auto simp: reality_of_def)
    with True have "reality_of ?f = reality_of j" by (simp add: ro form_tls_reality)
    then show ?thesis by (simp add: realityEnabled_def hasReality_def)
  next
    case False
    then have "\<not> realityEnabled j" using falsy_members [of "reality_of j"] by (simp add: realityEnabled_def)
    moreover have "\<not> realityEnabled ?f"
      using vl False default_reality_off(1)
      by (auto simp: realityEnabled_def ro form_tls_reality split: option.split json.split)
    ultimately show ?thesis by simp
  qed
  show "is_vless ?f \<and> realityEnabled ?f \<longrightarrow> hasReality ?f"
    using r re by (auto simp: v)
  show "requiresCert ?f \<longrightarrow> hasCert ?f"
  proof
    assume "requiresCert ?f"
    then have t: "truthy_opt (jget ''tls'' j)" and "requiresCert j"
      using re by (auto simp: requiresCert_def te v)
    with c have "hasCert j" by simp
    with t show "hasCert ?f" by (simp add: hasCert_def get(3) form_tls_get)
  qed
qed

lemma parse_positive: "0 < p \<Longrightarrow> trim (string_of (Some (JNum p))) = show_int p \<and> show_int p \<noteq> [] \<and> parse_int (show_int p) = Some p"
  using parse_int_show_int [of p] by (auto simp: string_of_def trim_show_int parse_int_def)

lemma show_int_not_Nil: "show_int p \<noteq> []"
  by (simp add: show_int_def)

lemma external_raw_form:
  assumes j: "j = JObj ms"
    and e: "jget ''external_port'' j = None \<or> (\<exists>p. jget ''external_port'' j = Some (JNum p) \<and> 0 < p)"
  shows "(if external_raw (form_of_inbound j) = [] then None
      else map_option JNum (parse_int (external_raw (form_of_inbound j)))) = jget ''external_port'' j"
    and "\<exists>sub. set_external_port (form_of_inbound j) k = Some sub"
proof -
  note get = form_of_inbound_get(4) [OF j]
  have "external_raw (form_of_inbound j) = [] \<and> jget ''external_port'' j = None \<or>
    (\<exists>p. 0 < p \<and> external_raw (form_of_inbound j) = show_int p \<and> jget ''external_port'' j = Some (JNum p))"
    using e
  proof
    assume "jget ''external_port'' j = None"
    then show ?thesis by (simp add: external_raw_def get)
  next
    assume "\<exists>p. jget ''external_port'' j = Some (JNum p) \<and> 0 < p"
    then obtain p where "jget ''external_port'' j = Some (JNum p)" "0 < p" by blast
    then show ?thesis using parse_positive [of p] by (auto simp: external_raw_def get string_of_def)
  qed
  then show "(if external_raw (form_of_inbound j) = [] then None
      else map_option JNum (parse_int (external_raw (form_of_inbound j)))) = jget ''external_port'' j"
    "\<exists>sub. set_external_port (form_of_inbound j) k = Some sub"
    using parse_positive show_int_not_Nil by (auto simp: set_external_port_raw show_int_not_Nil [symmetric])
qed

lemma resubmit:
  assumes a: "submission_of form = Submitted j" and n: "num_truthy (port_of form)"
  shows "\<exists>j'. submission_of (form_of_inbound j) = Submitted j'"
proof -
  note sound = submitted_sound [OF a, unfolded sound_inbound_def]
  note m = submitted_members [OF a]
  obtain ms where j: "j = JObj ms" using m(2) jget_obj_only by blast
  note get = form_of_inbound_get [OF j]
  note req = form_requirements [OF j]
  have c: "requiresCert j \<longrightarrow> hasCert j" "is_vless j \<and> realityEnabled j \<longrightarrow> hasReality j"
    using sound by (auto simp: requiresCert_def)
  have "truthy_opt (jget ''listen_port'' j)" using n by (auto simp: m(2) port_of_def num_of_parse_def split: option.splits)
  moreover have "truthy_opt (jget ''tag'' j)" using sound by blast
  moreover obtain sub where "set_external_port (form_of_inbound j)
      (jset ''listen_port'' (num_json (num_of_parse (parse_int (string_of (jget ''listen_port'' (form_of_inbound j))))))
        (form_of_inbound j)) = Some sub"
    using external_raw_form(2) [OF j m(3)] by blast
  ultimately show ?thesis
    using req [OF c] by (auto simp: submission_of_def get(1))
qed

section \<open>Properties\<close>



section \<open>Witnesses\<close>

definition sample_form :: json where
  "sample_form = set_transport ''enabled'' (JBool True) (jset ''external_port'' (JStr ''8443'') DEFAULT_VMESS)"

definition sample_inbounds_state :: inbounds_state where
  "sample_inbounds_state = browser.extend sample_browser
     \<lparr>inbounds = [], loading = False, isModalOpen = True, editingInbound = None, formData = sample_form,
      validationError = [], certLoading = False, certError = []\<rparr>"



end
