(* ===== verification/Inbounds_View.thy ===== *)
theory Inbounds_View
  imports Inbounds_Facts
begin

text \<open>
  The fields of the forms of singbox/InboundModal.tsx and InboundUserModal.tsx, what they show, and the
  cards of InboundList.tsx. A field takes the data \<open>form\<close> of the render that created it.
\<close>

section \<open>The fields of an inbound\<close>

definition changeTag :: "string \<Rightarrow> json \<Rightarrow> json" where
  "changeTag v = jset ''tag'' (JStr v)"

definition changeListen :: "string \<Rightarrow> json \<Rightarrow> json" where
  "changeListen v = jset ''listen'' (JStr v)"

definition changeListenPort :: "string \<Rightarrow> json \<Rightarrow> json" where
  "changeListenPort v = jset ''listen_port'' (JStr v)"

definition changeExternalPort :: "string \<Rightarrow> json \<Rightarrow> json" where
  "changeExternalPort v = jset ''external_port'' (JStr v)"

definition changeTls :: "bool \<Rightarrow> json \<Rightarrow> json" where
  "changeTls b = set_tls ''enabled'' (JBool b)"

definition changeReality :: "bool \<Rightarrow> json \<Rightarrow> json" where
  "changeReality b = set_reality ''enabled'' (JBool b)"

definition changeServer :: "string \<Rightarrow> json \<Rightarrow> json" where
  "changeServer v = set_handshake ''server'' (JStr v)"

definition changeServerPort :: "string \<Rightarrow> json \<Rightarrow> json" where
  "changeServerPort v = set_handshake ''server_port'' (num_json (num_of_parse (parse_int v)))"

definition changePrivateKey :: "string \<Rightarrow> json \<Rightarrow> json" where
  "changePrivateKey v = set_reality ''private_key'' (JStr v)"

definition changeShortId :: "string \<Rightarrow> json \<Rightarrow> json" where
  "changeShortId v = set_reality ''short_id'' (JArr [JStr v])"

definition changeCertificatePath :: "string \<Rightarrow> json \<Rightarrow> json" where
  "changeCertificatePath v = set_tls ''certificate_path'' (JStr v)"

definition changeKeyPath :: "string \<Rightarrow> json \<Rightarrow> json" where
  "changeKeyPath v = set_tls ''key_path'' (JStr v)"

definition changeTransport :: "bool \<Rightarrow> json \<Rightarrow> json" where
  "changeTransport b = set_transport ''enabled'' (JBool b)"

definition changeTransportType :: "string \<Rightarrow> json \<Rightarrow> json" where
  "changeTransportType v = set_transport ''type'' (JStr v)"

definition changePath :: "string \<Rightarrow> json \<Rightarrow> json" where
  "changePath v = set_transport ''path'' (JStr v)"

definition changeServiceName :: "string \<Rightarrow> json \<Rightarrow> json" where
  "changeServiceName v = set_transport ''service_name'' (JStr v)"

definition closeModal :: "inbounds_state \<Rightarrow> inbounds_state" where
  "closeModal s = s\<lparr>isModalOpen := False\<rparr>"

section \<open>What the form shows\<close>

definition array_join :: "string \<Rightarrow> json list \<Rightarrow> string" where
  \<comment> \<open>\<open>xs.join(sep)\<close>\<close>
  "array_join sep xs = join_with sep (map (\<lambda>x. if x = JNull then [] else to_string x) xs)"

definition alpn_text :: "json \<Rightarrow> string" where
  \<comment> \<open>of a list, as the field writes it; on another truthy value \<open>join\<close> would throw\<close>
  "alpn_text form =
     (case or_json (jget_opt ''alpn'' (jget ''tls'' form)) (JArr []) of JArr xs \<Rightarrow> array_join '', '' xs | _ \<Rightarrow> [])"

definition handshake_of :: "json \<Rightarrow> json option" where
  "handshake_of form = jget_opt ''handshake'' (reality_of form)"

definition server_port_shown :: "json \<Rightarrow> json" where
  "server_port_shown form = or_json (jget_opt ''server_port'' (handshake_of form)) (JNum 443)"

definition short_id_shown :: "json \<Rightarrow> json" where
  "short_id_shown form =
     (case jget_opt ''short_id'' (reality_of form) of
        Some (JArr xs) \<Rightarrow> or_json (first_of (Some (JArr xs))) (JStr [])
      | v \<Rightarrow> or_json v (JStr []))"

definition modal_title :: "inbounds_state \<Rightarrow> string" where
  "modal_title s = (if truthy_opt (editingInbound s) then ''Edit Inbound'' else ''Add Inbound'')"

definition tag_disabled :: "inbounds_state \<Rightarrow> bool" where
  "tag_disabled s = truthy_opt (editingInbound s)"

definition cert_button :: "inbounds_state \<Rightarrow> (string \<times> bool) option" where
  \<comment> \<open>its text, and whether it is disabled\<close>
  "cert_button s =
     (if \<not> tlsEnabled (formData s) then None
      else if \<not> is_vless (formData s) \<or> \<not> realityEnabled (formData s)
      then Some (if certLoading s then ''Generating...'' else ''Generate Self-Signed'', certLoading s)
      else None)"

definition transport_fields :: "json \<Rightarrow> string list" where
  "transport_fields form =
     (let ty = jget_opt ''type'' (jget ''transport'' form)
      in if \<not> truthy_opt (jget_opt ''enabled'' (jget ''transport'' form)) then []
         else ''type'' #
           (if ty \<in> {Some (JStr ''http''), Some (JStr ''ws''), Some (JStr ''httpupgrade'')} then [''path''] else []) @
           (if ty = Some (JStr ''grpc'') then [''service_name''] else []))"

section \<open>The cards of the list\<close>

text \<open>The card writes the type in capitals.\<close>

record card_view =
  ic_type :: "json option"
  ic_tag :: "json option"
  ic_listen :: json
  ic_port :: "json option"
  ic_tls :: bool
  ic_transport :: json

definition inbound_card :: "json \<Rightarrow> card_view" where
  "inbound_card inbound =
     \<lparr>ic_type = jget ''type'' inbound,
      ic_tag = jget ''tag'' inbound, ic_listen = or_json (jget ''listen'' inbound) (JStr ''::''),
      ic_port = jget ''listen_port'' inbound, ic_tls = tlsEnabled inbound,
      ic_transport = or_json (jget_opt ''type'' (jget ''transport'' inbound)) (JStr ''tcp'')\<rparr>"

definition inbound_cards :: "inbounds_state \<Rightarrow> card_view list option" where
  \<comment> \<open>\<open>None\<close> while loading\<close>
  "inbound_cards s = (if loading s then None else Some (map inbound_card (inbounds s)))"

section \<open>The form of a user\<close>

definition changeUserName :: "string \<Rightarrow> inbound_user \<Rightarrow> inbound_user" where
  "changeUserName v u = u\<lparr>iu_name := v\<rparr>"

definition changeUserUuid :: "string \<Rightarrow> inbound_user \<Rightarrow> inbound_user" where
  \<comment> \<open>typed, or drawn by the button\<close>
  "changeUserUuid v u = u\<lparr>iu_uuid := v\<rparr>"

definition changeUserFlow :: "string \<Rightarrow> inbound_user \<Rightarrow> inbound_user" where
  "changeUserFlow v u = u\<lparr>iu_flow := v\<rparr>"

section \<open>Facts\<close>

lemma trim_skip_space: "is_space c \<Longrightarrow> trim (c # s) = trim s"
  by (simp add: trim_def)

text \<open>A protocol name as it comes out of the field.\<close>

definition clean_name :: "string \<Rightarrow> bool" where
  "clean_name n \<longleftrightarrow> n \<noteq> [] \<and> trim n = n \<and> CHR '','' \<notin> set n"

definition names_of :: "string \<Rightarrow> string list" where
  "names_of v = filter (\<lambda>t. t \<noteq> []) (map trim (split_on (CHR '','') v))"

lemma names_of_comma:
  "CHR '','' \<notin> set x \<Longrightarrow> names_of (x @ CHR '','' # rest) = (if trim x = [] then [] else [trim x]) @ names_of rest"
  by (simp add: names_of_def split_on_sep)

lemma names_of_space: "names_of (CHR '' '' # s) = names_of s"
proof -
  have "is_space (CHR '' '')" by (simp add: is_space_def)
  then show ?thesis by (cases "split_on (CHR '','') s") (simp_all add: names_of_def trim_skip_space)
qed

lemma names_of_joined:
  "list_all clean_name ns \<Longrightarrow> r \<in> {[], '',''} \<Longrightarrow> names_of (join_with '', '' ns @ r) = ns"
proof (induction ns)
  case Nil
  then show ?case by (auto simp: names_of_def)
next
  case (Cons x xs)
  note IH = Cons.IH
  have one: "names_of (x @ r) = [x]"
    using Cons.prems names_of_comma [of x "[]"] by (auto simp: clean_name_def names_of_def split_on_free)
  show ?case
  proof (cases xs)
    case (Cons y ys)
    then show ?thesis
      using \<open>list_all clean_name (x # xs)\<close> \<open>r \<in> {[], '',''}\<close> IH names_of_comma [of x "CHR '' '' # join_with '', '' (y # ys) @ r"]
      by (simp add: names_of_space clean_name_def list_all_iff)
  qed (simp add: one)
qed

lemma member_set_same: "map_of ms k = Some v \<Longrightarrow> member_set k v ms = ms"
  by (induction ms) (auto split: if_splits)

lemma jset_same: "jget k j = Some v \<Longrightarrow> jset k v j = j"
  by (cases j) (simp_all add: member_set_same)

lemma changeAlpn_names: "changeAlpn v form = set_tls ''alpn'' (JArr (map JStr (names_of v))) form"
  by (simp add: changeAlpn_def names_of_def)

section \<open>Properties\<close>

text \<open>C40: the protocols shown in the ALPN field are read back as they were, and so they are when a comma is
  typed behind them: the comma is dropped before the field is shown again, so no second protocol can be
  begun by typing behind the others.\<close>

theorem alpn_comma_dropped:
  assumes "jget ''tls'' form = Some (JObj tls)" and "map_of tls ''alpn'' = Some (JArr (map JStr names))"
    and "list_all clean_name names"
  shows "changeAlpn (alpn_text form) form = form \<and> changeAlpn (alpn_text form @ '','') form = form"
proof -
  have field: "alpn_text form = join_with '', '' names"
    using assms by (simp add: alpn_text_def or_json_def array_join_def comp_def)
  have "set_tls ''alpn'' (JArr (map JStr names)) form = form"
    using assms(1,2) by (simp add: set_tls_def spread_def jset_same member_set_same)
  then show ?thesis
    using names_of_joined [OF assms(3), of "[]"] names_of_joined [OF assms(3), of "'',''"]
    by (simp add: changeAlpn_names field)
qed

text \<open>A handshake port that the user clears is shown as 443, but the inbound that is submitted holds
  null.\<close>

theorem cleared_port_submitted:
  assumes "is_vless form" and "jget ''tls'' form = Some (JObj tls)"
    and "submission_of (changeServerPort [] form) = Submitted j"
  shows "server_port_shown (changeServerPort [] form) = JNum 443 \<and>
    jget_opt ''server_port'' (handshake_of j) = Some JNull"
proof -
  have n: "num_json (num_of_parse (parse_int [])) = JNull" by code_simp
  obtain ms where form: "form = JObj ms" using assms(2) by (cases form) auto
  have port: "jget_opt ''server_port'' (handshake_of (changeServerPort [] form)) = Some JNull"
    unfolding changeServerPort_def n form
    by (simp add: handshake_of_def reality_of_def set_handshake_def set_reality_def set_tls_def spread_def
        split: option.split json.split)
  have "is_vless (changeServerPort [] form)"
    using assms(1) unfolding is_vless_def changeServerPort_def
    by (simp add: set_handshake_def set_reality_def set_tls_def)
  then have "handshake_of j = handshake_of (changeServerPort [] form)"
    unfolding handshake_of_def submitted_members(6) [OF assms(3)] by simp
  then show ?thesis using port by (simp add: server_port_shown_def or_json_def)
qed

section \<open>Witnesses\<close>

theorem alpn_comma_dropped_witness:
  "alpn_text DEFAULT_VLESS = ''h2, http/1.1'' \<and> changeAlpn ''h2, http/1.1,'' DEFAULT_VLESS = DEFAULT_VLESS"
proof -
  have t: "alpn_text DEFAULT_VLESS = ''h2, http/1.1''" by code_simp
  obtain tls where tls: "jget ''tls'' DEFAULT_VLESS = Some (JObj tls)"
    "map_of tls ''alpn'' = Some (JArr (map JStr [''h2'', ''http/1.1'']))"
    by (simp add: DEFAULT_VLESS_def default_inbound_def default_alpn_def)
  have "list_all clean_name [''h2'', ''http/1.1'']" by code_simp
  from alpn_comma_dropped [OF tls this] show ?thesis using t by simp
qed

definition reality_form :: json where
  "reality_form =
     changePrivateKey ''key'' (changeShortId ''ab'' (changeServer ''example.org'' (changeReality True (changeTls True DEFAULT_VLESS))))"

theorem cleared_port_submitted_witness:
  "\<exists>j. submission_of (changeServerPort [] reality_form) = Submitted j \<and>
     server_port_shown (changeServerPort [] reality_form) = JNum 443 \<and>
     jget_opt ''server_port'' (handshake_of j) = Some JNull"
proof -
  have "case submission_of (changeServerPort [] reality_form) of Submitted j \<Rightarrow> True | _ \<Rightarrow> False" by code_simp
  then obtain j where j: "submission_of (changeServerPort [] reality_form) = Submitted j"
    by (auto split: outcome.splits)
  have "case jget ''tls'' reality_form of Some (JObj tls) \<Rightarrow> True | _ \<Rightarrow> False" by code_simp
  then obtain tls where tls: "jget ''tls'' reality_form = Some (JObj tls)"
    by (auto split: option.splits json.splits)
  have "is_vless reality_form" by code_simp
  from cleared_port_submitted [OF this tls j] show ?thesis using j by blast
qed

end
