(* ===== verification/Inbounds_Ui.thy ===== *)
theory Inbounds_Ui
  imports Inbounds_View Api_Late Ui
begin

text \<open>
  The rendering of singbox/InboundList.tsx with its form InboundModal.tsx, and of InboundUserModal.tsx, with
  the handlers that their elements start, and the list as its user can drive it. React runs the effect of the
  form before the next event, so a handler that opens or closes the form includes it. The answer of
  \<open>confirm\<close> is the environment of a render. The properties say what the form saves, and what a certificate
  that arrives late does to the form of another inbound.
\<close>

type_synonym inbound_elements = "unit inbounds_io element list"

section \<open>Values\<close>

text \<open>The text of an input whose value is \<open>v\<close>, and of a child \<open>{v}\<close>: React shows nothing of null, undefined
  and the truth values. Only ASCII letters are put in capitals.\<close>

definition shown :: "json option \<Rightarrow> string" where
  "shown v = (case v of None \<Rightarrow> [] | Some JNull \<Rightarrow> [] | Some j \<Rightarrow> to_string j)"

definition child :: "json option \<Rightarrow> string" where
  "child v = (case v of Some (JBool b) \<Rightarrow> [] | v \<Rightarrow> shown v)"

definition to_upper :: "string \<Rightarrow> string" where
  "to_upper s = map (\<lambda>c. let n = (of_char c :: nat) in if 97 \<le> n \<and> n \<le> 122 then char_of (n - 32) else c) s"

section \<open>The form\<close>

definition edit :: "inbounds_state \<Rightarrow> (json \<Rightarrow> json) \<Rightarrow> unit inbounds_io" where
  \<comment> \<open>\<open>setFormData({ ...formData, ... })\<close>: the data is that of the render\<close>
  "edit s f = modify (setFormData (\<lambda>_. f (formData s)))"

definition basic_fields :: "inbounds_state \<Rightarrow> inbound_elements" where
  "basic_fields s =
     (let form = formData s in
      [Shown ''Basic Settings'',
       Field ''Tag (ID)'' (shown (jget ''tag'' form)) (tag_disabled s) (\<lambda>v. edit s (changeTag v)),
       Choice ''Protocol'' (shown (jget ''type'' form)) [opt ''vless'' ''VLESS'', opt ''vmess'' ''VMess'', opt ''trojan'' ''Trojan'']
         (\<lambda>v. modify (setFormData (changeType v))),
       Field ''Listen Address'' (shown (jget ''listen'' form)) False (\<lambda>v. edit s (changeListen v)),
       Field ''Listen Port'' (shown (jget ''listen_port'' form)) False (\<lambda>v. edit s (changeListenPort v)),
       Field ''External Port (optional)'' (shown (jget ''external_port'' form)) False (\<lambda>v. edit s (changeExternalPort v))])"

definition reality_fields :: "inbounds_state \<Rightarrow> inbound_elements" where
  "reality_fields s =
     (let form = formData s in
      [Switch ''Enable Reality'' (realityEnabled form) (\<lambda>b. edit s (changeReality b))] @
      (if realityEnabled form
       then [Field ''Server Name (SNI)'' (shown (Some (or_json (jget_opt ''server'' (handshake_of form)) (JStr [])))) False
               (\<lambda>v. edit s (changeServer v)),
             Field ''Handshake Port'' (shown (Some (server_port_shown form))) False (\<lambda>v. edit s (changeServerPort v)),
             Field ''Private Key'' (shown (Some (or_json (jget_opt ''private_key'' (reality_of form)) (JStr [])))) False
               (\<lambda>v. edit s (changePrivateKey v)),
             Field ''Short ID'' (shown (Some (short_id_shown form))) False (\<lambda>v. edit s (changeShortId v))]
       else []))"

definition tls_fields :: "inbounds_state \<Rightarrow> inbound_elements" where
  "tls_fields s =
     (let form = formData s; tls = jget ''tls'' form in
      [Shown ''TLS Configuration'', Switch ''Enable TLS'' (tlsEnabled form) (\<lambda>b. edit s (changeTls b))] @
      (if tlsEnabled form
       then [Field ''ALPN (comma-separated)'' (alpn_text form) False (\<lambda>v. edit s (changeAlpn v))] @
            (if is_vless form then reality_fields s else []) @
            [Field ''Certificate Path'' (shown (Some (or_json (jget_opt ''certificate_path'' tls) (JStr [])))) False
               (\<lambda>v. edit s (changeCertificatePath v)),
             Field ''Key Path'' (shown (Some (or_json (jget_opt ''key_path'' tls) (JStr [])))) False
               (\<lambda>v. edit s (changeKeyPath v))] @
            (case cert_button s of
               Some (label, off) \<Rightarrow>
                 [Button label off (handleGenerateCert s), Shown ''Writes cert/key next to the sing-box config.''] @
                 (if certError s \<noteq> [] then [Shown (certError s)] else [])
             | None \<Rightarrow> [])
       else []))"

definition transport_elements :: "inbounds_state \<Rightarrow> inbound_elements" where
  "transport_elements s =
     (let form = formData s; transport = jget ''transport'' form; ty = jget_opt ''type'' transport in
      [Shown ''Transport'',
       Switch ''Enable Transport'' (truthy_opt (jget_opt ''enabled'' transport)) (\<lambda>b. edit s (changeTransport b))] @
      (if truthy_opt (jget_opt ''enabled'' transport)
       then [Choice ''Transport Type'' (shown (Some (or_json ty (JStr ''http''))))
               [opt ''http'' ''HTTP'', opt ''ws'' ''WebSocket'', opt ''grpc'' ''gRPC'', opt ''httpupgrade'' ''HTTP Upgrade'']
               (\<lambda>v. edit s (changeTransportType v))] @
            (if ty \<in> {Some (JStr ''http''), Some (JStr ''ws''), Some (JStr ''httpupgrade'')}
             then [Field ''Path'' (shown (Some (or_json (jget_opt ''path'' transport) (JStr ''/'')))) False
                     (\<lambda>v. edit s (changePath v))] else []) @
            (if ty = Some (JStr ''grpc'')
             then [Field ''Service Name'' (shown (Some (or_json (jget_opt ''service_name'' transport) (JStr [])))) False
                     (\<lambda>v. edit s (changeServiceName v))] else [])
       else []))"

text \<open>Opening and closing, with the effect on \<open>[initialData, isOpen]\<close> that follows.\<close>

definition close_form :: "unit inbounds_io" where
  "close_form = modify (\<lambda>s. load_form (closeModal s))"

definition open_edit :: "json \<Rightarrow> unit inbounds_io" where
  "open_edit inbound = modify (\<lambda>s. load_form (handleEdit inbound s))"

definition open_add :: "unit inbounds_io" where
  "open_add = modify (\<lambda>s. load_form (handleAdd s))"

definition InboundModal :: "inbounds_state \<Rightarrow> inbound_elements" where
  "InboundModal s =
     Modal (isModalOpen s) close_form (modal_title s)
       ((if validationError s \<noteq> [] then [Shown (validationError s)] else []) @
        basic_fields s @ tls_fields s @ transport_elements s)
       [Button ''Cancel'' False close_form, Icon ''Save'', Button ''Save Inbound'' False (handleSubmit s)]"

section \<open>The list\<close>

definition inbound_element :: "bool \<Rightarrow> json \<Rightarrow> inbound_elements" where
  "inbound_element confirmed inbound =
     (let card = inbound_card inbound in
      [Shown (to_upper (child (ic_type card))), Button ''Edit'' False (open_edit inbound),
       Button ''Delete'' False (handleDelete confirmed (string_of (ic_tag card))),
       Shown (child (ic_tag card)), Shown (child (Some (ic_listen card)) @ '':'' @ child (ic_port card)),
       Icon ''Shield'', Shown (''TLS '' @ (if ic_tls card then ''On'' else ''Off'')),
       Icon ''Radio'', Shown (child (Some (ic_transport card)))])"

definition InboundList :: "bool \<Rightarrow> inbounds_state \<Rightarrow> inbound_elements" where
  "InboundList confirmed s =
     [Shown ''Configured Inbounds'', Icon ''Plus'', Button ''Add Inbound'' False open_add] @
     (if loading s then [Shown ''Loading inbounds...'']
      else if inbounds s = [] then [Shown ''No inbounds configured. Click \"Add Inbound\" to create one.'']
      else concat (map (inbound_element confirmed) (inbounds s))) @
     InboundModal s"

text \<open>What runs by itself: the list on mounting, the effects of the form, the toasts.\<close>

definition inbounds_background :: "inbounds_state \<Rightarrow> unit inbounds_io set" where
  "inbounds_background s = {loadInbounds, modify load_form, modify clear_errors} \<union> toast_events s"

section \<open>The form of a user\<close>

text \<open>A component that its parent hands its state and what to do with a user: \<open>setForm\<close>, \<open>onSave\<close> and
  \<open>onClose\<close>. The argument \<open>uuid\<close> is what \<open>uuidv4()\<close> draws.\<close>

definition handleSubmit_user ::
  "(inbound_user \<Rightarrow> ('q, 'r, 's, unit) io) \<Rightarrow> ('q, 'r, 's, unit) io \<Rightarrow> inbound_user \<Rightarrow> ('q, 'r, 's, unit) io" where
  "handleSubmit_user onSave onClose form =
     (case submit_user form of None \<Rightarrow> skip | Some u \<Rightarrow> seq (onSave u) onClose)"

definition InboundUserModal ::
  "bool \<Rightarrow> ('q, 'r, 's, unit) io \<Rightarrow> inbound_user option \<Rightarrow> (inbound_user \<Rightarrow> ('q, 'r, 's, unit) io) \<Rightarrow>
   (inbound_user \<Rightarrow> ('q, 'r, 's, unit) io) \<Rightarrow> string \<Rightarrow> inbound_user \<Rightarrow> ('q, 'r, 's, unit) io element list" where
  "InboundUserModal isOpen onClose initialData onSave setForm uuid form =
     Modal isOpen onClose (if initialData \<noteq> None then ''Edit Inbound User'' else ''Add Inbound User'')
       [Field ''Username'' (iu_name form) False (\<lambda>v. setForm (changeUserName v form)),
        Field ''UUID'' (iu_uuid form) False (\<lambda>v. setForm (changeUserUuid v form)),
        Button ''Generate New UUID'' False (setForm (changeUserUuid uuid form)),
        Choice ''Flow'' (iu_flow form) [opt ''xtls-rprx-vision'' ''xtls-rprx-vision'', opt [] ''none'']
          (\<lambda>v. setForm (changeUserFlow v form))]
       [Button ''Cancel'' False onClose,
        Button (if initialData \<noteq> None then ''Save Changes'' else ''Add User'') False (handleSubmit_user onSave onClose form)]"

section \<open>What the form sends\<close>

text \<open>The form holds the tag of the inbound that is being edited, if that has one.\<close>

definition keeps_tag :: "json option \<Rightarrow> json \<Rightarrow> bool" where
  "keeps_tag editing form \<longleftrightarrow>
     (case editing of
        Some j \<Rightarrow> truthy j \<and> truthy_opt (jget ''tag'' j) \<longrightarrow> jget ''tag'' form = jget ''tag'' j
      | None \<Rightarrow> True)"

definition form_inv :: "inbounds_state \<Rightarrow> bool" where
  "form_inv s \<longleftrightarrow> keeps_tag (editingInbound s) (formData s)"

text \<open>An inbound that is sent is sound, and one that is updated is sent under its own tag.\<close>

definition sends_sound :: "inbounds_state \<Rightarrow> http_request \<Rightarrow> bool" where
  "sends_sound s q \<longleftrightarrow>
     (rq_method q = ''POST'' \<and> rq_url q = ''/api/singbox/inbound'' \<longrightarrow>
        (\<exists>j. rq_body q = Some (JsonBody j) \<and> sound_inbound j)) \<and>
     (rq_method q = ''PUT'' \<longrightarrow>
        (\<exists>tag j. rq_url q = ''/api/singbox/inbound?tag='' @ encodeURIComponent (string_of tag) \<and>
           rq_body q = Some (JsonBody j) \<and> sound_inbound j \<and> (truthy_opt tag \<longrightarrow> jget ''tag'' j = tag)))"

lemma sends_other:
  "meth \<noteq> ''PUT'' \<Longrightarrow> meth \<noteq> ''POST'' \<or> url \<noteq> ''/api/singbox/inbound'' \<Longrightarrow> sends_sound t (request meth url ct bdy t)"
  by (auto simp: sends_sound_def request_def)

lemma sends_new: "sound_inbound j \<Longrightarrow> sends_sound t (request ''POST'' ''/api/singbox/inbound'' ct (Some (JsonBody j)) t)"
  by (simp add: sends_sound_def request_def)

lemma sends_edited:
  "sound_inbound j \<Longrightarrow> (truthy_opt tag \<longrightarrow> jget ''tag'' j = tag) \<Longrightarrow>
    sends_sound t (request ''PUT'' (''/api/singbox/inbound?tag='' @ encodeURIComponent (string_of tag)) ct (Some (JsonBody j)) t)"
  by (auto simp: sends_sound_def request_def)

lemma inv_frame [simp]:
  "form_inv (alert m s) = form_inv s" "form_inv (toast_success m s) = form_inv s" "form_inv (toast_error m s) = form_inv s"
  "form_inv (removeToast i s) = form_inv s" "form_inv (fire_timer n s) = form_inv s" "form_inv (logout s) = form_inv s"
  "form_inv (s\<lparr>inbounds := xs\<rparr>) = form_inv s" "form_inv (s\<lparr>loading := b\<rparr>) = form_inv s"
  "form_inv (s\<lparr>isModalOpen := b\<rparr>) = form_inv s" "form_inv (s\<lparr>validationError := m\<rparr>) = form_inv s"
  "form_inv (s\<lparr>certLoading := b\<rparr>) = form_inv s" "form_inv (s\<lparr>certError := m\<rparr>) = form_inv s"
  "form_inv (clear_errors s) = form_inv s" "form_inv (closeModal s) = form_inv s"
  by (simp_all add: form_inv_def alert_def toast_success_def toast_error_def showToast_def removeToast_def
      fire_timer_def logout_def clear_errors_def closeModal_def Let_def)

lemma form_invD: "form_inv s \<Longrightarrow> keeps_tag (editingInbound s) (formData s)"
  by (simp add: form_inv_def)

lemma inv_form_data: "form_inv (s\<lparr>formData := form\<rparr>) \<longleftrightarrow> keeps_tag (editingInbound s) form"
  by (simp add: form_inv_def)

lemma inv_set: "form_inv (setFormData f s) \<longleftrightarrow> keeps_tag (editingInbound s) (f (formData s))"
  by (simp add: setFormData_def inv_form_data)

lemma inv_loaded: "form_inv (load_form s)"
proof (cases "editingInbound s")
  case (Some j)
  have "jget ''tag'' (form_of_inbound j) = jget ''tag'' j" if t: "truthy_opt (jget ''tag'' j)"
  proof -
    obtain ms where "j = JObj ms" using truthy_jget [OF t] by blast
    then show ?thesis by (simp add: form_of_inbound_get(1))
  qed
  then show ?thesis using Some by (auto simp: load_form_def form_inv_def keeps_tag_def)
qed (simp add: load_form_def form_inv_def keeps_tag_def)

text \<open>Every field but the tag's keeps the tag.\<close>

lemma tag_set [simp]:
  "jget ''tag'' (set_tls k v form) = jget ''tag'' form" "jget ''tag'' (set_reality k v form) = jget ''tag'' form"
  "jget ''tag'' (set_handshake k v form) = jget ''tag'' form" "jget ''tag'' (set_transport k v form) = jget ''tag'' form"
  by (simp_all add: set_tls_def set_reality_def set_handshake_def set_transport_def jget_jset)

lemma tag_kept [simp]:
  "jget ''tag'' (changeListen v form) = jget ''tag'' form" "jget ''tag'' (changeListenPort v form) = jget ''tag'' form"
  "jget ''tag'' (changeExternalPort v form) = jget ''tag'' form" "jget ''tag'' (changeTls b form) = jget ''tag'' form"
  "jget ''tag'' (changeReality b form) = jget ''tag'' form" "jget ''tag'' (changeServer v form) = jget ''tag'' form"
  "jget ''tag'' (changeServerPort v form) = jget ''tag'' form" "jget ''tag'' (changePrivateKey v form) = jget ''tag'' form"
  "jget ''tag'' (changeShortId v form) = jget ''tag'' form" "jget ''tag'' (changeCertificatePath v form) = jget ''tag'' form"
  "jget ''tag'' (changeKeyPath v form) = jget ''tag'' form" "jget ''tag'' (changeTransport b form) = jget ''tag'' form"
  "jget ''tag'' (changeTransportType v form) = jget ''tag'' form" "jget ''tag'' (changePath v form) = jget ''tag'' form"
  "jget ''tag'' (changeServiceName v form) = jget ''tag'' form" "jget ''tag'' (changeAlpn v form) = jget ''tag'' form"
  by (simp_all add: changeListen_def changeListenPort_def changeExternalPort_def changeTls_def changeReality_def
      changeServer_def changeServerPort_def changePrivateKey_def changeShortId_def changeCertificatePath_def
      changeKeyPath_def changeTransport_def changeTransportType_def changePath_def changeServiceName_def
      changeAlpn_def jget_jset)

lemma tag_type: "truthy_opt (jget ''tag'' form) \<Longrightarrow> jget ''tag'' (changeType ty form) = jget ''tag'' form"
  by (cases "jget ''tag'' form")
    (auto simp: changeType_def Let_def jget_jset or_json_def DEFAULT_BY_TYPE_def DEFAULT_VLESS_def DEFAULT_VMESS_def
      DEFAULT_TROJAN_def default_inbound_def)

lemma keeps_same: "keeps_tag e form \<Longrightarrow> jget ''tag'' form' = jget ''tag'' form \<Longrightarrow> keeps_tag e form'"
  by (auto simp: keeps_tag_def split: option.splits)

lemma keeps_type: "keeps_tag e form \<Longrightarrow> keeps_tag e (changeType ty form)"
  using tag_type [of form ty] by (auto simp: keeps_tag_def split: option.splits)

lemma form_inv_logout: "logout_closed form_inv"
  by (simp add: logout_closed_def)

lemmas form_guards = guard_intros guarded_void_sends [OF form_inv_logout] guarded_json_sends [OF form_inv_logout]

lemma guarded_load: "form_inv s \<Longrightarrow> guarded form_inv sends_sound loadInbounds s"
  unfolding loadInbounds_def getSingboxInbounds_def
  by (auto intro!: form_guards sends_other split: json.split)

lemma guarded_delete: "form_inv s \<Longrightarrow> guarded form_inv sends_sound (handleDelete confirmed tag) s"
  unfolding handleDelete_def deleteSingboxInbound_def
  by (auto intro!: form_guards guarded_load sends_other)

lemma keeps_cert: "form_inv t \<Longrightarrow> keeps_tag (editingInbound t) (set_tls k v (set_tls k' v' (formData t)))"
  unfolding form_inv_def by (erule keeps_same) simp

lemma guarded_cert: "form_inv s \<Longrightarrow> guarded form_inv sends_sound (handleGenerateCert c) s"
  unfolding handleGenerateCert_def generateSelfSignedCert_def Let_def
  by (auto intro!: form_guards sends_other keeps_cert simp: inv_set)

lemma guarded_submit:
  assumes inv: "form_inv s"
  shows "guarded form_inv sends_sound (handleSubmit s) s"
proof (cases "submission_of (formData s)")
  case (Submitted j)
  note sound = submitted_sound [OF Submitted] and tag = submitted_members(1) [OF Submitted, of "''tag''"]
  let ?e = "editingInbound s" and ?t = "submitting s"
  have "form_inv ?t" using inv
    by (auto simp: submitting_def form_inv_def keeps_tag_def drop_reality_get split: option.splits)
  moreover have "truthy_opt ?e \<Longrightarrow> truthy_opt (jget_opt ''tag'' ?e) \<longrightarrow> jget ''tag'' j = jget_opt ''tag'' ?e"
    using inv tag by (auto simp: form_inv_def keeps_tag_def split: option.splits)
  ultimately have "guarded form_inv sends_sound (handleSave s j) ?t"
    unfolding handleSave_def updateSingboxInbound_def addSingboxInbound_def
    by (intro form_guards guarded_load sends_new sends_edited sound) simp_all
  then show ?thesis by (simp add: handleSubmit_def Submitted submitting_def modify_def)
qed (use inv in \<open>auto simp: handleSubmit_def intro!: guard_intros\<close>)

lemma guarded_edit: "form_inv s \<Longrightarrow> jget ''tag'' (f (formData s)) = jget ''tag'' (formData s) \<Longrightarrow>
    guarded form_inv sends_sound (edit s f) s"
  unfolding edit_def by (rule guarded_modify) (auto simp: inv_set dest: form_invD intro: keeps_same)

lemma guarded_tag: "form_inv s \<Longrightarrow> \<not> tag_disabled s \<Longrightarrow> guarded form_inv sends_sound (edit s (changeTag v)) s"
  unfolding edit_def by (rule guarded_modify) (auto simp: inv_set keeps_tag_def tag_disabled_def split: option.split)

lemma guarded_type: "form_inv s \<Longrightarrow> guarded form_inv sends_sound (modify (setFormData (changeType v))) s"
  by (rule guarded_modify) (simp add: inv_set form_invD keeps_type)

lemma guarded_opening: "guarded form_inv sends_sound (open_edit inbound) s" "guarded form_inv sends_sound open_add s"
  "guarded form_inv sends_sound close_form s" "guarded form_inv sends_sound (modify load_form) s"
  unfolding open_edit_def open_add_def close_form_def by (rule guarded_modify, rule inv_loaded)+

lemma guarded_fields:
  assumes "form_inv s" and "h \<in> offered (basic_fields s) \<union> offered (tls_fields s) \<union> offered (transport_elements s)"
  shows "guarded form_inv sends_sound h s"
proof -
  have "h \<in> offered (basic_fields s) \<Longrightarrow> ?thesis"
    using assms(1) by (auto simp: basic_fields_def Let_def intro: guarded_tag guarded_edit guarded_type split: if_splits)
  moreover have "h \<in> offered (reality_fields s) \<Longrightarrow> ?thesis"
    using assms(1) by (auto simp: reality_fields_def Let_def intro!: guarded_edit split: if_splits)
  moreover have "h \<in> offered (tls_fields s) \<Longrightarrow> h \<notin> offered (reality_fields s) \<Longrightarrow> ?thesis"
    using assms(1) by (auto simp: tls_fields_def Let_def intro!: guarded_edit guarded_cert split: if_splits option.splits)
  moreover have "h \<in> offered (transport_elements s) \<Longrightarrow> ?thesis"
    using assms(1) by (auto simp: transport_elements_def Let_def intro!: guarded_edit split: if_splits)
  ultimately show ?thesis using assms(2) by blast
qed

interpretation inbounds_ui: guarded_page "ui_handlers InboundList inbounds_background" form_inv sends_sound
proof unfold_locales
  fix s h assume inv: "form_inv s" and "h \<in> ui_handlers InboundList inbounds_background s"
  then consider e where "h \<in> offered (InboundList e s)" | "h \<in> inbounds_background s"
    by (auto simp: ui_handlers_def)
  then show "guarded form_inv sends_sound h s"
  proof cases
    case 1
    then show ?thesis using inv guarded_fields [OF inv, of h]
      by (auto simp: InboundList_def InboundModal_def inbound_element_def Let_def
          intro!: guarded_opening guarded_delete guarded_submit split: if_splits)
  next
    case 2
    then show ?thesis using inv
      by (auto simp: inbounds_background_def elim!: toast_events_cases intro!: guarded_load guarded_opening guarded_modify)
  qed
qed

section \<open>The spinners\<close>

lemma inbounds_frame [simp]:
  "loading (alert m s) = loading (s :: inbounds_state)" "loading (toast_success m s) = loading (s :: inbounds_state)"
  "loading (toast_error m s) = loading (s :: inbounds_state)" "loading (logout s) = loading (s :: inbounds_state)"
  "loading (removeToast i s) = loading (s :: inbounds_state)" "loading (fire_timer n s) = loading (s :: inbounds_state)"
  "loading (clear_errors s) = loading s" "loading (load_form s) = loading s" "loading (setFormData f s) = loading s"
  "loading (closeModal s) = loading s" "loading (handleAdd s) = loading s" "loading (handleEdit j s) = loading s"
  by (simp_all add: alert_def toast_success_def toast_error_def showToast_def logout_def removeToast_def fire_timer_def
      clear_errors_def load_form_def setFormData_def closeModal_def handleAdd_def handleEdit_def Let_def)

lemma cert_frame [simp]:
  "certLoading (alert m s) = certLoading s" "certLoading (toast_success m s) = certLoading s"
  "certLoading (toast_error m s) = certLoading s" "certLoading (logout s) = certLoading s"
  "certLoading (removeToast i s) = certLoading s" "certLoading (fire_timer n s) = certLoading s"
  "certLoading (clear_errors s) = certLoading s" "certLoading (load_form s) = certLoading s"
  "certLoading (setFormData f s) = certLoading s" "certLoading (closeModal s) = certLoading s"
  "certLoading (handleAdd s) = certLoading s" "certLoading (handleEdit j s) = certLoading s"
  by (simp_all add: alert_def toast_success_def toast_error_def showToast_def logout_def removeToast_def fire_timer_def
      clear_errors_def load_form_def setFormData_def closeModal_def handleAdd_def handleEdit_def Let_def)

text \<open>Both flags: the list is loaded again inside the \<open>try\<close> of another handler, where it never throws.\<close>

definition ib_flag :: "(inbounds_state \<Rightarrow> bool) \<Rightarrow> bool" where
  "ib_flag b \<longleftrightarrow> b = loading \<or> b = certLoading"

lemma ib_modify: "ib_flag b \<Longrightarrow> loading (f s) = loading s \<Longrightarrow> certLoading (f s) = certLoading s \<Longrightarrow> keeps_off b (modify f) s"
  by (rule keeps_modify) (auto simp: ib_flag_def)

lemma ib_logout [simp]: "ib_flag b \<Longrightarrow> b (logout s) = b s"
  by (auto simp: ib_flag_def)

lemma load_inbounds_ends: "ends_in (\<lambda>s. \<not> loading s) nowhere loadInbounds s"
proof -
  let ?load = "bind getSingboxInbounds (\<lambda>data. case data of JArr xs \<Rightarrow> modify (\<lambda>s. s\<lparr>inbounds := xs\<rparr>)
      | j \<Rightarrow> if truthy j then Throw ill_typed else modify (\<lambda>s. s\<lparr>inbounds := []\<rparr>)) :: unit inbounds_io"
  let ?attempt = "try_catch ?load (\<lambda>_. toastError ''Failed to load inbounds'')"
  have "fork_free ?load" unfolding getSingboxInbounds_def by (auto intro!: fork_intros split: json.split)
  then have "ends_in anywhere nowhere ?attempt t" for t
    by (intro ends_try_catch ends_anywhere) (simp_all add: modify_def)
  then have "ends_in anywhere nowhere (try_catch ?attempt h) t" for h and t :: inbounds_state
    by (rule ends_uncaught)
  then have off: "ends_in (\<lambda>s. \<not> loading s) nowhere (try_finally ?attempt (modify (\<lambda>s. s\<lparr>loading := False\<rparr>))) t" for t
    unfolding try_finally_def by (rule ends_bind) (simp add: modify_def)
  show ?thesis unfolding loadInbounds_def by (rule ends_bind, rule ends_modify, simp, rule off)
qed

lemma load_inbounds_cert: "keeps_off certLoading loadInbounds s"
  unfolding loadInbounds_def getSingboxInbounds_def by (auto intro!: flag_intros split: json.split)

lemma load_inbounds_quiets: "ib_flag b \<Longrightarrow> quiets b T loadInbounds s"
  using load_inbounds_cert ends_never [OF load_inbounds_ends]
  by (auto simp: ib_flag_def intro: quiets_keeps quiets_ends)

lemma delete_quiets: "ib_flag b \<Longrightarrow> quiets b T (handleDelete confirmed tag) s"
  unfolding handleDelete_def deleteSingboxInbound_def
  by (auto intro!: quiets_try_catch quiets_bind ib_modify keeps_call_void load_inbounds_quiets intro: quiets_keeps)

lemma save_quiets: "ib_flag b \<Longrightarrow> quiets b T (handleSave c j) s"
  unfolding handleSave_def updateSingboxInbound_def addSingboxInbound_def
  by (intro quiets_try_catch quiets_bind ib_modify keeps_if keeps_bind keeps_call_void load_inbounds_quiets) simp_all

lemma submit_quiets: "ib_flag b \<Longrightarrow> quiets b T (handleSubmit c) s"
  unfolding handleSubmit_def
  by (auto intro!: quiets_bind save_quiets ib_modify intro: quiets_keeps split: outcome.split)

lemma cert_quiets: "ib_flag b \<Longrightarrow> quiets b (\<lambda>s. \<not> b s) (handleGenerateCert c) s"
proof -
  have "ends_in (\<lambda>s. \<not> certLoading s) (\<lambda>s. \<not> certLoading s) (handleGenerateCert c) s"
    unfolding handleGenerateCert_def generateSelfSignedCert_def Let_def by (auto intro!: flag_intros)
  moreover have "keeps_off loading (handleGenerateCert c) s"
    unfolding handleGenerateCert_def generateSelfSignedCert_def Let_def by (auto intro!: flag_intros)
  ultimately show "ib_flag b \<Longrightarrow> ?thesis" by (auto simp: ib_flag_def intro: quiets_keeps quiets_ends)
qed

lemma ib_edits: "ib_flag b \<Longrightarrow> quiets b T (modify (setFormData f)) s" "ib_flag b \<Longrightarrow> quiets b T (edit c g) s"
  "ib_flag b \<Longrightarrow> quiets b T close_form s" "ib_flag b \<Longrightarrow> quiets b T open_add s" "ib_flag b \<Longrightarrow> quiets b T (open_edit j) s"
  unfolding edit_def close_form_def open_add_def open_edit_def by (rule quiets_keeps, erule ib_modify, simp, simp)+

lemma ib_quiets:
  assumes b: "ib_flag b" and h: "h \<in> ui_handlers InboundList inbounds_background s"
  shows "quiets b (\<lambda>s. \<not> b s) h s"
proof -
  note rest = ib_edits [OF b] submit_quiets [OF b] cert_quiets [OF b] delete_quiets [OF b] load_inbounds_quiets [OF b]
  have "h \<in> offered (basic_fields s) \<or> h \<in> offered (reality_fields s) \<or> h \<in> offered (transport_elements s) \<Longrightarrow> ?thesis"
    by (auto simp: basic_fields_def reality_fields_def transport_elements_def Let_def intro: rest split: if_splits)
  moreover have "h \<in> offered (tls_fields s) \<Longrightarrow> h \<notin> offered (reality_fields s) \<Longrightarrow> ?thesis"
    by (auto simp: tls_fields_def Let_def intro: rest split: if_splits option.splits)
  moreover have "h \<in> inbounds_background s \<Longrightarrow> ?thesis"
    using b by (auto simp: inbounds_background_def elim!: toast_events_cases intro: rest intro!: quiets_keeps [OF ib_modify])
  moreover have "h \<in> offered (inbound_element confirmed j) \<Longrightarrow> ?thesis" for confirmed j
    by (auto simp: inbound_element_def Let_def intro: rest)
  ultimately show ?thesis using h rest
    by (auto simp: ui_handlers_def InboundList_def InboundModal_def split: if_splits)
qed

interpretation ib_load: resting_page "ui_handlers InboundList inbounds_background" loading
  by unfold_locales (rule ib_quiets, simp_all add: ib_flag_def)

interpretation ib_cert: resting_page "ui_handlers InboundList inbounds_background" certLoading
  by unfold_locales (rule ib_quiets, simp_all add: ib_flag_def)

text \<open>The list comes to rest: neither its spinner nor the button that generates a certificate stays on.\<close>

theorem inbounds_end_loading:
  assumes "(loop_step (ui_handlers InboundList inbounds_background) answers)\<^sup>*\<^sup>* (fresh s) d"
    and "\<not> loading s" and "\<not> certLoading s" and "\<And>q. \<exists>r. answers q r"
  shows "wfp (arrival answers)\<inverse>\<inverse> \<and> (\<exists>e. (arrival answers)\<^sup>*\<^sup>* d e \<and> idle e) \<and>
     (\<forall>e. (arrival answers)\<^sup>*\<^sup>* d e \<and> idle e \<longrightarrow> \<not> loading (loop_page e) \<and> \<not> certLoading (loop_page e))"
  using ib_load.comes_to_rest [OF assms(1) fresh_flag [of loading, OF assms(2)] assms(4)]
    ib_cert.comes_to_rest [OF assms(1) fresh_flag [of certLoading, OF assms(3)] assms(4)] by blast

section \<open>A late certificate\<close>

abbreviation cert_name :: "json \<Rightarrow> string" where
  "cert_name form \<equiv> str_or (trim (str_or (str_of (jget_opt ''server_name'' (jget ''tls'' form))) (str_of (jget ''tag'' form)))) ''localhost''"

text \<open>C8: every inbound that the list sends, however its user works with the list and the form and in
  whatever order the responses come in, is sound: it has a tag, certificate and key if it uses TLS without
  Reality, a complete Reality configuration if that is on, and a positive external port if any. An update
  carries an inbound with the very tag under which it is sent, if the inbound that was opened had a tag.\<close>

theorem inbounds_saved_under_own_tag:
  assumes "reachable (ui_handlers InboundList inbounds_background) answers s c" and "editingInbound s = None"
    and "(u, q) \<in> set (loop_sent c)"
  shows "(rq_method q = ''POST'' \<and> rq_url q = ''/api/singbox/inbound'' \<longrightarrow>
        (\<exists>j. rq_body q = Some (JsonBody j) \<and> sound_inbound j)) \<and>
     (rq_method q = ''PUT'' \<longrightarrow>
        (\<exists>tag j. rq_url q = ''/api/singbox/inbound?tag='' @ encodeURIComponent (string_of tag) \<and>
           rq_body q = Some (JsonBody j) \<and> sound_inbound j \<and> (truthy_opt tag \<longrightarrow> jget ''tag'' j = tag)))"
proof -
  have "form_inv s" using assms(2) by (simp add: form_inv_def keeps_tag_def)
  from inbounds_ui.reachable_sends [OF assms(1) this assms(3)] show ?thesis by (simp add: sends_sound_def)
qed

definition with_cert :: "string \<Rightarrow> string \<Rightarrow> json \<Rightarrow> json" where
  "with_cert cert key form = set_tls ''key_path'' (JStr key) (set_tls ''certificate_path'' (JStr cert) form)"

lemma late_certificate:
  assumes "i < length (loop_tasks d)" and "loop_tasks d ! i = fst (settle (handleGenerateCert c) s)"
    and "result (generateSelfSignedCert (Some (str_of (jget ''tag'' (formData c)))) (Some (cert_name (formData c)))) r (loop_page d) =
      (Inr (cert, key), loop_page d)"
  shows "editingInbound (loop_page (resume i r d)) = editingInbound (loop_page d) \<and>
    formData (loop_page (resume i r d)) = with_cert cert key (formData (loop_page d))"
proof -
  let ?call = "generateSelfSignedCert (Some (str_of (jget ''tag'' (formData c)))) (Some (cert_name (formData c)))
    :: (string \<times> string) inbounds_io"
  obtain k q where k: "waits_as k ?call" "\<And>s. settle ?call s = (Await (q s) k, s)"
    unfolding generateSelfSignedCert_def using settle_call_json by blast
  show ?thesis
    unfolding resume_def assms(2) handleGenerateCert_def try_finally_def Let_def with_cert_def
    using assms(1,3) by (auto simp: run_simps k(2) waits_as_settle [OF k(1)] setFormData_def clear_errors_def split: option.splits)
qed

text \<open>C9: a certificate that arrives when the form shows another inbound than the one it was generated for
  goes into that form. If the form is then submitted, the inbound is saved with the certificate and the key
  of the first one.\<close>

theorem late_certificate_in_other_form:
  assumes "i < length (loop_tasks d)" and "loop_tasks d ! i = fst (settle (handleGenerateCert c) s)"
    and "result (generateSelfSignedCert (Some (str_of (jget ''tag'' (formData c)))) (Some (cert_name (formData c)))) r (loop_page d) =
      (Inr (cert, key), loop_page d)"
  defines "page \<equiv> loop_page (resume i r d)"
  assumes "submission_of (formData page) = Submitted j"
  shows "editingInbound page = editingInbound (loop_page d) \<and> jget ''tag'' j = jget ''tag'' (formData (loop_page d)) \<and>
     jget_opt ''certificate_path'' (jget ''tls'' j) = Some (JStr cert) \<and>
     jget_opt ''key_path'' (jget ''tls'' j) = Some (JStr key)"
proof -
  note page = late_certificate [OF assms(1-3), folded page_def]
  note m = submitted_members [OF assms(5)]
  have "truthy_opt (jget ''tag'' (formData (loop_page d)))"
    using submitted_sound [OF assms(5)] m(1) [of "''tag''"] page by (simp add: sound_inbound_def with_cert_def)
  then obtain ms where "formData (loop_page d) = JObj ms" using truthy_jget by blast
  then show ?thesis using m(1) [of "''tag''"] m(5) [of "''certificate_path''"] m(5) [of "''key_path''"] page
    by (simp add: with_cert_def set_tls_def spread_def jget_jset split: option.splits json.splits)
qed

section \<open>Witnesses\<close>

definition stored :: json where
  "stored = JObj [(''type'', JStr ''trojan''), (''tag'', JStr ''a''), (''listen_port'', JNum 443)]"

definition other_stored :: json where
  "other_stored = JObj [(''type'', JStr ''vmess''), (''tag'', JStr ''b''), (''listen_port'', JNum 8443)]"

definition listed :: inbounds_state where
  "listed = sample_inbounds_state\<lparr>inbounds := [stored, other_stored], isModalOpen := False, formData := DEFAULT_VLESS\<rparr>"

definition opened :: "(http_request, fetch_result, inbounds_state) loop" where
  "opened = launch (open_edit stored) (fresh listed)"

definition saving_edit :: "(http_request, fetch_result, inbounds_state) loop" where
  "saving_edit = launch (handleSubmit (loop_page opened)) opened"

theorem inbounds_saved_under_own_tag_witness:
  "\<exists>u q tag j. (u, q) \<in> set (loop_sent saving_edit) \<and> rq_method q = ''PUT'' \<and>
     rq_url q = ''/api/singbox/inbound?tag='' @ encodeURIComponent (string_of tag) \<and>
     rq_body q = Some (JsonBody j) \<and> sound_inbound j"
proof -
  let ?ui = "ui_handlers InboundList inbounds_background"
  have "loading listed = False" "inbounds listed = [stored, other_stored]" by code_simp+
  then have "open_edit stored \<in> offered (InboundList True listed)"
    by (simp add: InboundList_def inbound_element_def Let_def)
  then have 1: "loop_step ?ui (\<lambda>_ _. True) (fresh listed) opened"
    unfolding opened_def by (intro loop_step.fire) (auto simp: ui_handlers_def fresh_def)
  have "isModalOpen (loop_page opened)" by code_simp
  then have "handleSubmit (loop_page opened) \<in> offered (InboundList True (loop_page opened))"
    by (simp add: InboundList_def InboundModal_def)
  then have 2: "loop_step ?ui (\<lambda>_ _. True) opened saving_edit"
    unfolding saving_edit_def by (intro loop_step.fire) (auto simp: ui_handlers_def)
  have "reachable ?ui (\<lambda>_ _. True) listed (fresh listed)" unfolding fresh_def by (rule reachable.intros)
  from reachable.intros(2) [OF reachable.intros(2) [OF this 1] 2]
  have r: "reachable ?ui (\<lambda>_ _. True) listed saving_edit" .
  have e: "editingInbound listed = None" by code_simp
  have "list_ex (\<lambda>(u, q). rq_method q = ''PUT'') (loop_sent saving_edit)" by code_simp
  then obtain u q where q: "(u, q) \<in> set (loop_sent saving_edit)" "rq_method q = ''PUT''"
    by (auto simp: list_ex_iff)
  from inbounds_saved_under_own_tag [OF r e q(1)] q show ?thesis by blast
qed

text \<open>The user asks for a certificate for one inbound, closes the form and opens another inbound, which uses TLS.\<close>

definition generating :: "(http_request, fetch_result, inbounds_state) loop" where
  "generating = launch (handleGenerateCert (loop_page opened)) opened"

definition elsewhere :: "(http_request, fetch_result, inbounds_state) loop" where
  "elsewhere = launch (modify (setFormData (changeTls True))) (launch (open_edit other_stored) (launch close_form generating))"

definition cert_answer :: fetch_result where
  "cert_answer = Answered \<lparr>rs_status = 200, rs_text = [], rs_json = Inr (PCert ''a.crt'' ''a.key'')\<rparr>"

theorem late_certificate_in_other_form_witness:
  "\<exists>j. submission_of (formData (loop_page (resume 1 cert_answer elsewhere))) = Submitted j \<and>
     jget ''tag'' j = Some (JStr ''b'') \<and> jget_opt ''certificate_path'' (jget ''tls'' j) = Some (JStr ''a.crt'')"
proof -
  let ?c = "loop_page opened"
  have t: "1 < length (loop_tasks elsewhere)"
    "loop_tasks elsewhere ! 1 = fst (settle (handleGenerateCert ?c) ?c)"
    by (simp_all add: elsewhere_def generating_def opened_def launch_def fresh_def modify_def open_edit_def close_form_def
        split: prod.splits)
  have r: "result (generateSelfSignedCert (Some (str_of (jget ''tag'' (formData ?c)))) (Some (cert_name (formData ?c))))
      cert_answer (loop_page elsewhere) = (Inr (''a.crt'', ''a.key''), loop_page elsewhere)"
    by (simp add: result_def generateSelfSignedCert_def cert_answer_def run_simps res_ok_def)
  let ?form = "changeTls True (form_of_inbound other_stored)"
  have form: "formData (loop_page elsewhere) = ?form"
    by (simp add: elsewhere_def launch_def modify_def open_edit_def close_form_def setFormData_def clear_errors_def
        load_form_def handleEdit_def other_stored_def split: prod.splits)
  have "hasCert (with_cert ''a.crt'' ''a.key'' ?form)" "\<not> is_vless (with_cert ''a.crt'' ''a.key'' ?form)"
    "truthy_opt (jget ''tag'' (with_cert ''a.crt'' ''a.key'' ?form))"
    "truthy_opt (jget ''listen_port'' (with_cert ''a.crt'' ''a.key'' ?form))"
    "external_raw (with_cert ''a.crt'' ''a.key'' ?form) = []" by code_simp+
  then have "case submission_of (with_cert ''a.crt'' ''a.key'' ?form) of Submitted j \<Rightarrow> True | _ \<Rightarrow> False"
    by (simp add: submission_of_def set_external_port_raw)
  then obtain j where j: "submission_of (formData (loop_page (resume 1 cert_answer elsewhere))) = Submitted j"
    unfolding late_certificate [OF t r, THEN conjunct2] form by (auto split: outcome.splits)
  have "jget ''tag'' ?form = Some (JStr ''b'')" by code_simp
  then show ?thesis using late_certificate_in_other_form [OF t r j] j form by simp
qed

end
