(* ===== verification/Editor.thy ===== *)
theory Editor
  imports Js_String
begin

text \<open>
  The text tools of the two raw editors, components/RawConfig.tsx and components/SingboxConfigEditor.tsx,
  which hold the same code: the difference of two texts by lines, and the search with its cursor.
  Focus and scrolling are not modelled.
\<close>

section \<open>The difference by lines\<close>

record diff_row =
  d_line :: nat
  d_original :: string
  d_current :: string

definition lines_of :: "string \<Rightarrow> string list" where
  "lines_of s = split_on (CHR 0x0A) s"

definition line_at :: "string list \<Rightarrow> nat \<Rightarrow> string" where
  \<comment> \<open>\<open>xs[i] ?? ''\<close>\<close>
  "line_at xs i = (if i < length xs then xs ! i else [])"

definition diff_lines :: "string \<Rightarrow> string \<Rightarrow> diff_row list" where
  "diff_lines original current =
     (let orig_lines = lines_of original; c = lines_of current;
          maxLen = max (length orig_lines) (length c)
      in map (\<lambda>i. \<lparr>d_line = i + 1, d_original = line_at orig_lines i, d_current = line_at c i\<rparr>)
           (filter (\<lambda>i. line_at orig_lines i \<noteq> line_at c i) [0..<maxLen]))"

text \<open>A text against which the rows are read: line \<open>i\<close> of the current text.\<close>

definition patched_line :: "diff_row list \<Rightarrow> string list \<Rightarrow> nat \<Rightarrow> string" where
  "patched_line rows orig_lines i =
     (case find (\<lambda>r. d_line r = i + 1) rows of Some r \<Rightarrow> d_current r | None \<Rightarrow> line_at orig_lines i)"

lemma find_unique:
  assumes "distinct (map f xs)" and "x \<in> set xs"
  shows "find (\<lambda>y. f y = f x) xs = Some x"
  using assms by (induction xs) (auto simp: rev_image_eqI)

lemma diff_rows:
  "r \<in> set (diff_lines original current) \<longleftrightarrow>
     (\<exists>i. r = \<lparr>d_line = i + 1, d_original = line_at (lines_of original) i, d_current = line_at (lines_of current) i\<rparr> \<and>
        line_at (lines_of original) i \<noteq> line_at (lines_of current) i)"
proof -
  have "i < max (length (lines_of original)) (length (lines_of current))"
    if "line_at (lines_of original) i \<noteq> line_at (lines_of current) i" for i
    using that by (auto simp: line_at_def split: if_splits)
  then show ?thesis by (auto simp: diff_lines_def Let_def)
qed

lemma distinct_diff_lines: "distinct (map d_line (diff_lines original current))"
  by (simp add: diff_lines_def Let_def distinct_map inj_on_def comp_def)

lemma patched_line_diff:
  "patched_line (diff_lines original current) (lines_of original) i = line_at (lines_of current) i"
proof (cases "line_at (lines_of original) i = line_at (lines_of current) i")
  case True
  then have "find (\<lambda>r. d_line r = i + 1) (diff_lines original current) = None"
    unfolding find_None_iff using diff_rows by auto
  then show ?thesis using True by (simp add: patched_line_def)
next
  case False
  let ?r = "\<lparr>d_line = i + 1, d_original = line_at (lines_of original) i, d_current = line_at (lines_of current) i\<rparr>"
  have "?r \<in> set (diff_lines original current)" using False diff_rows by blast
  from find_unique [OF distinct_diff_lines this]
  have "find (\<lambda>r. d_line r = i + 1) (diff_lines original current) = Some ?r" by simp
  then show ?thesis by (simp add: patched_line_def)
qed

section \<open>Searching\<close>

datatype direction = Next | Prev

text \<open>
  \<open>performFind\<close>: the match that is selected and the new cursor. A cursor of 0 counts as none; the
  search then starts at the selection of the text area. \<open>Math.max(0, a - b)\<close> is the truncated
  difference.
\<close>

definition performFind :: "direction \<Rightarrow> string \<Rightarrow> nat \<Rightarrow> nat \<Rightarrow> nat \<Rightarrow> string \<Rightarrow> (nat \<times> nat) option" where
  "performFind dir searchTerm searchCursor selectionStart selectionEnd haystack =
     (if searchTerm = [] then None
      else
        (case dir of
           Next \<Rightarrow>
             (let from = (if searchCursor \<noteq> 0 then searchCursor else selectionEnd)
              in map_option (\<lambda>idx. (idx, idx + length searchTerm))
                   (case index_of searchTerm haystack from of
                      Some idx \<Rightarrow> Some idx
                    | None \<Rightarrow> index_of searchTerm haystack 0))
         | Prev \<Rightarrow>
             (let from = (if searchCursor \<noteq> 0 then searchCursor - length searchTerm - 1 else selectionStart - 1)
              in map_option (\<lambda>idx. (idx, idx))
                   (case last_index_of searchTerm haystack from of
                      Some idx \<Rightarrow> Some idx
                    | None \<Rightarrow> last_index_of searchTerm haystack (length haystack)))))"

lemma find_Next:
  "pat \<noteq> [] \<Longrightarrow> performFind Next pat cursor a b hay = Some (i, cursor') \<Longrightarrow>
     starts_at pat hay i \<and> cursor' = i + length pat"
  by (auto simp: performFind_def Let_def index_of_Some split: option.splits)

lemma find_Prev:
  "pat \<noteq> [] \<Longrightarrow> performFind Prev pat cursor a b hay = Some (i, cursor') \<Longrightarrow>
     starts_at pat hay i \<and> cursor' = i"
  by (auto simp: performFind_def Let_def last_index_of_Some split: option.splits)

lemma wrapped_next:
  "(case index_of pat hay from of Some idx \<Rightarrow> Some idx | None \<Rightarrow> index_of pat hay 0) = None \<longleftrightarrow>
     (\<forall>i. \<not> starts_at pat hay i)"
proof (cases "index_of pat hay from")
  case None
  then show ?thesis by (simp add: index_of_None [of pat hay 0])
next
  case (Some k)
  then have "starts_at pat hay k" by (simp add: index_of_Some)
  with Some show ?thesis by auto
qed

lemma wrapped_prev:
  "(case last_index_of pat hay from of Some idx \<Rightarrow> Some idx | None \<Rightarrow> last_index_of pat hay (length hay)) = None
     \<longleftrightarrow> (\<forall>i. \<not> starts_at pat hay i)"
proof (cases "last_index_of pat hay from")
  case None
  have "i \<le> length hay" if "starts_at pat hay i" for i using that by (simp add: starts_at_def)
  then have "last_index_of pat hay (length hay) = None \<longleftrightarrow> (\<forall>i. \<not> starts_at pat hay i)"
    unfolding last_index_of_None by blast
  with None show ?thesis by simp
next
  case (Some k)
  then have "starts_at pat hay k" by (simp add: last_index_of_Some)
  with Some show ?thesis by auto
qed

lemma find_None:
  assumes "pat \<noteq> []"
  shows "performFind dir pat cursor a b hay = None \<longleftrightarrow> (\<forall>i. \<not> starts_at pat hay i)"
proof (cases dir)
  case Next
  with assms show ?thesis
    unfolding performFind_def Let_def by (simp only: direction.case if_False map_option_is_None wrapped_next)
next
  case Prev
  with assms show ?thesis
    unfolding performFind_def Let_def by (simp only: direction.case if_False map_option_is_None wrapped_prev)
qed

section \<open>Properties\<close>

text \<open>C22: the rows of a difference are what is needed to turn the one text into the other, line by line,
  each differing line once; there are none exactly when the texts agree on all lines, a missing line
  counting as an empty one. So the addition of blank lines at the end, which counts as an unsaved change,
  is shown as no difference.\<close>

theorem diff_lines_patch:
  "(\<forall>i. patched_line (diff_lines original current) (lines_of original) i = line_at (lines_of current) i) \<and>
   distinct (map d_line (diff_lines original current)) \<and>
   (diff_lines original current = [] \<longleftrightarrow>
      (\<forall>i. line_at (lines_of original) i = line_at (lines_of current) i)) \<and>
   (hay @ [CHR 0x0A] \<noteq> hay \<and> diff_lines hay (hay @ [CHR 0x0A]) = [])"
proof (intro conjI)
  show "\<forall>i. patched_line (diff_lines original current) (lines_of original) i = line_at (lines_of current) i"
    by (simp add: patched_line_diff)
  show "distinct (map d_line (diff_lines original current))" by (rule distinct_diff_lines)
  have empty: "diff_lines x y = [] \<longleftrightarrow> (\<forall>i. line_at (lines_of x) i = line_at (lines_of y) i)" for x y
    using diff_rows [of _ x y] by (metis list.set_intros(1) neq_Nil_conv empty_iff list.set(1))
  then show "diff_lines original current = [] \<longleftrightarrow>
      (\<forall>i. line_at (lines_of original) i = line_at (lines_of current) i)" .
  show "hay @ [CHR 0x0A] \<noteq> hay" by simp
  have "lines_of (hay @ [CHR 0x0A]) = lines_of hay @ [[]]"
    unfolding lines_of_def by (induction hay) (auto split: list.splits)
  then show "diff_lines hay (hay @ [CHR 0x0A]) = []"
    by (simp add: empty line_at_def nth_append)
qed

text \<open>C21: a search succeeds exactly when the term occurs, and selects an occurrence. Searching forward
  from a cursor finds the first occurrence from it on, and from the start when there is none. Searching
  backward from an occurrence skips the one that ends where it begins, and stays at an occurrence at the
  very start.\<close>

theorem performFind_correct:
  assumes "pat \<noteq> []"
  shows "(performFind dir pat cursor a b hay = None \<longleftrightarrow> (\<forall>i. \<not> starts_at pat hay i)) \<and>
    (\<forall>i cursor'. performFind dir pat cursor a b hay = Some (i, cursor') \<longrightarrow> starts_at pat hay i) \<and>
    (\<forall>i cursor'. cursor \<noteq> 0 \<and> performFind Next pat cursor a b hay = Some (i, cursor') \<longrightarrow>
       (cursor \<le> i \<and> (\<forall>j. cursor \<le> j \<and> j < i \<longrightarrow> \<not> starts_at pat hay j)) \<or>
       ((\<forall>j. cursor \<le> j \<longrightarrow> \<not> starts_at pat hay j) \<and> (\<forall>j < i. \<not> starts_at pat hay j))) \<and>
    (starts_at ''ab'' ''xababab'' 3 \<and> performFind Prev ''ab'' 5 5 7 ''xababab'' = Some (1, 1)) \<and>
    performFind Prev ''ab'' 0 0 2 ''abab'' = Some (0, 0)"
proof (intro conjI allI impI)
  show "performFind dir pat cursor a b hay = None \<longleftrightarrow> (\<forall>i. \<not> starts_at pat hay i)"
    by (rule find_None [OF assms])
next
  fix i cursor'
  assume "performFind dir pat cursor a b hay = Some (i, cursor')"
  then show "starts_at pat hay i"
    using find_Next [OF assms] find_Prev [OF assms] by (cases dir) auto
next
  fix i cursor'
  assume h: "cursor \<noteq> 0 \<and> performFind Next pat cursor a b hay = Some (i, cursor')"
  show "(cursor \<le> i \<and> (\<forall>j. cursor \<le> j \<and> j < i \<longrightarrow> \<not> starts_at pat hay j)) \<or>
       ((\<forall>j. cursor \<le> j \<longrightarrow> \<not> starts_at pat hay j) \<and> (\<forall>j < i. \<not> starts_at pat hay j))"
  proof (cases "index_of pat hay cursor")
    case None
    then have "index_of pat hay 0 = Some i"
      using h assms by (auto simp: performFind_def Let_def split: if_splits)
    then show ?thesis using None unfolding index_of_Some index_of_None by blast
  next
    case (Some k)
    then have "k = i" using h assms by (auto simp: performFind_def Let_def split: if_splits)
    then show ?thesis using Some unfolding index_of_Some by blast
  qed
next
  show "starts_at ''ab'' ''xababab'' 3" "performFind Prev ''ab'' 5 5 7 ''xababab'' = Some (1, 1)"
    "performFind Prev ''ab'' 0 0 2 ''abab'' = Some (0, 0)"
    by code_simp+
qed

section \<open>Witnesses\<close>

theorem performFind_correct_witness:
  "performFind Next ''ab'' 1 0 0 ''abab'' = Some (2, 4) \<and> starts_at ''ab'' ''abab'' 2"
proof -
  have r: "performFind Next ''ab'' 1 0 0 ''abab'' = Some (2, 4)" by code_simp
  then show ?thesis
    using performFind_correct [of "''ab''" Next 1 0 0 "''abab''"] by blast
qed

end
