(* ===== verification/Js_Json_Text.thy ===== *)
theory Js_Json_Text
  imports Js_Json
begin

text \<open>
  JSON text: \<open>JSON.parse(s)\<close>, \<open>JSON.stringify(v, null, 2)\<close> and \<open>JSON.stringify(v)\<close>. Characters are the 256 of Latin-1 and
  numbers are integers, as in \<open>Js_Json\<close>: a text with a fraction, an exponent or a further character is
  outside the model, where \<open>json_parse\<close> gives no value. A repeated key of an object keeps its place and
  takes the last value.
\<close>

section \<open>Printing\<close>

definition hex_digit :: "nat \<Rightarrow> char" where
  "hex_digit d = (if d < 10 then char_of (48 + d) else char_of (87 + d))"

definition escape_char :: "char \<Rightarrow> string" where
  "escape_char c =
     (if c = CHR 0x22 then [CHR 0x5C, CHR 0x22]
      else if c = CHR 0x5C then [CHR 0x5C, CHR 0x5C]
      else if c = CHR 0x08 then [CHR 0x5C, CHR ''b'']
      else if c = CHR 0x0C then [CHR 0x5C, CHR ''f'']
      else if c = CHR 0x0A then [CHR 0x5C, CHR ''n'']
      else if c = CHR 0x0D then [CHR 0x5C, CHR ''r'']
      else if c = CHR 0x09 then [CHR 0x5C, CHR ''t'']
      else if (of_char c :: nat) < 32
      then [CHR 0x5C, CHR ''u'', CHR ''0'', CHR ''0'', hex_digit (of_char c div 16), hex_digit (of_char c mod 16)]
      else [c])"

definition quote :: "string \<Rightarrow> string" where
  "quote s = CHR 0x22 # concat (map escape_char s) @ [CHR 0x22]"

text \<open>The indentation is \<open>None\<close> for the compact form, which has no line breaks and no spaces.\<close>

definition newline :: "nat option \<Rightarrow> string" where
  "newline ind = (case ind of None \<Rightarrow> [] | Some n \<Rightarrow> CHR 0x0A # replicate n (CHR '' ''))"

definition deeper :: "nat option \<Rightarrow> nat option" where
  "deeper ind = map_option (\<lambda>n. n + 2) ind"

definition colon :: "nat option \<Rightarrow> string" where
  "colon ind = (if ind = None then '':'' else '': '')"

fun stringify :: "nat option \<Rightarrow> json \<Rightarrow> string"
and stringify_items :: "nat option \<Rightarrow> json list \<Rightarrow> string"
and stringify_members :: "nat option \<Rightarrow> (string \<times> json) list \<Rightarrow> string" where
  "stringify ind JNull = ''null''"
| "stringify ind (JBool b) = (if b then ''true'' else ''false'')"
| "stringify ind (JNum i) = show_int i"
| "stringify ind (JStr s) = quote s"
| "stringify ind (JArr xs) =
     (if xs = [] then ''[]'' else CHR ''['' # stringify_items (deeper ind) xs @ newline ind @ '']'')"
| "stringify ind (JObj ms) =
     (if ms = [] then ''{}'' else CHR ''{'' # stringify_members (deeper ind) ms @ newline ind @ ''}'')"
| "stringify_items ind [] = []"
| "stringify_items ind (x # xs) =
     newline ind @ stringify ind x @ (if xs = [] then [] else CHR '','' # stringify_items ind xs)"
| "stringify_members ind [] = []"
| "stringify_members ind ((k, v) # ms) =
     newline ind @ quote k @ colon ind @ stringify ind v @
       (if ms = [] then [] else CHR '','' # stringify_members ind ms)"

definition json_stringify :: "json \<Rightarrow> string" where
  "json_stringify j = stringify (Some 0) j"

definition json_compact :: "json \<Rightarrow> string" where
  "json_compact j = stringify None j"

section \<open>Parsing\<close>

definition json_space :: "char \<Rightarrow> bool" where
  "json_space c \<longleftrightarrow> (of_char c :: nat) \<in> {9, 10, 13, 32}"

abbreviation skip_ws :: "string \<Rightarrow> string" where
  "skip_ws s \<equiv> dropWhile json_space s"

definition hex_val :: "char \<Rightarrow> nat option" where
  "hex_val c =
     (let n = (of_char c :: nat)
      in if 48 \<le> n \<and> n \<le> 57 then Some (n - 48)
         else if 97 \<le> n \<and> n \<le> 102 then Some (n - 87)
         else if 65 \<le> n \<and> n \<le> 70 then Some (n - 55)
         else None)"

definition unescape :: "char \<Rightarrow> char option" where
  "unescape e =
     (if e \<in> {CHR 0x22, CHR 0x5C, CHR ''/''} then Some e
      else if e = CHR ''b'' then Some (CHR 0x08)
      else if e = CHR ''f'' then Some (CHR 0x0C)
      else if e = CHR ''n'' then Some (CHR 0x0A)
      else if e = CHR ''r'' then Some (CHR 0x0D)
      else if e = CHR ''t'' then Some (CHR 0x09)
      else None)"

fun hex_escape :: "string \<Rightarrow> (char \<times> string) option" where
  "hex_escape (a # b # c # d # r) =
     (if a = CHR ''0'' \<and> b = CHR ''0'' then
        (case (hex_val c, hex_val d) of
           (Some h, Some l) \<Rightarrow> Some (char_of (16 * h + l), r)
         | _ \<Rightarrow> None)
      else None)"
| "hex_escape _ = None"

fun parse_str :: "nat \<Rightarrow> string \<Rightarrow> (string \<times> string) option" where
  "parse_str 0 s = None"
| "parse_str (Suc n) [] = None"
| "parse_str (Suc n) (c # r) =
     (if c = CHR 0x22 then Some ([], r)
      else if c = CHR 0x5C then
        (case r of
           [] \<Rightarrow> None
         | e # r' \<Rightarrow>
             (case (if e = CHR ''u'' then hex_escape r' else map_option (\<lambda>x. (x, r')) (unescape e)) of
                None \<Rightarrow> None
              | Some (x, r'') \<Rightarrow> map_option (\<lambda>(t, u). (x # t, u)) (parse_str n r'')))
      else if (of_char c :: nat) < 32 then None
      else map_option (\<lambda>(t, u). (c # t, u)) (parse_str n r))"

definition number_end :: "string \<Rightarrow> bool" where
  "number_end r \<longleftrightarrow> (case r of [] \<Rightarrow> True | c # _ \<Rightarrow> \<not> is_digit c \<and> c \<notin> {CHR ''.'', CHR ''e'', CHR ''E''})"

definition parse_number :: "string \<Rightarrow> (int \<times> string) option" where
  "parse_number s =
     (let neg = (s \<noteq> [] \<and> hd s = CHR ''-'');
          body = (if neg then tl s else s);
          ds = takeWhile is_digit body; r = dropWhile is_digit body
      in if ds = [] \<or> (hd ds = CHR ''0'' \<and> length ds \<noteq> 1) \<or> \<not> number_end r then None
         else Some ((if neg then - int (digits_val ds) else int (digits_val ds)), r))"

fun parse_value :: "nat \<Rightarrow> string \<Rightarrow> (json \<times> string) option"
and parse_items :: "nat \<Rightarrow> string \<Rightarrow> (json list \<times> string) option"
and parse_members :: "nat \<Rightarrow> string \<Rightarrow> ((string \<times> json) list \<times> string) option" where
  "parse_value 0 s = None"
| "parse_value (Suc n) s =
     (case skip_ws s of
        [] \<Rightarrow> None
      | c # r \<Rightarrow>
          if c = CHR 0x22 then map_option (\<lambda>(t, u). (JStr t, u)) (parse_str (Suc (length r)) r)
          else if c = CHR ''['' then
            (case skip_ws r of
               [] \<Rightarrow> None
             | d # u \<Rightarrow> if d = CHR '']'' then Some (JArr [], u)
                        else map_option (\<lambda>(xs, u). (JArr xs, u)) (parse_items n r))
          else if c = CHR ''{'' then
            (case skip_ws r of
               [] \<Rightarrow> None
             | d # u \<Rightarrow> if d = CHR ''}'' then Some (JObj [], u)
                        else map_option
                          (\<lambda>(ms, u). (JObj (fold (\<lambda>(k, v). member_set k v) ms []), u)) (parse_members n r))
          else if take 4 (c # r) = ''null'' then Some (JNull, drop 4 (c # r))
          else if take 4 (c # r) = ''true'' then Some (JBool True, drop 4 (c # r))
          else if take 5 (c # r) = ''false'' then Some (JBool False, drop 5 (c # r))
          else map_option (\<lambda>(i, u). (JNum i, u)) (parse_number (c # r)))"
| "parse_items 0 s = None"
| "parse_items (Suc n) s =
     (case parse_value n s of
        None \<Rightarrow> None
      | Some (x, r) \<Rightarrow>
          (case skip_ws r of
             [] \<Rightarrow> None
           | c # u \<Rightarrow>
               if c = CHR '']'' then Some ([x], u)
               else if c = CHR '','' then map_option (\<lambda>(xs, u). (x # xs, u)) (parse_items n u)
               else None))"
| "parse_members 0 s = None"
| "parse_members (Suc n) s =
     (case skip_ws s of
        [] \<Rightarrow> None
      | c # r \<Rightarrow>
          if c \<noteq> CHR 0x22 then None
          else
            (case parse_str (Suc (length r)) r of
               None \<Rightarrow> None
             | Some (k, r1) \<Rightarrow>
                 (case skip_ws r1 of
                    [] \<Rightarrow> None
                  | d # r2 \<Rightarrow>
                      if d \<noteq> CHR '':'' then None
                      else
                        (case parse_value n r2 of
                           None \<Rightarrow> None
                         | Some (v, r3) \<Rightarrow>
                             (case skip_ws r3 of
                                [] \<Rightarrow> None
                              | e # u \<Rightarrow>
                                  if e = CHR ''}'' then Some ([(k, v)], u)
                                  else if e = CHR '','' then
                                    map_option (\<lambda>(ms, u). ((k, v) # ms, u)) (parse_members n u)
                                  else None)))))"

text \<open>Of two nested calls one consumes a character, so twice the length of the text is fuel enough.\<close>

definition json_parse :: "string \<Rightarrow> json option" where
  "json_parse s =
     (case parse_value (Suc (2 * length s)) s of
        Some (j, r) \<Rightarrow> if skip_ws r = [] then Some j else None
      | None \<Rightarrow> None)"


section \<open>Reading back what was printed\<close>

text \<open>An object of JavaScript has each key once.\<close>

fun well_formed :: "json \<Rightarrow> bool" where
  "well_formed (JArr xs) = (\<forall>x \<in> set xs. well_formed x)"
| "well_formed (JObj ms) = (distinct (map fst ms) \<and> (\<forall>m \<in> set ms. well_formed (snd m)))"
| "well_formed _ = True"

lemma json_hex_digit: "d < 16 \<Longrightarrow> hex_val (hex_digit d) = Some d"
  by (auto simp: hex_val_def hex_digit_def Let_def)

lemma char_of_split: "char_of (16 * (of_char c div 16) + of_char c mod 16 :: nat) = c"
  by simp

lemma parse_str_escape:
  assumes "length (concat (map escape_char s)) < n"
  shows "parse_str n (concat (map escape_char s) @ CHR 0x22 # rest) = Some (s, rest)"
  using assms
proof (induction s arbitrary: n)
  case Nil
  then show ?case by (cases n) auto
next
  case (Cons c s)
  then obtain m where n: "n = Suc m" by (cases n) auto
  let ?tail = "concat (map escape_char s) @ CHR 0x22 # rest"
  have ih: "parse_str m ?tail = Some (s, rest)"
  proof (rule Cons.IH)
    have "escape_char c \<noteq> []" by (simp add: escape_char_def)
    then show "length (concat (map escape_char s)) < m"
      using Cons.prems n by (cases "escape_char c") auto
  qed
  have short: "\<exists>e. escape_char c = [CHR 0x5C, e] \<and> unescape e = Some c \<and> e \<noteq> CHR ''u''"
    if "c \<in> {CHR 0x22, CHR 0x5C, CHR 0x08, CHR 0x0C, CHR 0x0A, CHR 0x0D, CHR 0x09}"
    using that by (auto simp: escape_char_def unescape_def)
  have other: "escape_char c = (if (of_char c :: nat) < 32
      then [CHR 0x5C, CHR ''u'', CHR ''0'', CHR ''0'', hex_digit (of_char c div 16), hex_digit (of_char c mod 16)]
      else [c])"
    if "c \<notin> {CHR 0x22, CHR 0x5C, CHR 0x08, CHR 0x0C, CHR 0x0A, CHR 0x0D, CHR 0x09}"
    using that by (simp add: escape_char_def)
  consider (simple) e where "escape_char c = [CHR 0x5C, e]" "unescape e = Some c" "e \<noteq> CHR ''u''"
    | (hex) "escape_char c = [CHR 0x5C, CHR ''u'', CHR ''0'', CHR ''0'',
        hex_digit (of_char c div 16), hex_digit (of_char c mod 16)]" "(of_char c :: nat) < 32"
    | (plain) "escape_char c = [c]" "c \<noteq> CHR 0x22" "c \<noteq> CHR 0x5C" "\<not> (of_char c :: nat) < 32"
  proof (cases "c \<in> {CHR 0x22, CHR 0x5C, CHR 0x08, CHR 0x0C, CHR 0x0A, CHR 0x0D, CHR 0x09}")
    case True
    then show ?thesis using short [OF True] that(1) by blast
  next
    case False
    then show ?thesis using other [OF False] that(2,3) by (cases "(of_char c :: nat) < 32") auto
  qed
  then show ?case
  proof cases
    case simple
    then show ?thesis using ih by (simp add: n)
  next
    case hex
    have "hex_escape (CHR ''0'' # CHR ''0'' # hex_digit (of_char c div 16) # hex_digit (of_char c mod 16) # ?tail)
        = Some (c, ?tail)"
      using hex(2) by (simp add: json_hex_digit char_of_split)
    then show ?thesis using ih hex(1) by (simp add: n)
  next
    case plain
    then show ?thesis using ih by (simp add: n)
  qed
qed

lemma parse_quote:
  "parse_str (Suc (length (concat (map escape_char s) @ CHR 0x22 # rest)))
     (concat (map escape_char s) @ CHR 0x22 # rest) = Some (s, rest)"
  by (rule parse_str_escape) simp

lemma show_nat_head: "show_nat n \<noteq> [] \<and> (hd (show_nat n) = CHR ''0'' \<longrightarrow> length (show_nat n) = 1)"
proof (induction n rule: show_nat.induct)
  case (1 n)
  show ?case
  proof (cases "n < 10")
    case True
    then show ?thesis by (simp add: show_nat.simps [of n])
  next
    case False
    have "0 < n div 10" using False by simp
    then have "hd (show_nat (n div 10)) \<noteq> CHR ''0''"
    proof -
      have "hd (show_nat m) = CHR ''0'' \<Longrightarrow> length (show_nat m) = 1 \<Longrightarrow> m = 0" for m
      proof -
        assume h: "hd (show_nat m) = CHR ''0''" "length (show_nat m) = 1"
        then have "show_nat m = [CHR ''0'']" by (cases "show_nat m") auto
        then have "digits_val (show_nat m) = 0" by (simp add: digits_val_def digit_val_def)
        then show "m = 0" by simp
      qed
      with 1 [OF False] \<open>0 < n div 10\<close> show ?thesis by (metis less_irrefl)
    qed
    with False show ?thesis by (simp add: show_nat.simps [of n])
  qed
qed

lemma parse_number_show:
  assumes "number_end rest"
  shows "parse_number (show_int i @ rest) = Some (i, rest)"
proof -
  let ?ds = "show_nat (nat \<bar>i\<bar>)"
  have d: "\<forall>c \<in> set ?ds. is_digit c" by (rule show_nat_digits)
  have r: "rest = [] \<or> \<not> is_digit (hd rest)" using assms by (cases rest) (auto simp: number_end_def)
  have tw: "takeWhile is_digit (?ds @ rest) = ?ds" "dropWhile is_digit (?ds @ rest) = rest"
    using d r by (cases rest; simp add: takeWhile_append dropWhile_append)+
  have "hd ?ds \<in> set ?ds" using show_nat_head [of "nat \<bar>i\<bar>"] by simp
  then have hd: "hd ?ds \<noteq> CHR ''-''" using d is_digit_props by blast
  show ?thesis
  proof (cases "i < 0")
    case True
    then have "show_int i = CHR ''-'' # ?ds" by (simp add: show_int_def)
    then show ?thesis
      using tw assms show_nat_head [of "nat \<bar>i\<bar>"] True by (simp add: parse_number_def Let_def)
  next
    case False
    then have "show_int i = ?ds" by (simp add: show_int_def)
    then show ?thesis
      using tw assms show_nat_head [of "nat \<bar>i\<bar>"] False hd
      by (simp add: parse_number_def Let_def hd_append)
  qed
qed

lemma skip_newline [simp]: "skip_ws (newline ind @ s) = skip_ws s"
proof -
  have "skip_ws (replicate n (CHR '' '') @ s) = skip_ws s" for n
    by (induction n) (simp_all add: json_space_def)
  then show ?thesis by (simp add: newline_def json_space_def split: option.split)
qed

lemma parse_value_newline: "parse_value n (newline ind @ s) = parse_value n s"
  by (cases n) simp_all

lemma parse_value_colon: "parse_value n (tl (colon ind) @ s) = parse_value n s"
  by (cases n; cases ind) (simp_all add: colon_def json_space_def)

lemma parse_members_newline: "parse_members n (newline ind @ s) = parse_members n s"
  by (cases n) simp_all

lemma number_end_after:
  "c \<in> {CHR '']'', CHR ''}'', CHR '',''} \<Longrightarrow> number_end (newline ind @ c # s) \<and> number_end (c # s)"
  by (auto simp: newline_def number_end_def is_digit_def split: option.split)

lemma fold_member_set_gen:
  "distinct (map fst (acc @ ms)) \<Longrightarrow> fold (\<lambda>(k, v). member_set k v) ms acc = acc @ ms"
proof (induction ms arbitrary: acc)
  case Nil
  then show ?case by simp
next
  case (Cons m ms)
  obtain k v where m: "m = (k, v)" by force
  have "member_set k v xs = xs @ [(k, v)]" if "k \<notin> fst ` set xs" for xs
    using that by (induction xs) auto
  then have "member_set k v acc = acc @ [(k, v)]" using Cons.prems m by auto
  then show ?case using Cons.IH [of "acc @ [(k, v)]"] Cons.prems m by simp
qed

lemma fold_member_set: "distinct (map fst ms) \<Longrightarrow> fold (\<lambda>(k, v). member_set k v) ms [] = ms"
  using fold_member_set_gen [of "[]" ms] by simp

lemma show_int_start:
  "\<exists>c cs. show_int i = c # cs \<and> \<not> json_space c \<and> c \<notin> {CHR 0x22, CHR ''['', CHR ''{'', CHR ''n'', CHR ''t'', CHR ''f''}"
proof (cases "i < 0")
  case True
  then show ?thesis by (simp add: show_int_def json_space_def)
next
  case False
  obtain c cs where s: "show_nat (nat i) = c # cs" by (cases "show_nat (nat i)") auto
  then have "is_digit c" using show_nat_digits [of "nat i"] by simp
  then show ?thesis using False s by (auto simp: show_int_def is_digit_def json_space_def)
qed

lemma stringify_start:
  "\<exists>c cs. stringify ind j = c # cs \<and> \<not> json_space c \<and> c \<notin> {CHR '']'', CHR ''}'', CHR '',''}"
proof (cases j)
  case (JNum i)
  have "c \<in> set (show_int i) \<Longrightarrow> is_digit c \<or> c = CHR ''-''" for c
    using show_nat_digits by (auto simp: show_int_def split: if_splits)
  moreover obtain c cs where "show_int i = c # cs" "\<not> json_space c" using show_int_start by blast
  ultimately show ?thesis using JNum by (force simp: is_digit_def)
qed (auto simp: json_space_def quote_def)

lemma items_start:
  "xs \<noteq> [] \<Longrightarrow> \<exists>c cs. skip_ws (stringify_items ind xs @ r) = c # cs \<and> c \<noteq> CHR '']''"
proof (cases xs)
  case (Cons x ys)
  then show ?thesis using stringify_start [of ind x] by (auto simp: append_assoc)
qed simp

lemma members_start:
  "ms \<noteq> [] \<Longrightarrow> \<exists>c cs. skip_ws (stringify_members ind ms @ r) = c # cs \<and> c \<noteq> CHR ''}''"
proof (cases ms)
  case (Cons m ms')
  then show ?thesis by (cases m) (simp add: quote_def json_space_def)
qed simp

lemma length_stringify: "0 < length (stringify ind j)"
  using stringify_start [of ind j] by auto

text \<open>One step of each parser, on what the printer writes.\<close>

lemma parse_array:
  assumes "xs \<noteq> []" and "parse_items n (stringify_items (deeper ind) xs @ newline ind @ CHR '']'' # rest) = Some (xs, rest)"
  shows "parse_value (Suc n) (stringify ind (JArr xs) @ rest) = Some (JArr xs, rest)"
proof -
  obtain y ys where "skip_ws (stringify_items (deeper ind) xs @ newline ind @ CHR '']'' # rest) = y # ys"
    "y \<noteq> CHR '']''"
    using items_start [OF assms(1)] by blast
  then show ?thesis using assms by (simp add: json_space_def)
qed

lemma parse_object:
  assumes "ms \<noteq> []" and "distinct (map fst ms)"
    and "parse_members n (stringify_members (deeper ind) ms @ newline ind @ CHR ''}'' # rest) = Some (ms, rest)"
  shows "parse_value (Suc n) (stringify ind (JObj ms) @ rest) = Some (JObj ms, rest)"
proof -
  obtain y ys where "skip_ws (stringify_members (deeper ind) ms @ newline ind @ CHR ''}'' # rest) = y # ys"
    "y \<noteq> CHR ''}''"
    using members_start [OF assms(1)] by blast
  then show ?thesis using assms by (simp add: json_space_def fold_member_set)
qed

lemma parse_item:
  assumes "more = (if xs = [] then [] else CHR '','' # stringify_items ind xs)"
    and "parse_value n (stringify ind x @ more @ newline i @ CHR '']'' # rest) = Some (x, more @ newline i @ CHR '']'' # rest)"
    and "xs \<noteq> [] \<Longrightarrow> parse_items n (stringify_items ind xs @ newline i @ CHR '']'' # rest) = Some (xs, rest)"
  shows "parse_items (Suc n) (stringify_items ind (x # xs) @ newline i @ CHR '']'' # rest) = Some (x # xs, rest)"
  using assms by (cases "xs = []") (simp_all add: parse_value_newline json_space_def del: parse_value.simps)

lemma parse_member:
  assumes "more = (if ms = [] then [] else CHR '','' # stringify_members ind ms)"
    and v: "parse_value n (stringify ind v @ more @ newline i @ CHR ''}'' # rest) = Some (v, more @ newline i @ CHR ''}'' # rest)"
    and "ms \<noteq> [] \<Longrightarrow> parse_members n (stringify_members ind ms @ newline i @ CHR ''}'' # rest) = Some (ms, rest)"
  shows "parse_members (Suc n) (stringify_members ind ((k, v) # ms) @ newline i @ CHR ''}'' # rest) = Some ((k, v) # ms, rest)"
proof -
  let ?t = "CHR '':'' # tl (colon ind) @ stringify ind v @ more @ newline i @ CHR ''}'' # rest"
  have colon: "colon ind = CHR '':'' # tl (colon ind)" by (simp add: colon_def)
  have "parse_value n (tl (colon ind) @ stringify ind v @ more @ newline i @ CHR ''}'' # rest) =
      Some (v, more @ newline i @ CHR ''}'' # rest)"
    using v by (simp only: parse_value_colon)
  moreover have "parse_str (Suc (length (concat (map escape_char k) @ CHR 0x22 # ?t)))
      (concat (map escape_char k) @ CHR 0x22 # ?t) = Some (k, ?t)"
    by (rule parse_quote)
  ultimately show ?thesis
    using assms(1,3)
    by (subst stringify_members.simps, subst colon)
      (cases "ms = []", simp_all add: parse_members_newline json_space_def quote_def del: parse_value.simps parse_str.simps)
qed

lemma parse_stringify:
  "well_formed j \<Longrightarrow> 2 * length (stringify ind j) \<le> n \<Longrightarrow> number_end rest \<Longrightarrow>
     parse_value (Suc n) (stringify ind j @ rest) = Some (j, rest)"
  "xs \<noteq> [] \<Longrightarrow> (\<forall>x \<in> set xs. well_formed x) \<Longrightarrow> 2 * length (stringify_items ind xs) < n \<Longrightarrow>
     parse_items (Suc n) (stringify_items ind xs @ newline i @ CHR '']'' # rest) = Some (xs, rest)"
  "ms \<noteq> [] \<Longrightarrow> (\<forall>m \<in> set ms. well_formed (snd m)) \<Longrightarrow> 2 * length (stringify_members ind ms) < n \<Longrightarrow>
     parse_members (Suc n) (stringify_members ind ms @ newline i @ CHR ''}'' # rest) = Some (ms, rest)"
proof (induction ind j and ind xs and ind ms arbitrary: n rest and n rest i and n rest i
    rule: stringify_stringify_items_stringify_members.induct)
  case (3 ind i)
  obtain c cs where c: "show_int i = c # cs" "\<not> json_space c"
    "c \<notin> {CHR 0x22, CHR ''['', CHR ''{'', CHR ''n'', CHR ''t'', CHR ''f''}"
    using show_int_start by blast
  have "parse_number (c # cs @ rest) = Some (i, rest)"
    using parse_number_show [OF 3(3), of i] c(1) by simp
  then show ?case using c by auto
next
  case (4 ind s)
  then show ?case using parse_quote [of s rest] by (simp add: quote_def json_space_def)
next
  case (5 ind xs)
  show ?case
  proof (cases "xs = []")
    case False
    then obtain m where n: "n = Suc m" using 5(3) by (cases n) auto
    show ?thesis unfolding n
      by (rule parse_array [OF False], rule 5(1)) (use False 5(2,3) n in simp_all)
  qed (simp add: json_space_def)
next
  case (6 ind ms)
  show ?case
  proof (cases "ms = []")
    case False
    then obtain m where n: "n = Suc m" using 6(3) by (cases n) auto
    show ?thesis unfolding n
      by (rule parse_object [OF False], use 6(2) in simp, rule 6(1)) (use False 6(2,3) n in simp_all)
  qed (simp add: json_space_def)
next
  case (8 ind x xs)
  obtain m where n: "n = Suc m" using 8(5) by (cases n) auto
  have "2 * length (stringify ind x) \<le> m" "xs \<noteq> [] \<Longrightarrow> 2 * length (stringify_items ind xs) < m"
    using 8(5) n length_stringify [of ind x] by auto
  then show ?case unfolding n
    using 8(4) by (intro parse_item [OF refl] 8(1,2)) (auto simp: number_end_after)
next
  case (10 ind k v ms)
  obtain m where n: "n = Suc m" using 10(5) by (cases n) auto
  have "2 * length (stringify ind v) \<le> m" "ms \<noteq> [] \<Longrightarrow> 2 * length (stringify_members ind ms) < m"
    using 10(5) n length_stringify [of ind v] by auto
  then show ?case unfolding n
    using 10(4) by (intro parse_member [OF refl] 10(1,2)) (auto simp: number_end_after)
qed (simp_all add: json_space_def)

lemma stringify_round_trip: "well_formed j \<Longrightarrow> json_parse (stringify ind j) = Some j"
  using parse_stringify(1) [of j ind "2 * length (stringify ind j)" "[]"]
  by (simp add: json_parse_def number_end_def)

lemma json_round_trip: "well_formed j \<Longrightarrow> json_parse (json_stringify j) = Some j"
  by (simp add: json_stringify_def stringify_round_trip)

lemma compact_round_trip: "well_formed j \<Longrightarrow> json_parse (json_compact j) = Some j"
  by (simp add: json_compact_def stringify_round_trip)

end
