(* ===== verification/Singbox_Config.thy ===== *)
theory Singbox_Config
  imports Api_Plan Editor Js_Json_Text
begin

text \<open>
  components/SingboxConfigEditor.tsx: the raw editor of the sing-box configuration and its list of simple
  rules (one inbound, one outbound), which is read from and written back into the configuration. The
  locale's date text and the message of a JSON syntax error are parameters.
\<close>

section \<open>State\<close>

datatype sb_tab = TabInbounds | TabRules | TabRaw

record rule =
  r_inbound :: string
  r_outbound :: string
  r_ipVersion :: string

record sb_state = browser +
  activeTab :: sb_tab
  config :: string
  originalConfig :: string
  loading :: bool
  saving :: bool
  searchTerm :: string
  searchCursor :: nat
  selectionStart :: nat
  selectionEnd :: nat
  showDiff :: bool
  lastBackup :: string
  rules :: "rule list"
  rulesLoading :: bool
  rulesSaving :: bool
  availableInbounds :: "string list"
  availableOutbounds :: "string list"
  preservedRulesCount :: nat

type_synonym 'a sb_io = "(http_request, fetch_result, sb_state, 'a) io"

section \<open>The raw editor\<close>

definition pretty :: "string \<Rightarrow> string" where
  "pretty content = (case json_parse content of Some j \<Rightarrow> json_stringify j | None \<Rightarrow> content)"

definition loadConfig :: "unit sb_io" where
  "loadConfig =
     seq (modify (\<lambda>s. s\<lparr>loading := True\<rparr>))
       (try_finally
         (try_catch
           (bind getSingboxConfig (\<lambda>content.
              modify (\<lambda>s. s\<lparr>config := pretty content, originalConfig := pretty content\<rparr>)))
           (\<lambda>_. skip))
         (modify (\<lambda>s. s\<lparr>loading := False\<rparr>)))"

definition loadBackupMeta :: "(string \<Rightarrow> string) \<Rightarrow> unit sb_io" where
  "loadBackupMeta locale_date =
     try_catch
       (bind getBackupMeta (\<lambda>meta. modify (\<lambda>s. s\<lparr>lastBackup :=
          (case bm_singbox_last_backup meta of
             Some d \<Rightarrow> if d \<noteq> [] then locale_date d else []
           | None \<Rightarrow> [])\<rparr>)))
       (\<lambda>_. skip)"

text \<open>\<open>'Backup failed: ' + err.message || err\<close> is the sum, which is never empty.\<close>

definition handleBackup :: "(string \<Rightarrow> string) \<Rightarrow> unit sb_io" where
  "handleBackup locale_date =
     try_catch
       (seq backupConfig (seq (modify (alert ''Backup created (.bak)'')) (loadBackupMeta locale_date)))
       (\<lambda>err. modify (alert (''Backup failed: '' @ err_message err)))"

definition handleRestore :: "(string \<Rightarrow> string) \<Rightarrow> bool \<Rightarrow> unit sb_io" where
  "handleRestore locale_date confirmed =
     (if \<not> confirmed then skip
      else
        try_catch
          (bind restoreConfig (\<lambda>cfg.
             seq (modify (\<lambda>s. s\<lparr>config := json_stringify cfg, originalConfig := json_stringify cfg\<rparr>))
               (seq (modify (alert ''Restored from backup'')) (loadBackupMeta locale_date))))
          (\<lambda>err. modify (alert (''Restore failed: '' @ err_message err))))"

definition find_in_config :: "direction \<Rightarrow> sb_state \<Rightarrow> sb_state" where
  "find_in_config dir s =
     (case performFind dir (searchTerm s) (searchCursor s) (selectionStart s) (selectionEnd s) (config s) of
        None \<Rightarrow> s
      | Some (idx, cursor) \<Rightarrow>
          s\<lparr>searchCursor := cursor, selectionStart := idx, selectionEnd := idx + length (searchTerm s)\<rparr>)"

definition handleSave :: "(string \<Rightarrow> string) \<Rightarrow> sb_state \<Rightarrow> unit sb_io" where
  "handleSave syntax_message c =
     seq (modify (\<lambda>s. s\<lparr>saving := True\<rparr>))
       (try_finally
         (try_catch
           (case json_parse (config c) of
              None \<Rightarrow> seq (modify (alert (''Invalid JSON: '' @ syntax_message (config c))))
                        (modify (\<lambda>s. s\<lparr>saving := False\<rparr>))
            | Some _ \<Rightarrow>
                seq (updateSingboxConfig (config c))
                  (seq (modify (\<lambda>s. s\<lparr>originalConfig := config c\<rparr>))
                    (modify (alert ''Configuration saved and service restarted!''))))
           (\<lambda>err. modify (alert (''Failed to save: '' @ str_or (err_message err) (show_err err)))))
         (modify (\<lambda>s. s\<lparr>saving := False\<rparr>)))"

definition hasChanges :: "sb_state \<Rightarrow> bool" where
  "hasChanges s = (config s \<noteq> originalConfig s)"

definition diffLines :: "sb_state \<Rightarrow> diff_row list" where
  "diffLines s = diff_lines (originalConfig s) (config s)"

section \<open>Simple rules\<close>

definition is_string :: "json \<Rightarrow> bool" where
  "is_string j = (case j of JStr _ \<Rightarrow> True | _ \<Rightarrow> False)"

definition isSimpleRule :: "json \<Rightarrow> bool" where
  "isSimpleRule r =
     (case (jget ''inbound'' r, jget ''outbound'' r) of
        (Some inb, Some outb) \<Rightarrow>
          list_all (\<lambda>k. k \<in> {''inbound'', ''outbound'', ''ip_version''}) (jkeys r) \<and>
          (case inb of JArr xs \<Rightarrow> list_all is_string xs | _ \<Rightarrow> is_string inb) \<and>
          is_string outb \<and> trim (str_of (Some outb)) \<noteq> [] \<and>
          jget ''ip_version'' r \<in> {None, Some (JNum 4), Some (JNum 6)}
      | _ \<Rightarrow> False)"

definition simple_rule :: "json \<Rightarrow> rule" where
  "simple_rule r =
     \<lparr>r_inbound =
        (case jget ''inbound'' r of
           Some (JArr (x # _)) \<Rightarrow> str_of (Some x)
         | Some (JArr []) \<Rightarrow> []
         | v \<Rightarrow> str_of v),
      r_outbound = trim (str_of (jget ''outbound'' r)),
      r_ipVersion =
        (case jget ''ip_version'' r of
           Some (JNum i) \<Rightarrow> if i = 4 then ''4'' else if i = 6 then ''6'' else []
         | _ \<Rightarrow> [])\<rparr>"

definition tags_of :: "json option \<Rightarrow> string list" where
  "tags_of v =
     (case v of
        Some (JArr xs) \<Rightarrow> filter (\<lambda>t. t \<noteq> []) (map (\<lambda>i. trim (str_of (jget ''tag'' i))) xs)
      | _ \<Rightarrow> [])"

definition setLoadedRules :: "json \<Rightarrow> sb_state \<Rightarrow> sb_state" where
  "setLoadedRules parsed s =
     (let s1 = s\<lparr>availableInbounds := tags_of (jget ''inbounds'' parsed),
                 availableOutbounds := tags_of (jget ''outbounds'' parsed)\<rparr>
      in case jget_opt ''rules'' (jget ''route'' parsed) of
           Some (JArr rulesArr) \<Rightarrow>
             s1\<lparr>preservedRulesCount := length (filter (\<lambda>r. \<not> isSimpleRule r) rulesArr),
                rules := map simple_rule (filter isSimpleRule rulesArr)\<rparr>
         | _ \<Rightarrow> s1\<lparr>rules := [], preservedRulesCount := 0\<rparr>)"

definition syntax_error :: js_error where
  "syntax_error = JsError ''SyntaxError'' ''JSON.parse''"

definition parse_or_throw :: "string \<Rightarrow> json sb_io" where
  "parse_or_throw raw = (case json_parse raw of Some j \<Rightarrow> Return j | None \<Rightarrow> Throw syntax_error)"

definition loadRules :: "unit sb_io" where
  "loadRules =
     seq (modify (\<lambda>s. s\<lparr>rulesLoading := True\<rparr>))
       (try_finally
         (try_catch
           (bind getSingboxConfig (\<lambda>raw. bind (parse_or_throw raw) (\<lambda>parsed.
              modify (setLoadedRules parsed))))
           (\<lambda>_. modify (alert ''Failed to load rules'')))
         (modify (\<lambda>s. s\<lparr>rulesLoading := False\<rparr>)))"

section \<open>Saving rules\<close>

definition rule_json :: "rule \<Rightarrow> json" where
  "rule_json r =
     JObj ([(''inbound'', JArr [JStr (r_inbound r)]), (''outbound'', JStr (trim (r_outbound r)))] @
       (if r_ipVersion r = ''4'' then [(''ip_version'', JNum 4)]
        else if r_ipVersion r = ''6'' then [(''ip_version'', JNum 6)] else []))"

text \<open>
  \<open>parsed.route || {}\<close>, the rules it holds, and the assignments \<open>parsed.route = route\<close> and
  \<open>parsed.route.rules = nextRules\<close>: on a primitive an assignment throws, on an array it leaves the text
  of \<open>JSON.stringify\<close> as it is.
\<close>

definition route_of :: "json \<Rightarrow> json" where
  "route_of parsed =
     (case jget ''route'' parsed of Some r \<Rightarrow> if truthy r then r else JObj [] | None \<Rightarrow> JObj [])"

definition existing_rules :: "json \<Rightarrow> json list" where
  "existing_rules parsed = (case jget ''rules'' (route_of parsed) of Some (JArr xs) \<Rightarrow> xs | _ \<Rightarrow> [])"

definition set_rules :: "json list \<Rightarrow> json \<Rightarrow> json option" where
  "set_rules nextRules parsed =
     (case parsed of
        JObj _ \<Rightarrow>
          (case route_of parsed of
             JObj ms \<Rightarrow> Some (jset ''route'' (jset ''rules'' (JArr nextRules) (JObj ms)) parsed)
           | JArr xs \<Rightarrow> Some (jset ''route'' (JArr xs) parsed)
           | _ \<Rightarrow> None)
      | JArr xs \<Rightarrow> Some (JArr xs)
      | _ \<Rightarrow> None)"

definition next_rules :: "rule list \<Rightarrow> json \<Rightarrow> json list" where
  "next_rules rs parsed = filter (\<lambda>r. \<not> isSimpleRule r) (existing_rules parsed) @ map rule_json rs"

definition type_error :: js_error where
  "type_error = JsError ''TypeError'' ''assignment''"

definition saveRules :: "sb_state \<Rightarrow> unit sb_io" where
  "saveRules c =
     (if list_ex (\<lambda>r. r_inbound r = [] \<or> r_outbound r = []) (rules c)
      then modify (alert ''Please fix rules before saving'')
      else
        seq (modify (\<lambda>s. s\<lparr>rulesSaving := True\<rparr>))
          (try_finally
            (try_catch
              (bind getSingboxConfig (\<lambda>raw. bind (parse_or_throw raw) (\<lambda>parsed.
                 case set_rules (next_rules (rules c) parsed) parsed of
                   None \<Rightarrow> Throw type_error
                 | Some edited \<Rightarrow>
                     seq (updateSingboxConfig (json_stringify edited))
                       (seq (modify (alert ''Rules saved'')) loadRules))))
              (\<lambda>_. modify (alert ''Failed to save rules'')))
            (modify (\<lambda>s. s\<lparr>rulesSaving := False\<rparr>))))"

definition addRule :: "sb_state \<Rightarrow> sb_state" where
  "addRule s = s\<lparr>rules := rules s @ [\<lparr>r_inbound = [], r_outbound = [], r_ipVersion = []\<rparr>]\<rparr>"

definition updateRule :: "nat \<Rightarrow> (rule \<Rightarrow> rule) \<Rightarrow> sb_state \<Rightarrow> sb_state" where
  "updateRule idx patch s = s\<lparr>rules := update_at idx patch (rules s)\<rparr>"

definition removeRule :: "nat \<Rightarrow> sb_state \<Rightarrow> sb_state" where
  "removeRule idx s = s\<lparr>rules := remove_at idx (rules s)\<rparr>"

end
