(* ===== verification/Singbox_Facts.thy ===== *)
theory Singbox_Facts
  imports Singbox_Config
begin

text \<open>
  What saving the rules does to the sing-box configuration, and what is read back from it.
\<close>

section \<open>Parsed values are well formed\<close>

lemma keys_member_set:
  "map fst (member_set k v ms) = (if k \<in> set (map fst ms) then map fst ms else map fst ms @ [k])"
  by (induction ms) (auto simp: rev_image_eqI)

lemma distinct_member_set: "distinct (map fst ms) \<Longrightarrow> distinct (map fst (member_set k v ms))"
  by (simp add: keys_member_set)

lemma set_member_set: "m \<in> set (member_set k v ms) \<Longrightarrow> m = (k, v) \<or> m \<in> set ms"
  by (induction ms) (auto split: if_splits)

lemma well_formed_fold:
  "\<forall>m \<in> set ms. well_formed (snd m) \<Longrightarrow> well_formed (JObj acc) \<Longrightarrow>
     well_formed (JObj (fold (\<lambda>(k, v). member_set k v) ms acc))"
proof (induction ms arbitrary: acc)
  case Nil
  then show ?case by simp
next
  case (Cons m ms)
  obtain k v where m: "m = (k, v)" by force
  have "well_formed (JObj (member_set k v acc))"
    using Cons.prems m distinct_member_set [of acc k v] by (auto dest!: set_member_set)
  then show ?case using Cons m by simp
qed

lemma parse_value_step:
  "parse_value (Suc n) s = Some (j, r) \<Longrightarrow>
     well_formed j \<or> (\<exists>xs t u. parse_items n t = Some (xs, u) \<and> j = JArr xs) \<or>
     (\<exists>ms t u. parse_members n t = Some (ms, u) \<and> j = JObj (fold (\<lambda>(k, v). member_set k v) ms []))"
  by (auto split: list.splits option.splits if_splits simp del: parse_str.simps) blast+

lemma parse_items_step:
  "parse_items (Suc n) s = Some (xs, r) \<Longrightarrow> \<exists>x t. parse_value n s = Some (x, t) \<and>
     (xs = [x] \<or> (\<exists>ys u w. parse_items n u = Some (ys, w) \<and> xs = x # ys))"
  by (auto split: list.splits option.splits if_splits)

lemma parse_members_step:
  "parse_members (Suc n) s = Some (ms, r) \<Longrightarrow> \<exists>k x t u. parse_value n t = Some (x, u) \<and>
     (ms = [(k, x)] \<or> (\<exists>ns u w. parse_members n u = Some (ns, w) \<and> ms = (k, x) # ns))"
  by (auto split: list.splits option.splits if_splits simp del: parse_str.simps) blast+

lemma parse_well_formed:
  "parse_value n s = Some (j, r) \<Longrightarrow> well_formed j"
  "parse_items n s = Some (xs, r) \<Longrightarrow> \<forall>x \<in> set xs. well_formed x"
  "parse_members n s = Some (ms, r) \<Longrightarrow> \<forall>m \<in> set ms. well_formed (snd m)"
proof (induction n arbitrary: s j r xs ms)
  case (Suc n)
  {
    case 1
    from parse_value_step [OF this] show ?case
      using Suc.IH(2,3) by (fastforce intro!: well_formed_fold)
  next
    case 2
    from parse_items_step [OF this] show ?case using Suc.IH(1,2) by fastforce
  next
    case 3
    from parse_members_step [OF this] show ?case using Suc.IH(1,3) by fastforce
  }
qed simp_all

lemma json_parse_well_formed: "json_parse s = Some j \<Longrightarrow> well_formed j"
  by (auto simp: json_parse_def simp del: parse_value.simps dest: parse_well_formed(1)
      split: option.splits if_splits)

section \<open>Editing the configuration\<close>

lemma well_formed_jset: "well_formed j \<Longrightarrow> well_formed v \<Longrightarrow> well_formed (jset k v j)"
  by (cases j) (auto simp: distinct_member_set dest!: set_member_set)

lemma well_formed_jget: "well_formed j \<Longrightarrow> jget k j = Some v \<Longrightarrow> well_formed v"
  by (cases j) (auto dest!: map_of_SomeD)

lemma well_formed_route: "well_formed parsed \<Longrightarrow> well_formed (route_of parsed)"
  by (auto simp: route_of_def dest: well_formed_jget split: option.splits)

lemma well_formed_rule_json: "well_formed (rule_json r)"
  by (simp add: rule_json_def)

lemma well_formed_existing: "well_formed parsed \<Longrightarrow> x \<in> set (existing_rules parsed) \<Longrightarrow> well_formed x"
proof -
  assume w: "well_formed parsed" and x: "x \<in> set (existing_rules parsed)"
  then obtain xs where "jget ''rules'' (route_of parsed) = Some (JArr xs)" "x \<in> set xs"
    by (cases "jget ''rules'' (route_of parsed)") (auto simp: existing_rules_def split: json.splits)
  then show "well_formed x" using well_formed_jget [OF well_formed_route [OF w]] by fastforce
qed

lemma well_formed_next: "well_formed parsed \<Longrightarrow> well_formed (JArr (next_rules rs parsed))"
  using well_formed_existing by (auto simp: next_rules_def well_formed_rule_json)

definition edited :: "rule list \<Rightarrow> json \<Rightarrow> json" where
  "edited rs parsed = jset ''route'' (jset ''rules'' (JArr (next_rules rs parsed)) (route_of parsed)) parsed"

lemma set_rules_edited:
  "parsed = JObj ms \<Longrightarrow> route_of parsed = JObj rs' \<Longrightarrow>
     set_rules (next_rules rs parsed) parsed = Some (edited rs parsed)"
  by (simp add: set_rules_def edited_def)

lemma well_formed_edited: "well_formed parsed \<Longrightarrow> well_formed (edited rs parsed)"
  unfolding edited_def by (intro well_formed_jset well_formed_next well_formed_route)

lemma edited_parts:
  assumes "parsed = JObj ms" and "route_of parsed = JObj rs'"
  shows "jget k (edited rs parsed) = (if k = ''route'' then Some (jset ''rules'' (JArr (next_rules rs parsed)) (route_of parsed)) else jget k parsed)"
    and "jget_opt ''rules'' (jget ''route'' (edited rs parsed)) = Some (JArr (next_rules rs parsed))"
    and "k \<noteq> ''rules'' \<Longrightarrow> jget_opt k (jget ''route'' (edited rs parsed)) = jget k (route_of parsed)"
  using assms by (auto simp: edited_def)

section \<open>Rules through the configuration\<close>

definition normal_rule :: "rule \<Rightarrow> rule" where
  "normal_rule r = r\<lparr>r_outbound := trim (r_outbound r),
     r_ipVersion := (if r_ipVersion r \<in> {''4'', ''6''} then r_ipVersion r else [])\<rparr>"

lemma simple_rule_json: "trim (r_outbound r) \<noteq> [] \<Longrightarrow> isSimpleRule (rule_json r)"
  by (auto simp: isSimpleRule_def rule_json_def is_string_def)

lemma simple_of_rule_json: "simple_rule (rule_json r) = normal_rule r"
  by (cases r) (auto simp: simple_rule_def rule_json_def normal_rule_def)

lemma filter_next:
  assumes "\<forall>r \<in> set rs. trim (r_outbound r) \<noteq> []"
  shows "filter isSimpleRule (next_rules rs parsed) = map rule_json rs"
    and "filter (\<lambda>r. \<not> isSimpleRule r) (next_rules rs parsed) =
      filter (\<lambda>r. \<not> isSimpleRule r) (existing_rules parsed)"
proof -
  have s: "filter isSimpleRule (map rule_json rs) = map rule_json rs"
    "filter (\<lambda>r. \<not> isSimpleRule r) (map rule_json rs) = []"
    using assms simple_rule_json by (auto simp: filter_id_conv filter_empty_conv)
  show "filter isSimpleRule (next_rules rs parsed) = map rule_json rs"
    unfolding next_rules_def filter_append s by (simp add: filter_empty_conv)
  show "filter (\<lambda>r. \<not> isSimpleRule r) (next_rules rs parsed) =
      filter (\<lambda>r. \<not> isSimpleRule r) (existing_rules parsed)"
    unfolding next_rules_def filter_append s by simp
qed

lemma load_edited:
  assumes "parsed = JObj ms" and "route_of parsed = JObj rs'" and "\<forall>r \<in> set rs. trim (r_outbound r) \<noteq> []"
  shows "rules (setLoadedRules (edited rs parsed) s) = map normal_rule rs"
    and "preservedRulesCount (setLoadedRules (edited rs parsed) s) =
      length (filter (\<lambda>r. \<not> isSimpleRule r) (existing_rules parsed))"
  unfolding setLoadedRules_def Let_def edited_parts(2) [OF assms(1,2)]
  using filter_next [OF assms(3), of parsed]
  by (simp_all add: simple_of_rule_json comp_def)

section \<open>Running a save\<close>

definition config_request :: "sb_state \<Rightarrow> http_request" where
  "config_request s = request ''GET'' ''/api/singbox/config'' None None s"

definition put_config :: "string \<Rightarrow> sb_state \<Rightarrow> http_request" where
  "put_config body s = request ''PUT'' ''/api/singbox/config'' text_type (Some (TextBody body)) s"

text \<open>A server that keeps the configuration: it answers a GET with the text it holds and takes over the
  text of a PUT.\<close>

definition config_server :: "(http_request, fetch_result, string) server" where
  "config_server q cfg =
     (if rq_method q = ''PUT'' then
        (Answered \<lparr>rs_status = 200, rs_text = [], rs_json = Inl (Error [])\<rparr>,
         case rq_body q of Some (TextBody b) \<Rightarrow> b | _ \<Rightarrow> cfg)
      else (Answered \<lparr>rs_status = 200, rs_text = cfg, rs_json = Inl (Error [])\<rparr>, cfg))"

lemma checked_200 [simp]: "checked \<lparr>rs_status = 200, rs_text = x, rs_json = y\<rparr> msg s =
    (Inr \<lparr>rs_status = 200, rs_text = x, rs_json = y\<rparr>, s)"
  by (simp add: res_ok_def)

lemma run_loadRules:
  assumes "json_parse cfg = Some j"
  shows "run loadRules config_server s cfg =
    (Inr (), (setLoadedRules j (s\<lparr>rulesLoading := True\<rparr>))\<lparr>rulesLoading := False\<rparr>, cfg)"
  using assms
  by (simp add: loadRules_def getSingboxConfig_def run_simps config_server_def parse_or_throw_def)

lemma run_saveRules:
  assumes valid: "\<not> list_ex (\<lambda>r. r_inbound r = [] \<or> r_outbound r = []) (rules s)"
    and cfg: "json_parse cfg = Some (JObj ms)" and route: "route_of (JObj ms) = JObj rs'"
  shows "\<exists>s'. run (saveRules s) config_server s cfg =
      (Inr (), s', json_stringify (edited (rules s) (JObj ms))) \<and>
    rules s' = rules (setLoadedRules (edited (rules s) (JObj ms)) s) \<and>
    preservedRulesCount s' = preservedRulesCount (setLoadedRules (edited (rules s) (JObj ms)) s) \<and>
    alerts s' = alerts s @ [''Rules saved''] \<and> \<not> rulesSaving s'"
proof -
  let ?e = "edited (rules s) (JObj ms)"
  have "json_parse (json_stringify ?e) = Some ?e"
    by (rule json_round_trip, rule well_formed_edited, rule json_parse_well_formed [OF cfg])
  note load = run_loadRules [OF this]
  have frame: "rules (setLoadedRules j s1) = rules (setLoadedRules j s2)"
    "preservedRulesCount (setLoadedRules j s1) = preservedRulesCount (setLoadedRules j s2)"
    "alerts (setLoadedRules j s1) = alerts s1" for j and s1 s2 :: sb_state
    by (auto simp: setLoadedRules_def Let_def split: option.splits json.splits)
  let ?s2 = "alert ''Rules saved'' (s\<lparr>rulesSaving := True\<rparr>)\<lparr>rulesLoading := True\<rparr>"
  let ?t = "(setLoadedRules ?e ?s2)\<lparr>rulesLoading := False, rulesSaving := False\<rparr>"
  have "run (saveRules s) config_server s cfg = (Inr (), ?t, json_stringify ?e)"
    using valid cfg
    by (simp add: saveRules_def getSingboxConfig_def updateSingboxConfig_def run_simps config_server_def
        parse_or_throw_def set_rules_edited [OF refl route] load)
  moreover have "rules ?t = rules (setLoadedRules ?e s)"
    "preservedRulesCount ?t = preservedRulesCount (setLoadedRules ?e s)"
    using frame(1,2) [of ?e ?s2 s] by simp_all
  moreover have "alerts ?t = alerts s @ [''Rules saved'']"
    using frame(3) [of ?e ?s2] by (simp add: alert_def)
  ultimately show ?thesis by (intro exI [of _ ?t]) simp
qed

section \<open>Properties\<close>

text \<open>C6: saving the rules against a server that keeps the configuration. What is stored afterwards is
  JSON whose members other than the route, and whose route members other than the rules, are as they
  were; its rules are the ones the editor does not show, in their order, followed by the rules of the
  list. The list read back is the list that was saved, with its outbounds trimmed.\<close>

theorem saveRules_preserves_config:
  assumes "\<forall>r \<in> set (rules s). r_inbound r \<noteq> [] \<and> trim (r_outbound r) \<noteq> []"
    and "json_parse cfg = Some (JObj ms)" and "route_of (JObj ms) = JObj rs'"
  shows "\<exists>s' cfg' j. run (saveRules s) config_server s cfg = (Inr (), s', cfg') \<and>
     json_parse cfg' = Some j \<and> (\<forall>k. k \<noteq> ''route'' \<longrightarrow> jget k j = jget k (JObj ms)) \<and>
     (\<forall>k. k \<noteq> ''rules'' \<longrightarrow> jget_opt k (jget ''route'' j) = jget k (JObj rs')) \<and>
     jget_opt ''rules'' (jget ''route'' j) =
       Some (JArr (filter (\<lambda>r. \<not> isSimpleRule r) (existing_rules (JObj ms)) @ map rule_json (rules s))) \<and>
     rules s' = map normal_rule (rules s)"
proof -
  have valid: "\<not> list_ex (\<lambda>r. r_inbound r = [] \<or> r_outbound r = []) (rules s)"
    using assms(1) by (auto simp: list_ex_iff)
  have out: "\<forall>r \<in> set (rules s). trim (r_outbound r) \<noteq> []" using assms(1) by blast
  let ?e = "edited (rules s) (JObj ms)"
  obtain s' where r: "run (saveRules s) config_server s cfg = (Inr (), s', json_stringify ?e)"
    "rules s' = rules (setLoadedRules ?e s)"
    using run_saveRules [OF valid assms(2,3)] by blast
  have "json_parse (json_stringify ?e) = Some ?e"
    by (rule json_round_trip, rule well_formed_edited, rule json_parse_well_formed [OF assms(2)])
  moreover have "rules s' = map normal_rule (rules s)"
    using r(2) load_edited(1) [OF refl assms(3) out] by simp
  moreover note edited_parts [OF refl assms(3)]
  ultimately show ?thesis
    using r(1) assms(3)
    by (intro exI [of _ s'] exI [of _ "json_stringify ?e"] exI [of _ ?e]) (simp add: next_rules_def)
qed


section \<open>Witnesses\<close>

definition sample_sb_state :: sb_state where
  "sample_sb_state = browser.extend sample_browser
     \<lparr>activeTab = TabRules, config = [], originalConfig = [], loading = False, saving = False,
      searchTerm = [], searchCursor = 0, selectionStart = 0, selectionEnd = 0, showDiff = False,
      lastBackup = [], rules = [\<lparr>r_inbound = ''in'', r_outbound = '' out '', r_ipVersion = ''4''\<rparr>],
      rulesLoading = False, rulesSaving = False, availableInbounds = [], availableOutbounds = [],
      preservedRulesCount = 0\<rparr>"

definition sample_route :: "(string \<times> json) list" where
  "sample_route =
     [(''rules'', JArr [JObj [(''domain'', JStr ''d''), (''outbound'', JStr ''y'')]]), (''final'', JStr ''y'')]"

definition sample_members :: "(string \<times> json) list" where
  "sample_members = [(''log'', JObj []), (''route'', JObj sample_route)]"

abbreviation sample_config :: json where
  "sample_config \<equiv> JObj sample_members"

theorem saveRules_preserves_config_witness:
  "\<exists>s' cfg' j. run (saveRules sample_sb_state) config_server sample_sb_state (json_stringify sample_config) =
       (Inr (), s', cfg') \<and>
     json_parse cfg' = Some j \<and> jget ''log'' j = Some (JObj []) \<and>
     jget_opt ''final'' (jget ''route'' j) = Some (JStr ''y'') \<and>
     rules s' = [\<lparr>r_inbound = ''in'', r_outbound = ''out'', r_ipVersion = ''4''\<rparr>]"
proof -
  let ?s = sample_sb_state
  have r: "\<forall>r \<in> set (rules ?s). r_inbound r \<noteq> [] \<and> trim (r_outbound r) \<noteq> []"
    "map normal_rule (rules ?s) = [\<lparr>r_inbound = ''in'', r_outbound = ''out'', r_ipVersion = ''4''\<rparr>]"
    by code_simp+
  have j: "json_parse (json_stringify sample_config) = Some sample_config"
    by (rule json_round_trip) (simp add: sample_members_def sample_route_def)
  have route: "route_of sample_config = JObj sample_route" by (simp add: route_of_def sample_members_def)
  obtain s' cfg' j where "run (saveRules ?s) config_server ?s (json_stringify sample_config) = (Inr (), s', cfg')"
    "json_parse cfg' = Some j" and k: "\<forall>k. k \<noteq> ''route'' \<longrightarrow> jget k j = jget k sample_config"
    and l: "\<forall>k. k \<noteq> ''rules'' \<longrightarrow> jget_opt k (jget ''route'' j) = jget k (JObj sample_route)"
    and "rules s' = map normal_rule (rules ?s)"
    using saveRules_preserves_config [OF r(1) j route] by blast
  moreover have "jget ''log'' j = Some (JObj [])"
    using k [THEN spec, of "''log''"] by (simp add: sample_members_def)
  moreover have "jget_opt ''final'' (jget ''route'' j) = Some (JStr ''y'')"
    using l [THEN spec, of "''final''"] by (simp add: sample_route_def)
  ultimately show ?thesis unfolding r(2) by blast
qed


end
