(* ===== verification/Singbox_View.thy ===== *)
theory Singbox_View
  imports Singbox_Facts
begin

text \<open>
  The effect, the buttons, fields and labels of components/SingboxConfigEditor.tsx and of its list of rules.
\<close>

section \<open>The raw editor\<close>

text \<open>The effect of the tab: its calls are not awaited.\<close>

definition tab_effect :: "(string \<Rightarrow> string) \<Rightarrow> sb_state \<Rightarrow> unit sb_io" where
  "tab_effect locale_date c =
     seq (if activeTab c = TabRaw then seq (spawn loadConfig) (spawn (loadBackupMeta locale_date)) else skip)
       (if activeTab c = TabRules then spawn loadRules else skip)"

definition selectTab :: "sb_tab \<Rightarrow> sb_state \<Rightarrow> sb_state" where
  "selectTab t s = s\<lparr>activeTab := t\<rparr>"

definition save_changes_button :: "sb_state \<Rightarrow> string \<times> bool" where
  \<comment> \<open>its text, and whether it is disabled\<close>
  "save_changes_button s = (if saving s then ''Saving...'' else ''Save Changes'', \<not> hasChanges s \<or> saving s)"

definition changeTerm :: "string \<Rightarrow> sb_state \<Rightarrow> sb_state" where
  "changeTerm v s = s\<lparr>searchTerm := v, searchCursor := 0\<rparr>"

definition termKey :: "bool \<Rightarrow> string \<Rightarrow> sb_state \<Rightarrow> sb_state" where
  "termKey shift key s = (if key = ''Enter'' then find_in_config (if shift then Prev else Next) s else s)"

definition toggleDiff :: "sb_state \<Rightarrow> sb_state" where
  "toggleDiff s = s\<lparr>showDiff := \<not> showDiff s\<rparr>"

definition editConfig :: "string \<Rightarrow> sb_state \<Rightarrow> sb_state" where
  "editConfig v s = s\<lparr>config := v\<rparr>"

definition last_backup_text :: "sb_state \<Rightarrow> string" where
  "last_backup_text s = (if lastBackup s \<noteq> [] then ''Last Backup: '' @ lastBackup s else ''No backups yet'')"

definition diff_rows :: "sb_state \<Rightarrow> (nat \<times> string \<times> string) list option" where
  "diff_rows s =
     (if showDiff s
      then Some (map (\<lambda>d. (d_line d, str_or (d_original d) ''empty'', d_current d)) (diffLines s))
      else None)"

section \<open>The rules\<close>

definition hasInvalid :: "sb_state \<Rightarrow> bool" where
  "hasInvalid s = list_ex (\<lambda>r. r_inbound r = [] \<or> r_outbound r = []) (rules s)"

definition reload_button :: "sb_state \<Rightarrow> string \<times> bool" where
  "reload_button s = (if rulesLoading s then ''Refreshing...'' else ''Refresh'', rulesLoading s)"

definition save_rules_button :: "sb_state \<Rightarrow> string \<times> bool" where
  "save_rules_button s = (if rulesSaving s then ''Saving...'' else ''Save Rules'', rulesSaving s \<or> hasInvalid s)"

definition pressReload :: "sb_state \<Rightarrow> unit sb_io" where
  "pressReload c = (if snd (reload_button c) then skip else loadRules)"

definition pressSaveRules :: "sb_state \<Rightarrow> unit sb_io" where
  "pressSaveRules c = (if snd (save_rules_button c) then skip else saveRules c)"

definition changeRuleInbound :: "nat \<Rightarrow> string \<Rightarrow> sb_state \<Rightarrow> sb_state" where
  "changeRuleInbound idx v = updateRule idx (\<lambda>r. r\<lparr>r_inbound := v\<rparr>)"

definition changeRuleOutbound :: "nat \<Rightarrow> string \<Rightarrow> sb_state \<Rightarrow> sb_state" where
  "changeRuleOutbound idx v = updateRule idx (\<lambda>r. r\<lparr>r_outbound := v\<rparr>)"

definition changeRuleIp :: "nat \<Rightarrow> string \<Rightarrow> sb_state \<Rightarrow> sb_state" where
  "changeRuleIp idx v = updateRule idx (\<lambda>r. r\<lparr>r_ipVersion := v\<rparr>)"

definition rule_warnings :: "rule \<Rightarrow> string list" where
  "rule_warnings r =
     (if r_inbound r = [] then [''Inbound is required.''] else []) @
     (if r_outbound r = [] then [''Outbound is required.''] else [])"

definition preserved_note :: "sb_state \<Rightarrow> string option" where
  "preserved_note s =
     (if 0 < preservedRulesCount s
      then Some (show_int (int (preservedRulesCount s)) @
        '' non-editable rule(s) detected. Edit them in Raw Config if needed.'')
      else None)"

text \<open>The options of the two selections of a rule, after the empty one.\<close>

definition rule_options :: "sb_state \<Rightarrow> (string \<times> string) list \<times> (string \<times> string) list" where
  "rule_options s =
     (([], ''Select inbound'') # map (\<lambda>t. (t, t)) (availableInbounds s),
      ([], ''Select outbound'') # map (\<lambda>t. (t, t)) (availableOutbounds s))"

section \<open>Facts\<close>

lemma invalid_warned: "hasInvalid s \<longleftrightarrow> (\<exists>r \<in> set (rules s). rule_warnings r \<noteq> [])"
  by (auto simp: hasInvalid_def rule_warnings_def list_ex_iff)

text \<open>The rules that the button lets through are never refused by the check of the handler.\<close>

lemma pressed_not_refused:
  "\<not> snd (save_rules_button c) \<Longrightarrow> \<exists>p. saveRules c = seq (modify (\<lambda>s. s\<lparr>rulesSaving := True\<rparr>)) p"
  by (auto simp: save_rules_button_def hasInvalid_def saveRules_def)

lemma new_rule_blocks_saving: "snd (save_rules_button (addRule s))"
  by (simp add: save_rules_button_def hasInvalid_def addRule_def)

lemma split_on_append_sep: "split_on c (v @ [c]) = split_on c v @ [[]]"
  by (induction v) (auto split: list.splits)

lemma line_at_blank: "line_at (xs @ [[]]) i = line_at xs i"
  by (simp add: line_at_def nth_append)

text \<open>The comparison does not show a line break added at the end of the configuration: the page offers to
  save a change and says that none was detected.\<close>

lemma added_line_break_not_compared:
  "let s = editConfig (originalConfig t @ [CHR 0x0A]) t
   in diffLines s = [] \<and> hasChanges s \<and> snd (save_changes_button s) = saving t"
  by (simp add: Let_def editConfig_def diffLines_def diff_lines_def hasChanges_def save_changes_button_def
      lines_of_def split_on_append_sep line_at_blank)

end
