(* ===== verification/Singbox_Ui.thy ===== *)
theory Singbox_Ui
  imports Singbox_View Ui
begin

text \<open>
  The rendering of components/SingboxConfigEditor.tsx with the handlers that its elements start, and the
  editor as its user can drive it: once the user stops, each of its four flags goes off. The list of the
  inbounds is a component of its own (Inbounds_Ui). The answer of \<open>confirm\<close> is the environment of a render.
\<close>

type_synonym sb_elements = "unit sb_io element list"

section \<open>The raw editor\<close>

definition sb_header :: "(string \<Rightarrow> string) \<Rightarrow> sb_state \<Rightarrow> sb_elements" where
  "sb_header msg s =
     [Shown ''Sing-box Configuration''] @
     (if activeTab s = TabRaw
      then [Button ''Refresh'' False loadConfig,
            Button (fst (save_changes_button s)) (snd (save_changes_button s)) (handleSave msg s)]
      else [])"

definition sb_tabs :: sb_elements where
  "sb_tabs =
     [Button ''Inbounds'' False (modify (selectTab TabInbounds)), Button ''Rules'' False (modify (selectTab TabRules)),
      Button ''Raw Config (JSON)'' False (modify (selectTab TabRaw))]"

definition sb_search :: "sb_state \<Rightarrow> sb_elements" where
  "sb_search s =
     [Field ''Find in config...'' (searchTerm s) False (\<lambda>v. modify (changeTerm v)),
      Key ''Enter'' (modify (termKey False ''Enter'')), Key ''Shift+Enter'' (modify (termKey True ''Enter'')),
      Button ''Previous (Shift+Enter)'' False (modify (find_in_config Prev)),
      Button ''Next (Enter)'' False (modify (find_in_config Next))]"

definition sb_actions :: "(string \<Rightarrow> string) \<Rightarrow> bool \<Rightarrow> sb_state \<Rightarrow> sb_elements" where
  "sb_actions locale_date confirmed s =
     [Button ''Compare Changes'' False (modify toggleDiff), Button ''Backup Now'' False (handleBackup locale_date),
      Button ''Restore'' False (handleRestore locale_date confirmed), Shown (last_backup_text s)]"

definition sb_diff :: "sb_state \<Rightarrow> sb_elements" where
  "sb_diff s =
     (case diff_rows s of
        None \<Rightarrow> []
      | Some rows \<Rightarrow>
          [Shown ''Unsaved Changes''] @ (if rows = [] then [Shown ''No changes detected''] else []) @
          concat (map (\<lambda>(line, original, current). [Shown (show_nat line), Shown original, Shown current]) rows))"

definition sb_editor :: "sb_state \<Rightarrow> sb_elements" where
  "sb_editor s = [Field '''' (config s) False (\<lambda>v. modify (editConfig v))]"

section \<open>The rules\<close>

definition pair_options :: "(string \<times> string) list \<Rightarrow> choice list" where
  "pair_options ps = map (\<lambda>(v, t). opt v t) ps"

definition rule_card :: "sb_state \<Rightarrow> nat \<Rightarrow> rule \<Rightarrow> sb_elements" where
  "rule_card s idx r =
     Card (''Rule '' @ show_nat (idx + 1)) []
       ([Choice ''Inbound'' (r_inbound r) (pair_options (fst (rule_options s))) (\<lambda>v. modify (changeRuleInbound idx v))] @
        (if r_inbound r = [] then [Shown ''Inbound is required.''] else []) @
        [Choice ''Outbound'' (r_outbound r) (pair_options (snd (rule_options s))) (\<lambda>v. modify (changeRuleOutbound idx v))] @
        (if r_outbound r = [] then [Shown ''Outbound is required.''] else []) @
        [Choice ''IP Version (optional)'' (r_ipVersion r) [opt [] ''Any'', opt ''4'' ''IPv4'', opt ''6'' ''IPv6'']
           (\<lambda>v. modify (changeRuleIp idx v)),
         Button ''Remove'' False (modify (removeRule idx))])"

definition RulesTab :: "sb_state \<Rightarrow> sb_elements" where
  "RulesTab s =
     [Shown ''Rules (inbound -> outbound)'', Shown ''Simple rules only. Other rules remain unchanged.''] @
     (case preserved_note s of Some t \<Rightarrow> [Shown t] | None \<Rightarrow> []) @
     [Button (fst (reload_button s)) (snd (reload_button s)) loadRules,
      Button (fst (save_rules_button s)) (snd (save_rules_button s)) (saveRules s)] @
     (if rules s = [] then [Shown ''No editable rules. Add one below.''] else []) @
     concat (map2 (rule_card s) [0..<length (rules s)] (rules s)) @
     [Button ''Add Rule'' False (modify addRule)]"

section \<open>The editor\<close>

definition sb_page :: "(string \<Rightarrow> string) \<Rightarrow> (string \<Rightarrow> string) \<Rightarrow> bool \<Rightarrow> sb_state \<Rightarrow> sb_elements" where
  "sb_page msg locale_date confirmed s =
     sb_header msg s @ sb_tabs @
     (case activeTab s of
        TabRaw \<Rightarrow> sb_search s @ sb_actions locale_date confirmed s @ sb_diff s @ sb_editor s
      | TabInbounds \<Rightarrow> []
      | TabRules \<Rightarrow> RulesTab s)"

definition sb_background :: "(string \<Rightarrow> string) \<Rightarrow> sb_state \<Rightarrow> unit sb_io set" where
  "sb_background locale_date s =
     {tab_effect locale_date s} \<union> {modify (\<lambda>s. s\<lparr>selectionStart := i, selectionEnd := j\<rparr>) | i j. True} \<union> toast_events s"

section \<open>The four flags\<close>

definition sb_flag :: "(sb_state \<Rightarrow> bool) \<Rightarrow> bool" where
  "sb_flag b \<longleftrightarrow> b = loading \<or> b = saving \<or> b = rulesLoading \<or> b = rulesSaving"

definition sb_flags :: "sb_state \<Rightarrow> bool \<times> bool \<times> bool \<times> bool" where
  "sb_flags s = (loading s, saving s, rulesLoading s, rulesSaving s)"

lemma flag_same: "sb_flag b \<Longrightarrow> sb_flags t = sb_flags s \<Longrightarrow> b t = b s"
  by (auto simp: sb_flag_def sb_flags_def)

lemma sb_keeps: "sb_flag b \<Longrightarrow> sb_flags (f s) = sb_flags s \<Longrightarrow> keeps_off b (modify f) s"
  using flag_same [of b "f s" s] by (auto intro: keeps_modify)

lemma sb_set [simp]:
  "sb_flags (s\<lparr>originalConfig := c\<rparr>) = sb_flags s"
  "sb_flags (s\<lparr>config := c\<rparr>) = sb_flags s" "sb_flags (s\<lparr>lastBackup := c\<rparr>) = sb_flags s"
  "sb_flags (s\<lparr>selectionStart := i\<rparr>) = sb_flags s" "sb_flags (s\<lparr>selectionEnd := i\<rparr>) = sb_flags s"
  "sb_flags (s\<lparr>searchCursor := i\<rparr>) = sb_flags s" "sb_flags (s\<lparr>searchTerm := c\<rparr>) = sb_flags s"
  "sb_flags (s\<lparr>rules := rs\<rparr>) = sb_flags s" "sb_flags (s\<lparr>preservedRulesCount := i\<rparr>) = sb_flags s"
  "sb_flags (s\<lparr>availableInbounds := xs\<rparr>) = sb_flags s" "sb_flags (s\<lparr>availableOutbounds := xs\<rparr>) = sb_flags s"
  "sb_flags (s\<lparr>showDiff := v\<rparr>) = sb_flags s" "sb_flags (s\<lparr>sb_state.activeTab := t\<rparr>) = sb_flags s"
  by (simp_all add: sb_flags_def)

lemma sb_browser [simp]:
  "sb_flags (logout s) = sb_flags s" "sb_flags (alert m s) = sb_flags s" "sb_flags (removeToast tid s) = sb_flags s"
  "sb_flags (fire_timer n s) = sb_flags s"
  by (simp_all add: sb_flags_def logout_def alert_def removeToast_def fire_timer_def)

lemma sb_loaded [simp]: "sb_flags (setLoadedRules j s) = sb_flags s"
proof -
  define u where "u = s\<lparr>availableInbounds := tags_of (jget ''inbounds'' j), availableOutbounds := tags_of (jget ''outbounds'' j)\<rparr>"
  have "sb_flags (setLoadedRules j s) = sb_flags u"
    unfolding setLoadedRules_def Let_def u_def [symmetric]
    by (cases "jget_opt ''rules'' (jget ''route'' j)") (auto split: json.split)
  then show ?thesis by (simp add: u_def)
qed

lemma sb_found [simp]: "sb_flags (find_in_config dir s) = sb_flags s"
  by (auto simp: find_in_config_def split: option.split)

lemma flag_frame [simp]:
  "sb_flag b \<Longrightarrow> b (logout s) = b s" "sb_flag b \<Longrightarrow> b (alert m s) = b s" "sb_flag b \<Longrightarrow> b (setLoadedRules j s) = b s"
  by (rule flag_same; simp)+

lemmas sb_intros = sb_keeps keeps_bind keeps_try_catch keeps_Return keeps_Throw keeps_finally keeps_if keeps_call_void
  keeps_call_json keeps_call_text

lemma meta_keeps: "sb_flag b \<Longrightarrow> keeps_off b (loadBackupMeta d) s"
  unfolding loadBackupMeta_def getBackupMeta_def by (intro sb_intros) simp_all

lemma backup_keeps:
  "sb_flag b \<Longrightarrow> keeps_off b (handleBackup d) s" "sb_flag b \<Longrightarrow> keeps_off b (handleRestore d confirmed) s"
  unfolding handleBackup_def handleRestore_def backupConfig_def restoreConfig_def
  by (intro sb_intros meta_keeps; simp)+

text \<open>Loading never throws, so what waits for it goes on.\<close>

lemma parse_keeps: "keeps_off b (parse_or_throw raw) s" "fork_free (parse_or_throw raw)"
  by (auto simp: parse_or_throw_def split: option.splits)

lemma load_config_ends: "ends_in (\<lambda>s. \<not> loading s) (\<lambda>s. \<not> loading s) (loadConfig) s"
  unfolding loadConfig_def getSingboxConfig_def by (auto intro!: flag_intros)

lemma load_config_keeps: "sb_flag b \<Longrightarrow> b \<noteq> loading \<Longrightarrow> keeps_off b loadConfig s"
  unfolding loadConfig_def getSingboxConfig_def
  by (intro flag_intros) (auto simp: sb_flag_def)

lemma load_rules_ends: "ends_in (\<lambda>s. \<not> rulesLoading s) nowhere loadRules s"
proof -
  let ?load = "bind getSingboxConfig (\<lambda>raw. bind (parse_or_throw raw) (\<lambda>parsed. modify (setLoadedRules parsed)))"
  let ?attempt = "try_catch ?load (\<lambda>_. modify (alert ''Failed to load rules''))"
  have "fork_free ?load" unfolding getSingboxConfig_def by (auto intro!: fork_intros parse_keeps)
  then have "ends_in anywhere nowhere ?attempt t" for t
    by (auto intro!: flag_intros)
  then have "ends_in anywhere nowhere (try_catch ?attempt h) t" for h and t :: sb_state
    by (rule ends_uncaught)
  then have "ends_in (\<lambda>s. \<not> rulesLoading s) nowhere (try_finally ?attempt (modify (\<lambda>s. s\<lparr>rulesLoading := False\<rparr>))) t" for t
    unfolding try_finally_def by (rule ends_bind) (simp add: modify_def)
  then show ?thesis unfolding loadRules_def by (simp add: modify_def)
qed

lemma load_rules_keeps: "sb_flag b \<Longrightarrow> b \<noteq> rulesLoading \<Longrightarrow> keeps_off b loadRules s"
  unfolding loadRules_def getSingboxConfig_def
  by (intro flag_intros parse_keeps) (auto simp: sb_flag_def)

section \<open>Saving\<close>

lemma save_ends: "ends_in (\<lambda>s. \<not> saving s) (\<lambda>s. \<not> saving s) (handleSave msg c) s"
  unfolding handleSave_def updateSingboxConfig_def by (auto intro!: flag_intros split: option.split)

lemma save_keeps: "sb_flag b \<Longrightarrow> b \<noteq> saving \<Longrightarrow> keeps_off b (handleSave msg c) s"
  unfolding handleSave_def updateSingboxConfig_def
  by (auto intro!: flag_intros simp: sb_flag_def alert_def split: option.split)

text \<open>Saving the rules loads them again, inside a \<open>try\<close> that the loading never leaves by throwing.\<close>

lemma save_rules_ends: "ends_in (\<lambda>s. \<not> rulesSaving s) (\<lambda>s. \<not> rulesSaving s) (saveRules c) s \<or> keeps_off rulesSaving (saveRules c) s"
proof (cases "list_ex (\<lambda>r. r_inbound r = [] \<or> r_outbound r = []) (rules c)")
  case True
  then have "keeps_off rulesSaving (saveRules c) s"
    unfolding saveRules_def by (auto intro!: sb_keeps simp: sb_flag_def)
  then show ?thesis ..
next
  case False
  then show ?thesis unfolding saveRules_def getSingboxConfig_def updateSingboxConfig_def loadRules_def
    by (auto intro!: flag_intros parse_keeps split: option.split)
qed

text \<open>So the loading that saving the rules has started ends with its flag off, wherever the saving goes on.\<close>

lemma quiets_finally:
  "quiets b nowhere p s \<Longrightarrow> (\<And>t. b (f t) = b t) \<Longrightarrow> quiets b T (try_finally p (modify f)) s"
  unfolding try_finally_def
  by (rule quiets_then, rule quiets_try_catch) (auto simp: modify_def)

lemma save_rules_quiets:
  assumes b: "sb_flag b"
  shows "quiets b (\<lambda>s. \<not> b s) (saveRules c) s"
proof -
  consider "b = rulesSaving" | "b = rulesLoading" | "b \<noteq> rulesSaving" "b \<noteq> rulesLoading" by blast
  then show ?thesis
  proof cases
    case 1
    show ?thesis unfolding 1 using save_rules_ends [of c s] by (auto intro: quiets_ends quiets_keeps)
  next
    case 2
    note f = flag_frame [OF b [unfolded 2]]
    have load: "quiets rulesLoading nowhere loadRules t" for t by (rule quiets_ends) (rule load_rules_ends)
    have then_load: "quiets rulesLoading nowhere (seq (updateSingboxConfig x) (seq (modify (alert ''Rules saved'')) loadRules)) t"
      for x t unfolding updateSingboxConfig_def by (intro quiets_bind flag_intros load) (simp_all add: f)
    have "quiets rulesLoading nowhere (case set_rules (next_rules (rules c) parsed) parsed of None \<Rightarrow> Throw type_error
        | Some j \<Rightarrow> seq (updateSingboxConfig (json_stringify j)) (seq (modify (alert ''Rules saved'')) loadRules)) t"
      for parsed t by (auto intro: quiets_keeps then_load split: option.split)
    then show ?thesis unfolding 2 saveRules_def getSingboxConfig_def
      by (cases "list_ex (\<lambda>r. r_inbound r = [] \<or> r_outbound r = []) (rules c)")
        (auto intro!: quiets_bind quiets_finally quiets_try_catch keeps_modify keeps_call_text parse_keeps
          intro: quiets_keeps simp: f)
  next
    case 3
    then have "keeps_off b (saveRules c) s" using b
      unfolding saveRules_def getSingboxConfig_def updateSingboxConfig_def
      by (auto intro!: flag_intros parse_keeps load_rules_keeps simp: sb_flag_def split: option.split)
    then show ?thesis by (rule quiets_keeps)
  qed
qed

section \<open>The page comes to rest\<close>

lemma tab_effect_keeps: "sb_flag b \<Longrightarrow> keeps_off b (tab_effect d c) s"
proof -
  assume b: "sb_flag b"
  have "ends_in (\<lambda>s. \<not> b s) (\<lambda>s. \<not> b s) loadConfig t \<or> keeps_off b loadConfig t" for t
    using b load_config_ends load_config_keeps by blast
  moreover have "ends_in (\<lambda>s. \<not> b s) (\<lambda>s. \<not> b s) loadRules t \<or> keeps_off b loadRules t" for t
    using b load_rules_ends [THEN ends_never] load_rules_keeps by blast
  ultimately show ?thesis unfolding tab_effect_def
    by (intro flag_intros) (auto simp: meta_keeps b)
qed

lemma load_quiets: "sb_flag b \<Longrightarrow> quiets b (\<lambda>s. \<not> b s) loadConfig s" "sb_flag b \<Longrightarrow> quiets b (\<lambda>s. \<not> b s) loadRules s"
  "sb_flag b \<Longrightarrow> quiets b (\<lambda>s. \<not> b s) (handleSave msg c) s"
  using load_config_ends load_config_keeps [of b] load_rules_ends [THEN ends_never] load_rules_keeps [of b]
    save_ends save_keeps [of b]
  by (cases "b = loading", auto intro: quiets_ends quiets_keeps) (cases "b = rulesLoading", auto intro: quiets_ends quiets_keeps,
      cases "b = saving", auto intro: quiets_ends quiets_keeps)

lemma sb_modify: "sb_flag b \<Longrightarrow> sb_flags (f s) = sb_flags s \<Longrightarrow> quiets b T (modify f) s"
  by (rule quiets_keeps) (rule sb_keeps)

lemma backup_quiets:
  "sb_flag b \<Longrightarrow> quiets b T (handleBackup d) s" "sb_flag b \<Longrightarrow> quiets b T (handleRestore d confirmed) s"
  by (rule quiets_keeps, erule backup_keeps)+

lemma sb_updates [simp]:
  "sb_flags (selectTab t s) = sb_flags s" "sb_flags (changeTerm v s) = sb_flags s" "sb_flags (termKey b k s) = sb_flags s"
  "sb_flags (toggleDiff s) = sb_flags s" "sb_flags (editConfig v s) = sb_flags s" "sb_flags (addRule s) = sb_flags s"
  "sb_flags (changeRuleInbound i v s) = sb_flags s" "sb_flags (changeRuleOutbound i v s) = sb_flags s"
  "sb_flags (changeRuleIp i v s) = sb_flags s" "sb_flags (removeRule i s) = sb_flags s"
  by (simp_all add: selectTab_def changeTerm_def termKey_def toggleDiff_def editConfig_def addRule_def
      changeRuleInbound_def changeRuleOutbound_def changeRuleIp_def updateRule_def removeRule_def)

lemma offered_rule: "h \<in> offered (rule_card s i r) \<Longrightarrow>
    h = modify (removeRule i) \<or> (\<exists>v. h \<in> {modify (changeRuleInbound i v), modify (changeRuleOutbound i v), modify (changeRuleIp i v)})"
  by (auto simp: rule_card_def split: if_splits)

lemma sb_offered_quiets:
  assumes b: "sb_flag b" and h: "h \<in> offered (sb_page msg d confirmed s)"
  shows "quiets b (\<lambda>s. \<not> b s) h t"
proof -
  have 1: "quiets b (\<lambda>s. \<not> b s) h t"
    if "h \<in> offered (sb_header msg s) \<or> h \<in> offered sb_tabs \<or> h \<in> offered (sb_search s) \<or>
      h \<in> offered (sb_actions d confirmed s) \<or> h \<in> offered (sb_diff s) \<or> h \<in> offered (sb_editor s)"
    using that b
    by (auto simp: sb_header_def sb_tabs_def sb_search_def sb_actions_def sb_diff_def sb_editor_def
        intro!: load_quiets sb_modify backup_quiets split: option.splits if_splits)
  have 2: "quiets b (\<lambda>s. \<not> b s) h t" if "h \<in> offered (rule_card s i r)" for i r
    using offered_rule [OF that] b by (auto intro!: sb_modify)
  have "h \<in> offered (RulesTab s) \<Longrightarrow> quiets b (\<lambda>s. \<not> b s) h t"
    using b by (auto simp: RulesTab_def in_set_zip intro!: load_quiets save_rules_quiets sb_modify intro: 2
        split: option.splits if_splits)
  then show ?thesis using 1 h by (auto simp: sb_page_def split: sb_tab.splits)
qed

lemma sb_quiets:
  assumes b: "sb_flag b" and h: "h \<in> ui_handlers (sb_page msg d) (sb_background d) s"
  shows "quiets b (\<lambda>s. \<not> b s) h s"
  using h b unfolding ui_handlers_def sb_background_def
  by (auto intro: sb_offered_quiets quiets_keeps tab_effect_keeps intro!: sb_modify elim!: toast_events_cases)

interpretation sb_load: resting_page "ui_handlers (sb_page msg d) (sb_background d)" loading for msg d
  by unfold_locales (rule sb_quiets, simp_all add: sb_flag_def)

interpretation sb_save: resting_page "ui_handlers (sb_page msg d) (sb_background d)" saving for msg d
  by unfold_locales (rule sb_quiets, simp_all add: sb_flag_def)

interpretation sb_rules: resting_page "ui_handlers (sb_page msg d) (sb_background d)" rulesLoading for msg d
  by unfold_locales (rule sb_quiets, simp_all add: sb_flag_def)

interpretation sb_rules_save: resting_page "ui_handlers (sb_page msg d) (sb_background d)" rulesSaving for msg d
  by unfold_locales (rule sb_quiets, simp_all add: sb_flag_def)

text \<open>C37: Once the user of the sing-box editor does nothing more, the responses still outstanding are finitely
  many, and when they have come in, none of its buttons is left disabled by an operation in progress: the
  configuration is neither being loaded nor being saved, and neither are the rules, also where the rules
  are loaded again as a part of saving them, whatever the user did before and in whatever order the
  responses came.\<close>

theorem editor_ends_working:
  assumes "(loop_step (ui_handlers (sb_page msg d) (sb_background d)) answers)\<^sup>*\<^sup>* (fresh s) c"
    and "\<not> loading s" and "\<not> saving s" and "\<not> rulesLoading s" and "\<not> rulesSaving s"
    and "\<And>q. \<exists>r. answers q r"
  shows "wfp (arrival answers)\<inverse>\<inverse> \<and> (\<exists>e. (arrival answers)\<^sup>*\<^sup>* c e \<and> idle e) \<and>
     (\<forall>e. (arrival answers)\<^sup>*\<^sup>* c e \<and> idle e \<longrightarrow>
        \<not> loading (loop_page e) \<and> \<not> saving (loop_page e) \<and> \<not> rulesLoading (loop_page e) \<and> \<not> rulesSaving (loop_page e))"
proof -
  note ends = sb_load.comes_to_rest [OF assms(1) fresh_flag [of loading, OF assms(2)] assms(6)]
    sb_save.comes_to_rest [OF assms(1) fresh_flag [of saving, OF assms(3)] assms(6)]
    sb_rules.comes_to_rest [OF assms(1) fresh_flag [of rulesLoading, OF assms(4)] assms(6)]
    sb_rules_save.comes_to_rest [OF assms(1) fresh_flag [of rulesSaving, OF assms(5)] assms(6)]
  show ?thesis using ends by blast
qed

definition saving_rules :: "(http_request, fetch_result, sb_state) loop" where
  "saving_rules = launch (saveRules sample_sb_state) (fresh sample_sb_state)"

theorem editor_ends_working_witness:
  "rulesSaving (loop_page saving_rules) \<and>
   (\<exists>e. (arrival (\<lambda>_ _. True))\<^sup>*\<^sup>* saving_rules e \<and> idle e \<and> \<not> rulesSaving (loop_page e) \<and> \<not> rulesLoading (loop_page e))"
proof -
  let ?s = sample_sb_state
  have off: "\<not> loading ?s" "\<not> saving ?s" "\<not> rulesLoading ?s" "\<not> rulesSaving ?s" "\<not> hasInvalid ?s"
    by code_simp+
  have on: "rulesSaving (loop_page saving_rules)" by code_simp
  have "saveRules ?s \<in> offered (sb_page id id True ?s)"
    using off by (simp add: sb_page_def RulesTab_def save_rules_button_def sample_sb_state_def browser.defs)
  then have "(loop_step (ui_handlers (sb_page id id) (sb_background id)) (\<lambda>_ _. True))\<^sup>*\<^sup>* (fresh ?s) saving_rules"
    unfolding saving_rules_def by (intro r_into_rtranclp loop_step.fire) (auto simp: ui_handlers_def fresh_def)
  from editor_ends_working [OF this] off on show ?thesis by blast
qed

end
