(* ===== verification/Raw_Config.thy ===== *)
theory Raw_Config
  imports Api_Plan Editor Js_Json_Text
begin

text \<open>
  components/RawConfig.tsx: the raw editor of the two configurations, sing-box (JSON) and WireGuard
  (text). A handler takes the state \<open>c\<close> of the render that created it. The message of a JSON syntax
  error is a parameter, the answer of \<open>confirm\<close> is one too; focus, scrolling and the highlighting are
  not modelled.
\<close>

section \<open>State\<close>

datatype raw_tab = RawSingbox | RawWireguard

record raw_state = browser +
  activeTab :: raw_tab
  singboxConfig :: string
  wgConfig :: string
  originalSingboxConfig :: string
  originalWgConfig :: string
  showDiff :: bool
  loading :: bool
  lastBackup :: "string option \<times> string option"
  searchTerm :: string
  searchCursor :: nat
  selectionStart :: nat
  selectionEnd :: nat

type_synonym 'a raw_io = "(http_request, fetch_result, raw_state, 'a) io"

definition currentValue :: "raw_state \<Rightarrow> string" where
  "currentValue s = (case activeTab s of RawSingbox \<Rightarrow> singboxConfig s | RawWireguard \<Rightarrow> wgConfig s)"

definition setCurrentValue :: "raw_tab \<Rightarrow> string \<Rightarrow> raw_state \<Rightarrow> raw_state" where
  "setCurrentValue tab v s =
     (case tab of RawSingbox \<Rightarrow> s\<lparr>singboxConfig := v\<rparr> | RawWireguard \<Rightarrow> s\<lparr>wgConfig := v\<rparr>)"

definition currentLastBackup :: "raw_state \<Rightarrow> string option" where
  "currentLastBackup s = (case activeTab s of RawSingbox \<Rightarrow> fst (lastBackup s) | RawWireguard \<Rightarrow> snd (lastBackup s))"

section \<open>Loading, saving, backups\<close>

definition loadConfigs :: "unit raw_io" where
  "loadConfigs =
     seq (modify (\<lambda>s. s\<lparr>loading := True\<rparr>))
       (try_finally
         (try_catch
           (bind getConfig (\<lambda>sb.
              seq (modify (\<lambda>s. s\<lparr>singboxConfig := json_stringify sb, originalSingboxConfig := json_stringify sb\<rparr>))
                (bind getWireGuardConfig (\<lambda>wg.
                   seq (modify (\<lambda>s. s\<lparr>wgConfig := wg, originalWgConfig := wg\<rparr>))
                     (bind getBackupMeta (\<lambda>meta.
                        modify (\<lambda>s. s\<lparr>lastBackup :=
                          (bm_singbox_last_backup meta, bm_wireguard_last_backup meta)\<rparr>)))))))
           (\<lambda>_. skip))
         (modify (\<lambda>s. s\<lparr>loading := False\<rparr>)))"

definition check_json :: "(string \<Rightarrow> string) \<Rightarrow> string \<Rightarrow> unit raw_io" where
  \<comment> \<open>\<open>JSON.parse(text)\<close>, for its exception alone\<close>
  "check_json syntax_message content =
     (case json_parse content of
        None \<Rightarrow> Throw (JsError ''SyntaxError'' (syntax_message content))
      | Some _ \<Rightarrow> skip)"

definition handleSave :: "(string \<Rightarrow> string) \<Rightarrow> raw_state \<Rightarrow> unit raw_io" where
  "handleSave syntax_message c =
     try_catch
       (seq
         (case activeTab c of
            RawSingbox \<Rightarrow>
              seq (check_json syntax_message (singboxConfig c))
                (seq (updateConfig (singboxConfig c))
                  (modify (\<lambda>s. s\<lparr>originalSingboxConfig := singboxConfig c\<rparr>)))
          | RawWireguard \<Rightarrow>
              seq (updateWireGuardConfig (wgConfig c))
                (modify (\<lambda>s. s\<lparr>originalWgConfig := wgConfig c\<rparr>)))
         (modify (alert ''Config saved successfully!'')))
       (\<lambda>err. modify (alert (''Failed to save: '' @ show_err err)))"

definition handleBackup :: "raw_state \<Rightarrow> unit raw_io" where
  "handleBackup c =
     try_catch
       (seq (case activeTab c of RawSingbox \<Rightarrow> backupConfig | RawWireguard \<Rightarrow> backupWireGuardConfig)
         (modify (alert ''Backup created (.bak)'')))
       (\<lambda>err. modify (alert (''Backup failed: '' @ show_err err)))"

definition handleRestore :: "bool \<Rightarrow> raw_state \<Rightarrow> unit raw_io" where
  "handleRestore confirmed c =
     (if \<not> confirmed then skip
      else
        try_catch
          (seq
            (case activeTab c of
               RawSingbox \<Rightarrow> bind restoreConfig (\<lambda>cfg.
                 modify (\<lambda>s. s\<lparr>singboxConfig := json_stringify cfg, originalSingboxConfig := json_stringify cfg\<rparr>))
             | RawWireguard \<Rightarrow> bind restoreWireGuardConfig (\<lambda>cfg.
                 modify (\<lambda>s. s\<lparr>wgConfig := cfg, originalWgConfig := cfg\<rparr>)))
            (modify (alert ''Restored from backup'')))
          (\<lambda>err. modify (alert (''Restore failed: '' @ show_err err))))"

section \<open>Search, difference, keys\<close>

definition find_in_editor :: "direction \<Rightarrow> raw_state \<Rightarrow> raw_state" where
  "find_in_editor dir s =
     (case performFind dir (searchTerm s) (searchCursor s) (selectionStart s) (selectionEnd s) (currentValue s) of
        None \<Rightarrow> s
      | Some (idx, cursor) \<Rightarrow>
          s\<lparr>searchCursor := cursor, selectionStart := idx, selectionEnd := idx + length (searchTerm s)\<rparr>)"

definition diffLines :: "raw_state \<Rightarrow> diff_row list" where
  "diffLines s =
     (let orig = (case activeTab s of RawSingbox \<Rightarrow> originalSingboxConfig s | RawWireguard \<Rightarrow> originalWgConfig s);
          curr = (case activeTab s of RawSingbox \<Rightarrow> singboxConfig s | RawWireguard \<Rightarrow> wgConfig s)
      in diff_lines orig curr)"

text \<open>A key pressed in the editor: F3 and shift-F3 search, the others move the focus or do nothing.\<close>

definition handleKeyDown :: "bool \<Rightarrow> bool \<Rightarrow> bool \<Rightarrow> string \<Rightarrow> raw_state \<Rightarrow> raw_state" where
  "handleKeyDown meta ctrl shift key s =
     (if \<not> (meta \<or> ctrl) \<and> key = ''F3'' then find_in_editor (if shift then Prev else Next) s else s)"

section \<open>The page\<close>

inductive raw_update :: "raw_state \<Rightarrow> (raw_state \<Rightarrow> raw_state) \<Rightarrow> bool" for c where
  type_text: "raw_update c (setCurrentValue (activeTab c) v)"
| change_tab: "raw_update c (\<lambda>s. s\<lparr>activeTab := t\<rparr>)"
| toggle_diff: "raw_update c (\<lambda>s. s\<lparr>showDiff := \<not> showDiff c\<rparr>)"
| change_term: "raw_update c (\<lambda>s. s\<lparr>searchTerm := v, searchCursor := 0\<rparr>)"
| press_find: "raw_update c (find_in_editor dir)"
| press_key: "raw_update c (handleKeyDown m ct sh key)"
| move_selection: "raw_update c (\<lambda>s. s\<lparr>selectionStart := i, selectionEnd := j\<rparr>)"
| close_toast: "raw_update c (removeToast tid)"
| end_toast: "raw_update c (fire_timer n)"

inductive raw_handler :: "(string \<Rightarrow> string) \<Rightarrow> raw_state \<Rightarrow> unit raw_io \<Rightarrow> bool" for msg where
  update: "raw_update s f \<Longrightarrow> raw_handler msg s (modify f)"
| load: "raw_handler msg s loadConfigs"
| save: "raw_handler msg s (handleSave msg s)"
| backup: "raw_handler msg s (handleBackup s)"
| restore: "raw_handler msg s (handleRestore yes s)"

text \<open>What is sent as a configuration of sing-box is JSON.\<close>

definition sends_json :: "raw_state \<Rightarrow> http_request \<Rightarrow> bool" where
  "sends_json s q \<longleftrightarrow>
     (rq_method q = ''PUT'' \<and> rq_url q = ''/api/config'' \<longrightarrow>
        (\<exists>content j. rq_body q = Some (TextBody content) \<and> json_parse content = Some j))"

lemma sends_json_other:
  "meth \<noteq> ''PUT'' \<or> url \<noteq> ''/api/config'' \<Longrightarrow> sends_json t (request meth url ct bdy t)"
  by (auto simp: sends_json_def request_def)

lemma sends_json_put:
  "json_parse content = Some j \<Longrightarrow> sends_json t (request ''PUT'' ''/api/config'' ct (Some (TextBody content)) t)"
  by (simp add: sends_json_def request_def)

abbreviation always :: "raw_state \<Rightarrow> bool" where
  "always \<equiv> \<lambda>_. True"

lemma logout_closed_always: "logout_closed always"
  by (simp add: logout_closed_def)

lemmas raw_guards = guard_intros guarded_void_sends [OF logout_closed_always TrueI]
  guarded_json_sends [OF logout_closed_always TrueI] guarded_text_sends [OF logout_closed_always TrueI]

lemma guarded_raw_load: "guarded always sends_json loadConfigs s"
  unfolding loadConfigs_def getConfig_def getWireGuardConfig_def getBackupMeta_def
  by (intro raw_guards TrueI) (simp_all add: sends_json_other)

lemma guarded_raw_save: "guarded always sends_json (handleSave msg c) s"
proof (cases "activeTab c")
  case RawSingbox
  show ?thesis
  proof (cases "json_parse (singboxConfig c)")
    case None
    then show ?thesis using RawSingbox by (simp add: handleSave_def check_json_def modify_def)
  next
    case (Some j)
    then show ?thesis
      using RawSingbox unfolding handleSave_def updateConfig_def check_json_def
      by (auto intro!: raw_guards sends_json_put)
  qed
next
  case RawWireguard
  then show ?thesis
    unfolding handleSave_def updateWireGuardConfig_def
    by (auto intro!: raw_guards simp: sends_json_other)
qed

lemma guarded_raw_handler: "raw_handler msg s h \<Longrightarrow> guarded always sends_json h s"
proof (induction rule: raw_handler.induct)
  case (backup s)
  show ?case
    unfolding handleBackup_def backupConfig_def backupWireGuardConfig_def
    by (cases "activeTab s") (auto intro!: raw_guards simp: sends_json_other)
next
  case (restore s yes)
  show ?case
    unfolding handleRestore_def restoreConfig_def restoreWireGuardConfig_def
    by (cases "activeTab s") (auto intro!: raw_guards simp: sends_json_other)
qed (auto intro: guarded_raw_load guarded_raw_save guard_intros)

interpretation raw_page: guarded_page "\<lambda>s. {h. raw_handler msg s h}" always sends_json
  by unfold_locales (simp add: guarded_raw_handler)

section \<open>Properties\<close>

lemma diffLines_unchanged: "currentValue s' = currentValue s \<Longrightarrow> activeTab s' = activeTab s \<Longrightarrow>
    originalSingboxConfig s' = originalSingboxConfig s \<Longrightarrow> originalWgConfig s' = originalWgConfig s \<Longrightarrow>
    diffLines s' = diffLines s"
  by (cases "activeTab s") (simp_all add: diffLines_def currentValue_def)

lemma diff_lines_same: "diff_lines v v = []"
  by (simp add: diff_lines_def)

text \<open>C28: saving in the raw editor. A sing-box text that is not JSON is not sent; the error is shown and
  nothing changes. Otherwise one request carries the text as it is: if it is accepted the difference to
  the stored text becomes empty, and if not it stays what it was and the failure is shown. The text in the
  editor is never touched.\<close>

theorem raw_save_outcome:
  assumes "run (handleSave msg s) (logging (\<lambda>_ _. r)) s [] = (x, s', sent)"
  shows "x = Inr () \<and> currentValue s' = currentValue s \<and>
     (if activeTab s = RawSingbox \<and> json_parse (singboxConfig s) = None
      then sent = [] \<and> diffLines s' = diffLines s \<and>
        alerts s' = alerts s @ [''Failed to save: SyntaxError'' @
          (if msg (singboxConfig s) = [] then [] else '': '' @ msg (singboxConfig s))]
      else map rq_body sent = [Some (TextBody (currentValue s))] \<and>
        (if ok_answer r
         then diffLines s' = [] \<and> alerts s' = alerts s @ [''Config saved successfully!'']
         else diffLines s' = diffLines s \<and>
           (\<exists>e. alerts s' = alerts s @ [''Failed to save: '' @ show_err e])))"
proof -
  have frame: "currentValue (alert m t) = currentValue t" "diffLines (alert m t) = diffLines t"
    "currentValue (logout t) = currentValue t" "diffLines (logout t) = diffLines t"
    "alerts (alert m t) = alerts t @ [m]" for m and t :: raw_state
    by (simp_all add: currentValue_def diffLines_def alert_def logout_def split: raw_tab.split)
  show ?thesis
  proof (cases "activeTab s = RawSingbox \<and> json_parse (singboxConfig s) = None")
    case True
    then show ?thesis
      using assms by (auto simp: handleSave_def check_json_def run_simps frame show_err_def)
  next
    case False
    note run = assms [unfolded handleSave_def check_json_def updateConfig_def updateWireGuardConfig_def]
    show ?thesis
    proof (cases "activeTab s")
      case RawSingbox
      then obtain j where j: "json_parse (singboxConfig s) = Some j" using False by auto
      show ?thesis
        using run RawSingbox j
        by (cases r) (auto simp: run_simps frame Api_Facts.checked_def currentValue_def diffLines_def alert_def
            diff_lines_same logout_def not_ok_401 split: if_splits)
    next
      case RawWireguard
      then show ?thesis
        using run
        by (cases r) (auto simp: run_simps frame Api_Facts.checked_def currentValue_def diffLines_def alert_def
            diff_lines_same logout_def not_ok_401 split: if_splits)
    qed
  qed
qed

text \<open>C29: in every interleaving of the raw editor's handlers, edits and responses, whatever is sent as the
  configuration of sing-box is JSON.\<close>

theorem raw_sends_only_json:
  assumes "reachable (\<lambda>s. {h. raw_handler msg s h}) answers init c" and "(u, q) \<in> set (loop_sent c)"
    and "rq_method q = ''PUT''" and "rq_url q = ''/api/config''"
  shows "\<exists>content j. rq_body q = Some (TextBody content) \<and> json_parse content = Some j"
  using raw_page.reachable_sends [OF assms(1) TrueI assms(2)] assms(3,4) by (simp add: sends_json_def)

section \<open>Witnesses\<close>

definition sample_raw_state :: raw_state where
  "sample_raw_state = browser.extend sample_browser
     \<lparr>activeTab = RawSingbox, singboxConfig = ''[]'', wgConfig = [], originalSingboxConfig = ''{}'',
      originalWgConfig = [], showDiff = False, loading = False, lastBackup = (None, None),
      searchTerm = [], searchCursor = 0, selectionStart = 0, selectionEnd = 0\<rparr>"

theorem raw_save_outcome_witness:
  "let s' = fst (snd (run (handleSave (\<lambda>_. ''bad'') sample_raw_state)
       (logging (\<lambda>_ _. Answered (answer_status 200 []))) sample_raw_state []))
   in diffLines sample_raw_state \<noteq> [] \<and> diffLines s' = [] \<and> currentValue s' = ''[]''"
proof -
  obtain x s' sent where r: "run (handleSave (\<lambda>_. ''bad'') sample_raw_state)
      (logging (\<lambda>_ _. Answered (answer_status 200 []))) sample_raw_state [] = (x, s', sent)"
    by (metis prod_cases3)
  have p: "json_parse (singboxConfig sample_raw_state) = Some (JArr [])"
    "currentValue sample_raw_state = ''[]''" "diffLines sample_raw_state \<noteq> []"
    "ok_answer (Answered (answer_status 200 []))"
    by code_simp+
  show ?thesis
    using raw_save_outcome [OF r] p by (simp add: r)
qed

theorem raw_sends_only_json_witness:
  "let q = snd (hd (loop_sent (launch (handleSave (\<lambda>_. []) sample_raw_state)
         \<lparr>loop_page = sample_raw_state, loop_tasks = [], loop_sent = []\<rparr>)))
   in rq_url q = ''/api/config'' \<and> (\<exists>content j. rq_body q = Some (TextBody content) \<and> json_parse content = Some j)"
proof -
  let ?h = "\<lambda>s. {h. raw_handler (\<lambda>_. []) s h}"
  let ?c = "\<lparr>loop_page = sample_raw_state, loop_tasks = [], loop_sent = []\<rparr> ::
    (http_request, fetch_result, raw_state) loop"
  let ?d = "launch (handleSave (\<lambda>_. []) sample_raw_state) ?c"
  let ?q = "snd (hd (loop_sent ?d))"
  have r: "reachable ?h (\<lambda>_ _. True) sample_raw_state ?d"
    by (rule reachable.further [OF reachable.initial], rule loop_step.fire) (simp add: raw_handler.save)
  have "loop_sent ?d \<noteq> []" by code_simp
  then have sent: "(fst (hd (loop_sent ?d)), ?q) \<in> set (loop_sent ?d)" by simp
  have q: "rq_method ?q = ''PUT''" "rq_url ?q = ''/api/config''" by code_simp+
  show ?thesis
    unfolding Let_def using raw_sends_only_json [OF r sent q] q(2) by blast
qed

end
