(* ===== verification/Raw_View.thy ===== *)
theory Raw_View
  imports Raw_Config
begin

text \<open>
  The buttons, fields and labels of components/RawConfig.tsx. The text of a date is a parameter.
\<close>

definition selectTab :: "raw_tab \<Rightarrow> raw_state \<Rightarrow> raw_state" where
  "selectTab t s = s\<lparr>activeTab := t\<rparr>"

definition toggleDiff :: "raw_state \<Rightarrow> raw_state \<Rightarrow> raw_state" where
  "toggleDiff c s = s\<lparr>showDiff := \<not> showDiff c\<rparr>"

definition diff_label :: "raw_state \<Rightarrow> string" where
  "diff_label s = (if showDiff s then ''Hide Diff'' else ''Compare Changes'')"

definition changeTerm :: "string \<Rightarrow> raw_state \<Rightarrow> raw_state" where
  "changeTerm v s = s\<lparr>searchTerm := v, searchCursor := 0\<rparr>"

definition termKey :: "bool \<Rightarrow> string \<Rightarrow> raw_state \<Rightarrow> raw_state" where
  "termKey shift key s = (if key = ''Enter'' then find_in_editor (if shift then Prev else Next) s else s)"

definition editText :: "raw_state \<Rightarrow> string \<Rightarrow> raw_state \<Rightarrow> raw_state" where
  "editText c v s = setCurrentValue (activeTab c) v s"

definition last_backup_text :: "(string \<Rightarrow> string) \<Rightarrow> raw_state \<Rightarrow> string" where
  "last_backup_text locale_date s =
     ''Last Backup: '' @
       (case currentLastBackup s of Some (d # ds) \<Rightarrow> locale_date (d # ds) | _ \<Rightarrow> ''Never'')"

text \<open>The rows of the comparison, if it is shown, with the mark of a line that was empty.\<close>

definition diff_rows :: "raw_state \<Rightarrow> (nat \<times> string \<times> string) list option" where
  "diff_rows s =
     (if showDiff s
      then Some (map (\<lambda>d. (d_line d, str_or (d_original d) ''empty'', d_current d)) (diffLines s))
      else None)"

section \<open>Facts\<close>

lemma updates_of_page:
  "raw_update c (selectTab t)" "raw_update c (toggleDiff c)" "raw_update c (changeTerm v)" "raw_update c (editText c v)"
proof -
  have "selectTab t = (\<lambda>s. s\<lparr>activeTab := t\<rparr>)" "toggleDiff c = (\<lambda>s. s\<lparr>showDiff := \<not> showDiff c\<rparr>)"
    "changeTerm v = (\<lambda>s. s\<lparr>searchTerm := v, searchCursor := 0\<rparr>)" "editText c v = setCurrentValue (activeTab c) v"
    by (simp_all add: fun_eq_iff selectTab_def toggleDiff_def changeTerm_def editText_def)
  then show "raw_update c (selectTab t)" "raw_update c (toggleDiff c)" "raw_update c (changeTerm v)" "raw_update c (editText c v)"
    by (metis raw_update.intros)+
qed

lemma key_updates: "raw_update c (termKey shift ''Enter'')"
proof -
  have "termKey shift ''Enter'' = find_in_editor (if shift then Prev else Next)" by (simp add: fun_eq_iff termKey_def)
  then show ?thesis by (simp add: raw_update.press_find)
qed

lemma diff_label_toggles: "diff_label (toggleDiff s s) \<noteq> diff_label s"
  by (simp add: diff_label_def toggleDiff_def)

text \<open>A text that equals the one it was loaded from is compared as unchanged.\<close>

lemma nothing_changed:
  "singboxConfig s = originalSingboxConfig s \<Longrightarrow> wgConfig s = originalWgConfig s \<Longrightarrow> diff_rows s \<in> {None, Some []}"
  by (simp add: diff_rows_def diffLines_def diff_lines_same split: raw_tab.split)

end
