(* ===== verification/Raw_Ui.thy ===== *)
theory Raw_Ui
  imports Raw_View Ui
begin

text \<open>
  The rendering of components/RawConfig.tsx with the handlers that its elements start, and the page as its
  user can drive it. A key of the editor comes with its modifiers (\<open>meta\<close>, \<open>ctrl\<close>, \<open>shift\<close>). The answer of
  \<open>confirm\<close> and the texts of dates are the environment of a render.
\<close>

record raw_env =
  re_confirmed :: bool
  re_date :: "string \<Rightarrow> string"

type_synonym raw_elements = "unit raw_io element list"

definition raw_header :: "(string \<Rightarrow> string) \<Rightarrow> raw_state \<Rightarrow> raw_elements" where
  "raw_header msg s =
     [Shown ''Raw Config'', Button ''Refresh configs'' False loadConfigs, Button ''Save Changes'' False (handleSave msg s)]"

definition raw_tabs :: "raw_elements" where
  "raw_tabs =
     [Button ''sing-box (config.json)'' False (modify (selectTab RawSingbox)),
      Button ''WireGuard (wg0.conf)'' False (modify (selectTab RawWireguard))]"

definition raw_toolbar :: "raw_env \<Rightarrow> raw_state \<Rightarrow> raw_elements" where
  "raw_toolbar e s =
     [Button (diff_label s) False (modify (toggleDiff s)), Button ''Backup Now'' False (handleBackup s),
      Button ''Restore'' False (handleRestore (re_confirmed e) s), Shown (last_backup_text (re_date e) s),
      Icon ''AlertTriangle'', Shown ''Caution'',
      Shown ''Editing raw configurations can break your service. Search (Ctrl/Cmd+F) available. Validate syntax before saving.'']"

definition raw_diff :: "raw_state \<Rightarrow> raw_elements" where
  "raw_diff s =
     (case diff_rows s of
        None \<Rightarrow> []
      | Some rows \<Rightarrow>
          [Shown ''Unsaved Changes''] @ (if rows = [] then [Shown ''No changes detected''] else []) @
          concat (map (\<lambda>(line, original, current). [Shown (show_nat line), Shown original, Shown current]) rows))"

definition raw_search :: "raw_state \<Rightarrow> raw_elements" where
  "raw_search s =
     [Field ''Find in config...'' (searchTerm s) False (\<lambda>v. modify (changeTerm v)),
      Key ''Enter'' (modify (termKey False ''Enter'')), Key ''Shift+Enter'' (modify (termKey True ''Enter'')),
      Button ''Previous (Shift+Enter)'' False (modify (find_in_editor Prev)),
      Button ''Next (Enter)'' False (modify (find_in_editor Next)), Shown ''Ctrl+F to focus * F3 Next'']"

definition raw_editor :: "raw_state \<Rightarrow> raw_elements" where
  "raw_editor s =
     map (\<lambda>(key, meta, ctrl, shift). Key key (modify (handleKeyDown meta ctrl shift key)))
       (List.product [''f'', ''F3'', ''/''] (List.product [False, True] (List.product [False, True] [False, True]))) @
     [Field '''' (currentValue s) False (\<lambda>v. modify (editText s v))]"

definition raw_elements :: "(string \<Rightarrow> string) \<Rightarrow> raw_env \<Rightarrow> raw_state \<Rightarrow> raw_elements" where
  "raw_elements msg e s =
     raw_header msg s @ raw_tabs @ raw_toolbar e s @ raw_diff s @ raw_search s @ raw_editor s"

definition raw_background :: "raw_state \<Rightarrow> unit raw_io set" where
  "raw_background s =
     {loadConfigs} \<union> {modify (\<lambda>s. s\<lparr>selectionStart := i, selectionEnd := j\<rparr>) | i j. True} \<union> toast_events s"

lemma raw_offered: "offered (raw_elements msg e s) \<subseteq> {h. raw_handler msg s h}"
  by (auto simp: raw_elements_def raw_header_def raw_tabs_def raw_toolbar_def raw_diff_def raw_search_def raw_editor_def
      intro: raw_handler.intros updates_of_page key_updates raw_update.intros split: option.splits)

interpretation raw_ui: guarded_rendered "raw_elements msg" raw_background "\<lambda>s. {h. raw_handler msg s h}" always sends_json
  for msg
proof unfold_locales
  fix e s
  show "offered (raw_elements msg e s) \<subseteq> {h. raw_handler msg s h}" by (rule raw_offered)
  show "raw_background s \<subseteq> {h. raw_handler msg s h}"
    by (auto simp: raw_background_def elim!: toast_events_cases intro: raw_handler.intros raw_update.intros)
qed

section \<open>The spinner\<close>

lemma raw_frame [simp]:
  "loading (logout s) = loading (s :: raw_state)" "loading (alert m s) = loading (s :: raw_state)"
  "loading (find_in_editor dir s) = loading s" "loading (setCurrentValue t v s) = loading s"
  by (simp_all add: logout_def alert_def find_in_editor_def setCurrentValue_def Let_def split: option.split raw_tab.split)

lemma raw_load_ends: "ends_in (\<lambda>s. \<not> loading s) (\<lambda>s. \<not> loading s) loadConfigs s"
  unfolding loadConfigs_def getConfig_def getWireGuardConfig_def getBackupMeta_def by (auto intro!: flag_intros)

lemma raw_update_frame: "raw_update c f \<Longrightarrow> loading (f s) = loading s"
  by (induction rule: raw_update.induct) (auto simp: handleKeyDown_def removeToast_def fire_timer_def Let_def)

interpretation raw_spinner: busy_page "\<lambda>s. {h. raw_handler msg s h}" loading for msg
proof unfold_locales
  fix h :: "unit raw_io" and s assume "h \<in> {h. raw_handler msg s h}"
  then have "raw_handler msg s h" by simp
  then show "ends_in (\<lambda>s. \<not> loading s) (\<lambda>s. \<not> loading s) h s \<or> keeps_off loading h s"
  proof cases
    case (update f)
    then show ?thesis by (auto simp: raw_update_frame intro!: disjI2 keeps_modify)
  next
    case load
    then show ?thesis using raw_load_ends by simp
  qed (auto simp: handleSave_def handleBackup_def handleRestore_def check_json_def updateConfig_def updateWireGuardConfig_def
      backupConfig_def backupWireGuardConfig_def restoreConfig_def restoreWireGuardConfig_def
      intro!: disjI2 flag_intros split: raw_tab.split option.split)
qed

text \<open>The raw editor as its user drives it sends only JSON as the configuration of sing-box, and comes to
  rest.\<close>

theorem raw_ui_sends_json:
  assumes "reachable (ui_handlers (raw_elements msg) raw_background) answers init c" and "(u, q) \<in> set (loop_sent c)"
  shows "sends_json u q"
  using raw_ui.ui_sends [OF assms(1) TrueI assms(2)] by simp

theorem raw_ends_loading:
  assumes "(loop_step (ui_handlers (raw_elements msg) raw_background) answers)\<^sup>*\<^sup>* (launch loadConfigs (fresh s)) d"
    and "\<And>q. \<exists>r. answers q r"
  shows "wfp (arrival answers)\<inverse>\<inverse> \<and> (\<exists>e. (arrival answers)\<^sup>*\<^sup>* d e \<and> idle e) \<and>
     (\<forall>e. (arrival answers)\<^sup>*\<^sup>* d e \<and> idle e \<longrightarrow> \<not> loading (loop_page e))"
  by (rule raw_spinner.comes_to_rest [OF raw_ui.ui_steps [OF assms(1)] _ assms(2)])
    (unfold fresh_def, rule flag_first, rule raw_load_ends)

end
