(* ===== verification/Settings.thy ===== *)
theory Settings
  imports Api_Plan Format Js_Json_Text
begin

text \<open>
  components/Settings.tsx: feature flags, public address, sampler, services, account, and the preferences
  of the dashboard, which are kept in the local storage. \<open>loadAll\<close> starts three requests at once and goes
  on when all three have been handled: \<open>promise_all\<close> counts, in \<open>joins\<close>, the members of each
  \<open>Promise.all\<close> that are still pending, and the last one goes on with the rest. \<open>activeTab\<close> is the state of its tabs (ui/Tabs.tsx). The number fields hold whole numbers; the texts of the
  service's confirmation are parameters.
\<close>

section \<open>State\<close>

record prefs =
  pf_defaultService :: string
  pf_refreshMs :: int
  pf_defaultRange :: string

record password_data =
  pd_current :: string
  pd_new :: string
  pd_confirm :: string

record username_data =
  ud_password :: string
  ud_newUsername :: string

record settings_state = browser +
  loading :: bool
  samplerRunning :: bool
  db_rows :: int
  db_sizeMB :: real_num
  samplerHistory :: "json list"
  features :: feature_flags
  historyLimit :: jsnum
  serviceStatus :: "bool \<times> bool"
  passwordData :: password_data
  usernameData :: username_data
  publicIP :: string
  dashboardPrefs :: prefs
  joins :: "nat list"
  activeTab :: "string option"

type_synonym 'a settings_io = "(http_request, fetch_result, settings_state, 'a) io"

abbreviation success :: "string \<Rightarrow> unit settings_io" where
  "success msg \<equiv> modify (toast_success msg)"

abbreviation toastError :: "string \<Rightarrow> unit settings_io" where
  "toastError msg \<equiv> modify (toast_error msg)"

definition setFeatures :: "(feature_flags \<Rightarrow> feature_flags) \<Rightarrow> settings_state \<Rightarrow> settings_state" where
  "setFeatures f s = s\<lparr>features := f (features s)\<rparr>"

section \<open>Preferences of the dashboard\<close>

abbreviation prefs_key :: string where
  "prefs_key \<equiv> ''dashboard_prefs''"

definition parse_prefs :: "json \<Rightarrow> prefs" where
  "parse_prefs parsed =
     \<lparr>pf_defaultService =
        (if jget ''defaultService'' parsed = Some (JStr ''wireguard'') then ''wireguard'' else ''singbox''),
      pf_refreshMs =
        (case jget ''refreshMs'' parsed of
           Some (JNum n) \<Rightarrow> if n \<noteq> 0 \<and> 1000 \<le> n then n else 10000
         | _ \<Rightarrow> 10000),
      pf_defaultRange = str_or (str_of (jget ''defaultRange'' parsed)) ''24h''\<rparr>"

text \<open>The part of the effect that reads the preferences; the text \<open>null\<close> has no members, which throws,
  and what is thrown is ignored.\<close>

definition readPrefs :: "settings_state \<Rightarrow> settings_state" where
  "readPrefs s =
     (case storage s prefs_key of
        Some (c # cs) \<Rightarrow>
          (case json_parse (c # cs) of
             Some JNull \<Rightarrow> s
           | Some parsed \<Rightarrow> s\<lparr>dashboardPrefs := parse_prefs parsed\<rparr>
           | None \<Rightarrow> s)
      | _ \<Rightarrow> s)"

definition changeDefaultService :: "string \<Rightarrow> settings_state \<Rightarrow> settings_state" where
  "changeDefaultService v s = s\<lparr>dashboardPrefs := (dashboardPrefs s)\<lparr>pf_defaultService := v\<rparr>\<rparr>"

definition changeRefresh :: "string \<Rightarrow> settings_state \<Rightarrow> settings_state" where
  "changeRefresh v s =
     (let seconds = (case parse_int v of Some n \<Rightarrow> if n \<noteq> 0 then n else 10 | None \<Rightarrow> 10)
      in s\<lparr>dashboardPrefs := (dashboardPrefs s)\<lparr>pf_refreshMs := max 1000 (seconds * 1000)\<rparr>\<rparr>)"

definition changeDefaultRange :: "string \<Rightarrow> settings_state \<Rightarrow> settings_state" where
  "changeDefaultRange v s = s\<lparr>dashboardPrefs := (dashboardPrefs s)\<lparr>pf_defaultRange := v\<rparr>\<rparr>"

definition normalized :: "prefs \<Rightarrow> prefs" where
  "normalized p =
     \<lparr>pf_defaultService = str_or (pf_defaultService p) ''singbox'',
      pf_refreshMs = max 1000 (if pf_refreshMs p \<noteq> 0 then pf_refreshMs p else 10000),
      pf_defaultRange = str_or (pf_defaultRange p) ''24h''\<rparr>"

definition prefs_json :: "prefs \<Rightarrow> json" where
  "prefs_json p =
     JObj [(''defaultService'', JStr (pf_defaultService p)), (''refreshMs'', JNum (pf_refreshMs p)),
           (''defaultRange'', JStr (pf_defaultRange p))]"

text \<open>\<open>handleSave\<close> of the tab.\<close>

definition savePrefs :: "settings_state \<Rightarrow> settings_state" where
  "savePrefs s =
     toast_success ''Dashboard preferences saved''
       (s\<lparr>dashboardPrefs := normalized (dashboardPrefs s),
          storage := (storage s)(prefs_key := Some (json_compact (prefs_json (normalized (dashboardPrefs s)))))\<rparr>)"

section \<open>Loading\<close>

definition loadFeatures :: "unit settings_io" where
  "loadFeatures =
     try_catch (bind getFeatures (\<lambda>f. modify (\<lambda>s. s\<lparr>features := f\<rparr>))) (\<lambda>_. skip)"

definition size_mb :: "int \<Rightarrow> real_num" where
  \<comment> \<open>\<open>parseFloat((sizeBytes / (1024 * 1024)).toFixed(2))\<close>\<close>
  "size_mb sizeBytes = parse_float (to_fixed (nat (scaled (of_int sizeBytes / (1024 * 1024)) 2)) 2)"

definition applyStatus :: "system_status \<Rightarrow> settings_state \<Rightarrow> settings_state" where
  "applyStatus status s =
     (let s1 = s\<lparr>db_rows := nullish (ss_samples_count status) 0,
                 db_sizeMB := size_mb (nullish (ss_db_size_bytes status) 0)\<rparr>;
          s2 = (case ss_sampler_paused status of
                  Some p \<Rightarrow> setFeatures (\<lambda>f. f\<lparr>ff_sampler_paused := Some p\<rparr>) s1
                | None \<Rightarrow> s1);
          s3 = (case ss_wg_sample_interval_sec status of
                  Some n \<Rightarrow> if n \<noteq> 0 then setFeatures (\<lambda>f. f\<lparr>ff_wg_sampler_interval_sec := Some (Fin n)\<rparr>) s2 else s2
                | None \<Rightarrow> s2)
      in s3\<lparr>serviceStatus := (ss_singbox status, ss_wireguard status)\<rparr>)"

definition loadDbStats :: "unit settings_io" where
  "loadDbStats = try_catch (bind getSystemStatus (\<lambda>status. modify (applyStatus status))) (\<lambda>_. skip)"

definition loadSamplerHistory :: "settings_state \<Rightarrow> unit settings_io" where
  "loadSamplerHistory c =
     try_catch
       (bind (getSamplerHistory (Some (historyLimit c))) (\<lambda>h.
          modify (\<lambda>s. s\<lparr>samplerHistory := (case h of JArr xs \<Rightarrow> xs | _ \<Rightarrow> [])\<rparr>)))
       (\<lambda>_. modify (\<lambda>s. s\<lparr>samplerHistory := []\<rparr>))"

definition loadAll_rest :: "unit settings_io" where
  "loadAll_rest =
     seq (try_catch (bind getPublicIP (\<lambda>ip. modify (\<lambda>s. s\<lparr>publicIP := ip\<rparr>))) (\<lambda>_. skip))
       (modify (\<lambda>s. s\<lparr>loading := False\<rparr>))"

text \<open>\<open>Promise.all\<close> of promises that do not reject: each is a task, and the one that is settled last
  goes on.\<close>

definition settle_one :: "nat \<Rightarrow> settings_state \<Rightarrow> settings_state" where
  "settle_one j s = s\<lparr>joins := (joins s)[j := joins s ! j - 1]\<rparr>"

definition goes_on :: "nat \<Rightarrow> unit settings_io \<Rightarrow> unit settings_io" where
  "goes_on j rest = seq (modify (settle_one j)) (Get (\<lambda>s. if joins s ! j = 0 then rest else skip))"

definition promise_all :: "unit settings_io list \<Rightarrow> unit settings_io \<Rightarrow> unit settings_io" where
  "promise_all ps rest =
     Get (\<lambda>c. seq (modify (\<lambda>s. s\<lparr>joins := joins s @ [length ps]\<rparr>))
       (for_each ps (\<lambda>p. spawn (seq p (goes_on (length (joins c)) rest)))))"

definition loadAll :: "settings_state \<Rightarrow> unit settings_io" where
  "loadAll c =
     seq (modify (\<lambda>s. s\<lparr>loading := True\<rparr>))
       (promise_all [loadFeatures, loadDbStats, loadSamplerHistory c] loadAll_rest)"

text \<open>The effect that depends on the length of the history loads everything and reads the preferences, on
  mounting and after each choice of another length.\<close>

definition history_effect :: "settings_state \<Rightarrow> unit settings_io" where
  "history_effect c = seq (loadAll c) (modify readPrefs)"

definition changeHistoryLimit :: "string \<Rightarrow> unit settings_io" where
  "changeHistoryLimit v =
     seq (modify (\<lambda>s. s\<lparr>historyLimit := num_of_parse (parse_int v)\<rparr>)) (Get history_effect)"

section \<open>Saving, services\<close>

definition handleSaveFeatures :: "settings_state \<Rightarrow> unit settings_io" where
  "handleSaveFeatures c =
     try_catch (seq (updateFeatures (features c)) (success ''Feature toggles saved successfully''))
       (\<lambda>err. toastError (''Failed to save feature toggles: '' @ show_err err))"

definition handleSavePublicIP :: "settings_state \<Rightarrow> unit settings_io" where
  "handleSavePublicIP c =
     try_catch (seq (updatePublicIP (trim (publicIP c))) (success ''Public IP saved''))
       (\<lambda>err. toastError (''Failed to save public IP: '' @ show_err err))"

definition handleRunSampler :: "settings_state \<Rightarrow> unit settings_io" where
  "handleRunSampler c =
     try_finally
       (try_catch
         (seq (modify (\<lambda>s. s\<lparr>samplerRunning := True\<rparr>))
           (seq runSampler
             (seq loadDbStats
               (seq (loadSamplerHistory c) (success ''Sampler run triggered successfully'')))))
         (\<lambda>err. toastError (''Failed to run sampler: '' @ show_err err)))
       (modify (\<lambda>s. s\<lparr>samplerRunning := False\<rparr>))"

definition handleTogglePause :: "settings_state \<Rightarrow> unit settings_io" where
  "handleTogglePause c =
     try_catch
       (if ff_sampler_paused (features c) = Some True
        then seq resumeSampler
          (seq (modify (setFeatures (\<lambda>f. f\<lparr>ff_sampler_paused := Some False\<rparr>))) (success ''Sampler resumed''))
        else seq pauseSampler
          (seq (modify (setFeatures (\<lambda>f. f\<lparr>ff_sampler_paused := Some True\<rparr>))) (success ''Sampler paused'')))
       (\<lambda>err. toastError (''Failed to toggle sampler: '' @ show_err err))"

definition handlePruneNow :: "bool \<Rightarrow> settings_state \<Rightarrow> unit settings_io" where
  "handlePruneNow confirmed c =
     (if ff_retention_enabled (features c) \<noteq> Some True then toastError ''Retention is disabled''
      else if \<not> confirmed then skip
      else
        try_catch
          (bind pruneNow (\<lambda>(deleted, cutoff).
             seq (success (''Pruned '' @ show_int deleted @ '' samples'')) loadDbStats))
          (\<lambda>err. toastError (''Prune failed: '' @ show_err err)))"

datatype service_action = Restart | Stop | Start

definition action_name :: "service_action \<Rightarrow> string" where
  "action_name a = (case a of Restart \<Rightarrow> ''restart'' | Stop \<Rightarrow> ''stop'' | Start \<Rightarrow> ''start'')"

definition handleServiceAction :: "bool \<Rightarrow> string \<Rightarrow> service_action \<Rightarrow> unit settings_io" where
  "handleServiceAction confirmed service action =
     (if \<not> confirmed then skip
      else
        try_catch
          (seq (case action of
                  Restart \<Rightarrow> restartService service
                | Start \<Rightarrow> startService service
                | Stop \<Rightarrow> stopService service)
            (seq loadDbStats
              (success (service @ '' '' @ action_name action @ ''ed successfully''))))
          (\<lambda>err. toastError (''Failed to '' @ action_name action @ '' '' @ service @ '': '' @ show_err err)))"

section \<open>Account\<close>

definition handleChangeUsername :: "settings_state \<Rightarrow> unit settings_io" where
  "handleChangeUsername c =
     (let d = usernameData c
      in if ud_password d = [] \<or> ud_newUsername d = [] then toastError ''All fields are required''
         else
           try_catch
             (seq (updateUsername (ud_password d) (ud_newUsername d))
               (seq (success ''Username updated successfully. Please login again.'')
                 (seq (modify (\<lambda>s. s\<lparr>usernameData := \<lparr>ud_password = [], ud_newUsername = []\<rparr>\<rparr>))
                   (seq (modify logout) (modify (navigate ''/login''))))))
             (\<lambda>err. toastError (''Failed to update username: '' @ show_err err)))"

definition handleChangePassword :: "settings_state \<Rightarrow> unit settings_io" where
  "handleChangePassword c =
     (let d = passwordData c
      in if pd_current d = [] \<or> pd_new d = [] \<or> pd_confirm d = [] then toastError ''All fields are required''
         else if pd_new d \<noteq> pd_confirm d then toastError ''New passwords do not match''
         else if length (pd_new d) < 8 then toastError ''New password must be at least 8 characters''
         else
           try_catch
             (seq (updatePassword (pd_current d) (pd_new d))
               (seq (success ''Password updated successfully'')
                 (modify (\<lambda>s. s\<lparr>passwordData := \<lparr>pd_current = [], pd_new = [], pd_confirm = []\<rparr>\<rparr>))))
             (\<lambda>err. toastError (''Failed to update password: '' @ show_err err)))"

definition changePublicIP :: "string \<Rightarrow> settings_state \<Rightarrow> settings_state" where
  "changePublicIP v s = s\<lparr>publicIP := v\<rparr>"

text \<open>The switches and number fields of the tabs.\<close>

definition changeRetentionDays :: "string \<Rightarrow> settings_state \<Rightarrow> settings_state" where
  "changeRetentionDays v = setFeatures (\<lambda>f. f\<lparr>ff_retention_days := Some (num_of_parse (parse_int v))\<rparr>)"

definition changeWgRetentionDays :: "string \<Rightarrow> settings_state \<Rightarrow> settings_state" where
  "changeWgRetentionDays v = setFeatures (\<lambda>f. f\<lparr>ff_wg_retention_days := Some (num_of_parse (parse_int v))\<rparr>)"

definition changeSamplerInterval :: "string \<Rightarrow> settings_state \<Rightarrow> settings_state" where
  "changeSamplerInterval v = setFeatures (\<lambda>f. f\<lparr>ff_sampler_interval_sec := Some (num_of_parse (parse_int v))\<rparr>)"

definition changeWgSamplerInterval :: "string \<Rightarrow> settings_state \<Rightarrow> settings_state" where
  "changeWgSamplerInterval v = setFeatures (\<lambda>f. f\<lparr>ff_wg_sampler_interval_sec := Some (num_of_parse (parse_int v))\<rparr>)"

definition changeAggregationDays :: "string \<Rightarrow> settings_state \<Rightarrow> settings_state" where
  "changeAggregationDays v = setFeatures (\<lambda>f. f\<lparr>ff_aggregation_days := Some (num_of_parse (parse_int v))\<rparr>)"

definition changeThreshold :: "string \<Rightarrow> settings_state \<Rightarrow> settings_state" where
  "changeThreshold v = setFeatures (\<lambda>f. f\<lparr>ff_active_threshold_bytes := Some (num_of_parse (parse_int v))\<rparr>)"

definition toggle_features :: "(feature_flags \<Rightarrow> feature_flags) list" where
  \<comment> \<open>the four switches of the general tab, set to a value\<close>
  "toggle_features = concat (map (\<lambda>b. [\<lambda>f. f\<lparr>ff_enable_singbox := b\<rparr>, \<lambda>f. f\<lparr>ff_enable_wireguard := b\<rparr>,
     \<lambda>f. f\<lparr>ff_retention_enabled := Some b\<rparr>, \<lambda>f. f\<lparr>ff_aggregation_enabled := Some b\<rparr>]) [True, False])"

end
