(* ===== verification/Settings_Facts.thy ===== *)
theory Settings_Facts
  imports Settings Api_Late
begin

text \<open>
  Facts on the settings page: the preferences of the dashboard stay well-typed whatever happens, a change
  of the account is checked before it is sent, and choosing another length of the history drops the edits
  that were not saved.
\<close>

section \<open>The page\<close>

inductive settings_update :: "(settings_state \<Rightarrow> settings_state) \<Rightarrow> bool" where
  "v \<in> {''singbox'', ''wireguard''} \<Longrightarrow> settings_update (changeDefaultService v)"
| "settings_update (changeRefresh v)"
| "v \<in> {''30m'', ''1h'', ''6h'', ''24h'', ''1w'', ''1m''} \<Longrightarrow> settings_update (changeDefaultRange v)"
| "settings_update savePrefs"
| "settings_update (changePublicIP v)"
| "settings_update (\<lambda>s. s\<lparr>passwordData := d (passwordData s)\<rparr>)"
| "settings_update (\<lambda>s. s\<lparr>usernameData := e (usernameData s)\<rparr>)"
| "settings_update (setFeatures f)"
| "settings_update (\<lambda>s. s\<lparr>activeTab := v'\<rparr>)"
| "settings_update (removeToast tid)"
| "settings_update (fire_timer n)"

inductive settings_handler :: "settings_state \<Rightarrow> unit settings_io \<Rightarrow> bool" where
  update: "settings_update f \<Longrightarrow> settings_handler s (modify f)"
| "settings_handler s loadDbStats"
| "settings_handler s (loadAll s)"
| "settings_handler s (history_effect s)"
| "settings_handler s (changeHistoryLimit v)"
| "settings_handler s (handleSaveFeatures s)"
| "settings_handler s (handleSavePublicIP s)"
| "settings_handler s (handleRunSampler s)"
| "settings_handler s (handleTogglePause s)"
| "settings_handler s (handlePruneNow yes s)"
| service: "settings_handler s (handleServiceAction yes service action)"
| "settings_handler s (handleChangeUsername s)"
| "settings_handler s (handleChangePassword s)"

abbreviation settings_handlers :: "settings_state \<Rightarrow> unit settings_io set" where
  "settings_handlers s \<equiv> {h. settings_handler s h}"

section \<open>Well-typed preferences\<close>

definition valid_prefs :: "prefs \<Rightarrow> bool" where
  "valid_prefs p \<longleftrightarrow> pf_defaultService p \<in> {''singbox'', ''wireguard''} \<and> 1000 \<le> pf_refreshMs p \<and> pf_defaultRange p \<noteq> []"

abbreviation prefs_inv :: "settings_state \<Rightarrow> bool" where
  "prefs_inv s \<equiv> valid_prefs (dashboardPrefs s)"

lemma normalized_valid: "valid_prefs p \<Longrightarrow> normalized p = p"
  by (cases p) (auto simp: valid_prefs_def normalized_def str_or_def)

lemma parse_prefs_valid: "valid_prefs (parse_prefs j)"
  by (auto simp: valid_prefs_def parse_prefs_def str_or_def split: option.splits json.splits)

lemma prefs_frame [simp]:
  "dashboardPrefs (logout s) = dashboardPrefs (s :: settings_state)"
  "dashboardPrefs (showToast m ty d s) = dashboardPrefs (s :: settings_state)"
  "dashboardPrefs (toast_success m s) = dashboardPrefs (s :: settings_state)"
  "dashboardPrefs (toast_error m s) = dashboardPrefs (s :: settings_state)"
  "dashboardPrefs (navigate p s) = dashboardPrefs (s :: settings_state)"
  "dashboardPrefs (setFeatures f s) = dashboardPrefs s"
  "dashboardPrefs (applyStatus st s) = dashboardPrefs s"
  by (simp_all add: logout_def toast_success_def toast_error_def showToast_def navigate_def setFeatures_def
      applyStatus_def Let_def split: option.split)

lemma readPrefs_inv: "prefs_inv s \<Longrightarrow> prefs_inv (readPrefs s)"
  by (auto simp: readPrefs_def parse_prefs_valid split: option.splits list.splits json.splits)

lemma settings_update_inv: "settings_update f \<Longrightarrow> prefs_inv s \<Longrightarrow> prefs_inv (f s)"
  by (induction rule: settings_update.induct)
    (auto simp: changeDefaultService_def changeRefresh_def changeDefaultRange_def savePrefs_def normalized_valid
      changePublicIP_def valid_prefs_def removeToast_def fire_timer_def Let_def)

lemma prefs_logout: "logout_closed prefs_inv"
  by (simp add: logout_closed_def)

lemma guarded_loads [guard_intros]:
  "prefs_inv s \<Longrightarrow> guarded prefs_inv authorised loadFeatures s"
  "prefs_inv s \<Longrightarrow> guarded prefs_inv authorised loadDbStats s"
  "prefs_inv s \<Longrightarrow> guarded prefs_inv authorised (loadSamplerHistory c) s"
  "prefs_inv s \<Longrightarrow> guarded prefs_inv authorised loadAll_rest s"
  by (auto simp: loadFeatures_def loadDbStats_def loadSamplerHistory_def loadAll_rest_def Let_def api_defs
      intro!: guard_intros prefs_logout split: option.splits)

lemma guarded_goes_on [guard_intros]: "prefs_inv s \<Longrightarrow> guarded prefs_inv authorised (goes_on j loadAll_rest) s"
  by (auto simp: goes_on_def settle_one_def intro!: guard_intros)

lemma guarded_loadAll [guard_intros]: "prefs_inv s \<Longrightarrow> guarded prefs_inv authorised (loadAll c) s"
  by (auto simp: loadAll_def promise_all_def intro!: guard_intros)

lemma guarded_settings_handler:
  assumes "settings_handler s h" and "prefs_inv s"
  shows "guarded prefs_inv authorised h s"
proof -
  note defs = history_effect_def changeHistoryLimit_def handleSaveFeatures_def handleSavePublicIP_def handleRunSampler_def handleTogglePause_def handlePruneNow_def handleServiceAction_def
    handleChangeUsername_def handleChangePassword_def Let_def api_defs
  show ?thesis
    using assms(1)
  proof cases
    case (update f)
    then show ?thesis using assms(2) settings_update_inv by (auto intro!: guard_intros)
  next
    case (service yes sv action)
    then show ?thesis
      using assms(2) by (cases action) (auto simp: defs intro!: guard_intros prefs_logout)
  qed (use assms(2) in \<open>auto simp: defs intro!: guard_intros prefs_logout readPrefs_inv split: option.splits prod.splits\<close>)
qed

interpretation settings_page: guarded_page settings_handlers prefs_inv authorised
  by unfold_locales (simp add: guarded_settings_handler)


section \<open>Account\<close>

lemma account_frame [simp]:
  "passwordData (logout s) = passwordData (s :: settings_state)"
  "usernameData (logout s) = usernameData (s :: settings_state)"
  "passwordData (showToast m ty d s) = passwordData (s :: settings_state)"
  "usernameData (showToast m ty d s) = usernameData (s :: settings_state)"
  "toasts (showToast m ty d s) = toasts s @ [\<lparr>t_id = random_ids s (drawn s), t_type = ty, t_message = m,
     t_duration = resolved_duration ty d\<rparr>]"
  by (simp_all add: logout_def showToast_def Let_def)

text \<open>C32: changing the password. Nothing is sent unless the three fields are filled, the new password is
  repeated correctly and has eight characters; then one request carries the old and the new password. The
  fields are cleared when the change is accepted and keep their text otherwise, and one message says which.\<close>

theorem password_change_outcome:
  assumes "run (handleChangePassword s) (logging (\<lambda>_ _. r)) s [] = (x, s', sent)"
  shows "x = Inr () \<and> (\<exists>m. toasts s' = toasts s @ [m] \<and>
     (if pd_current (passwordData s) \<noteq> [] \<and> pd_new (passwordData s) \<noteq> [] \<and>
         pd_new (passwordData s) = pd_confirm (passwordData s) \<and> 8 \<le> length (pd_new (passwordData s))
      then map rq_url sent = [''/api/auth/password''] \<and>
        map rq_body sent = [Some (JsonBody (JObj
          [(''current_password'', JStr (pd_current (passwordData s))), (''new_password'', JStr (pd_new (passwordData s)))]))] \<and>
        (if ok_answer r
         then t_type m = Success \<and> passwordData s' = \<lparr>pd_current = [], pd_new = [], pd_confirm = []\<rparr>
         else t_type m = ErrorT \<and> passwordData s' = passwordData s)
      else sent = [] \<and> t_type m = ErrorT \<and> passwordData s' = passwordData s))"
  using assms
  by (cases r) (auto simp: handleChangePassword_def updatePassword_def run_simps Let_def checked_def obj_def
      toast_success_def toast_error_def not_ok_401 split: if_splits)

text \<open>Changing the user name. Without both fields nothing is sent. An accepted change ends the session,
  clears the form and goes to the login page; after any other answer the form is as it was, and the session
  has ended only if the answer was 401.\<close>

theorem username_change_outcome:
  assumes "run (handleChangeUsername s) (logging (\<lambda>_ _. r)) s [] = (x, s', sent)"
  shows "x = Inr () \<and>
     (if ud_password (usernameData s) = [] \<or> ud_newUsername (usernameData s) = []
      then sent = [] \<and> usernameData s' = usernameData s \<and> auth_token s' = auth_token s \<and> route s' = route s
      else map rq_url sent = [''/api/auth/username''] \<and>
        (if ok_answer r
         then \<not> isAuthenticated s' \<and> stored_token s' = None \<and> route s' = ''/login'' \<and>
           usernameData s' = \<lparr>ud_password = [], ud_newUsername = []\<rparr>
         else usernameData s' = usernameData s \<and> route s' = route s \<and>
           auth_token s' = (if \<exists>rs. r = Answered rs \<and> rs_status rs = 401 then None else auth_token s)))"
  using assms
  by (cases r) (auto simp: handleChangeUsername_def updateUsername_def run_simps Let_def checked_def
      toast_success_def toast_error_def navigate_def isAuthenticated_def stored_token_def not_ok_401
      split: if_splits)

section \<open>The length of the history\<close>

type_synonym settings_loop = "(http_request, fetch_result, settings_state) loop"

text \<open>A load suspends at its call and leaves the page as it is; what it does with the response is the
  same whatever page it was launched from.\<close>

lemma load_suspends:
  fixes f :: "'c \<Rightarrow> unit settings_io"
  assumes "h = try_catch (bind (call_json meth url ct bdy msg decode) f) g"
  shows "\<exists>q k. \<forall>s. settle h s = (Await (q s) k, s) \<and> forked h s = []"
proof -
  obtain k where "waits_as k (call_json meth url ct bdy msg decode)"
    "\<And>s :: settings_state. settle (call_json meth url ct bdy msg decode) s = (Await (request meth url ct bdy s) k, s)"
    using settle_call_json by blast
  then show ?thesis
    unfolding assms
    by (intro exI [of _ "request meth url ct bdy"] exI [of _ "\<lambda>r. try_catch (bind (k r) f) g"])
      (simp add: run_simps fork_free_forked [OF fork_free_json])
qed

lemma rest_suspends: "\<exists>q k. \<forall>s. settle loadAll_rest s = (Await (q s) k, s) \<and> forked loadAll_rest s = []"
proof -
  have "\<exists>q k. \<forall>s. settle (try_catch (bind getPublicIP (\<lambda>ip. modify (\<lambda>s :: settings_state. s\<lparr>publicIP := ip\<rparr>))) (\<lambda>_. skip)) s =
      (Await (q s) k, s) \<and> forked (try_catch (bind getPublicIP (\<lambda>ip. modify (\<lambda>s :: settings_state. s\<lparr>publicIP := ip\<rparr>))) (\<lambda>_. skip)) s = []"
    unfolding getPublicIP_def by (rule load_suspends) (rule refl)
  then obtain q k where "\<And>s. settle (try_catch (bind getPublicIP (\<lambda>ip. modify (\<lambda>s :: settings_state. s\<lparr>publicIP := ip\<rparr>))) (\<lambda>_. skip)) s =
      (Await (q s) k, s)"
    "\<And>s. forked (try_catch (bind getPublicIP (\<lambda>ip. modify (\<lambda>s :: settings_state. s\<lparr>publicIP := ip\<rparr>))) (\<lambda>_. skip)) s = []" by metis
  then show ?thesis
    by (intro exI [of _ q] exI [of _ "\<lambda>r. bind (k r) (\<lambda>_. modify (\<lambda>s. s\<lparr>loading := False\<rparr>))"])
      (simp add: loadAll_rest_def settle_bind forked_bind)
qed

text \<open>After a choice the last three tasks are the members of the \<open>Promise.all\<close>: the flags are the first.\<close>

lemma change_history_limit:
  fixes l :: settings_loop and v :: string
  defines "s \<equiv> (loop_page l)\<lparr>historyLimit := num_of_parse (parse_int v), loading := True, joins := joins (loop_page l) @ [3]\<rparr>"
    and "c \<equiv> launch (changeHistoryLimit v) l"
  shows "loop_page c = readPrefs s \<and> length (loop_tasks c) = length (loop_tasks l) + 4 \<and>
     loop_tasks c ! (length (loop_tasks l) + 1) =
       fst (settle (seq loadFeatures (goes_on (length (joins (loop_page l))) loadAll_rest)) s)"
proof -
  obtain q k where f: "settle loadFeatures t = (Await (q t) k, t)" "forked loadFeatures t = []" for t
    using load_suspends [OF loadFeatures_def [unfolded getFeatures_def]] by blast
  obtain q' k' where st: "settle loadDbStats t = (Await (q' t) k', t)" "forked loadDbStats t = []" for t
    using load_suspends [OF loadDbStats_def [unfolded getSystemStatus_def]] by blast
  obtain q'' k'' where h: "settle (loadSamplerHistory c) t = (Await (q'' c t) (k'' c), t)"
    "forked (loadSamplerHistory c) t = []" for c t
    using load_suspends [OF loadSamplerHistory_def [unfolded getSamplerHistory_def Let_def]] by metis
  show ?thesis
    by (simp add: c_def changeHistoryLimit_def history_effect_def loadAll_def promise_all_def launch_def run_simps f st h s_def
        nth_append numeral_3_eq_3)
qed

text \<open>Choosing another length of the history drops the edits that were not saved. The preferences are
  read from the local storage again at once, and a request for the feature flags is pending whose accepted
  answer replaces every flag of the form, whatever the user has edited before and meanwhile.\<close>

theorem history_limit_discards_edits:
  assumes "loop_tasks d ! (length (loop_tasks l) + 1) =
      loop_tasks (launch (changeHistoryLimit v) l) ! (length (loop_tasks l) + 1)"
    and "result getFeatures r (loop_page d) = (Inr flags, s')"
  shows "historyLimit (loop_page (launch (changeHistoryLimit v) l)) = num_of_parse (parse_int v) \<and>
     dashboardPrefs (loop_page (launch (changeHistoryLimit v) l)) = dashboardPrefs (readPrefs (loop_page l)) \<and>
     features (loop_page (resume (length (loop_tasks l) + 1) r d)) = flags"
proof -
  let ?s = "(loop_page l)\<lparr>historyLimit := num_of_parse (parse_int v), loading := True, joins := joins (loop_page l) @ [3]\<rparr>"
  let ?g = "goes_on (length (joins (loop_page l))) loadAll_rest"
  obtain k q where k: "waits_as k (getFeatures :: feature_flags settings_io)"
    "\<And>t. settle (getFeatures :: feature_flags settings_io) t = (Await (q t) k, t)"
    unfolding getFeatures_def using settle_call_json by blast
  have t: "loop_tasks d ! (length (loop_tasks l) + 1) =
      Await (q ?s) (\<lambda>r. bind (try_catch (bind (k r) (\<lambda>f. modify (\<lambda>s. s\<lparr>features := f\<rparr>))) (\<lambda>_. skip)) (\<lambda>_. ?g))"
    using change_history_limit [of v l] unfolding assms(1) loadFeatures_def by (simp add: run_simps k(2))
  have "features u' = features u" if "settle ?g u = (x, u')" for u u' x
    using rest_suspends that by (fastforce simp: goes_on_def run_simps settle_one_def split: if_splits)
  then have "features (loop_page (resume (length (loop_tasks l) + 1) r d)) = flags"
    unfolding resume_def t by (simp add: run_simps waits_as_settle [OF k(1)] assms(2) split: prod.splits)
  then show ?thesis
    using change_history_limit [of v l] by (auto simp: readPrefs_def split: option.split list.split json.split)
qed

section \<open>Witnesses\<close>

definition sample_features :: feature_flags where
  "sample_features = \<lparr>ff_enable_singbox = True, ff_enable_wireguard = True, ff_retention_enabled = Some False,
     ff_retention_days = Some (Fin 90), ff_sampler_interval_sec = Some (Fin 120), ff_sampler_paused = Some False,
     ff_active_threshold_bytes = Some (Fin 1024), ff_wg_sampler_interval_sec = Some (Fin 60),
     ff_wg_retention_days = Some (Fin 30), ff_aggregation_enabled = Some False, ff_aggregation_days = Some (Fin 7),
     ff_log_source = None, ff_access_log_path = None, ff_systemctl_available = None, ff_journalctl_available = None\<rparr>"

definition sample_settings :: settings_state where
  "sample_settings = browser.extend sample_browser
     \<lparr>loading = False, samplerRunning = False, db_rows = 0, db_sizeMB = parse_float ''0'', samplerHistory = [],
      features = sample_features, historyLimit = Fin 5, serviceStatus = (False, False),
      passwordData = \<lparr>pd_current = ''old'', pd_new = ''new-password'', pd_confirm = ''new-password''\<rparr>,
      usernameData = \<lparr>ud_password = ''old'', ud_newUsername = ''root''\<rparr>, publicIP = [],
      dashboardPrefs = \<lparr>pf_defaultService = ''singbox'', pf_refreshMs = 10000, pf_defaultRange = ''24h''\<rparr>, joins = [], activeTab = Some ''general''\<rparr>"

definition settings_start :: settings_loop where
  "settings_start = \<lparr>loop_page = sample_settings, loop_tasks = [], loop_sent = []\<rparr>"


theorem password_change_outcome_witness:
  "let (x, s', sent) = run (handleChangePassword sample_settings)
         (logging (\<lambda>_ _. Answered (answer_status 200 []))) sample_settings []
   in map rq_url sent = [''/api/auth/password''] \<and> pd_new (passwordData s') = []"
proof -
  obtain x s' sent where r: "run (handleChangePassword sample_settings)
      (logging (\<lambda>_ _. Answered (answer_status 200 []))) sample_settings [] = (x, s', sent)"
    by (metis prod_cases3)
  have "passwordData sample_settings =
      \<lparr>pd_current = ''old'', pd_new = ''new-password'', pd_confirm = ''new-password''\<rparr>"
    and "res_ok (answer_status 200 [])"
    by code_simp+
  then show ?thesis using password_change_outcome [OF r] r by auto
qed

theorem username_change_outcome_witness:
  "let (x, s', sent) = run (handleChangeUsername sample_settings)
         (logging (\<lambda>_ _. Answered (answer_status 200 []))) sample_settings []
   in isAuthenticated sample_settings \<and> \<not> isAuthenticated s' \<and> route s' = ''/login''"
proof -
  obtain x s' sent where r: "run (handleChangeUsername sample_settings)
      (logging (\<lambda>_ _. Answered (answer_status 200 []))) sample_settings [] = (x, s', sent)"
    by (metis prod_cases3)
  have "usernameData sample_settings = \<lparr>ud_password = ''old'', ud_newUsername = ''root''\<rparr>"
    and "res_ok (answer_status 200 [])" and "isAuthenticated sample_settings"
    by code_simp+
  then show ?thesis using username_change_outcome [OF r] r by auto
qed

definition features_answer :: fetch_result where
  "features_answer = Answered \<lparr>rs_status = 200, rs_text = [], rs_json = Inr (PFeatures sample_features)\<rparr>"

theorem history_limit_discards_edits_witness:
  "let l = launch (modify (changeRetentionDays ''7'')) settings_start;
       d = launch (changeHistoryLimit ''10'') l
   in ff_retention_days (features (loop_page d)) = Some (Fin 7) \<and>
      ff_retention_days (features (loop_page (resume 2 features_answer d))) = Some (Fin 90)"
proof -
  let ?l = "launch (modify (changeRetentionDays ''7'')) settings_start"
  let ?d = "launch (changeHistoryLimit ''10'') ?l"
  have n: "length (loop_tasks ?l) + 1 = 2" by code_simp
  obtain s' where "result getFeatures features_answer (loop_page ?d) = (Inr sample_features, s')"
    by (simp add: result_def getFeatures_def run_simps features_answer_def checked_def res_ok_def)
  from history_limit_discards_edits [OF refl this]
  have "features (loop_page (resume 2 features_answer ?d)) = sample_features" unfolding n by blast
  then have "ff_retention_days (features (loop_page (resume 2 features_answer ?d))) = Some (Fin 90)"
    by (simp only: sample_features_def feature_flags.select_convs)
  moreover have "features (loop_page ?d) = features (loop_page ?l)"
    using change_history_limit [of "''10''" ?l] by (auto simp: readPrefs_def split: option.split list.split json.split)
  moreover have "ff_retention_days (features (loop_page ?l)) = Some (Fin 7)" by code_simp
  ultimately show ?thesis unfolding Let_def by metis
qed

end
