(* ===== verification/Settings_View.thy ===== *)
theory Settings_View
  imports Settings_Facts
begin

text \<open>
  What components/Settings.tsx shows, and the fields of the security tab. The text of a time is a
  parameter.
\<close>

section \<open>Fields\<close>

definition setPasswordData :: "(password_data \<Rightarrow> password_data) \<Rightarrow> settings_state \<Rightarrow> settings_state" where
  "setPasswordData f s = s\<lparr>passwordData := f (passwordData s)\<rparr>"

definition changeCurrent :: "string \<Rightarrow> settings_state \<Rightarrow> settings_state" where
  "changeCurrent v = setPasswordData (\<lambda>d. d\<lparr>pd_current := v\<rparr>)"

definition changeNew :: "string \<Rightarrow> settings_state \<Rightarrow> settings_state" where
  "changeNew v = setPasswordData (\<lambda>d. d\<lparr>pd_new := v\<rparr>)"

definition changeConfirm :: "string \<Rightarrow> settings_state \<Rightarrow> settings_state" where
  "changeConfirm v = setPasswordData (\<lambda>d. d\<lparr>pd_confirm := v\<rparr>)"

definition changeUsernamePassword :: "string \<Rightarrow> settings_state \<Rightarrow> settings_state" where
  "changeUsernamePassword v s = s\<lparr>usernameData := (usernameData s)\<lparr>ud_password := v\<rparr>\<rparr>"

definition changeNewUsername :: "string \<Rightarrow> settings_state \<Rightarrow> settings_state" where
  "changeNewUsername v s = s\<lparr>usernameData := (usernameData s)\<lparr>ud_newUsername := v\<rparr>\<rparr>"

definition refresh_shown :: "settings_state \<Rightarrow> int" where
  "refresh_shown s = pf_refreshMs (dashboardPrefs s) div 1000"

text \<open>The number fields of the database tab with their defaults.\<close>

definition retention_shown :: "settings_state \<Rightarrow> jsnum" where
  "retention_shown s = nullish (ff_retention_days (features s)) (Fin 90)"

definition wg_retention_shown :: "settings_state \<Rightarrow> jsnum" where
  "wg_retention_shown s = nullish (ff_wg_retention_days (features s)) (Fin 30)"

definition sampler_interval_shown :: "settings_state \<Rightarrow> jsnum" where
  "sampler_interval_shown s = nullish (ff_sampler_interval_sec (features s)) (Fin 120)"

definition wg_sampler_interval_shown :: "settings_state \<Rightarrow> jsnum" where
  "wg_sampler_interval_shown s = nullish (ff_wg_sampler_interval_sec (features s)) (Fin 60)"

definition aggregation_shown :: "settings_state \<Rightarrow> jsnum" where
  "aggregation_shown s = nullish (ff_aggregation_days (features s)) (Fin 7)"

definition threshold_shown :: "settings_state \<Rightarrow> jsnum" where
  "threshold_shown s = nullish (ff_active_threshold_bytes (features s)) (Fin 1024)"

section \<open>Services\<close>

record control_view =
  sc_badge :: string
  sc_button :: string
  sc_action :: service_action
  sc_disabled :: bool

definition service_control :: "bool \<Rightarrow> bool \<Rightarrow> control_view" where
  "service_control running enabled =
     \<lparr>sc_badge = (if running then ''Running'' else ''Stopped''), sc_button = (if running then ''Stop'' else ''Start''),
      sc_action = (if running then Stop else Start), sc_disabled = (\<not> enabled)\<rparr>"

definition service_controls :: "settings_state \<Rightarrow> (control_view \<times> control_view) option" where
  \<comment> \<open>sing-box and WireGuard, unless there is no systemctl\<close>
  "service_controls s =
     (if ff_systemctl_available (features s) = Some False then None
      else Some (service_control (fst (serviceStatus s)) (ff_enable_singbox (features s)),
                 service_control (snd (serviceStatus s)) (ff_enable_wireguard (features s))))"

section \<open>Buttons\<close>

definition refresh_loading :: "settings_state \<Rightarrow> bool" where
  "refresh_loading s \<longleftrightarrow> loading s \<and> \<not> samplerRunning s"

definition prune_disabled :: "settings_state \<Rightarrow> bool" where
  "prune_disabled s = (ff_retention_enabled (features s) \<noteq> Some True)"

definition sampler_disabled :: "settings_state \<Rightarrow> bool" where
  "sampler_disabled s = samplerRunning s"

definition pause_label :: "settings_state \<Rightarrow> string" where
  "pause_label s = (if ff_sampler_paused (features s) = Some True then ''Resume'' else ''Pause'')"

section \<open>The history of the sampler\<close>

record run_row =
  rn_time :: string
  rn_source :: string
  rn_error :: "string option"
  rn_inserted :: string
  rn_duration :: string

definition number_text :: "json option \<Rightarrow> string" where
  \<comment> \<open>a member that is a number, as an element of the page\<close>
  "number_text v = (case v of Some (JNum n) \<Rightarrow> show_int n | _ \<Rightarrow> [])"

definition run_view :: "(json option \<Rightarrow> string) \<Rightarrow> json \<Rightarrow> run_row" where
  "run_view time_text r =
     \<lparr>rn_time = time_text (jget ''timestamp'' r),
      rn_source = (if jget ''source'' r = Some (JStr ''wireguard'') then ''WG'' else ''Proxy''),
      rn_error = (case str_of (jget ''error'' r) of [] \<Rightarrow> None | c # cs \<Rightarrow> Some (c # cs)),
      rn_inserted = ''+'' @ number_text (jget ''inserted'' r) @ '' rows'',
      rn_duration = number_text (jget ''duration_ms'' r) @ ''ms''\<rparr>"

definition history_rows :: "(json option \<Rightarrow> string) \<Rightarrow> settings_state \<Rightarrow> run_row list" where
  "history_rows time_text s = map (run_view time_text) (samplerHistory s)"

section \<open>Facts\<close>

text \<open>The interval shown in seconds is read back as the one that is stored, if that is whole seconds.\<close>

lemma refresh_read_back:
  assumes "1000 \<le> pf_refreshMs (dashboardPrefs s)" and "1000 dvd pf_refreshMs (dashboardPrefs s)"
  shows "changeRefresh (show_int (refresh_shown s)) s = s"
proof -
  have "refresh_shown s * 1000 = pf_refreshMs (dashboardPrefs s)" "refresh_shown s \<noteq> 0"
    using assms unfolding refresh_shown_def by auto
  then show ?thesis
    using assms(1) by (simp add: changeRefresh_def parse_int_show_int Let_def)
qed

text \<open>A button of a service offers what changes its state, and is enabled exactly for a service that is.\<close>

lemma offered_action:
  "service_controls s = Some (sb, wg) \<Longrightarrow> (sc_action sb = Stop) = fst (serviceStatus s) \<and>
     (sc_action wg = Stop) = snd (serviceStatus s) \<and> sc_disabled sb = (\<not> ff_enable_singbox (features s)) \<and>
     sc_action sb \<noteq> Restart \<and> sc_action wg \<noteq> Restart"
  by (auto simp: service_controls_def service_control_def split: if_splits)

end
