(* ===== verification/Settings_Ui.thy ===== *)
theory Settings_Ui
  imports Settings_View Ui
begin

text \<open>
  The rendering of components/Settings.tsx, tab by tab, with the handlers that its elements start. The tab
  of the sing-box editor shows a component of its own (Singbox_Ui). The answer of \<open>confirm\<close> and the texts of
  times and of grouped numbers are the environment of a render.
\<close>

record settings_env =
  se_confirmed :: bool
  se_time :: "json option \<Rightarrow> string"
  se_grouped :: "int \<Rightarrow> string"

section \<open>Dashboard\<close>

definition range_options :: "choice list" where
  "range_options =
     [opt ''30m'' ''Last 30 Minutes'', opt ''1h'' ''Last Hour'', opt ''6h'' ''Last 6 Hours'', opt ''24h'' ''Last 24 Hours'',
      opt ''1w'' ''Last Week'', opt ''1m'' ''Last Month'']"

definition DashboardTab :: "settings_state \<Rightarrow> unit settings_io element list" where
  "DashboardTab s =
     Card ''Dashboard Preferences'' []
       [Choice ''Default Service'' (pf_defaultService (dashboardPrefs s))
          [opt ''singbox'' ''Sing-box'', opt ''wireguard'' ''WireGuard''] (\<lambda>v. modify (changeDefaultService v)),
        Field ''Refresh Interval (seconds)'' (show_int (refresh_shown s)) False (\<lambda>v. modify (changeRefresh v)),
        Choice ''Default Time Range'' (pf_defaultRange (dashboardPrefs s)) range_options (\<lambda>v. modify (changeDefaultRange v)),
        Button ''Save Preferences'' False (modify savePrefs)]"

section \<open>General\<close>

definition feature_switches :: "settings_state \<Rightarrow> unit settings_io element list" where
  "feature_switches s =
     [Switch ''Enable sing-box'' (ff_enable_singbox (features s)) (\<lambda>b. modify (setFeatures (\<lambda>f. f\<lparr>ff_enable_singbox := b\<rparr>))),
      Switch ''Enable WireGuard'' (ff_enable_wireguard (features s)) (\<lambda>b. modify (setFeatures (\<lambda>f. f\<lparr>ff_enable_wireguard := b\<rparr>))),
      Switch ''Data Retention'' (ff_retention_enabled (features s) = Some True)
        (\<lambda>b. modify (setFeatures (\<lambda>f. f\<lparr>ff_retention_enabled := Some b\<rparr>))),
      Switch ''Data Aggregation'' (ff_aggregation_enabled (features s) = Some True)
        (\<lambda>b. modify (setFeatures (\<lambda>f. f\<lparr>ff_aggregation_enabled := Some b\<rparr>)))]"

definition service_elements :: "settings_env \<Rightarrow> string \<Rightarrow> string \<Rightarrow> control_view \<Rightarrow> unit settings_io element list" where
  "service_elements e title service v =
     [Shown title, Shown (sc_badge v),
      Button ''Restart'' (sc_disabled v) (handleServiceAction (se_confirmed e) service Restart),
      Button (sc_button v) (sc_disabled v) (handleServiceAction (se_confirmed e) service (sc_action v))]"

definition GeneralTab :: "settings_env \<Rightarrow> settings_state \<Rightarrow> unit settings_io element list" where
  "GeneralTab e s =
     Card ''System Features'' [Button ''Save Changes'' False (handleSaveFeatures s)] (feature_switches s) @
     Card ''Server Configuration'' []
       [Field ''Public IP Address'' (publicIP s) False (\<lambda>v. modify (changePublicIP v)),
        Shown ''This IP will be used in QR codes and connection links. Leave empty for auto-detection.'',
        Button ''Save Public IP'' False (handleSavePublicIP s)] @
     Card ''Service Control'' []
       (case service_controls s of
          None \<Rightarrow> [Shown ''Service control is disabled (systemctl unavailable).'']
        | Some (sb, wg) \<Rightarrow>
            service_elements e ''sing-box'' ''sing-box'' sb @ service_elements e ''WireGuard'' ''wireguard'' wg)"

section \<open>Security\<close>

definition SecurityTab :: "settings_state \<Rightarrow> unit settings_io element list" where
  "SecurityTab s =
     Card ''Account Security'' []
       [Shown ''Change Password'', Button ''Update Password'' False (handleChangePassword s),
        Field ''Current Password'' (pd_current (passwordData s)) False (\<lambda>v. modify (changeCurrent v)),
        Field ''New Password'' (pd_new (passwordData s)) False (\<lambda>v. modify (changeNew v)),
        Field ''Confirm New Password'' (pd_confirm (passwordData s)) False (\<lambda>v. modify (changeConfirm v)),
        Shown ''Change Username'', Button ''Update Username'' False (handleChangeUsername s),
        Field ''Current Password'' (ud_password (usernameData s)) False (\<lambda>v. modify (changeUsernamePassword v)),
        Field ''New Username'' (ud_newUsername (usernameData s)) False (\<lambda>v. modify (changeNewUsername v))]"

section \<open>Database\<close>

definition size_shown :: "settings_state \<Rightarrow> string" where
  \<comment> \<open>a number of two decimals\<close>
  "size_shown s =
     (case db_sizeMB s of RFin q \<Rightarrow> shortest (nat \<lfloor>q * 100\<rfloor>) 2 | RNaN \<Rightarrow> ''NaN'' | RInf _ \<Rightarrow> ''Infinity'')"

definition retention_fields :: "settings_state \<Rightarrow> unit settings_io element list" where
  "retention_fields s =
     [Field ''Retention Days (Sing-Box)'' (num_string (retention_shown s)) False (\<lambda>v. modify (changeRetentionDays v)),
      Field ''Retention Days (Wireguard)'' (num_string (wg_retention_shown s)) False (\<lambda>v. modify (changeWgRetentionDays v)),
      Field ''SB Interval (s)'' (num_string (sampler_interval_shown s)) False (\<lambda>v. modify (changeSamplerInterval v)),
      Field ''WG Interval (s)'' (num_string (wg_sampler_interval_shown s)) False (\<lambda>v. modify (changeWgSamplerInterval v)),
      Field ''Aggregation Days'' (num_string (aggregation_shown s)) False (\<lambda>v. modify (changeAggregationDays v)),
      Field ''Active Threshold (Bytes)'' (num_string (threshold_shown s)) False (\<lambda>v. modify (changeThreshold v))]"

definition database_card :: "settings_env \<Rightarrow> settings_state \<Rightarrow> unit settings_io element list" where
  "database_card e s =
     Card ''Database & Retention''
       [Button ''Save Changes'' False (handleSaveFeatures s), Button ''RefreshCw'' False loadDbStats]
       ([Shown ''Total Rows'', Shown (se_grouped e (db_rows s)), Shown ''Size (MB)'', Shown (size_shown s)] @
        retention_fields s @
        [Button ''Prune Database Now'' (prune_disabled s) (handlePruneNow (se_confirmed e) s)] @
        LoadButton ''Run Sampler'' (sampler_disabled s) (samplerRunning s) (handleRunSampler s) @
        [Button (pause_label s) False (handleTogglePause s)])"

definition history_card :: "settings_env \<Rightarrow> settings_state \<Rightarrow> unit settings_io element list" where
  "history_card e s =
     Card ''Sampler History''
       [Choice '''' (num_string (historyLimit s)) [opt ''5'' ''Last 5'', opt ''10'' ''Last 10'', opt ''20'' ''Last 20'']
          changeHistoryLimit]
       (if samplerHistory s = [] then [Shown ''No history available'']
        else concat (map (\<lambda>r. [Shown (rn_time r), Shown (rn_source r)] @
               (case rn_error r of Some err \<Rightarrow> [Shown err] | None \<Rightarrow> []) @
               [Shown (rn_inserted r), Shown (rn_duration r)]) (history_rows (se_time e) s)))"

definition DatabaseTab :: "settings_env \<Rightarrow> settings_state \<Rightarrow> unit settings_io element list" where
  "DatabaseTab e s = database_card e s @ history_card e s"

section \<open>The page\<close>

definition setActiveTab :: "string \<Rightarrow> settings_state \<Rightarrow> settings_state" where
  "setActiveTab v s = s\<lparr>activeTab := Some v\<rparr>"

definition settings_tabs :: "settings_env \<Rightarrow> settings_state \<Rightarrow> (string \<times> string \<times> unit settings_io element list) list" where
  "settings_tabs e s =
     [(''general'', ''General'', GeneralTab e s), (''singbox'', ''Sing-box'', []), (''dashboard'', ''Dashboard'', DashboardTab s),
      (''security'', ''Security'', SecurityTab s), (''database'', ''Database'', DatabaseTab e s)]"

definition settings_elements :: "settings_env \<Rightarrow> settings_state \<Rightarrow> unit settings_io element list" where
  "settings_elements e s =
     [Shown ''Settings''] @ LoadButton ''Refresh'' False (refresh_loading s) (loadAll s) @
     Tabs (settings_tabs e s) (activeTab s) (\<lambda>v. modify (setActiveTab v))"

definition settings_background :: "settings_state \<Rightarrow> unit settings_io set" where
  "settings_background s = {history_effect s} \<union> toast_events s"

section \<open>What is offered is handled\<close>

lemma security_fields:
  "changeCurrent v = (\<lambda>s. s\<lparr>passwordData := (passwordData s)\<lparr>pd_current := v\<rparr>\<rparr>)"
  "changeNew v = (\<lambda>s. s\<lparr>passwordData := (passwordData s)\<lparr>pd_new := v\<rparr>\<rparr>)"
  "changeConfirm v = (\<lambda>s. s\<lparr>passwordData := (passwordData s)\<lparr>pd_confirm := v\<rparr>\<rparr>)"
  "changeUsernamePassword v = (\<lambda>s. s\<lparr>usernameData := (usernameData s)\<lparr>ud_password := v\<rparr>\<rparr>)"
  "changeNewUsername v = (\<lambda>s. s\<lparr>usernameData := (usernameData s)\<lparr>ud_newUsername := v\<rparr>\<rparr>)"
  "setActiveTab v = (\<lambda>s. s\<lparr>activeTab := Some v\<rparr>)"
  by (simp_all add: fun_eq_iff changeCurrent_def changeNew_def changeConfirm_def setPasswordData_def
      changeUsernamePassword_def changeNewUsername_def setActiveTab_def)

lemma updates [intro]:
  "settings_update (changeCurrent v)" "settings_update (changeNew v)" "settings_update (changeConfirm v)"
  "settings_update (changeUsernamePassword v)" "settings_update (changeNewUsername v)" "settings_update (setActiveTab v)"
  "settings_update (changeRetentionDays v)" "settings_update (changeWgRetentionDays v)"
  "settings_update (changeSamplerInterval v)" "settings_update (changeWgSamplerInterval v)"
  "settings_update (changeAggregationDays v)" "settings_update (changeThreshold v)"
  unfolding security_fields changeRetentionDays_def changeWgRetentionDays_def changeSamplerInterval_def
    changeWgSamplerInterval_def changeAggregationDays_def changeThreshold_def
  by (rule settings_update.intros)+

lemma chosen [intro]:
  "v \<in> {''singbox'', ''wireguard''} \<Longrightarrow> settings_handler s (modify (changeDefaultService v))"
  "v \<in> {''30m'', ''1h'', ''6h'', ''24h'', ''1w'', ''1m''} \<Longrightarrow> settings_handler s (modify (changeDefaultRange v))"
  by (intro settings_handler.update settings_update.intros, assumption)+

lemma offered_tabs:
  "offered (GeneralTab e s) \<subseteq> settings_handlers s" "offered (DashboardTab s) \<subseteq> settings_handlers s"
  "offered (SecurityTab s) \<subseteq> settings_handlers s" "offered (DatabaseTab e s) \<subseteq> settings_handlers s"
  by (auto simp: GeneralTab_def DashboardTab_def SecurityTab_def DatabaseTab_def feature_switches_def
      service_elements_def range_options_def database_card_def retention_fields_def history_card_def
      intro: settings_handler.intros settings_update.intros split: option.splits if_splits)

lemma settings_offered: "offered (settings_elements e s) \<subseteq> settings_handlers s"
proof -
  have "offered (Tabs (settings_tabs e s) (activeTab s) (\<lambda>v. modify (setActiveTab v))) \<subseteq>
      range (\<lambda>v. modify (setActiveTab v)) \<union> (\<Union>(tid, label, content) \<in> set (settings_tabs e s). offered content)"
    by (rule offered_Tabs)
  also have "\<dots> \<subseteq> settings_handlers s"
    by (auto simp: settings_tabs_def intro: settings_handler.update dest: offered_tabs [THEN subsetD])
  finally show ?thesis
    by (auto simp: settings_elements_def intro: settings_handler.intros)
qed

interpretation settings_ui: guarded_rendered settings_elements settings_background settings_handlers prefs_inv authorised
proof unfold_locales
  fix e s
  show "offered (settings_elements e s) \<subseteq> settings_handlers s" by (rule settings_offered)
  show "settings_background s \<subseteq> settings_handlers s"
    by (auto simp: settings_background_def elim!: toast_events_cases intro: settings_handler.intros settings_update.intros)
qed

end
