(* ===== verification/Settings_Load.thy ===== *)
theory Settings_Load
  imports Settings_Ui
begin

text \<open>
  The settings page comes to rest: the three requests of \<open>loadAll\<close>, which \<open>Promise.all\<close> joins, and the run of
  the sampler. Each pending member of a \<open>Promise.all\<close> is a task with a tag, the number of its join; in every
  state the counter of a join is the number of the tasks that carry its tag.
\<close>

section \<open>Handlers that leave the joins alone\<close>

definition fixed :: "(settings_state \<Rightarrow> bool) \<Rightarrow> bool" where
  "fixed b \<longleftrightarrow> b = loading \<or> (\<exists>J. b = (\<lambda>s. joins s \<noteq> J))"

lemma fixed_keeps:
  "fixed b \<Longrightarrow> loading (f s) = loading s \<Longrightarrow> joins (f s) = joins s \<Longrightarrow> keeps_off b (modify f) s"
  by (auto simp: fixed_def intro!: keeps_modify)

lemmas fixed_intros = fixed_keeps keeps_bind keeps_try_catch keeps_Return keeps_Throw keeps_finally keeps_if
  keeps_for_each keeps_json_body keeps_send keeps_call_void keeps_call_json

lemma load_frame [simp]:
  "loading (logout s) = loading (s :: settings_state)" "joins (logout s) = joins (s :: settings_state)"
  "loading (showToast m ty d s) = loading (s :: settings_state)" "joins (showToast m ty d s) = joins (s :: settings_state)"
  "loading (toast_success m s) = loading (s :: settings_state)" "joins (toast_success m s) = joins (s :: settings_state)"
  "loading (toast_error m s) = loading (s :: settings_state)" "joins (toast_error m s) = joins (s :: settings_state)"
  "loading (navigate p s) = loading (s :: settings_state)" "joins (navigate p s) = joins (s :: settings_state)"
  "loading (setFeatures f s) = loading s" "joins (setFeatures f s) = joins s"
  "loading (applyStatus st s) = loading s" "joins (applyStatus st s) = joins s"
  "loading (readPrefs s) = loading s" "joins (readPrefs s) = joins s"
  by (simp_all add: logout_def toast_success_def toast_error_def showToast_def navigate_def setFeatures_def
      applyStatus_def readPrefs_def Let_def split: option.split list.split json.split)

lemma fixed_logout [simp]: "fixed b \<Longrightarrow> b (logout s) = b s"
  by (auto simp: fixed_def)

lemma settings_update_frame: "settings_update f \<Longrightarrow> loading (f s) = loading s \<and> joins (f s) = joins s"
  by (induction rule: settings_update.induct)
    (simp_all add: changeDefaultService_def changeRefresh_def changeDefaultRange_def savePrefs_def changePublicIP_def
      removeToast_def fire_timer_def Let_def)

lemma keeps_loads:
  "fixed b \<Longrightarrow> keeps_off b loadDbStats s" "fixed b \<Longrightarrow> keeps_off b (loadSamplerHistory c) s"
  "fork_free loadDbStats" "fork_free (loadSamplerHistory c)"
  unfolding loadDbStats_def loadSamplerHistory_def getSystemStatus_def getSamplerHistory_def Let_def
  by (auto intro!: fixed_intros fork_intros)

definition loads_all :: "settings_state \<Rightarrow> unit settings_io \<Rightarrow> bool" where
  "loads_all s h \<longleftrightarrow> h = loadAll s \<or> h = history_effect s \<or> (\<exists>v. h = changeHistoryLimit v)"

lemma handler_plain:
  assumes "settings_handler c h"
  shows "loads_all c h \<or> fork_free h \<and> (\<forall>b s. fixed b \<longrightarrow> keeps_off b h s)"
  using assms
proof cases
  case (update f)
  then show ?thesis by (auto intro!: fixed_keeps fork_intros simp: settings_update_frame)
next
  case (service yes sv action)
  then show ?thesis
    by (cases action) (auto simp: handleServiceAction_def restartService_def startService_def stopService_def
      intro!: fixed_intros fork_intros keeps_loads)
qed (auto simp: loads_all_def handleSaveFeatures_def handleSavePublicIP_def handleRunSampler_def handleTogglePause_def
    handlePruneNow_def handleChangeUsername_def handleChangePassword_def updateFeatures_def updatePublicIP_def
    runSampler_def resumeSampler_def pauseSampler_def pruneNow_def updateUsername_def updatePassword_def Let_def
    intro!: fixed_intros fork_intros keeps_loads split: prod.splits)

section \<open>The tasks\<close>

definition plain :: "unit settings_io \<Rightarrow> bool" where
  "plain p \<longleftrightarrow> fork_free p \<and> (\<forall>b. fixed b \<longrightarrow> calm b p)"

text \<open>What goes on after a \<open>Promise.all\<close>.\<close>

definition resting :: "unit settings_io \<Rightarrow> bool" where
  "resting p \<longleftrightarrow> fork_free p \<and> owes loading p \<and> (\<forall>J. calm (\<lambda>s. joins s \<noteq> J) p)"

definition lets_be :: "(fetch_result \<Rightarrow> unit settings_io) \<Rightarrow> bool" where
  "lets_be k \<longleftrightarrow> (\<forall>r s. \<exists>t. settle (k r) s = (Return (), t) \<and> forked (k r) s = [] \<and> joins t = joins s \<and> loading t = loading s)"

definition pending_member :: "nat \<Rightarrow> unit settings_io \<Rightarrow> bool" where
  "pending_member j p \<longleftrightarrow> (\<exists>q k. p = Await q (\<lambda>r. seq (k r) (goes_on j loadAll_rest)) \<and> lets_be k)"

lemma plain_step:
  assumes "fork_free h" and "\<And>b. fixed b \<Longrightarrow> keeps_off b h s" and "settle h s = (p, t)"
  shows "plain p \<and> forked h s = [] \<and> joins t = joins s \<and> (loading t \<longrightarrow> loading s)"
proof -
  have f: "forked h s = []" by (rule fork_free_forked [OF assms(1)])
  have k: "calm b p \<and> (b t \<longrightarrow> b s)" if "fixed b" for b
    using keeps_flag [OF assms(2) [OF that] assms(3)] f by (simp add: flag_step_def)
  from k [of loading] have "loading t \<longrightarrow> loading s" by (simp add: fixed_def)
  moreover from k [of "\<lambda>u. joins u \<noteq> joins s"] have "joins t = joins s" by (auto simp: fixed_def)
  moreover have "fork_free p" using fork_free_settle [OF assms(1), of s] assms(3) by simp
  ultimately show ?thesis using f k by (simp add: plain_def)
qed

lemma plain_resume:
  assumes "plain (Await q k)" and "settle (k r) s = (p, t)"
  shows "plain p \<and> forked (k r) s = [] \<and> joins t = joins s \<and> (loading t \<longrightarrow> loading s)"
  by (rule plain_step [OF _ _ assms(2)]) (use assms(1) in \<open>auto simp: plain_def\<close>)

lemma resting_resume:
  assumes "resting (Await q k)" and "settle (k r) s = (p, t)"
  shows "(resting p \<or> plain p \<and> \<not> loading t) \<and> forked (k r) s = [] \<and> joins t = joins s"
proof -
  have free: "fork_free (k r)" using assms(1) by (simp add: resting_def)
  have f: "forked (k r) s = []" by (rule fork_free_forked [OF free])
  have k: "calm b p \<and> (b t \<longrightarrow> b s)" if "b = (\<lambda>s. joins s \<noteq> J)" for b J
    using keeps_flag [OF _ assms(2), of b] that assms(1) f by (auto simp: resting_def flag_step_def)
  from k [OF refl, of "joins s"] have j: "joins t = joins s" by simp
  have "ends_in (\<lambda>s. \<not> loading s) (\<lambda>s. \<not> loading s) (k r) s" using assms(1) by (simp add: resting_def)
  from ends_flag [OF this assms(2)] have "owes loading p \<or> (\<not> loading t \<and> calm loading p)" by simp
  moreover have "fork_free p" using fork_free_settle [OF free, of s] assms(2) by simp
  ultimately show ?thesis using f k j by (auto simp: resting_def plain_def fixed_def)
qed

text \<open>The rest of \<open>loadAll\<close>.\<close>

lemma rest_starts: "\<exists>p. settle loadAll_rest s = (p, s) \<and> forked loadAll_rest s = [] \<and> resting p"
proof -
  obtain q k where qk: "settle loadAll_rest s = (Await q k, s)" using rest_suspends by metis
  have ff: "fork_free loadAll_rest"
    unfolding loadAll_rest_def getPublicIP_def by (intro fork_intros)
  have "ends_in (\<lambda>s. \<not> loading s) (\<lambda>s. \<not> loading s) loadAll_rest s"
    unfolding loadAll_rest_def getPublicIP_def by (auto intro!: flag_intros)
  from ends_settle [OF this qk] have "owes loading (Await q k)" by simp
  moreover have "calm (\<lambda>s. joins s \<noteq> J) (Await q k)" for J
  proof -
    have "keeps_off (\<lambda>s. joins s \<noteq> J) loadAll_rest s"
      unfolding loadAll_rest_def getPublicIP_def by (auto intro!: flag_intros)
    from keeps_flag [OF this qk] show ?thesis by (rule conjunct1)
  qed
  moreover have "fork_free (Await q k)" using fork_free_settle [OF ff, of s] qk by simp
  ultimately show ?thesis
    using qk fork_free_forked [OF ff, of s] by (auto simp: resting_def)
qed

text \<open>A member that is settled counts its join down; the last one goes on.\<close>

lemma member_resume:
  assumes "pending_member j (Await q k)" and "settle (k r) s = (p, t)" and "j < length (joins s)"
  shows "forked (k r) s = [] \<and> joins t = (joins s)[j := joins s ! j - 1] \<and> loading t = loading s \<and>
     (if joins s ! j - 1 = 0 then resting p else plain p)"
proof -
  obtain k' where k: "k r = seq (k' r) (goes_on j loadAll_rest)" "lets_be k'"
    using assms(1) by (auto simp: pending_member_def fun_eq_iff)
  then obtain u where u: "settle (k' r) s = (Return (), u)" "forked (k' r) s = []" "joins u = joins s" "loading u = loading s"
    unfolding lets_be_def by blast
  let ?v = "settle_one j u"
  have v: "joins ?v = (joins s)[j := joins s ! j - 1]" "loading ?v = loading s" "joins ?v ! j = joins s ! j - 1"
    using assms(3) u by (simp_all add: settle_one_def)
  have st: "settle (k r) s = settle (if joins ?v ! j = 0 then loadAll_rest else skip) ?v"
    "forked (k r) s = forked (if joins ?v ! j = 0 then loadAll_rest else skip) ?v"
    by (simp_all add: k(1) goes_on_def settle_bind forked_bind settle_modify forked_modify u)
  show ?thesis
  proof (cases "joins s ! j - 1 = 0")
    case True
    obtain p' where "settle loadAll_rest ?v = (p', ?v)" "forked loadAll_rest ?v = []" "resting p'" using rest_starts by blast
    then show ?thesis using st v True assms(2) by simp
  next
    case False
    then have "p = Return ()" "t = ?v" "forked (k r) s = []" using st v assms(2) by simp_all
    then show ?thesis using v False by (simp add: plain_def)
  qed
qed

section \<open>The members\<close>

lemma call_member:
  fixes f :: "'c \<Rightarrow> unit settings_io"
  assumes "h = try_catch (bind (call_json meth url ct bdy msg decode) f) g"
    and "\<And>v s. \<exists>t. settle (f v) s = (Return (), t) \<and> forked (f v) s = [] \<and> joins t = joins s \<and> loading t = loading s"
    and "\<And>e s. \<exists>t. settle (g e) s = (Return (), t) \<and> forked (g e) s = [] \<and> joins t = joins s \<and> loading t = loading s"
  shows "\<exists>q k. (\<forall>s. settle h s = (Await (q s) k, s) \<and> forked h s = []) \<and> lets_be k"
proof -
  let ?call = "call_json meth url ct bdy msg decode :: 'c settings_io"
  obtain k where k: "waits_as k ?call" "\<And>s. settle ?call s = (Await (request meth url ct bdy s) k, s)"
    using settle_call_json by blast
  let ?k = "\<lambda>r. try_catch (bind (k r) f) g"
  have "lets_be ?k"
    unfolding lets_be_def
  proof (intro allI)
    fix r s
    obtain x t where x: "result ?call r s = (x, t)" by force
    then have t: "joins t = joins s" "loading t = loading s" using json_outcome [OF x, of s] by auto
    show "\<exists>u. settle (?k r) s = (Return (), u) \<and> forked (?k r) s = [] \<and> joins u = joins s \<and> loading u = loading s"
    proof (cases x)
      case (Inl e)
      then show ?thesis
        using assms(3) [of e t] x t by (auto simp: run_simps waits_as_settle [OF k(1)])
    next
      case (Inr v)
      then show ?thesis
        using assms(2) [of v t] x t by (auto simp: run_simps waits_as_settle [OF k(1)])
    qed
  qed
  then show ?thesis
    unfolding assms(1)
    by (intro exI [of _ "request meth url ct bdy"] exI [of _ ?k])
      (simp add: run_simps k(2) fork_free_forked [OF fork_free_json])
qed

lemma loads_member:
  assumes "f \<in> {loadFeatures, loadDbStats, loadSamplerHistory c}"
  shows "\<exists>q k. (\<forall>s. settle f s = (Await (q s) k, s) \<and> forked f s = []) \<and> lets_be k"
proof -
  have "\<exists>q k. (\<forall>s. settle loadFeatures s = (Await (q s) k, s) \<and> forked loadFeatures s = []) \<and> lets_be k"
    by (rule call_member [OF loadFeatures_def [unfolded getFeatures_def]]) (simp_all add: run_simps)
  moreover have "\<exists>q k. (\<forall>s. settle loadDbStats s = (Await (q s) k, s) \<and> forked loadDbStats s = []) \<and> lets_be k"
    by (rule call_member [OF loadDbStats_def [unfolded getSystemStatus_def]]) (simp_all add: run_simps)
  moreover have "\<exists>q k. (\<forall>s. settle (loadSamplerHistory c) s = (Await (q s) k, s) \<and> forked (loadSamplerHistory c) s = []) \<and> lets_be k"
    by (rule call_member [OF loadSamplerHistory_def [unfolded getSamplerHistory_def Let_def]]) (simp_all add: run_simps)
  ultimately show ?thesis using assms by blast
qed

lemma member_started:
  assumes "f \<in> {loadFeatures, loadDbStats, loadSamplerHistory c}"
  shows "\<exists>u p. starts (task_of (seq f (goes_on j loadAll_rest))) s = (s, [(u, task_of p)]) \<and> pending_member j p"
proof -
  obtain q k where k: "\<And>s. settle f s = (Await (q s) k, s)" "\<And>s. forked f s = []" "lets_be k"
    using loads_member [OF assms] by metis
  let ?p = "Await (q s) (\<lambda>r. seq (k r) (goes_on j loadAll_rest))"
  have "pending_member j ?p" using k(3) by (auto simp: pending_member_def)
  moreover have "starts (task_of (seq f (goes_on j loadAll_rest))) s = (s, [(s, task_of ?p)])"
    by (simp add: run_simps k)
  ultimately show ?thesis by blast
qed

text \<open>Starting \<open>loadAll\<close> opens a join of three members, each of which is pending.\<close>

lemma loadAll_members:
  "\<exists>m1 m2 m3. settle (loadAll c) s = (Return (), s\<lparr>loading := True, joins := joins s @ [3]\<rparr>) \<and>
     new_tasks (forked (loadAll c) s) = [m1, m2, m3] \<and>
     pending_member (length (joins s)) m1 \<and> pending_member (length (joins s)) m2 \<and> pending_member (length (joins s)) m3"
proof -
  let ?s = "s\<lparr>loading := True, joins := joins s @ [Suc (Suc (Suc 0))]\<rparr>" and ?j = "length (joins s)"
  obtain u1 m1 where 1: "starts (task_of (seq loadFeatures (goes_on ?j loadAll_rest))) ?s = (?s, [(u1, task_of m1)])"
    "pending_member ?j m1" using member_started [of loadFeatures] by blast
  obtain u2 m2 where 2: "starts (task_of (seq loadDbStats (goes_on ?j loadAll_rest))) ?s = (?s, [(u2, task_of m2)])"
    "pending_member ?j m2" using member_started [of loadDbStats] by blast
  obtain u3 m3 where 3: "starts (task_of (seq (loadSamplerHistory c) (goes_on ?j loadAll_rest))) ?s = (?s, [(u3, task_of m3)])"
    "pending_member ?j m3" using member_started [of "loadSamplerHistory c"] by blast
  show ?thesis
    using 1 2 3
    by (auto simp: loadAll_def promise_all_def settle_bind forked_bind settle_modify forked_modify settle_spawn
        forked_spawn numeral_3_eq_3)
qed

lemma loadAll_started:
  assumes "loads_all c h"
  shows "\<exists>t m1 m2 m3. settle h s = (Return (), t) \<and> new_tasks (forked h s) = [m1, m2, m3] \<and> joins t = joins s @ [3] \<and>
     pending_member (length (joins s)) m1 \<and> pending_member (length (joins s)) m2 \<and> pending_member (length (joins s)) m3"
  using assms unfolding loads_all_def
proof (elim disjE exE)
  assume "h = loadAll c" with loadAll_members [of c s] show ?thesis by auto
next
  assume "h = history_effect c"
  with loadAll_members [of c s] show ?thesis
    by (auto simp: history_effect_def settle_bind forked_bind settle_modify forked_modify)
next
  fix v assume h: "h = changeHistoryLimit v"
  let ?s = "s\<lparr>historyLimit := num_of_parse (parse_int v)\<rparr>"
  from h loadAll_members [of ?s ?s] show ?thesis
    by (auto simp: changeHistoryLimit_def history_effect_def settle_bind forked_bind settle_modify forked_modify)
qed

section \<open>The invariant\<close>

type_synonym tagged = "nat option \<times> unit settings_io"

fun task_ok :: "tagged \<Rightarrow> bool" where
  "task_ok (Some j, p) = pending_member j p"
| "task_ok (None, p) = (plain p \<or> resting p)"

definition clears :: "tagged \<Rightarrow> bool" where
  "clears x \<longleftrightarrow> fst x \<noteq> None \<or> resting (snd x)"

definition counters :: "settings_state \<Rightarrow> tagged list \<Rightarrow> bool" where
  "counters s T \<longleftrightarrow>
     (\<forall>j. count (mset (map fst T)) (Some j) = (if j < length (joins s) then joins s ! j else 0))"

definition tags_ok :: "settings_state \<Rightarrow> tagged list \<Rightarrow> bool" where
  "tags_ok s T \<longleftrightarrow> (\<forall>x \<in> set T. task_ok x) \<and> counters s T \<and> (loading s \<longrightarrow> (\<exists>x \<in> set T. clears x))"

definition joined :: "settings_loop \<Rightarrow> bool" where
  "joined c \<longleftrightarrow> (\<exists>T. map snd T = loop_tasks c \<and> tags_ok (loop_page c) T)"

lemma joined_fresh: "\<not> loading s \<Longrightarrow> joins s = [] \<Longrightarrow> joined (fresh s)"
  by (auto simp: joined_def fresh_def tags_ok_def counters_def intro!: exI [of _ "[]"])

lemma tags_launch_plain:
  assumes "tags_ok s T" and "plain p" and "joins t = joins s" and "loading t \<longrightarrow> loading s"
  shows "tags_ok t (T @ [(None, p)])"
  using assms by (auto simp: tags_ok_def counters_def)

lemma tags_launch_all:
  assumes "tags_ok s T" and "joins t = joins s @ [3]" and "\<forall>m \<in> {m1, m2, m3}. pending_member (length (joins s)) m"
  shows "tags_ok t (T @ (None, Return ()) # map (Pair (Some (length (joins s)))) [m1, m2, m3])"
proof -
  have "counters t (T @ (None, Return ()) # map (Pair (Some (length (joins s)))) [m1, m2, m3])"
    using assms(1,2) by (auto simp: tags_ok_def counters_def nth_append less_Suc_eq)
  then show ?thesis
    using assms by (auto simp: tags_ok_def clears_def plain_def)
qed

lemma joined_launch:
  assumes "joined c" and "settings_handler (loop_page c) h"
  shows "joined (launch h c)"
proof -
  obtain T where T: "map snd T = loop_tasks c" "tags_ok (loop_page c) T" using assms(1) by (auto simp: joined_def)
  consider "loads_all (loop_page c) h" | "fork_free h" "\<And>b s. fixed b \<Longrightarrow> keeps_off b h s"
    using handler_plain [OF assms(2)] by blast
  then show ?thesis
  proof cases
    case 1
    from loadAll_started [OF this, of "loop_page c"]
    obtain t m1 m2 m3 where h: "settle h (loop_page c) = (Return (), t)" "new_tasks (forked h (loop_page c)) = [m1, m2, m3]"
      "joins t = joins (loop_page c) @ [3]" "\<forall>m \<in> {m1, m2, m3}. pending_member (length (joins (loop_page c))) m" by auto
    from tags_launch_all [OF T(2) h(3,4)] T(1) h(1,2) show ?thesis
      by (auto simp: joined_def launch_def intro!: exI conjI)
  next
    case 2
    obtain p t where pt: "settle h (loop_page c) = (p, t)" by force
    from plain_step [OF 2(1) 2(2) pt] have st: "plain p" "forked h (loop_page c) = []" "joins t = joins (loop_page c)"
      "loading t \<longrightarrow> loading (loop_page c)" by simp_all
    from tags_launch_plain [OF T(2) st(1,3,4)] T(1) pt st(2) show ?thesis
      by (auto simp: joined_def launch_def intro!: exI conjI)
  qed
qed

lemma count_tags:
  assumes "i < length T"
  shows "count (mset (map fst (T[i := x]))) (Some j) =
     count (mset (map fst T)) (Some j) - (if fst (T ! i) = Some j then 1 else 0) + (if fst x = Some j then 1 else 0)"
  using assms by (auto simp: map_update mset_update)

lemma tag_present: "count (mset (map fst T)) (Some j) \<noteq> 0 \<Longrightarrow> \<exists>x \<in> set T. fst x = Some j"
  by (force simp: count_eq_zero_iff)

text \<open>A response to a task without a tag, and one to a member.\<close>

lemma tags_resume_plain:
  assumes T: "tags_ok s T" "i < length T" "fst (T ! i) = None" "snd (T ! i) = Await q k"
    and st: "settle (k r) s = (p, t)"
  shows "tags_ok t (T[i := (None, p)]) \<and> forked (k r) s = []"
proof -
  have set: "set (T[i := (None, p)]) \<subseteq> insert (None, p) (set T)" by (rule set_update_subset_insert)
  have new: "(None, p) \<in> set (T[i := (None, p)])" using T(2) by (simp add: set_update_memI)
  have ok: "plain (Await q k) \<or> resting (Await q k)"
    using T nth_mem [OF T(2)] by (cases "T ! i") (auto simp: tags_ok_def)
  have old: "x \<in> set (T[i := (None, p)])" if "x \<in> set T" "x \<noteq> T ! i" for x
    using that T(2) by (metis in_set_conv_nth length_list_update nth_list_update_neq)
  have c: "counters t (T[i := (None, p)])" if "joins t = joins s"
    using T that count_tags [OF T(2), of "(None, p)"] by (auto simp: tags_ok_def counters_def)
  show ?thesis
  proof (cases "resting (Await q k)")
    case True
    from resting_resume [OF this st] have p: "resting p \<or> plain p \<and> \<not> loading t" "forked (k r) s = []" "joins t = joins s"
      by simp_all
    have "\<exists>x \<in> set (T[i := (None, p)]). clears x" if "loading t"
      using p(1) that new by (intro bexI [of _ "(None, p)"]) (auto simp: clears_def)
    then show ?thesis using c p T(1) set by (auto simp: tags_ok_def)
  next
    case False
    with ok have "plain (Await q k)" by simp
    from plain_resume [OF this st] have p: "plain p" "forked (k r) s = []" "joins t = joins s" "loading t \<longrightarrow> loading s"
      by simp_all
    have "\<not> clears (T ! i)" using False T(3,4) by (simp add: clears_def)
    then have "\<exists>x \<in> set (T[i := (None, p)]). clears x" if "loading t"
      using that p(4) T(1) old unfolding tags_ok_def by metis
    then show ?thesis using c p T(1) set by (auto simp: tags_ok_def)
  qed
qed

lemma tags_resume_member:
  assumes T: "tags_ok s T" "i < length T" "fst (T ! i) = Some j" "snd (T ! i) = Await q k"
    and st: "settle (k r) s = (p, t)"
  shows "tags_ok t (T[i := (None, p)]) \<and> forked (k r) s = []"
proof -
  have set: "set (T[i := (None, p)]) \<subseteq> insert (None, p) (set T)" by (rule set_update_subset_insert)
  have new: "(None, p) \<in> set (T[i := (None, p)])" using T(2) by (simp add: set_update_memI)
  have m: "pending_member j (Await q k)"
    using T nth_mem [OF T(2)] by (cases "T ! i") (auto simp: tags_ok_def)
  have cnt: "count (mset (map fst T)) (Some i) = (if i < length (joins s) then joins s ! i else 0)" for i
    using T(1) by (simp add: tags_ok_def counters_def)
  have "fst (T ! i) \<in> fst ` set T" by (rule imageI [OF nth_mem [OF T(2)]])
  then have "Some j \<in># mset (map fst T)" unfolding T(3) by simp
  then have "0 < count (mset (map fst T)) (Some j)" by (simp add: count_greater_zero_iff)
  then have j: "j < length (joins s)" unfolding cnt [of j] by (rule contrapos_pp) simp
  from member_resume [OF m st j] have p: "forked (k r) s = []" "joins t = (joins s)[j := joins s ! j - 1]"
    "loading t = loading s" "if joins s ! j - 1 = 0 then resting p else plain p" by simp_all
  have cnt': "count (mset (map fst (T[i := (None, p)]))) (Some l) =
      (if l < length (joins t) then joins t ! l else 0)" for l
    using count_tags [OF T(2), of "(None, p)" l] cnt [of l] T(3) j p(2) by (auto simp: nth_list_update)
  then have c: "counters t (T[i := (None, p)])" by (simp add: counters_def)
  have "\<exists>x \<in> set (T[i := (None, p)]). clears x"
  proof (cases "joins s ! j - 1 = 0")
    case True
    then show ?thesis using p(4) new by (force simp: clears_def)
  next
    case False
    then have "count (mset (map fst (T[i := (None, p)]))) (Some j) \<noteq> 0" using cnt' [of j] j p(2) by simp
    from tag_present [OF this] show ?thesis by (auto simp: clears_def)
  qed
  then show ?thesis using c p T(1) set by (auto simp: tags_ok_def split: if_splits)
qed

lemma joined_resume:
  assumes "joined c" and "i < length (loop_tasks c)" and "loop_tasks c ! i = Await q k"
  shows "joined (resume i r c)"
proof -
  obtain T where T: "map snd T = loop_tasks c" "tags_ok (loop_page c) T" using assms(1) by (auto simp: joined_def)
  have i: "i < length T" "snd (T ! i) = Await q k" using assms(2,3) T(1) by (metis length_map, metis length_map nth_map)
  obtain p t where pt: "settle (k r) (loop_page c) = (p, t)" by force
  have "tags_ok t (T[i := (None, p)]) \<and> forked (k r) (loop_page c) = []"
    using tags_resume_plain [OF T(2) i(1) _ i(2) pt] tags_resume_member [OF T(2) i(1) _ i(2) pt]
    by (cases "fst (T ! i)") auto
  moreover have "map snd (T[i := (None, p)]) = (loop_tasks c)[i := p]" using T(1) by (simp add: map_update)
  ultimately show ?thesis
    using assms(3) pt by (auto simp: joined_def resume_def intro!: exI [of _ "T[i := (None, p)]"])
qed

lemma joined_steps:
  assumes "(loop_step handlers answers)\<^sup>*\<^sup>* c d" and "\<And>s. handlers s \<subseteq> settings_handlers s" and "joined c"
  shows "joined d"
  using assms(1,3)
proof (induction rule: rtranclp_induct)
  case (step d e)
  from step.hyps(2) show ?case
    by (rule loop_stepE) (use step.IH step.prems assms(2) joined_launch joined_resume in auto)
qed

lemma joined_idle: "joined c \<Longrightarrow> idle c \<Longrightarrow> \<not> loading (loop_page c)"
proof
  assume "joined c" "idle c" "loading (loop_page c)"
  then obtain T x where T: "map snd T = loop_tasks c" "x \<in> set T" "task_ok x" "clears x"
    by (auto simp: joined_def tags_ok_def)
  then have "snd x \<in> set (loop_tasks c)" by (metis image_eqI list.set_map)
  then have "\<not> suspended (snd x)" using \<open>idle c\<close> by (auto simp: idle_def)
  moreover have "suspended (snd x)"
    using T(3,4) owes_suspended
    by (cases x rule: task_ok.cases) (auto simp: clears_def resting_def pending_member_def)
  ultimately show False by simp
qed

section \<open>Coming to rest\<close>

lemma sampler_frame [simp]:
  "samplerRunning (logout s) = samplerRunning (s :: settings_state)"
  "samplerRunning (toast_success m s) = samplerRunning (s :: settings_state)"
  "samplerRunning (toast_error m s) = samplerRunning (s :: settings_state)"
  "samplerRunning (navigate p s) = samplerRunning (s :: settings_state)"
  "samplerRunning (setFeatures f s) = samplerRunning s"
  "samplerRunning (applyStatus st s) = samplerRunning s"
  "samplerRunning (readPrefs s) = samplerRunning s"
  by (simp_all add: logout_def toast_success_def toast_error_def showToast_def navigate_def setFeatures_def
      applyStatus_def readPrefs_def Let_def split: option.split list.split json.split)

lemma update_sampler: "settings_update f \<Longrightarrow> samplerRunning (f s) = samplerRunning s"
  by (induction rule: settings_update.induct)
    (simp_all add: changeDefaultService_def changeRefresh_def changeDefaultRange_def savePrefs_def changePublicIP_def
      removeToast_def fire_timer_def Let_def)

lemma loads_keep_sampler:
  "keeps_off samplerRunning loadFeatures s" "keeps_off samplerRunning loadDbStats s"
  "keeps_off samplerRunning (loadSamplerHistory c) s" "keeps_off samplerRunning loadAll_rest s"
  unfolding loadFeatures_def loadDbStats_def loadSamplerHistory_def loadAll_rest_def getFeatures_def
    getSystemStatus_def getSamplerHistory_def getPublicIP_def Let_def
  by (auto intro!: flag_intros)

lemma loadAll_keeps_sampler: "keeps_off samplerRunning (loadAll c) s"
  by (auto simp: loadAll_def promise_all_def goes_on_def settle_one_def intro!: flag_intros disjI2 loads_keep_sampler)

lemma sampler_ends:
  "ends_in (\<lambda>s. \<not> samplerRunning s) (\<lambda>s. \<not> samplerRunning s) (handleRunSampler c) s"
  unfolding handleRunSampler_def runSampler_def
  by (auto intro!: flag_intros keeps_loads)

lemma handler_sampler:
  assumes "settings_handler c h"
  shows "ends_in (\<lambda>s. \<not> samplerRunning s) (\<lambda>s. \<not> samplerRunning s) h s \<or> keeps_off samplerRunning h s"
  using assms
proof cases
  case (update f)
  then show ?thesis by (auto intro!: disjI2 keeps_modify simp: update_sampler)
next
  case (service yes sv action)
  then show ?thesis
    by (cases action) (auto simp: handleServiceAction_def restartService_def startService_def stopService_def
      intro!: disjI2 flag_intros loads_keep_sampler)
qed (auto simp: history_effect_def changeHistoryLimit_def handleSaveFeatures_def handleSavePublicIP_def sampler_ends
    handleTogglePause_def handlePruneNow_def handleChangeUsername_def handleChangePassword_def updateFeatures_def
    updatePublicIP_def resumeSampler_def pauseSampler_def pruneNow_def updateUsername_def updatePassword_def Let_def
    intro!: disjI2 flag_intros loads_keep_sampler loadAll_keeps_sampler split: prod.splits)

lemma settings_ui_handlers: "ui_handlers settings_elements settings_background s \<subseteq> settings_handlers s"
  using settings_ui.ui_started by blast

interpretation sampler_spinner: busy_page "ui_handlers settings_elements settings_background" samplerRunning
  by unfold_locales (use settings_ui_handlers handler_sampler in blast)

text \<open>C36: the settings page does not stay busy, although its spinner waits for three requests at once. On a
  page just mounted, whatever its user does with what is offered - also refreshing again while a refresh is
  under way, choosing other lengths of the history, running the sampler - and in whatever order the
  responses arrive: once nothing more is started, no sequence of arrivals is infinite, all outstanding
  responses can arrive, and then nothing is loading and no sampler is running.\<close>

theorem settings_end_loading:
  assumes "(loop_step (ui_handlers settings_elements settings_background) answers)\<^sup>*\<^sup>* (fresh s) d"
    and "\<not> loading s" and "\<not> samplerRunning s" and "joins s = []" and "\<And>q. \<exists>r. answers q r"
  shows "wfp (arrival answers)\<inverse>\<inverse> \<and> (\<exists>e. (arrival answers)\<^sup>*\<^sup>* d e \<and> idle e) \<and>
     (\<forall>e. (arrival answers)\<^sup>*\<^sup>* d e \<and> idle e \<longrightarrow> \<not> loading (loop_page e) \<and> \<not> samplerRunning (loop_page e))"
proof (intro conjI allI impI)
  show "wfp (arrival answers)\<inverse>\<inverse>" by (rule arrivals_finite)
  show "\<exists>e. (arrival answers)\<^sup>*\<^sup>* d e \<and> idle e" by (rule arrivals_to_idle) (rule assms(5))
next
  fix e assume e: "(arrival answers)\<^sup>*\<^sup>* d e \<and> idle e"
  have steps: "(loop_step (ui_handlers settings_elements settings_background) answers)\<^sup>*\<^sup>* (fresh s) e"
    using assms(1) sampler_spinner.arrivals_steps [OF conjunct1 [OF e]] by (rule rtranclp_trans)
  show "\<not> loading (loop_page e)"
    using joined_steps [OF steps settings_ui_handlers joined_fresh [OF assms(2,4)]] conjunct2 [OF e] by (rule joined_idle)
  show "\<not> samplerRunning (loop_page e)"
    by (rule sampler_spinner.goes_off [OF assms(1) _ conjunct1 [OF e] conjunct2 [OF e]]) (rule fresh_flag, rule assms(3))
qed

text \<open>The refresh of a page just mounted: three requests are under way, and the page loads.\<close>

definition refreshing :: settings_loop where
  "refreshing = launch (loadAll sample_settings) (fresh sample_settings)"

theorem settings_end_loading_witness:
  "loading (loop_page refreshing) \<and> joins (loop_page refreshing) = [3] \<and>
   (\<exists>e. (arrival (\<lambda>_ _. True))\<^sup>*\<^sup>* refreshing e \<and> idle e \<and> \<not> loading (loop_page e))"
proof -
  have v0: "\<not> loading sample_settings" "\<not> samplerRunning sample_settings" "joins sample_settings = []"
    by code_simp+
  then have v: "loading (loop_page refreshing)" "joins (loop_page refreshing) = [3]"
    using loadAll_members [of sample_settings sample_settings] by (auto simp: refreshing_def launch_def fresh_def)
  have "loadAll sample_settings \<in> offered (settings_elements e sample_settings)" for e
    using v0(1) by (simp add: settings_elements_def refresh_loading_def)
  then have "loop_step (ui_handlers settings_elements settings_background) (\<lambda>_ _. True) (fresh sample_settings) refreshing"
    unfolding refreshing_def by (intro loop_step.fire) (auto simp: ui_handlers_def fresh_def)
  then show ?thesis
    using settings_end_loading [OF r_into_rtranclp, of "\<lambda>_ _. True" sample_settings refreshing] v v0 by blast
qed

end
