(* ===== verification/Dashboard.thy ===== *)
theory Dashboard
  imports Settings
begin

text \<open>
  components/Dashboard.tsx: the data of the chosen time range, its refresh, the preferences read on
  mounting. The clock (\<open>now\<close>, \<open>done_at\<close>, in milliseconds) and \<open>new Date(text).getTime()\<close> are parameters;
  the size formatter is the one of \<open>Format\<close>.
\<close>

section \<open>State\<close>

datatype chart_mode = ModeSingbox | ModeWireguard

record dash_state = browser +
  loading :: bool
  lastUpdated :: int
  timeRange :: string
  chartMode :: chart_mode
  refreshInterval :: int
  chartData :: "chart_point list"
  chartDomain :: "(jsnum \<times> jsnum) option"
  statsCards :: "string \<rightharpoonup> traffic_stats"
  topConsumersMap :: "string \<rightharpoonup> consumer list"
  status :: json
  singboxPendingChanges :: bool
  customStart :: string
  customEnd :: string

type_synonym 'a dash_io = "(http_request, fetch_result, dash_state, 'a) io"

section \<open>Preferences\<close>

definition loadDashboardPrefs :: "'b browser_scheme \<Rightarrow> json" where
  "loadDashboardPrefs s =
     (case storage s prefs_key of
        Some (c # cs) \<Rightarrow> (case json_parse (c # cs) of Some j \<Rightarrow> j | None \<Rightarrow> JObj [])
      | _ \<Rightarrow> JObj [])"

text \<open>The effect on mounting; the preference \<open>null\<close> has no members, and the effect throws.\<close>

definition initPrefs :: "dash_state \<Rightarrow> dash_state option" where
  "initPrefs s =
     (let prefs = loadDashboardPrefs s;
          s1 = (if jget ''defaultService'' prefs = Some (JStr ''wireguard'') then s\<lparr>chartMode := ModeWireguard\<rparr> else s);
          s2 = (case jget ''defaultRange'' prefs of
                  Some (JStr r) \<Rightarrow> if r \<noteq> [] then s1\<lparr>timeRange := r\<rparr> else s1
                | _ \<Rightarrow> s1);
          s3 = (case jget ''refreshMs'' prefs of
                  Some (JNum n) \<Rightarrow> if n \<noteq> 0 \<and> 1000 \<le> n then s2\<lparr>refreshInterval := n\<rparr> else s2
                | _ \<Rightarrow> s2)
      in if prefs = JNull then None else Some s3)"

section \<open>Loading\<close>

definition computeRangeSeconds :: "int \<Rightarrow> string \<Rightarrow> int \<times> int" where
  "computeRangeSeconds now rng =
     (let nowSec = now div 1000; day = 24 * 60 * 60
      in if rng = ''30m'' then (nowSec - 30 * 60, nowSec)
         else if rng = ''1h'' then (nowSec - 60 * 60, nowSec)
         else if rng = ''6h'' then (nowSec - 6 * 60 * 60, nowSec)
         else if rng = ''24h'' then (nowSec - day, nowSec)
         else if rng = ''1w'' then (nowSec - 7 * day, nowSec)
         else if rng = ''1m'' then (nowSec - 30 * day, nowSec)
         else (nowSec - day, nowSec))"

definition date_seconds :: "(string \<Rightarrow> int option) \<Rightarrow> string \<Rightarrow> int \<Rightarrow> jsnum" where
  \<comment> \<open>\<open>Math.floor(new Date(text).getTime() / 1000) + extra\<close>\<close>
  "date_seconds getTime txt extra =
     (case getTime txt of Some ms \<Rightarrow> Fin (ms div 1000 + extra) | None \<Rightarrow> NaN)"

definition range_domain :: "(string \<Rightarrow> int option) \<Rightarrow> int \<Rightarrow> dash_state \<Rightarrow> jsnum \<times> jsnum" where
  "range_domain getTime now c =
     (if timeRange c = ''custom''
      then (date_seconds getTime (customStart c) 0, date_seconds getTime (customEnd c) (24 * 60 * 60))
      else (let (start, stop) = computeRangeSeconds now (timeRange c) in (Fin start, Fin stop)))"

definition no_traffic :: "string \<rightharpoonup> traffic_stats" where
  "no_traffic = [''singbox'' \<mapsto> \<lparr>ts_uplink = 0, ts_downlink = 0\<rparr>, ''wireguard'' \<mapsto> \<lparr>ts_uplink = 0, ts_downlink = 0\<rparr>]"

definition no_consumers :: "string \<rightharpoonup> consumer list" where
  "no_consumers = [''singbox'' \<mapsto> [], ''wireguard'' \<mapsto> []]"

definition applyData :: "int \<Rightarrow> dashboard_data \<Rightarrow> dash_state \<Rightarrow> dash_state" where
  "applyData done_at data s =
     s\<lparr>chartData := nullish (dd_chart_data data) [],
       statsCards := nullish (dd_stats_cards data) no_traffic,
       topConsumersMap := nullish (dd_top_consumers data) no_consumers,
       status := (case dd_status data of Some j \<Rightarrow> if truthy j then j else JObj [] | None \<Rightarrow> JObj []),
       singboxPendingChanges := nullish (dd_singbox_pending_changes data) False,
       lastUpdated := done_at\<rparr>"

definition fetchData :: "(string \<Rightarrow> int option) \<Rightarrow> int \<Rightarrow> int \<Rightarrow> dash_state \<Rightarrow> unit dash_io" where
  "fetchData getTime now done_at c =
     seq (modify (\<lambda>s. s\<lparr>loading := True\<rparr>))
       (try_finally
         (try_catch
           (let (domainStart, domainEnd) = range_domain getTime now c
            in seq (modify (\<lambda>s. s\<lparr>chartDomain := Some (domainStart, domainEnd)\<rparr>))
                 (bind (getDashboardData (timeRange c) (Some (num_string domainStart)) (Some (num_string domainEnd)))
                   (\<lambda>data. modify (applyData done_at data))))
           (\<lambda>_. skip))
         (modify (\<lambda>s. s\<lparr>loading := False\<rparr>)))"

definition handleApplySingboxChanges ::
  "(string \<Rightarrow> int option) \<Rightarrow> int \<Rightarrow> int \<Rightarrow> dash_state \<Rightarrow> unit dash_io" where
  "handleApplySingboxChanges getTime now done_at c =
     try_catch
       (seq applySingboxChanges
         (seq (modify (\<lambda>s. s\<lparr>singboxPendingChanges := False\<rparr>)) (spawn (fetchData getTime now done_at c))))
       (\<lambda>_. modify (alert ''Failed to apply changes. Please try again.''))"

definition topConsumers :: "dash_state \<Rightarrow> consumer list" where
  "topConsumers s =
     nullish (topConsumersMap s (case chartMode s of ModeSingbox \<Rightarrow> ''singbox'' | ModeWireguard \<Rightarrow> ''wireguard'')) []"

definition changeCustomStart :: "string \<Rightarrow> dash_state \<Rightarrow> dash_state" where
  "changeCustomStart v s = s\<lparr>customStart := v\<rparr>"

definition changeCustomEnd :: "string \<Rightarrow> dash_state \<Rightarrow> dash_state" where
  "changeCustomEnd v s = s\<lparr>customEnd := v\<rparr>"

definition setChartMode :: "chart_mode \<Rightarrow> dash_state \<Rightarrow> dash_state" where
  "setChartMode m s = s\<lparr>chartMode := m\<rparr>"

definition changeRange :: "string \<Rightarrow> dash_state \<Rightarrow> dash_state" where
  "changeRange v s = s\<lparr>timeRange := v\<rparr>"

end
