(* ===== verification/Dashboard_Facts.thy ===== *)
theory Dashboard_Facts
  imports Dashboard Settings_Facts
begin

text \<open>
  Facts on the dashboard: the preferences saved in the settings reach it, and what a late response shows
  when the range has been changed meanwhile.
\<close>

section \<open>Preferences\<close>

lemma saved_prefs:
  "storage (savePrefs s) prefs_key = Some (json_compact (prefs_json (normalized (dashboardPrefs s))))"
  by (simp add: savePrefs_def)

lemma parse_saved: "json_parse (json_compact (prefs_json p)) = Some (prefs_json p)"
  by (rule compact_round_trip) (simp add: prefs_json_def)

lemma jget_prefs [simp]:
  "jget ''defaultService'' (prefs_json p) = Some (JStr (pf_defaultService p))"
  "jget ''refreshMs'' (prefs_json p) = Some (JNum (pf_refreshMs p))"
  "jget ''defaultRange'' (prefs_json p) = Some (JStr (pf_defaultRange p))"
  by (simp_all add: prefs_json_def)

lemma stored_not_empty: "json_compact (prefs_json p) \<noteq> []"
  by (simp add: json_compact_def prefs_json_def)

text \<open>C30: the preferences saved in the settings reach the dashboard. Whatever the form held, the dashboard
  that starts with that local storage, and the settings page when it is opened again, take the normalized
  preferences: the service, a refresh interval of at least a second, the range.\<close>

theorem prefs_reach_dashboard:
  assumes "storage d prefs_key = storage (savePrefs s) prefs_key"
    and "storage t prefs_key = storage (savePrefs s) prefs_key"
    and "pf_defaultService (dashboardPrefs s) \<in> {''singbox'', ''wireguard'', []}"
  shows "initPrefs d = Some (d\<lparr>
       chartMode := (if pf_defaultService (dashboardPrefs s) = ''wireguard'' then ModeWireguard else chartMode d),
       timeRange := pf_defaultRange (normalized (dashboardPrefs s)),
       refreshInterval := pf_refreshMs (normalized (dashboardPrefs s))\<rparr>) \<and>
     dashboardPrefs (readPrefs t) = normalized (dashboardPrefs s)"
proof -
  let ?p = "normalized (dashboardPrefs s)"
  have st: "storage d prefs_key = Some (json_compact (prefs_json ?p))"
    "storage t prefs_key = Some (json_compact (prefs_json ?p))"
    using assms(1,2) by (simp_all only: saved_prefs)
  obtain x xs where c: "json_compact (prefs_json ?p) = x # xs"
    using stored_not_empty by (metis neq_Nil_conv)
  have ps: "json_parse (x # xs) = Some (prefs_json ?p)"
    using parse_saved [of ?p] by (simp only: c)
  have l: "loadDashboardPrefs d = prefs_json ?p"
    using st(1) ps by (simp add: loadDashboardPrefs_def c)
  have nn: "prefs_json ?p \<noteq> JNull" by (simp add: prefs_json_def)
  have r: "pf_defaultRange ?p \<noteq> []" "1000 \<le> pf_refreshMs ?p"
    "pf_defaultService ?p = ''wireguard'' \<longleftrightarrow> pf_defaultService (dashboardPrefs s) = ''wireguard''"
    "pf_defaultService ?p \<in> {''singbox'', ''wireguard''}"
    using assms(3) by (auto simp: normalized_def str_or_def)
  have "initPrefs d = Some (d\<lparr>
       chartMode := (if pf_defaultService (dashboardPrefs s) = ''wireguard'' then ModeWireguard else chartMode d),
       timeRange := pf_defaultRange ?p, refreshInterval := pf_refreshMs ?p\<rparr>)"
    using r nn by (auto simp: initPrefs_def l Let_def)
  moreover have "readPrefs t = t\<lparr>dashboardPrefs := parse_prefs (prefs_json ?p)\<rparr>"
    using st(2) ps nn by (auto simp: readPrefs_def c split: json.split)
  moreover have "parse_prefs (prefs_json ?p) = ?p"
    using r by (cases ?p) (auto simp: parse_prefs_def str_or_def)
  ultimately show ?thesis by simp
qed

section \<open>Late data\<close>

definition range_texts :: "(string \<Rightarrow> int option) \<Rightarrow> int \<Rightarrow> dash_state \<Rightarrow> (string \<times> string) list" where
  "range_texts getTime now c =
     (case range_domain getTime now c of (a, b) \<Rightarrow>
        (''range'', timeRange c) # param ''start'' (Some (num_string a)) @ param ''end'' (Some (num_string b)))"

text \<open>Up to its request a load turns the spinner on and sets the axis of the range.\<close>

lemma fetchData_starts:
  "snd (settle (fetchData getTime now done_at c) s) =
     s\<lparr>loading := True, chartDomain := Some (range_domain getTime now c)\<rparr>"
proof -
  obtain a b where ab: "range_domain getTime now c = (a, b)" by force
  let ?call = "getDashboardData (timeRange c) (Some (num_string a)) (Some (num_string b)) :: dashboard_data dash_io"
  obtain q k where "\<And>t. settle ?call t = (Await (q t) k, t)"
    unfolding getDashboardData_def using settle_call_json by blast
  then show ?thesis by (simp add: fetchData_def ab try_finally_def run_simps)
qed

lemma launch_page: "loop_page (launch h l) = snd (settle h (loop_page l))"
  by (simp add: launch_def split: prod.split)

text \<open>Data that arrives late is drawn on the axis of another range. A request asks for the range that
  was chosen when it was sent; when its data arrives the chart shows that data, under the range and the
  axis that the page has by then.\<close>

theorem late_range_data:
  assumes "loop_tasks d ! i = fst (settle (fetchData getTime now done_at c) s)"
    and "r = Answered \<lparr>rs_status = 200, rs_text = txt, rs_json = Inr (PDashboard data)\<rparr>"
  shows "(\<exists>q k. loop_tasks d ! i = Await q k \<and>
       rq_url q = ''/api/dashboard?'' @ search_params (range_texts getTime now c)) \<and>
     chartData (loop_page (resume i r d)) = nullish (dd_chart_data data) [] \<and>
     chartDomain (loop_page (resume i r d)) = chartDomain (loop_page d) \<and>
     timeRange (loop_page (resume i r d)) = timeRange (loop_page d) \<and>
     \<not> loading (loop_page (resume i r d))"
proof -
  obtain a b where ab: "range_domain getTime now c = (a, b)" by force
  let ?call = "getDashboardData (timeRange c) (Some (num_string a)) (Some (num_string b)) :: dashboard_data dash_io"
  let ?q = "request ''GET'' (''/api/dashboard?'' @ search_params (range_texts getTime now c)) None None"
  obtain k where k: "waits_as k ?call" "\<And>t. settle ?call t = (Await (?q t) k, t)"
    unfolding getDashboardData_def range_texts_def ab prod.case using settle_call_json by blast
  have t: "loop_tasks d ! i = Await (?q (s\<lparr>loading := True, chartDomain := Some (a, b)\<rparr>))
     (\<lambda>r. bind (try_catch (try_catch (bind (k r) (\<lambda>data. modify (applyData done_at data))) (\<lambda>_. skip))
           (\<lambda>e. seq (modify (\<lambda>s. s\<lparr>loading := False\<rparr>)) (Throw e)))
        (\<lambda>a. seq (modify (\<lambda>s. s\<lparr>loading := False\<rparr>)) (Return a)))"
    unfolding assms(1) by (simp add: fetchData_def ab try_finally_def run_simps k(2))
  have "result ?call r (loop_page d) = (Inr data, loop_page d)"
    by (simp add: assms(2) result_def getDashboardData_def run_simps res_ok_def)
  then have "loop_page (resume i r d) = (applyData done_at data (loop_page d))\<lparr>loading := False\<rparr>"
    unfolding resume_def t by (simp add: run_simps waits_as_settle [OF k(1)])
  then show ?thesis
    unfolding t by (simp add: applyData_def request_def)
qed

section \<open>Witnesses\<close>

definition sample_dashboard :: dash_state where
  "sample_dashboard = browser.extend sample_browser
     \<lparr>loading = False, lastUpdated = 0, timeRange = ''24h'', chartMode = ModeSingbox, refreshInterval = 10000,
      chartData = [], chartDomain = None, statsCards = no_traffic, topConsumersMap = no_consumers,
      status = JObj [], singboxPendingChanges = False, customStart = ''2025-01-01'', customEnd = ''2025-01-01''\<rparr>"

definition sample_prefs_form :: settings_state where
  "sample_prefs_form = changeDefaultRange ''1w'' (changeRefresh ''5'' (changeDefaultService ''wireguard'' sample_settings))"

theorem prefs_reach_dashboard_witness:
  "let d = sample_dashboard\<lparr>storage := storage (savePrefs sample_prefs_form)\<rparr>
   in \<exists>d'. initPrefs d = Some d' \<and> chartMode d' = ModeWireguard \<and> timeRange d' = ''1w'' \<and> refreshInterval d' = 5000"
proof -
  let ?d = "sample_dashboard\<lparr>storage := storage (savePrefs sample_prefs_form)\<rparr>"
  have "normalized (dashboardPrefs sample_prefs_form) =
      \<lparr>pf_defaultService = ''wireguard'', pf_refreshMs = 5000, pf_defaultRange = ''1w''\<rparr>"
    and "pf_defaultService (dashboardPrefs sample_prefs_form) = ''wireguard''"
    by code_simp+
  then show ?thesis
    using prefs_reach_dashboard [of ?d sample_prefs_form "savePrefs sample_prefs_form"] by simp
qed

definition sample_point :: chart_point where
  "sample_point = \<lparr>cp_ts = 0, cp_up_sb = 1, cp_down_sb = 2, cp_up_wg = 3, cp_down_wg = 4\<rparr>"

definition sample_data :: dashboard_data where
  "sample_data = \<lparr>dd_status = None, dd_stats_cards = None, dd_chart_data = Some [sample_point],
     dd_top_consumers = None, dd_singbox_pending_changes = None, dd_public_ip = []\<rparr>"

abbreviation fetch_at :: "dash_state \<Rightarrow> unit dash_io" where
  "fetch_at \<equiv> fetchData (\<lambda>_. None) 1000000000 1000000000"

text \<open>The load of the last day is under way when the last week is chosen and loaded, too.\<close>

definition range_race :: "(http_request, fetch_result, dash_state) loop" where
  "range_race =
     (let l = launch (modify (changeRange ''1w''))
                (launch (fetch_at sample_dashboard)
                  \<lparr>loop_page = sample_dashboard, loop_tasks = [], loop_sent = []\<rparr>)
      in launch (fetch_at (loop_page l)) l)"

theorem late_range_data_witness:
  "let d = resume 0 (Answered \<lparr>rs_status = 200, rs_text = [], rs_json = Inr (PDashboard sample_data)\<rparr>) range_race
   in chartData (loop_page d) = [sample_point] \<and> timeRange (loop_page d) = ''1w'' \<and>
      chartDomain (loop_page d) = Some (Fin (1000000 - 7 * 24 * 60 * 60), Fin 1000000)"
proof -
  have "loop_tasks range_race ! 0 = fst (settle (fetch_at sample_dashboard) sample_dashboard)"
    by (simp add: range_race_def launch_def settle_modify nth_append split: prod.splits)
  from late_range_data [OF this refl, of "[]" sample_data]
  have "chartData (loop_page (resume 0 (Answered \<lparr>rs_status = 200, rs_text = [], rs_json = Inr (PDashboard sample_data)\<rparr>)
        range_race)) = [sample_point]"
    "chartDomain (loop_page (resume 0 (Answered \<lparr>rs_status = 200, rs_text = [], rs_json = Inr (PDashboard sample_data)\<rparr>)
        range_race)) = chartDomain (loop_page range_race)"
    "timeRange (loop_page (resume 0 (Answered \<lparr>rs_status = 200, rs_text = [], rs_json = Inr (PDashboard sample_data)\<rparr>)
        range_race)) = timeRange (loop_page range_race)"
    by (simp_all add: sample_data_def)
  moreover have "timeRange (loop_page range_race) = ''1w''"
    by (simp add: range_race_def Let_def launch_page fetchData_starts settle_modify changeRange_def)
  moreover have "chartDomain (loop_page range_race) = Some (Fin (1000000 - 7 * 24 * 60 * 60), Fin 1000000)"
    by (simp add: range_race_def Let_def launch_page fetchData_starts settle_modify changeRange_def
        range_domain_def computeRangeSeconds_def)
  ultimately show ?thesis unfolding Let_def by metis
qed

end
