(* ===== verification/Dashboard_View.thy ===== *)
theory Dashboard_View
  imports Dashboard_Facts
begin

text \<open>
  What components/Dashboard.tsx shows: the state of the services, the cards of their traffic, the series
  and ticks of the chart, the top consumers. Reading the traffic of a service that the server left out
  throws (\<open>None\<close>). The texts of times and dates are parameters.
\<close>

section \<open>Services\<close>

definition running_text :: "string \<Rightarrow> dash_state \<Rightarrow> string" where
  "running_text service s = (if truthy_opt (jget service (status s)) then ''Running'' else ''Stopped'')"

text \<open>The names of the active users of a service, if there are any.\<close>

definition active_names :: "string \<Rightarrow> dash_state \<Rightarrow> string list" where
  "active_names key s =
     (case jget key (status s) of Some (JArr xs) \<Rightarrow> map (\<lambda>x. str_of (Some x)) xs | _ \<Rightarrow> [])"

record traffic_card =
  tc_total :: string
  tc_received :: string
  tc_sent :: string

definition singbox_card :: "dash_state \<Rightarrow> traffic_card option" where
  "singbox_card s =
     map_option (\<lambda>t. \<lparr>tc_total = formatBytes (ts_uplink t + ts_downlink t) 2,
         tc_received = formatBytes (ts_uplink t) 2, tc_sent = formatBytes (ts_downlink t) 2\<rparr>)
       (statsCards s ''singbox'')"

definition wireguard_card :: "dash_state \<Rightarrow> traffic_card option" where
  "wireguard_card s =
     map_option (\<lambda>t. \<lparr>tc_total = formatBytes (ts_uplink t + ts_downlink t) 2,
         tc_received = formatBytes (ts_downlink t) 2, tc_sent = formatBytes (ts_uplink t) 2\<rparr>)
       (statsCards s ''wireguard'')"

section \<open>The chart\<close>

record series =
  se_value :: "chart_point \<Rightarrow> int"
  se_name :: string
  se_stroke :: string

definition chart_series :: "dash_state \<Rightarrow> series list" where
  "chart_series s =
     (case chartMode s of
        ModeSingbox \<Rightarrow>
          [\<lparr>se_value = cp_up_sb, se_name = ''Received'', se_stroke = ''#3b82f6''\<rparr>,
           \<lparr>se_value = cp_down_sb, se_name = ''Sent'', se_stroke = ''#10b981''\<rparr>]
      | ModeWireguard \<Rightarrow>
          [\<lparr>se_value = cp_up_wg, se_name = ''Sent'', se_stroke = ''#10b981''\<rparr>,
           \<lparr>se_value = cp_down_wg, se_name = ''Received'', se_stroke = ''#3b82f6''\<rparr>])"

definition tick_text :: "(int \<Rightarrow> string) \<Rightarrow> (int \<Rightarrow> string) \<Rightarrow> dash_state \<Rightarrow> int \<Rightarrow> string" where
  "tick_text time_text date_text s ts =
     (if timeRange s \<in> {''30m'', ''1h'', ''6h'', ''24h''} then time_text (ts * 1000) else date_text (ts * 1000))"

definition value_tick :: "int \<Rightarrow> string" where
  "value_tick bytes = formatBytes bytes 0"

text \<open>What the tooltip of a point says: when it was, and each series with its value.\<close>

definition chart_tooltip :: "(int \<Rightarrow> string) \<Rightarrow> dash_state \<Rightarrow> chart_point \<Rightarrow> string list" where
  "chart_tooltip date_time_text s p =
     date_time_text (cp_ts p * 1000) # concat (map (\<lambda>a. [se_name a, formatBytes (se_value a p) 2]) (chart_series s))"

definition range_options :: "(string \<times> string) list" where
  "range_options =
     [(''30m'', ''Last 30 Minutes''), (''1h'', ''Last Hour''), (''6h'', ''Last 6 Hours''), (''24h'', ''Last 24 Hours''),
      (''1w'', ''Last Week''), (''1m'', ''Last Month''), (''custom'', ''Custom Range'')]"

definition custom_dates_shown :: "dash_state \<Rightarrow> bool" where
  "custom_dates_shown s = (timeRange s = ''custom'')"

section \<open>Top consumers\<close>

record consumer_row =
  cv_rank :: nat
  cv_first :: bool
  cv_name :: string
  cv_flow :: string
  cv_total :: string
  cv_share :: "string option"

text \<open>\<open>((total / quota) * 100).toFixed(1) + '%'\<close>; \<open>None\<close> is the sign for no limit.\<close>

definition share_text :: "consumer \<Rightarrow> string option" where
  "share_text u =
     (if co_quota_limit u = 0 then None
      else Some (to_fixed (nat (scaled (of_int (co_total u) / of_int (co_quota_limit u) * 100) 1)) 1 @ ''%''))"

definition consumer_view :: "nat \<Rightarrow> consumer \<Rightarrow> consumer_row" where
  "consumer_view i u =
     \<lparr>cv_rank = i + 1, cv_first = (i = 0), cv_name = co_name u, cv_flow = str_or (co_flow u) ''Default'',
      cv_total = formatBytes (co_total u) 2, cv_share = share_text u\<rparr>"

definition consumer_rows :: "dash_state \<Rightarrow> consumer_row list" where
  "consumer_rows s = map2 consumer_view [0..<length (topConsumers s)] (topConsumers s)"

section \<open>Facts\<close>

text \<open>An answer without traffic is shown as no traffic; one that leaves a service out cannot be shown.\<close>

lemma no_stats_shown:
  "dd_stats_cards data = None \<Longrightarrow>
     singbox_card (applyData t data s) = Some \<lparr>tc_total = ''0 B'', tc_received = ''0 B'', tc_sent = ''0 B''\<rparr>"
proof -
  assume n: "dd_stats_cards data = None"
  have "formatBytes 0 2 = ''0 B''" by code_simp
  then show ?thesis using n by (simp add: singbox_card_def applyData_def nullish_def no_traffic_def)
qed

lemma service_left_out:
  "dd_stats_cards data = Some m \<Longrightarrow> m ''wireguard'' = None \<Longrightarrow> wireguard_card (applyData t data s) = None"
  by (simp add: wireguard_card_def applyData_def nullish_def)

lemma ranks: "i < length (topConsumers s) \<Longrightarrow> cv_rank (consumer_rows s ! i) = i + 1 \<and>
    cv_name (consumer_rows s ! i) = co_name (topConsumers s ! i)"
  by (simp add: consumer_rows_def consumer_view_def)

end
