(* ===== verification/Dashboard_Ui.thy ===== *)
theory Dashboard_Ui
  imports Dashboard_View Settings_View Ui
begin

text \<open>
  The rendering of components/Dashboard.tsx, section by section, with the handlers that its elements start,
  and the page as its user drives it. A render that reads the traffic of a service that the server left out
  throws: nothing is shown. The drawing of the areas of the chart is the library's; of each point it is
  given, what its tooltip says is shown. The clock and the texts of times are the environment of a render.
\<close>

record dash_env =
  de_now :: int
  de_done :: int
  de_time :: "int \<Rightarrow> string"
  de_date_time :: "int \<Rightarrow> string"

type_synonym dash_elements = "unit dash_io element list"

definition dash_banner :: "(string \<Rightarrow> int option) \<Rightarrow> dash_env \<Rightarrow> dash_state \<Rightarrow> dash_elements" where
  "dash_banner getTime e s =
     (if singboxPendingChanges s
      then [Icon ''Shield'', Shown ''Sing-box Configuration Changes Pending'',
            Shown ''Changes have been saved but not yet applied. Click \"Apply Changes\" to restart the service.'',
            Button ''Apply Changes'' False (handleApplySingboxChanges getTime (de_now e) (de_done e) s)]
      else [])"

definition dash_header :: "(string \<Rightarrow> int option) \<Rightarrow> dash_env \<Rightarrow> dash_state \<Rightarrow> dash_elements" where
  "dash_header getTime e s =
     [Shown ''Dashboard'', Shown (''sing-box: '' @ running_text ''singbox'' s),
      Shown (''WireGuard: '' @ running_text ''wireguard'' s), Shown (''Updated '' @ de_time e (lastUpdated s)),
      Icon ''Clock'',
      Choice '''' (timeRange s) (map (\<lambda>(v, t). opt v t) range_options) (\<lambda>v. modify (changeRange v))] @
     (if custom_dates_shown s
      then [Field '''' (customStart s) False (\<lambda>v. modify (changeCustomStart v)), Shown ''-'',
            Field '''' (customEnd s) False (\<lambda>v. modify (changeCustomEnd v))]
      else []) @
     LoadButton ''RefreshCw'' False (loading s) (fetchData getTime (de_now e) (de_done e) s)"

definition active_elements :: "string \<Rightarrow> string \<Rightarrow> string \<Rightarrow> string \<Rightarrow> dash_state \<Rightarrow> dash_elements" where
  "active_elements label count_key unit_name names_key s =
     [Shown label, Shown (number_text (jget count_key (status s)) @ '' '' @ unit_name)] @
     map Shown (active_names names_key s)"

definition singbox_elements :: "traffic_card \<Rightarrow> dash_state \<Rightarrow> dash_elements" where
  "singbox_elements t s =
     [Icon ''SingBoxIcon'', Shown ''sing-box'', Shown ''Total Traffic'', Shown (tc_total t),
      Icon ''ArrowDown'', Shown ''Received'', Shown (tc_received t), Icon ''ArrowUp'', Shown ''Sent'', Shown (tc_sent t)] @
     active_elements ''Active Sessions'' ''active_users_singbox'' ''clients'' ''active_users_singbox_list'' s"

definition wireguard_elements :: "traffic_card \<Rightarrow> dash_state \<Rightarrow> dash_elements" where
  "wireguard_elements t s =
     [Icon ''WireGuardIcon'', Shown ''WireGuard'', Shown ''Total Traffic'', Shown (tc_total t),
      Icon ''ArrowDown'', Shown ''Received'', Shown (tc_received t), Icon ''ArrowUp'', Shown ''Sent'', Shown (tc_sent t)] @
     active_elements ''Active Peers'' ''active_users_wireguard'' ''peers'' ''active_users_wireguard_list'' s"

definition mode_buttons :: dash_elements where
  "mode_buttons =
     [Button ''Sing-Box'' False (modify (setChartMode ModeSingbox)), Button ''WireGuard'' False (modify (setChartMode ModeWireguard))]"

definition chart_card :: "dash_env \<Rightarrow> dash_state \<Rightarrow> dash_elements" where
  "chart_card e s =
     Card ''Traffic Overview'' mode_buttons
       (concat (map (\<lambda>p. map Shown (chart_tooltip (de_date_time e) s p)) (chartData s)))"

definition consumers_card :: "dash_state \<Rightarrow> dash_elements" where
  "consumers_card s =
     Card ''Top Consumers'' mode_buttons
       (if topConsumers s = [] then [Shown ''No active users'']
        else concat (map (\<lambda>r. [Shown (show_nat (cv_rank r)), Shown (cv_name r), Shown (cv_flow r), Shown (cv_total r),
               (case cv_share r of Some t \<Rightarrow> Shown t | None \<Rightarrow> Icon ''infinity'')]) (consumer_rows s)))"

definition dash_page :: "(string \<Rightarrow> int option) \<Rightarrow> dash_env \<Rightarrow> dash_state \<Rightarrow> dash_elements" where
  "dash_page getTime e s =
     (case (singbox_card s, wireguard_card s) of
        (Some sb, Some wg) \<Rightarrow>
          dash_banner getTime e s @ dash_header getTime e s @ singbox_elements sb s @ wireguard_elements wg s @
          chart_card e s @ consumers_card s
      | _ \<Rightarrow> [])"

text \<open>The effects: the preferences on mounting, and loading on mounting, on changes of the range and at each
  interval.\<close>

definition dash_background :: "(string \<Rightarrow> int option) \<Rightarrow> dash_state \<Rightarrow> unit dash_io set" where
  "dash_background getTime s =
     (case initPrefs s of Some t \<Rightarrow> {modify (\<lambda>_. t)} | None \<Rightarrow> {}) \<union> {fetchData getTime now done_at s | now done_at. True} \<union>
     toast_events s"

section \<open>The spinner\<close>

lemma dash_frame [simp]:
  "loading (logout s) = loading (s :: dash_state)" "loading (alert m s) = loading (s :: dash_state)"
  "loading (applyData t data s) = loading s" "loading (removeToast tid s) = loading (s :: dash_state)"
  "loading (fire_timer i s) = loading (s :: dash_state)"
  by (simp_all add: logout_def alert_def applyData_def removeToast_def fire_timer_def Let_def)

lemma init_frame: "initPrefs s = Some t \<Longrightarrow> loading t = loading s"
  by (auto simp: initPrefs_def Let_def split: if_splits option.splits json.splits)

lemma dash_load_ends: "ends_in (\<lambda>s. \<not> loading s) (\<lambda>s. \<not> loading s) (fetchData getTime now done_at c) s"
  unfolding fetchData_def getDashboardData_def by (auto intro!: flag_intros split: prod.split)

lemma dash_modify: "loading (f s) = loading s \<Longrightarrow> keeps_off loading (modify f) (s :: dash_state)"
  by (rule keeps_modify) simp

lemma dash_toasts_keep [simp]:
  "keeps_off loading (modify (removeToast tid)) (s :: dash_state)" "keeps_off loading (modify (fire_timer n)) (s :: dash_state)"
  by (simp_all add: dash_modify)

lemma dash_init_keeps: "initPrefs s = Some t \<Longrightarrow> keeps_off loading (modify (\<lambda>_. t)) s"
  by (simp add: dash_modify init_frame)

definition dash_update :: "(dash_state \<Rightarrow> dash_state) \<Rightarrow> bool" where
  "dash_update f \<longleftrightarrow> (\<forall>s. loading (f s) = loading s)"

lemma dash_offered:
  assumes "h \<in> offered (dash_page getTime e s)"
  shows "(\<exists>now done_at. h = fetchData getTime now done_at s \<or> h = handleApplySingboxChanges getTime now done_at s) \<or>
     (\<exists>f. h = modify f \<and> dash_update f)"
proof -
  have "dash_update (changeRange v)" "dash_update (changeCustomStart v)" "dash_update (changeCustomEnd v)"
    "dash_update (setChartMode m)" for v m
    by (simp_all add: dash_update_def changeRange_def changeCustomStart_def changeCustomEnd_def setChartMode_def)
  then show ?thesis
    using assms
    by (auto simp: dash_page_def dash_banner_def dash_header_def singbox_elements_def wireguard_elements_def
        active_elements_def mode_buttons_def chart_card_def consumers_card_def split: option.splits if_splits)
qed

lemma apply_keeps: "keeps_off loading (handleApplySingboxChanges getTime now done_at c) s"
  unfolding handleApplySingboxChanges_def applySingboxChanges_def
  by (auto intro!: flag_intros disjI1 dash_load_ends)

interpretation dash_spinner: busy_rendered "dash_page getTime" "dash_background getTime" loading for getTime
proof unfold_locales
  fix e s and h :: "unit dash_io" assume "h \<in> offered (dash_page getTime e s)"
  from dash_offered [OF this] show "ends_in (\<lambda>s. \<not> loading s) (\<lambda>s. \<not> loading s) h s \<or> keeps_off loading h s"
    using dash_load_ends apply_keeps by (auto simp: dash_update_def intro!: keeps_modify)
next
  fix s and h :: "unit dash_io" assume "h \<in> dash_background getTime s"
  then show "ends_in (\<lambda>s. \<not> loading s) (\<lambda>s. \<not> loading s) h s \<or> keeps_off loading h s"
    using dash_load_ends [of getTime _ _ s s]
    by (auto simp: dash_background_def dash_init_keeps elim!: toast_events_cases split: option.splits)
qed

text \<open>The dashboard comes to rest. It is mounted with its spinner and loads at once; whatever its user does
  with what is offered, once nothing more is started the responses run out and nothing is loading.\<close>

theorem dashboard_ends_loading:
  assumes "(loop_step (ui_handlers (dash_page getTime) (dash_background getTime)) answers)\<^sup>*\<^sup>*
      (launch (fetchData getTime now done_at s) (fresh s)) d"
    and "\<And>q. \<exists>r. answers q r"
  shows "wfp (arrival answers)\<inverse>\<inverse> \<and> (\<exists>e. (arrival answers)\<^sup>*\<^sup>* d e \<and> idle e) \<and>
     (\<forall>e. (arrival answers)\<^sup>*\<^sup>* d e \<and> idle e \<longrightarrow> \<not> loading (loop_page e))"
  by (rule dash_spinner.comes_to_rest [OF assms(1) _ assms(2)])
    (unfold fresh_def, rule flag_first, rule dash_load_ends)

end
