(* ===== verification/Logs.thy ===== *)
theory Logs
  imports Api_Plan
begin

text \<open>
  components/LogViewer.tsx: the live tail of the log and the search in its history. The geometry of the
  scrolled element is a parameter of \<open>handleScroll\<close>; the scrolling itself is not modelled.
\<close>

section \<open>State\<close>

datatype view_mode = Tail | Search

record log_state = browser +
  log_lines :: "string list option"
  loading :: bool
  refreshInterval :: jsnum
  query :: string
  searchQuery :: string
  logSource :: string
  autoScroll :: bool
  searchLimit :: jsnum
  searching :: bool
  viewMode :: view_mode
  searchPage :: int
  searchHasMore :: bool
  tailLimit :: jsnum

type_synonym 'a log_io = "(http_request, fetch_result, log_state, 'a) io"

section \<open>The live tail\<close>

definition force_tail :: "bool \<Rightarrow> log_state \<Rightarrow> log_state" where
  "force_tail forceTail s = (if forceTail then s\<lparr>viewMode := Tail\<rparr> else s)"

definition fetchLogs :: "log_state \<Rightarrow> bool \<Rightarrow> unit log_io" where
  "fetchLogs c forceTail =
     seq (modify (\<lambda>s. s\<lparr>loading := True\<rparr>))
       (try_catch
         (bind (getLogs (if query c \<noteq> [] then Some (query c) else None) (Some (tailLimit c))) (\<lambda>data.
            modify (\<lambda>s. (force_tail forceTail (s\<lparr>log_lines := lp_logs data\<rparr>))\<lparr>loading := False\<rparr>)))
         (\<lambda>err. modify (\<lambda>s.
            (force_tail forceTail (s\<lparr>log_lines := Some [''Error loading logs: '' @ err_message err]\<rparr>))
              \<lparr>loading := False\<rparr>)))"

definition loadSource :: "unit log_io" where
  "loadSource =
     try_catch
       (bind getFeatures (\<lambda>f. modify (\<lambda>s.
          case ff_log_source f of
            Some src \<Rightarrow> if src \<in> {''journal'', ''file''} then s\<lparr>logSource := src\<rparr> else s
          | None \<Rightarrow> s)))
       (\<lambda>_. skip)"

text \<open>The effect of the live tail, and each tick of its interval.\<close>

definition tail_effect :: "log_state \<Rightarrow> unit log_io" where
  "tail_effect c = (if viewMode c \<noteq> Tail then skip else fetchLogs c True)"

definition handleScroll :: "int \<Rightarrow> int \<Rightarrow> int \<Rightarrow> log_state \<Rightarrow> log_state" where
  "handleScroll scrollHeight scrollTop clientHeight s =
     s\<lparr>autoScroll := (scrollHeight - scrollTop - clientHeight < 10)\<rparr>"

section \<open>The search\<close>

definition enter_term :: string where
  "enter_term = ''Ingresa un t'' @ [CHR 0xE9] @ ''rmino para buscar''"

definition handleSearch :: "log_state \<Rightarrow> int \<Rightarrow> unit log_io" where
  "handleSearch c pg =
     (let q = trim (searchQuery c)
      in if q = []
         then modify (\<lambda>s. s\<lparr>log_lines := Some [enter_term], viewMode := Search, searchHasMore := False, searchPage := 1\<rparr>)
         else
           seq (modify (\<lambda>s. s\<lparr>searching := True\<rparr>))
             (try_finally
               (try_catch
                 (bind (searchLogs q (Some (searchLimit c)) (Some (Fin pg))) (\<lambda>res.
                    modify (\<lambda>s. s\<lparr>log_lines := Some (nullish (lp_logs res) []), viewMode := Search,
                      searchPage := (case lp_page res of Some p \<Rightarrow> if p \<noteq> 0 then p else pg | None \<Rightarrow> pg),
                      searchHasMore := nullish (lp_has_more res) False\<rparr>)))
                 (\<lambda>err. modify (\<lambda>s. s\<lparr>log_lines := Some [''Search failed: '' @ err_message err], viewMode := Search\<rparr>)))
               (modify (\<lambda>s. s\<lparr>searching := False\<rparr>))))"

definition previousPage :: "log_state \<Rightarrow> unit log_io" where
  \<comment> \<open>the button is disabled on the first page and during a search\<close>
  "previousPage c =
     (if searchPage c \<le> 1 \<or> searching c then skip else handleSearch c (max 1 (searchPage c - 1)))"

definition nextPage :: "log_state \<Rightarrow> unit log_io" where
  "nextPage c = (if \<not> searchHasMore c \<or> searching c then skip else handleSearch c (searchPage c + 1))"

definition changeSearchQuery :: "string \<Rightarrow> log_state \<Rightarrow> log_state" where
  "changeSearchQuery v s = s\<lparr>searchQuery := v, searchPage := 1\<rparr>"

definition changeSearchLimit :: "string \<Rightarrow> log_state \<Rightarrow> log_state" where
  "changeSearchLimit v s = s\<lparr>searchLimit := num_of_parse (parse_int v), searchPage := 1\<rparr>"

definition changeTailLimit :: "string \<Rightarrow> log_state \<Rightarrow> log_state" where
  "changeTailLimit v s = s\<lparr>tailLimit := num_of_parse (parse_int v)\<rparr>"

definition changePoll :: "string \<Rightarrow> log_state \<Rightarrow> log_state" where
  "changePoll v s = s\<lparr>refreshInterval := num_of_parse (parse_int v)\<rparr>"

definition changeView :: "view_mode \<Rightarrow> log_state \<Rightarrow> log_state" where
  "changeView v s = s\<lparr>viewMode := v\<rparr>"

end
