(* ===== verification/Logs_Facts.thy ===== *)
theory Logs_Facts
  imports Logs Js_Quiet Api_Late
begin

text \<open>
  Facts on the log viewer: its two busy flags go off once the responses have arrived, and what a late
  response of the live tail does to the view.
\<close>

section \<open>The page\<close>

inductive log_update :: "(log_state \<Rightarrow> log_state) \<Rightarrow> bool" where
  "log_update (\<lambda>s. s\<lparr>query := v\<rparr>)"
| "log_update (changeSearchQuery v)"
| "log_update (changeSearchLimit v)"
| "log_update (changeTailLimit v)"
| "log_update (changePoll v)"
| "log_update (changeView m)"
| "log_update (handleScroll height offset client)"
| "log_update (\<lambda>s. s\<lparr>autoScroll := b\<rparr>)"
| "log_update (removeToast tid)"
| "log_update (fire_timer n)"

inductive log_handler :: "log_state \<Rightarrow> unit log_io \<Rightarrow> bool" where
  update: "log_update f \<Longrightarrow> log_handler s (modify f)"
| tail: "log_handler s (tail_effect s)"
| refresh: "log_handler s (fetchLogs s True)"
| source: "log_handler s loadSource"
| search: "log_handler s (handleSearch s 1)"
| previous: "log_handler s (previousPage s)"
| following: "log_handler s (nextPage s)"

abbreviation log_handlers :: "log_state \<Rightarrow> unit log_io set" where
  "log_handlers s \<equiv> {h. log_handler s h}"

text \<open>The page as it is mounted: the first load of the tail is under way.\<close>

definition log_mounted :: "log_state \<Rightarrow> (http_request, fetch_result, log_state) loop" where
  "log_mounted s = launch (tail_effect s) \<lparr>loop_page = s, loop_tasks = [], loop_sent = []\<rparr>"

section \<open>The flags\<close>

lemmas log_frame = force_tail_def logout_def

lemma update_flags: "log_update f \<Longrightarrow> loading (f s) = loading s \<and> searching (f s) = searching s"
  by (induction rule: log_update.induct)
    (simp_all add: changeSearchQuery_def changeSearchLimit_def changeTailLimit_def changePoll_def
      changeView_def handleScroll_def removeToast_def fire_timer_def Let_def)

lemma log_calls_await [fork_intros]: "fork_free (getLogs u l)" "fork_free (searchLogs q l pg)"
  unfolding getLogs_def searchLogs_def handleResponse_def handleUnauthorized_def json_body_def Let_def
  by (auto intro!: fork_intros split: sum.splits payload.splits)

lemma fetchLogs_ends: "ends_in (\<lambda>s. \<not> loading s) (\<lambda>s. \<not> loading s) (fetchLogs c b) s"
  unfolding fetchLogs_def by (intro flag_intros) (auto intro!: flag_intros fork_intros)

lemma getLogs_keeps: "(\<And>t. f (logout t) \<Longrightarrow> f t) \<Longrightarrow> keeps_off f (getLogs u l) s"
  unfolding getLogs_def Let_def by (intro flag_intros)

lemma fetchLogs_keeps: "keeps_off searching (fetchLogs c b) s"
  unfolding fetchLogs_def by (intro flag_intros getLogs_keeps) (auto simp: log_frame split: if_splits)

lemma loadSource_keeps:
  "keeps_off loading loadSource s" "keeps_off searching loadSource s"
  unfolding loadSource_def getFeatures_def
  by (auto intro!: flag_intros simp: logout_def split: option.splits if_splits)

lemma searchLogs_keeps: "(\<And>t. f (logout t) \<Longrightarrow> f t) \<Longrightarrow> keeps_off f (searchLogs q l pg) s"
  unfolding searchLogs_def handleResponse_def handleUnauthorized_def json_body_def
  by (auto intro!: flag_intros split: sum.splits payload.splits)

lemma handleSearch_keeps: "keeps_off loading (handleSearch c pg) s"
  unfolding handleSearch_def Let_def
  by (auto intro!: flag_intros searchLogs_keeps simp: logout_def)

lemma handleSearch_clears:
  "ends_in (\<lambda>s. \<not> searching s) (\<lambda>s. \<not> searching s) (handleSearch c pg) s \<or> keeps_off searching (handleSearch c pg) s"
proof (cases "trim (searchQuery c) = []")
  case True
  then show ?thesis by (auto simp: handleSearch_def intro!: flag_intros)
next
  case False
  then show ?thesis by (auto simp: handleSearch_def intro!: flag_intros fork_intros)
qed

interpretation log_loading: busy_page log_handlers loading
proof unfold_locales
  fix h s assume "h \<in> log_handlers s"
  then have "log_handler s h" by simp
  then show "ends_in (\<lambda>s. \<not> loading s) (\<lambda>s. \<not> loading s) h s \<or> keeps_off loading h s"
    by cases (auto simp: tail_effect_def previousPage_def nextPage_def update_flags
        intro: fetchLogs_ends loadSource_keeps handleSearch_keeps flag_intros)
qed

interpretation log_searching: busy_page log_handlers searching
proof unfold_locales
  fix h s assume "h \<in> log_handlers s"
  then have "log_handler s h" by simp
  then show "ends_in (\<lambda>s. \<not> searching s) (\<lambda>s. \<not> searching s) h s \<or> keeps_off searching h s"
  proof cases
    case search
    then show ?thesis using handleSearch_clears by simp
  next
    case previous
    then show ?thesis using handleSearch_clears by (auto simp: previousPage_def)
  next
    case following
    then show ?thesis using handleSearch_clears by (auto simp: nextPage_def)
  qed (auto simp: tail_effect_def update_flags intro: fetchLogs_keeps loadSource_keeps flag_intros)
qed

section \<open>Properties\<close>

text \<open>C34: the log viewer never stays busy. From its mounting on, whatever the user, the polling and the
  responses do, once the user and the polling stop there is a way for the outstanding responses to arrive,
  no sequence of arrivals is infinite, and when all have arrived neither the spinner of the tail nor the
  one of the search is shown.\<close>

theorem logs_end_loading:
  assumes "(loop_step log_handlers answers)\<^sup>*\<^sup>* (log_mounted s) c" and "viewMode s = Tail" and "\<not> searching s"
    and "\<And>q. \<exists>r. answers q r"
  shows "wfp (arrival answers)\<inverse>\<inverse> \<and> (\<exists>d. (arrival answers)\<^sup>*\<^sup>* c d \<and> idle d) \<and>
     (\<forall>d. (arrival answers)\<^sup>*\<^sup>* c d \<and> idle d \<longrightarrow> \<not> loading (loop_page d) \<and> \<not> searching (loop_page d))"
proof -
  have l: "flag_ok loading (log_mounted s)"
    using assms(2) unfolding log_mounted_def tail_effect_def by (auto intro!: flag_first fetchLogs_ends)
  have "flag_ok searching \<lparr>loop_page = s, loop_tasks = [], loop_sent = []\<rparr>"
    using assms(3) by (simp add: flag_ok_def)
  then have "flag_ok searching (log_mounted s)"
    unfolding log_mounted_def tail_effect_def using assms(2)
    by (auto intro!: flag_launch quiets_keeps fetchLogs_keeps)
  note off = log_loading.goes_off [OF assms(1) l] log_searching.goes_off [OF assms(1) this]
  show ?thesis
    by (intro conjI allI impI arrivals_finite arrivals_to_idle assms(4)) (elim conjE, erule (1) off)+
qed

text \<open>A response of the live tail that arrives while the user searches ends the search view. Whatever
  the page has become since the request was sent, the arrival puts the lines of the tail, or the text of
  the error, in place of the results and returns to the tail.\<close>

theorem late_tail_leaves_search:
  assumes "i < length (loop_tasks d)" and "loop_tasks d ! i = fst (settle (tail_effect c) s)"
    and "viewMode c = Tail"
  shows "viewMode (loop_page (resume i r d)) = Tail \<and> \<not> loading (loop_page (resume i r d)) \<and>
     log_lines (loop_page (resume i r d)) =
       (case result (getLogs (if query c \<noteq> [] then Some (query c) else None) (Some (tailLimit c))) r (loop_page d) of
          (Inr data, _) \<Rightarrow> lp_logs data
        | (Inl err, _) \<Rightarrow> Some [''Error loading logs: '' @ err_message err])"
proof -
  let ?call = "getLogs (if query c \<noteq> [] then Some (query c) else None) (Some (tailLimit c)) :: log_page log_io"
  obtain k q where k: "waits_as k ?call" "\<And>s. settle ?call s = (Await (q s) k, s)"
    unfolding getLogs_def Let_def using settle_call_json by blast
  have t: "loop_tasks d ! i = Await (q (s\<lparr>loading := True\<rparr>)) (\<lambda>r. try_catch (bind (k r) (\<lambda>data.
       modify (\<lambda>s. (force_tail True (s\<lparr>log_lines := lp_logs data\<rparr>))\<lparr>loading := False\<rparr>)))
     (\<lambda>err. modify (\<lambda>s. (force_tail True (s\<lparr>log_lines := Some [''Error loading logs: '' @ err_message err]\<rparr>))
        \<lparr>loading := False\<rparr>)))"
    using assms(2,3) by (simp add: tail_effect_def fetchLogs_def run_simps k(2))
  show ?thesis
    by (auto simp: resume_def t run_simps waits_as_settle [OF k(1)] force_tail_def
        split: prod.splits sum.splits)
qed

section \<open>Witnesses\<close>

definition sample_log_state :: log_state where
  "sample_log_state = browser.extend sample_browser
     \<lparr>log_lines = Some [], loading = True, refreshInterval = Fin 5000, query = [], searchQuery = '' '',
      logSource = ''journal'', autoScroll = True, searchLimit = Fin 200, searching = False, viewMode = Tail,
      searchPage = 1, searchHasMore = False, tailLimit = Fin 50\<rparr>"

theorem logs_end_loading_witness:
  "loading (loop_page (log_mounted sample_log_state)) \<and>
   (\<exists>d. (arrival (\<lambda>_ _. True))\<^sup>*\<^sup>* (log_mounted sample_log_state) d \<and> idle d \<and> \<not> loading (loop_page d))"
proof -
  have "viewMode sample_log_state = Tail" "\<not> searching sample_log_state" by code_simp+
  moreover have "loading (loop_page (log_mounted sample_log_state))" by code_simp
  ultimately show ?thesis
    using logs_end_loading [of "\<lambda>_ _. True" sample_log_state "log_mounted sample_log_state"] by auto
qed

definition sample_search :: "(http_request, fetch_result, log_state) loop" where
  "sample_search = launch (handleSearch sample_log_state 1) (log_mounted sample_log_state)"

theorem late_tail_leaves_search_witness:
  "viewMode (loop_page sample_search) = Search \<and> log_lines (loop_page sample_search) = Some [enter_term] \<and>
   viewMode (loop_page (resume 0 (Rejected (Error ''offline'')) sample_search)) = Tail"
proof -
  have "viewMode sample_log_state = Tail" "0 < length (loop_tasks sample_search)"
    "viewMode (loop_page sample_search) = Search" "log_lines (loop_page sample_search) = Some [enter_term]"
    by code_simp+
  moreover have "loop_tasks sample_search ! 0 = fst (settle (tail_effect sample_log_state) sample_log_state)"
    by (simp add: sample_search_def log_mounted_def launch_def split: prod.splits)
  ultimately show ?thesis using late_tail_leaves_search by blast
qed

end
