(* ===== verification/Logs_View.thy ===== *)
theory Logs_View
  imports Logs_Facts
begin

text \<open>
  What components/LogViewer.tsx shows, the buttons and keys that start its handlers, and its state when it
  is mounted.
\<close>

section \<open>Mounting\<close>

definition initial_logs :: "browser \<Rightarrow> log_state" where
  "initial_logs b = browser.extend b
     \<lparr>log_lines = Some [], loading = True, refreshInterval = Fin 5000, query = [], searchQuery = [],
      logSource = ''journal'', autoScroll = True, searchLimit = Fin 200, searching = False, viewMode = Tail,
      searchPage = 1, searchHasMore = False, tailLimit = Fin 50\<rparr>"

section \<open>Fields and buttons\<close>

definition changeQuery :: "string \<Rightarrow> log_state \<Rightarrow> log_state" where
  "changeQuery v s = s\<lparr>query := v\<rparr>"

definition changeAutoScroll :: "bool \<Rightarrow> log_state \<Rightarrow> log_state" where
  "changeAutoScroll b s = s\<lparr>autoScroll := b\<rparr>"

definition refreshNow :: "log_state \<Rightarrow> unit log_io" where
  "refreshNow c = fetchLogs c True"

definition applyFilter :: "log_state \<Rightarrow> unit log_io" where
  "applyFilter c = fetchLogs c True"

definition searchKey :: "string \<Rightarrow> log_state \<Rightarrow> unit log_io" where
  "searchKey key c = (if key = ''Enter'' then handleSearch c 1 else skip)"

definition search_button :: "log_state \<Rightarrow> string \<times> bool" where
  \<comment> \<open>its text, and whether it is disabled\<close>
  "search_button s = (if searching s then ''Searching...'' else ''Search'', searching s)"

definition pressSearch :: "log_state \<Rightarrow> unit log_io" where
  "pressSearch c = (if snd (search_button c) then skip else handleSearch c 1)"

definition tail_limits :: "int list" where
  "tail_limits = [50, 100, 200]"

definition poll_intervals :: "int list" where
  "poll_intervals = [2000, 5000, 10000, 30000]"

definition search_limits :: "int list" where
  "search_limits = [100, 500, 1000, 5000]"

section \<open>What is shown\<close>

definition source_label :: "log_state \<Rightarrow> string" where
  "source_label s = (if logSource s = ''journal'' then ''journalctl'' else ''File'')"

text \<open>The number of lines and the numbered lines; without a list of lines (\<open>None\<close>) reading its length
  throws.\<close>

definition line_count :: "log_state \<Rightarrow> nat option" where
  "line_count s = map_option length (log_lines s)"

definition log_rows :: "log_state \<Rightarrow> (nat \<times> string) list option" where
  "log_rows s = map_option (\<lambda>ls. map2 (\<lambda>i l. (i + 1, l)) [0..<length ls] ls) (log_lines s)"

section \<open>Facts\<close>

lemma rows_counted: "map_option length (log_rows s) = line_count s"
  by (simp add: log_rows_def line_count_def option.map_comp comp_def)

lemma handlers_of_page:
  "log_handler c (refreshNow c)" "log_handler c (applyFilter c)" "log_handler c (searchKey ''Enter'' c)"
  by (auto simp: refreshNow_def applyFilter_def searchKey_def intro: log_handler.intros)

lemma option_chosen: "searchLimit (changeSearchLimit (show_int n) s) = Fin n"
  by (simp add: changeSearchLimit_def parse_int_show_int num_of_parse_def)

lemma search_sends:
  assumes "trim (searchQuery c) \<noteq> []"
  shows "\<exists>q k u. settle (handleSearch c pg) s = (Await q k, u) \<and>
    rq_url q = ''/api/logs/search?'' @ search_params ((''q'', trim (searchQuery c)) #
      num_param ''limit'' (Some (searchLimit c)) @ num_param ''page'' (Some (Fin pg)))"
  using assms by (simp add: handleSearch_def searchLogs_def send_def fetch_def try_finally_def run_simps)

section \<open>The first search\<close>

text \<open>The first search after the page is opened asks for 200 lines, a limit that the selection of the
  limit does not offer; once an option is chosen, it asks for that one.\<close>

theorem unoffered_search_limit:
  assumes "trim v \<noteq> []" and "n \<in> set search_limits" and "c = changeSearchQuery v (initial_logs b)"
  shows "200 \<notin> set search_limits \<and>
    (\<exists>q k u. settle (pressSearch c) s = (Await q k, u) \<and>
       rq_url q = ''/api/logs/search?'' @ search_params [(''q'', trim v), (''limit'', ''200''), (''page'', ''1'')]) \<and>
    (\<exists>q k u. settle (pressSearch (changeSearchLimit (show_int n) c)) s = (Await q k, u) \<and>
       rq_url q = ''/api/logs/search?'' @ search_params [(''q'', trim v), (''limit'', show_int n), (''page'', ''1'')])"
proof -
  have shown: "show_int 200 = ''200''" "show_int 1 = ''1''" by code_simp+
  have c: "trim (searchQuery c) \<noteq> []" "searchQuery c = v" "searchLimit c = Fin 200" "\<not> searching c"
    using assms by (simp_all add: changeSearchQuery_def initial_logs_def browser.defs)
  let ?d = "changeSearchLimit (show_int n) c"
  have d: "trim (searchQuery ?d) \<noteq> []" "searchQuery ?d = v" "\<not> searching ?d"
    using c by (simp_all add: changeSearchLimit_def)
  have "n \<noteq> 0" using assms(2) by (auto simp: search_limits_def)
  then show ?thesis
    using search_sends [OF c(1), of 1 s] search_sends [OF d(1), of 1 s] c d shown
    by (simp add: pressSearch_def search_button_def option_chosen num_param_def search_limits_def)
qed

section \<open>Witnesses\<close>

theorem unoffered_search_limit_witness:
  "\<exists>q k u. settle (pressSearch (changeSearchQuery ''tls error'' (initial_logs sample_browser))) (initial_logs sample_browser) =
     (Await q k, u) \<and> rq_url q = ''/api/logs/search?q=tls+error&limit=200&page=1''"
proof -
  have t: "trim ''tls error'' = ''tls error''" by code_simp
  have u: "search_params [(''q'', ''tls error''), (''limit'', ''200''), (''page'', ''1'')] = ''q=tls+error&limit=200&page=1''"
    by code_simp
  show ?thesis
    using unoffered_search_limit [of "''tls error''" 500, OF _ _ refl, of sample_browser "initial_logs sample_browser"]
    unfolding t u by (simp add: search_limits_def)
qed

end
