(* ===== verification/Logs_Ui.thy ===== *)
theory Logs_Ui
  imports Logs_View Ui
begin

text \<open>
  The rendering of components/LogViewer.tsx with the handlers that its elements start, and the page as its
  user can drive it. Without a list of lines the render throws and nothing is shown. The geometry of the
  scrolled element comes with its event.
\<close>

type_synonym log_elements = "unit log_io element list"

definition int_option :: "string \<Rightarrow> int \<Rightarrow> choice" where
  "int_option label n = opt (show_int n) label"

definition log_header :: "log_state \<Rightarrow> log_elements" where
  "log_header s =
     [Shown ''sing-box Logs'', Shown (source_label s), Button ''Live Tail'' False (modify (changeView Tail)),
      Button ''Search History'' False (modify (changeView Search))]"

definition tail_controls :: "log_state \<Rightarrow> log_elements" where
  "tail_controls s =
     [Icon ''Search'', Field ''Filter live logs...'' (query s) False (\<lambda>v. modify (changeQuery v)),
      Choice ''Lines'' (num_string (tailLimit s)) (map (\<lambda>n. int_option (show_int n) n) tail_limits) (\<lambda>v. modify (changeTailLimit v)),
      Choice ''Poll'' (num_string (refreshInterval s))
        (map (\<lambda>n. int_option (show_int (n div 1000) @ ''s'') n) poll_intervals) (\<lambda>v. modify (changePoll v)),
      Button ''Refresh Now'' False (refreshNow s), Button ''Apply Filter'' False (applyFilter s)]"

definition limit_label :: "int \<Rightarrow> string" where
  "limit_label n = (if n = 1000 then ''1kb'' else if n = 5000 then ''5kb'' else show_int n)"

definition search_controls :: "log_state \<Rightarrow> log_elements" where
  "search_controls s =
     [Icon ''Search'', Field ''Search query...'' (searchQuery s) False (\<lambda>v. modify (changeSearchQuery v)),
      Key ''Enter'' (searchKey ''Enter'' s),
      Choice ''Limit'' (num_string (searchLimit s)) (map (\<lambda>n. int_option (limit_label n) n) search_limits)
        (\<lambda>v. modify (changeSearchLimit v)),
      Icon (if searching s then ''RefreshCw'' else ''Search''),
      Button (fst (search_button s)) (snd (search_button s)) (pressSearch s),
      Button ''Prev'' (searchPage s \<le> 1 \<or> searching s) (previousPage s), Shown (show_int (searchPage s)),
      Button ''Next'' (\<not> searchHasMore s \<or> searching s) (nextPage s)]"

definition terminal_elements :: "string list \<Rightarrow> log_state \<Rightarrow> log_elements" where
  "terminal_elements ls s =
     [Icon ''Terminal'', Shown ''Console Output'', Shown (show_nat (length ls) @ '' lines''),
      Switch ''Auto-scroll'' (autoScroll s) (\<lambda>b. modify (changeAutoScroll b))] @
     (if ls = [] then [Icon ''Terminal'', Shown ''No logs to display'']
      else concat (map (\<lambda>(i, l). [Shown (show_nat i), Shown l]) (nullish (log_rows s) [])))"

definition logs_page :: "unit \<Rightarrow> log_state \<Rightarrow> log_elements" where
  "logs_page e s =
     (case log_lines s of
        None \<Rightarrow> []
      | Some ls \<Rightarrow>
          log_header s @ (if viewMode s = Tail then tail_controls s else search_controls s) @ terminal_elements ls s)"

text \<open>The effects: the source on mounting, the tail on mounting, on changes of its parameters and at each
  interval; the scrolling of the element.\<close>

definition logs_background :: "log_state \<Rightarrow> unit log_io set" where
  "logs_background s =
     {loadSource, tail_effect s} \<union> {modify (handleScroll height offset client) | height offset client. True} \<union>
     toast_events s"

lemma changed_fields:
  "changeQuery v = (\<lambda>s. s\<lparr>query := v\<rparr>)" "changeAutoScroll b = (\<lambda>s. s\<lparr>autoScroll := b\<rparr>)"
  by (simp_all add: fun_eq_iff changeQuery_def changeAutoScroll_def)

lemma logs_offered: "offered (logs_page e s) \<subseteq> log_handlers s"
  by (auto simp: logs_page_def log_header_def tail_controls_def search_controls_def terminal_elements_def
      changed_fields refreshNow_def applyFilter_def searchKey_def pressSearch_def search_button_def
      intro: log_handler.intros log_update.intros split: option.splits if_splits)

interpretation logs_ui: rendered_page logs_page logs_background log_handlers
proof unfold_locales
  fix e s
  show "offered (logs_page e s) \<subseteq> log_handlers s" by (rule logs_offered)
  show "logs_background s \<subseteq> log_handlers s"
    by (auto simp: logs_background_def elim!: toast_events_cases intro: log_handler.intros log_update.intros)
qed

text \<open>The log viewer as its user drives it comes to rest, too.\<close>

theorem logs_ui_end_loading:
  assumes "(loop_step (ui_handlers logs_page logs_background) answers)\<^sup>*\<^sup>* (log_mounted (initial_logs b)) c"
    and "(arrival answers)\<^sup>*\<^sup>* c d" and "idle d" and "\<And>q. \<exists>r. answers q r"
  shows "\<not> loading (loop_page d) \<and> \<not> searching (loop_page d)"
proof -
  have "viewMode (initial_logs b) = Tail" "\<not> searching (initial_logs b)"
    by (simp_all add: initial_logs_def browser.defs)
  with logs_end_loading [OF logs_ui.ui_steps [OF assms(1)]] assms(2-4) show ?thesis by blast
qed

end
