(* ===== verification/Shell.thy ===== *)
theory Shell
  imports Auth Ui Js_Json_Text
begin

text \<open>
  The frame of the client: the routes of App.tsx, the navigation of components/Layout.tsx, and the page of
  components/ConfigViewer.tsx. How the router matches
  a path of the table against the address is a parameter.
\<close>

section \<open>Routes\<close>

datatype page = LoginPage | DashboardPage | UsersPage | WireGuardPage | LogsPage | RawConfigPage | SettingsPage

datatype destination = Page page | Redirect string

definition app_routes :: "(string \<times> page) list" where
  "app_routes =
     [(''/'', DashboardPage), (''/users'', UsersPage), (''/wireguard'', WireGuardPage), (''/logs'', LogsPage),
      (''/raw-config'', RawConfigPage), (''/settings'', SettingsPage)]"

text \<open>What is shown at an address; the effect of the login page sends a signed-in visitor on.\<close>

definition app_view :: "(string \<Rightarrow> string \<Rightarrow> bool) \<Rightarrow> 'b browser_scheme \<Rightarrow> destination" where
  "app_view matches s =
     (if matches ''/login'' (route s)
      then (if isAuthenticated s then Redirect ''/'' else Page LoginPage)
      else (case ProtectedRoute s of
              NavigateTo p \<Rightarrow> Redirect p
            | Outlet \<Rightarrow>
                (case find (\<lambda>(p, _). matches p (route s)) app_routes of
                   Some (_, pg) \<Rightarrow> Page pg
                 | None \<Rightarrow> Redirect ''/'')))"

text \<open>Redirects are followed until a page is shown, which need not happen: not ending is \<open>None\<close>.\<close>

partial_function (option) follow ::
  "(string \<Rightarrow> string \<Rightarrow> bool) \<Rightarrow> 'b browser_scheme \<Rightarrow> (page \<times> string) option" where
  "follow matches s =
     (case app_view matches s of
        Page pg \<Rightarrow> Some (pg, route s)
      | Redirect p \<Rightarrow> follow matches (navigate p s))"

section \<open>Navigation\<close>

definition navItems :: "(string \<times> string) list" where
  "navItems =
     [(''/'', ''Dashboard''), (''/users'', ''Users''), (''/wireguard'', ''WireGuard''), (''/logs'', ''System Logs''),
      (''/raw-config'', ''Raw Config''), (''/settings'', ''Settings'')]"

definition isActive :: "string \<Rightarrow> 'b browser_scheme \<Rightarrow> bool" where
  "isActive path s = (route s = path)"

definition activeLabel :: "'b browser_scheme \<Rightarrow> string" where
  "activeLabel s = (case map_of navItems (route s) of Some l \<Rightarrow> str_or l ''OGS-SWG'' | None \<Rightarrow> ''OGS-SWG'')"

record layout_state = browser +
  sidebarOpen :: bool

definition openSidebar :: "layout_state \<Rightarrow> layout_state" where
  "openSidebar s = s\<lparr>sidebarOpen := True\<rparr>"

definition closeSidebar :: "layout_state \<Rightarrow> layout_state" where
  "closeSidebar s = s\<lparr>sidebarOpen := False\<rparr>"

definition followLink :: "string \<Rightarrow> layout_state \<Rightarrow> layout_state" where
  "followLink path s = navigate path (closeSidebar s)"

section \<open>ConfigViewer\<close>

record viewer_state = browser +
  config :: string
  loading :: bool
  copied :: bool
  clipboard :: string

definition loadConfig :: "(http_request, fetch_result, viewer_state, unit) io" where
  "loadConfig =
     try_catch
       (bind getConfig (\<lambda>data. modify (\<lambda>s. s\<lparr>config := json_stringify data, loading := False\<rparr>)))
       (\<lambda>err. modify (\<lambda>s. s\<lparr>config := ''Error loading config: '' @ err_message err, loading := False\<rparr>))"

text \<open>The answer of the clipboard is not awaited; \<open>resetCopied\<close> is the timer of two seconds.\<close>

definition handleCopy :: "bool \<Rightarrow> viewer_state \<Rightarrow> viewer_state" where
  "handleCopy clipboard_ok s =
     s\<lparr>clipboard := (if clipboard_ok then config s else clipboard s), copied := True\<rparr>"

definition resetCopied :: "viewer_state \<Rightarrow> viewer_state" where
  "resetCopied s = s\<lparr>copied := False\<rparr>"

section \<open>Facts\<close>

lemma link_labels: "(p, l) \<in> set navItems \<Longrightarrow> activeLabel (followLink p s) = l"
  by (auto simp: navItems_def activeLabel_def followLink_def navigate_def str_or_def)

lemma links_are_routes: "map fst navItems = map fst app_routes"
  by (simp add: navItems_def app_routes_def)

lemma viewer_stops: "ends_in (\<lambda>s. \<not> loading s) (\<lambda>s. \<not> loading s) loadConfig s"
  unfolding loadConfig_def getConfig_def by (intro flag_intros) auto

text \<open>What the client relies on in the router: a path of the table matches the address it names and no
  other path of the table.\<close>

definition router_law :: "(string \<Rightarrow> string \<Rightarrow> bool) \<Rightarrow> bool" where
  "router_law matches \<longleftrightarrow>
     list_all (\<lambda>p. list_all (\<lambda>q. matches p q = (p = q)) (''/login'' # map fst app_routes)) (''/login'' # map fst app_routes)"

lemma router_law_matches:
  assumes "router_law matches" and "p \<in> set (''/login'' # map fst app_routes)" and "q \<in> set (''/login'' # map fst app_routes)"
  shows "matches p q = (p = q)"
  using assms unfolding router_law_def list_all_iff by blast

lemma view_login: "router_law matches \<Longrightarrow> \<not> isAuthenticated s \<Longrightarrow>
    follow matches (navigate ''/login'' s) = Some (LoginPage, ''/login'')"
  using router_law_matches [of matches "''/login''" "''/login''"]
  by (subst follow.simps) (simp add: app_view_def navigate_def isAuthenticated_def)

lemma view_root: "router_law matches \<Longrightarrow> isAuthenticated s \<Longrightarrow>
    follow matches (navigate ''/'' s) = Some (DashboardPage, ''/'')"
  using router_law_matches [of matches "''/login''" "''/''"] router_law_matches [of matches "''/''" "''/''"]
  by (subst follow.simps) (simp add: app_view_def navigate_def isAuthenticated_def ProtectedRoute_def app_routes_def)

text \<open>C39: redirects end, from every address and in every session. A visitor without a session ends at the
  login page, one with a session never does: at the page of the address if the table has one that matches,
  and at the dashboard otherwise.\<close>

theorem routes_settle:
  assumes "router_law matches"
  shows "\<exists>pg url. follow matches s = Some (pg, url) \<and> (pg = LoginPage \<longleftrightarrow> \<not> isAuthenticated s) \<and>
     (isAuthenticated s \<and> \<not> matches ''/login'' (route s) \<longrightarrow>
        (case find (\<lambda>(p, _). matches p (route s)) app_routes of
           Some (_, pg') \<Rightarrow> pg = pg' \<and> url = route s
         | None \<Rightarrow> pg = DashboardPage \<and> url = ''/''))"
proof (cases "isAuthenticated s")
  case False
  have "follow matches s = Some (LoginPage, if matches ''/login'' (route s) then route s else ''/login'')"
    using False view_login [OF assms False]
    by (subst follow.simps) (simp add: app_view_def ProtectedRoute_def)
  then show ?thesis using False by simp
next
  case True
  show ?thesis
  proof (cases "matches ''/login'' (route s)")
    case True
    then show ?thesis
      using \<open>isAuthenticated s\<close> view_root [OF assms \<open>isAuthenticated s\<close>]
      by (subst follow.simps) (simp add: app_view_def)
  next
    case no_login: False
    show ?thesis
    proof (cases "find (\<lambda>(p, _). matches p (route s)) app_routes")
      case None
      then show ?thesis
        using True no_login view_root [OF assms True]
        by (subst follow.simps) (simp add: app_view_def ProtectedRoute_def)
    next
      case (Some entry)
      then have "entry \<in> set app_routes" by (metis find_Some_iff nth_mem)
      then have "snd entry \<noteq> LoginPage" by (auto simp: app_routes_def)
      then show ?thesis
        using True no_login Some
        by (subst follow.simps) (cases entry, simp add: app_view_def ProtectedRoute_def)
    qed
  qed
qed

theorem routes_settle_witness:
  "\<exists>pg url. follow (=) (sample_browser\<lparr>route := ''/nowhere''\<rparr>) = Some (pg, url) \<and> pg = DashboardPage \<and> url = ''/''"
proof -
  have "router_law (=)" by code_simp
  moreover have "isAuthenticated (sample_browser\<lparr>route := ''/nowhere''\<rparr>)" by code_simp
  moreover have "find (\<lambda>(p, _). p = ''/nowhere'') app_routes = None" by code_simp
  ultimately show ?thesis
    using routes_settle [of "(=)" "sample_browser\<lparr>route := ''/nowhere''\<rparr>"] by auto
qed

end
