(* ===== verification/Shell_Ui.thy ===== *)
theory Shell_Ui
  imports Shell
begin

text \<open>
  The rendering of components/Login.tsx, Layout.tsx and ConfigViewer.tsx, and of App.tsx, which puts the
  pages into the frame. What the pages render is an argument. The theorems say what a visitor with and
  without a session is offered, and that the form and the viewer do not stay busy.
\<close>

section \<open>The form of the login\<close>

definition changeUsername :: "string \<Rightarrow> login_state \<Rightarrow> login_state" where
  "changeUsername v s = s\<lparr>username := v\<rparr>"

definition changePassword :: "string \<Rightarrow> login_state \<Rightarrow> login_state" where
  "changePassword v s = s\<lparr>password := v\<rparr>"

text \<open>Both fields are required: the browser does not submit the form while one of them is empty.\<close>

definition Login :: "unit \<Rightarrow> login_state \<Rightarrow> (http_request, fetch_result, login_state, unit) io element list" where
  "Login e s =
     [Shown ''OGS-SWG'', Shown ''Secure Service Management''] @
     Card [] []
       ((if error s \<noteq> [] then [Shown (error s)] else []) @
        [Icon ''User'', Field ''Username'' (username s) False (\<lambda>v. modify (changeUsername v)),
         Icon ''Lock'', Field ''Password'' (password s) False (\<lambda>v. modify (changePassword v)),
         Button (if login_state.loading s then ''Signing in...'' else ''Sign In'')
           (login_state.loading s \<or> username s = [] \<or> password s = []) (handleSubmit s)])"

definition login_background :: "login_state \<Rightarrow> (http_request, fetch_result, login_state, unit) io set" where
  "login_background s = {modify login_effect, modify token_effect} \<union> toast_events s"

section \<open>The frame\<close>

definition nav_icon :: "string \<Rightarrow> string" where
  "nav_icon path =
     (case map_of [(''/'', ''LayoutDashboard''), (''/users'', ''Users''), (''/wireguard'', ''Shield''), (''/logs'', ''Activity''),
        (''/raw-config'', ''FileJson''), (''/settings'', ''Settings'')] path of Some i \<Rightarrow> i | None \<Rightarrow> [])"

definition Layout ::
  "(http_request, fetch_result, layout_state, unit) io element list \<Rightarrow> layout_state \<Rightarrow>
   (http_request, fetch_result, layout_state, unit) io element list" where
  "Layout outlet s =
     (if sidebarOpen s then [Button ''overlay'' False (modify closeSidebar)] else []) @
     [Shown ''OGS-SWG''] @
     concat (map (\<lambda>(path, label). [Icon (nav_icon path), Button label False (modify (followLink path))]) navItems) @
     [Icon ''LogOut'', Button ''Sign Out'' False (modify handleLogout),
      Button ''Open navigation'' False (modify openSidebar), Shown (activeLabel s)] @
     outlet"

section \<open>The viewer of the configuration\<close>

definition ConfigViewer :: "bool \<Rightarrow> viewer_state \<Rightarrow> (http_request, fetch_result, viewer_state, unit) io element list" where
  \<comment> \<open>the environment is whether the clipboard takes the text\<close>
  "ConfigViewer clipboard_ok s =
     (if viewer_state.loading s then [Shown ''Loading configuration...'']
      else
        [Shown ''System Configuration'', Shown ''View current sing-box configuration'',
         Icon (if copied s then ''Check'' else ''Copy''),
         Button (if copied s then ''Copied!'' else ''Copy JSON'') False (modify (handleCopy clipboard_ok)),
         Icon ''FileJson'', Shown ''config.json'', Shown (config s)])"

definition viewer_background :: "viewer_state \<Rightarrow> (http_request, fetch_result, viewer_state, unit) io set" where
  "viewer_background s = {loadConfig, modify resetCopied} \<union> toast_events s"

section \<open>The client\<close>

text \<open>What is shown once the redirects are followed: the toasts and the login page, or a page in the frame.
  \<open>content\<close> is what each page renders.\<close>

definition App ::
  "(string \<Rightarrow> string \<Rightarrow> bool) \<Rightarrow> (page \<Rightarrow> (http_request, fetch_result, layout_state, unit) io element list) \<Rightarrow>
   layout_state \<Rightarrow> (http_request, fetch_result, layout_state, unit) io element list" where
  "App matches content s =
     toast_elements s @
     (case follow matches s of
        Some (LoginPage, url) \<Rightarrow> content LoginPage
      | Some (pg, url) \<Rightarrow> Layout (content pg) (s\<lparr>route := url\<rparr>)
      | None \<Rightarrow> [])"

lemma offered_Layout:
  "offered (Layout outlet s) =
     (if sidebarOpen s then {modify closeSidebar} else {}) \<union> (\<lambda>(path, label). modify (followLink path)) ` set navItems \<union>
     {modify handleLogout, modify openSidebar} \<union> offered outlet"
  by (auto simp: Layout_def)

text \<open>Without a session the client offers the form of the login and nothing of its pages; with one it offers
  a page, with every link of the navigation and the way out, and never the form.\<close>

theorem session_gates_pages:
  assumes "router_law matches"
  shows "if isAuthenticated s
    then \<exists>pg. pg \<noteq> LoginPage \<and> offered (content pg) \<subseteq> offered (App matches content s) \<and>
      modify handleLogout \<in> offered (App matches content s) \<and>
      (\<forall>(path, label) \<in> set navItems. modify (followLink path) \<in> offered (App matches content s))
    else App matches content s = toast_elements s @ content LoginPage"
proof -
  obtain pg url where f: "follow matches s = Some (pg, url)" "pg = LoginPage \<longleftrightarrow> \<not> isAuthenticated s"
    using routes_settle [OF assms, of s] by blast
  show ?thesis
  proof (cases "isAuthenticated s")
    case True
    then have "App matches content s = toast_elements s @ Layout (content pg) (s\<lparr>route := url\<rparr>)"
      using f by (cases pg) (simp_all add: App_def)
    then show ?thesis using True f(2) by (auto simp: offered_Layout intro!: exI [of _ pg])
  next
    case False
    then show ?thesis using f by (simp add: App_def)
  qed
qed

section \<open>The spinners\<close>

lemma login_frame [simp]:
  "login_state.loading (navigate p s) = login_state.loading s" "login_state.loading (setToken t s) = login_state.loading s"
  "login_state.loading (login_effect s) = login_state.loading s" "login_state.loading (token_effect s) = login_state.loading s"
  "login_state.loading (removeToast i s) = login_state.loading s" "login_state.loading (fire_timer n s) = login_state.loading s"
  by (simp_all add: navigate_def setToken_def login_effect_def token_effect_def removeToast_def fire_timer_def)

lemma login_ends: "ends_in (\<lambda>s. \<not> login_state.loading s) (\<lambda>s. \<not> login_state.loading s) (handleSubmit c) s"
  unfolding handleSubmit_def login_def fetch_def
  by (auto intro!: flag_intros simp: json_body_def split: fetch_result.split option.split sum.split)

interpretation login_spinner: busy_rendered Login login_background login_state.loading
proof unfold_locales
  fix e s h assume "h \<in> offered (Login e s)"
  then show "ends_in (\<lambda>s. \<not> login_state.loading s) (\<lambda>s. \<not> login_state.loading s) h s \<or> keeps_off login_state.loading h s"
    by (auto simp: Login_def changeUsername_def changePassword_def modify_def simp: login_ends split: if_splits)
next
  fix s h assume "h \<in> login_background s"
  then show "ends_in (\<lambda>s. \<not> login_state.loading s) (\<lambda>s. \<not> login_state.loading s) h s \<or> keeps_off login_state.loading h s"
    by (auto simp: login_background_def modify_def elim!: toast_events_cases)
qed

lemma viewer_frame [simp]:
  "viewer_state.loading (handleCopy b s) = viewer_state.loading s" "viewer_state.loading (resetCopied s) = viewer_state.loading s"
  "viewer_state.loading (removeToast i s) = viewer_state.loading s" "viewer_state.loading (fire_timer n s) = viewer_state.loading s"
  by (simp_all add: handleCopy_def resetCopied_def removeToast_def fire_timer_def)

interpretation viewer_spinner: busy_rendered ConfigViewer viewer_background viewer_state.loading
  by unfold_locales (auto simp: ConfigViewer_def viewer_background_def viewer_stops modify_def elim!: toast_events_cases
      split: if_splits)

text \<open>So neither does the login stay busy nor the viewer.\<close>

theorem login_ends_loading:
  assumes "(loop_step (ui_handlers Login login_background) answers)\<^sup>*\<^sup>* (fresh s) d" and "\<not> login_state.loading s"
    and "\<And>q. \<exists>r. answers q r"
  shows "wfp (arrival answers)\<inverse>\<inverse> \<and> (\<exists>e. (arrival answers)\<^sup>*\<^sup>* d e \<and> idle e) \<and>
     (\<forall>e. (arrival answers)\<^sup>*\<^sup>* d e \<and> idle e \<longrightarrow> \<not> login_state.loading (loop_page e))"
  by (rule login_spinner.comes_to_rest [OF assms(1) _ assms(3)]) (rule fresh_flag, rule assms(2))

theorem viewer_ends_loading:
  assumes "(loop_step (ui_handlers ConfigViewer viewer_background) answers)\<^sup>*\<^sup>* (launch loadConfig (fresh s)) d"
    and "\<And>q. \<exists>r. answers q r"
  shows "wfp (arrival answers)\<inverse>\<inverse> \<and> (\<exists>e. (arrival answers)\<^sup>*\<^sup>* d e \<and> idle e) \<and>
     (\<forall>e. (arrival answers)\<^sup>*\<^sup>* d e \<and> idle e \<longrightarrow> \<not> viewer_state.loading (loop_page e))"
  by (rule viewer_spinner.comes_to_rest [OF assms(1) _ assms(2)]) (unfold fresh_def, rule flag_first, rule viewer_stops)

end
