(* ===== verification/Inbounds_Server.thy ===== *)
theory Inbounds_Server
  imports Inbounds_Facts
begin

text \<open>
  The list of inbounds and the server that keeps them. The server (\<open>handlers_singbox.go\<close>) is a parameter;
  \<open>keeps_inbounds\<close> states what the list relies on: what a request that it accepts does to the inbounds that
  it holds. The theorems say that the page follows: after every save and every deletion it shows what the
  server then holds, or reports what failed and stays as it was.
\<close>

section \<open>What the server promises\<close>

text \<open>The server keeps the external port of an inbound apart from the inbound: it is replaced when an update
  has one, and stays when it has none.\<close>

definition keep_port :: "json \<Rightarrow> json \<Rightarrow> json" where
  "keep_port old j =
     (case (jget ''external_port'' j, jget ''external_port'' old) of
        (None, Some port) \<Rightarrow> jset ''external_port'' port j | _ \<Rightarrow> j)"

fun put_inbound :: "string \<Rightarrow> json \<Rightarrow> json list \<Rightarrow> json list" where
  "put_inbound tag j [] = []"
| "put_inbound tag j (i # is) =
     (if jget ''tag'' i = Some (JStr tag) then keep_port i j # is else i # put_inbound tag j is)"

fun delete_inbound :: "string \<Rightarrow> json list \<Rightarrow> json list" where
  "delete_inbound tag [] = []"
| "delete_inbound tag (i # is) = (if jget ''tag'' i = Some (JStr tag) then is else i # delete_inbound tag is)"

definition accepts :: "fetch_result \<Rightarrow> bool" where
  "accepts a = (case a of Answered rs \<Rightarrow> res_ok rs | Rejected e \<Rightarrow> False)"

text \<open>\<open>held\<close> is the list that the server keeps in its state, \<open>normal\<close> what it makes of an inbound that it is
  sent. Any request may be refused, the one for the list, too.\<close>

definition keeps_inbounds ::
  "(json \<Rightarrow> json) \<Rightarrow> ('w \<Rightarrow> json list) \<Rightarrow> (http_request, fetch_result, 'w) server \<Rightarrow> bool" where
  "keeps_inbounds normal held srv \<longleftrightarrow>
     (\<forall>q w. rq_method q = ''GET'' \<and> rq_url q = ''/api/singbox/inbounds'' \<longrightarrow>
        held (snd (srv q w)) = held w \<and>
        (\<forall>rs. fst (srv q w) = Answered rs \<and> res_ok rs \<longrightarrow> rs_json rs = Inr (PJson (JArr (held w))))) \<and>
     (\<forall>q w j. rq_method q = ''POST'' \<and> rq_url q = ''/api/singbox/inbound'' \<and> rq_body q = Some (JsonBody j) \<and>
        accepts (fst (srv q w)) \<longrightarrow> held (snd (srv q w)) = held w @ [normal j]) \<and>
     (\<forall>q w j tag. rq_method q = ''PUT'' \<and> rq_url q = ''/api/singbox/inbound?tag='' @ encodeURIComponent tag \<and>
        rq_body q = Some (JsonBody j) \<and> accepts (fst (srv q w)) \<longrightarrow>
        held (snd (srv q w)) = put_inbound tag (normal j) (held w)) \<and>
     (\<forall>q w tag. rq_method q = ''DELETE'' \<and> rq_url q = ''/api/singbox/inbound?tag='' @ encodeURIComponent tag \<and>
        accepts (fst (srv q w)) \<longrightarrow> held (snd (srv q w)) = delete_inbound tag (held w))"

definition saved_inbounds :: "json option \<Rightarrow> json \<Rightarrow> json list \<Rightarrow> json list" where
  "saved_inbounds editing j xs =
     (if truthy_opt editing then put_inbound (string_of (jget_opt ''tag'' editing)) j xs else xs @ [j])"

lemma keeps_list:
  assumes "keeps_inbounds normal held srv" and "rq_method q = ''GET''" and "rq_url q = ''/api/singbox/inbounds''"
  shows "srv q w = (a, w') \<Longrightarrow> held w' = held w"
    and "srv q w = (Answered rs, w') \<Longrightarrow> res_ok rs \<Longrightarrow> rs_json rs = Inr (PJson (JArr (held w)))"
  using assms unfolding keeps_inbounds_def by (metis fst_conv snd_conv)+

lemma keeps_changed:
  assumes "keeps_inbounds normal held srv" and "srv q w = (Answered rs, w')" and "res_ok rs"
  shows "rq_method q = ''POST'' \<Longrightarrow> rq_url q = ''/api/singbox/inbound'' \<Longrightarrow> rq_body q = Some (JsonBody j) \<Longrightarrow>
      held w' = held w @ [normal j]"
    and "rq_method q = ''PUT'' \<Longrightarrow> rq_url q = ''/api/singbox/inbound?tag='' @ encodeURIComponent tag \<Longrightarrow>
      rq_body q = Some (JsonBody j) \<Longrightarrow> held w' = put_inbound tag (normal j) (held w)"
    and "rq_method q = ''DELETE'' \<Longrightarrow> rq_url q = ''/api/singbox/inbound?tag='' @ encodeURIComponent tag \<Longrightarrow>
      held w' = delete_inbound tag (held w)"
  using assms unfolding keeps_inbounds_def by (auto simp: accepts_def elim!: allE [of _ q] allE [of _ w])

section \<open>What the page shows\<close>

abbreviation messages :: "'b browser_scheme \<Rightarrow> string list" where
  "messages s \<equiv> map t_message (toasts s)"

text \<open>The page shows the list \<open>xs\<close>, or says that it could not be loaded, and is not busy.\<close>

definition reloaded :: "json list \<Rightarrow> string list \<Rightarrow> inbounds_state \<Rightarrow> inbounds_state \<Rightarrow> bool" where
  "reloaded xs msgs s s' \<longleftrightarrow> \<not> loading s' \<and>
     (messages s' = messages s @ msgs \<and> inbounds s' = xs \<or>
      messages s' = messages s @ msgs @ [''Failed to load inbounds''] \<and> inbounds s' = inbounds s)"

lemma server_frame [simp]:
  "inbounds (toast_success m s) = inbounds s" "loading (toast_success m s) = loading s"
  "isModalOpen (toast_success m s) = isModalOpen s" "formData (toast_success m s) = formData s"
  "inbounds (toast_error m s) = inbounds s" "loading (toast_error m s) = loading s"
  "isModalOpen (toast_error m s) = isModalOpen s" "formData (toast_error m s) = formData s"
  "inbounds (logout s) = inbounds s" "loading (logout s) = loading s"
  "isModalOpen (logout s) = isModalOpen s" "formData (logout s) = formData s"
  by (simp_all add: toast_success_def toast_error_def showToast_def Let_def logout_def)

lemma run_loadInbounds:
  assumes "keeps_inbounds normal held srv" and "run loadInbounds srv s w = (x, s', w')"
  shows "x = Inr () \<and> held w' = held w \<and> isModalOpen s' = isModalOpen s \<and> formData s' = formData s \<and>
    reloaded (held w) [] s s'"
proof -
  let ?q = "request ''GET'' ''/api/singbox/inbounds'' None None (s\<lparr>loading := True\<rparr>)"
  obtain a w1 where a: "srv ?q w = (a, w1)" by (cases "srv ?q w")
  have h: "held w1 = held w" "\<And>rs. a = Answered rs \<Longrightarrow> res_ok rs \<Longrightarrow> rs_json rs = Inr (PJson (JArr (held w)))"
    using keeps_list [OF assms(1), of ?q w] a by auto
  show ?thesis
    using assms(2) a h
    by (cases a) (auto simp: loadInbounds_def getSingboxInbounds_def run_simps checked_def reloaded_def
        split: if_splits)
qed

section \<open>Properties\<close>

text \<open>C24: the list of inbounds follows the server. Against a server that keeps its promise, saving the
  form of an inbound either takes effect - the server holds its list with that inbound put at its place, or
  at the end if it is new, the form is closed, and the page shows what the server then holds or says that it
  could not be loaded - or it is reported with the reason, and the form stays open with what was typed, and
  the list as it was. In either case nothing is left loading and nothing is thrown.\<close>

theorem inbounds_follow_server:
  assumes "keeps_inbounds normal held srv" and "submission_of (formData s) = Submitted j"
    and "\<not> loading s" and "run (handleSubmit s) srv s w = (x, s', w')"
  shows "x = Inr () \<and>
     (held w' = saved_inbounds (editingInbound s) (normal j) (held w) \<and> \<not> isModalOpen s' \<and>
        reloaded (held w')
          [if truthy_opt (editingInbound s) then ''Inbound updated successfully'' else ''Inbound created successfully''] s s' \<or>
      isModalOpen s' = isModalOpen s \<and> formData s' = drop_reality (formData s) \<and> inbounds s' = inbounds s \<and>
        \<not> loading s' \<and> (\<exists>e. messages s' = messages s @ [''Failed to save inbound: '' @ show_err e]))"
proof -
  let ?q = "save_request s j"
  obtain a w1 where a: "srv ?q w = (a, w1)" by (cases "srv ?q w")
  show ?thesis
  proof (cases "accepts a")
    case True
    then obtain rs where rs: "a = Answered rs" "res_ok rs" by (auto simp: accepts_def split: fetch_result.splits)
    have h: "held w1 = saved_inbounds (editingInbound s) (normal j) (held w)"
      using keeps_changed [OF assms(1) a [unfolded rs(1)] rs(2)]
      by (simp add: save_request_def saved_inbounds_def)
    let ?t = "(toast_success (if truthy_opt (editingInbound s) then ''Inbound updated successfully'' else ''Inbound created successfully'')
        (submitting s))\<lparr>isModalOpen := False\<rparr>"
    obtain y t' w2 where l: "run loadInbounds srv ?t w1 = (y, t', w2)" by (cases "run loadInbounds srv ?t w1")
    note load = run_loadInbounds [OF assms(1) l]
    have "run (handleSubmit s) srv s w = (Inr (), t', w2)"
      using assms(2) a rs l load
      by (auto simp: handleSubmit_def handleSave_def save_request_def submitting_def updateSingboxInbound_def
          addSingboxInbound_def run_simps save_request_submitting [unfolded submitting_def] split: if_splits)
    then show ?thesis using assms(4) load h by (auto simp: reloaded_def submitting_def)
  next
    case False
    have "case run (handleSubmit s) srv s w of (x, t, w2) \<Rightarrow> x = Inr () \<and>
        isModalOpen t = isModalOpen s \<and> formData t = drop_reality (formData s) \<and> inbounds t = inbounds s \<and>
        loading t = loading s \<and> (\<exists>e. messages t = messages s @ [''Failed to save inbound: '' @ show_err e])"
      using assms(2) a False
      by (cases a) (auto simp: handleSubmit_def handleSave_def save_request_def updateSingboxInbound_def accepts_def checked_def
          addSingboxInbound_def run_simps save_request_submitting [unfolded submitting_def] split: if_splits)
    then show ?thesis using assms(3,4) by auto
  qed
qed

text \<open>A deletion follows the server in the same way.\<close>

theorem deletion_follows_server:
  assumes "keeps_inbounds normal held srv" and "\<not> loading s" and "run (handleDelete True tag) srv s w = (x, s', w')"
  shows "x = Inr () \<and>
     (held w' = delete_inbound tag (held w) \<and> reloaded (held w') [''Inbound deleted successfully''] s s' \<or>
      inbounds s' = inbounds s \<and> \<not> loading s' \<and>
        (\<exists>e. messages s' = messages s @ [''Failed to delete inbound: '' @ show_err e]))"
proof -
  let ?q = "request ''DELETE'' (''/api/singbox/inbound?tag='' @ encodeURIComponent tag) None None s"
  obtain a w1 where a: "srv ?q w = (a, w1)" by (cases "srv ?q w")
  show ?thesis
  proof (cases "accepts a")
    case True
    then obtain rs where rs: "a = Answered rs" "res_ok rs" by (auto simp: accepts_def split: fetch_result.splits)
    have h: "held w1 = delete_inbound tag (held w)"
      using keeps_changed(3) [OF assms(1) a [unfolded rs(1)] rs(2)] by simp
    let ?t = "toast_success ''Inbound deleted successfully'' s"
    obtain y t' w2 where l: "run loadInbounds srv ?t w1 = (y, t', w2)" by (cases "run loadInbounds srv ?t w1")
    note load = run_loadInbounds [OF assms(1) l]
    have "run (handleDelete True tag) srv s w = (Inr (), t', w2)"
      using a rs l load by (simp add: handleDelete_def deleteSingboxInbound_def run_simps)
    then show ?thesis using assms(3) load h by (auto simp: reloaded_def)
  next
    case False
    have "case run (handleDelete True tag) srv s w of (x, t, w2) \<Rightarrow> x = Inr () \<and> inbounds t = inbounds s \<and>
        loading t = loading s \<and> (\<exists>e. messages t = messages s @ [''Failed to delete inbound: '' @ show_err e])"
      using a False
      by (cases a) (auto simp: handleDelete_def deleteSingboxInbound_def accepts_def checked_def run_simps)
    then show ?thesis using assms(2,3) by auto
  qed
qed

text \<open>An external port cannot be taken back: the form sends an inbound without the member when its field was
  cleared, and the port that the server keeps stays.\<close>

lemma put_inbound_split:
  assumes "jget ''tag'' i = Some (JStr tag)" and "\<forall>x \<in> set xs. jget ''tag'' x \<noteq> Some (JStr tag)"
  shows "put_inbound tag j (xs @ i # ys) = xs @ keep_port i j # ys"
  using assms by (induction xs) simp_all

theorem cleared_port_stays:
  assumes "submission_of form = Submitted j" and "external_raw form = []"
    and "jget ''external_port'' (normal j) = jget ''external_port'' j"
    and "jget ''tag'' i = Some (JStr tag)" and "jget ''external_port'' i = Some port"
    and "\<forall>x \<in> set xs. jget ''tag'' x \<noteq> Some (JStr tag)"
  shows "saved_inbounds (Some i) (normal j) (xs @ i # ys) = xs @ jset ''external_port'' port (normal j) # ys"
proof -
  have "jget ''external_port'' j = None" using submitted_members [OF assms(1)] assms(2) by simp
  moreover have "truthy i" using assms(4) by (cases i) auto
  ultimately show ?thesis
    using assms(3-5) put_inbound_split [OF assms(4,6)] by (simp add: saved_inbounds_def keep_port_def string_of_def)
qed

section \<open>A server that keeps its promise\<close>

definition stored_inbounds :: "(http_request, fetch_result, json list) server" where
  "stored_inbounds q w =
     (let answer = (\<lambda>p. Answered \<lparr>rs_status = 200, rs_text = [], rs_json = p\<rparr>);
          tag = nullish (decodeURIComponent (drop (length ''/api/singbox/inbound?tag='') (rq_url q))) []
      in if rq_method q = ''GET'' then (answer (Inr (PJson (JArr w))), w)
         else (answer (Inl ill_typed),
           if rq_method q = ''DELETE'' then delete_inbound tag w
           else case rq_body q of
               Some (JsonBody j) \<Rightarrow> if rq_method q = ''PUT'' then put_inbound tag j w else w @ [j]
             | _ \<Rightarrow> w))"

lemma stored_inbounds_keeps: "keeps_inbounds (\<lambda>j. j) (\<lambda>w. w) stored_inbounds"
  by (auto simp: keeps_inbounds_def stored_inbounds_def Let_def decode_encode nullish_def)

theorem inbounds_follow_server_witness:
  "\<exists>j x s' w'. submission_of (formData sample_inbounds_state) = Submitted j \<and>
     run (handleSubmit sample_inbounds_state) stored_inbounds sample_inbounds_state [JNull] = (x, s', w') \<and> \<not> loading s' \<and>
     (w' = [JNull, j] \<and> reloaded [JNull, j] [''Inbound created successfully''] sample_inbounds_state s' \<or>
      isModalOpen s' \<and> inbounds s' = [])"
proof -
  let ?s = sample_inbounds_state
  have "case submission_of (formData ?s) of Submitted j \<Rightarrow> True | _ \<Rightarrow> False" by code_simp
  then obtain j where j: "submission_of (formData ?s) = Submitted j"
    by (cases "submission_of (formData ?s)") auto
  obtain x s' w' where r: "run (handleSubmit ?s) stored_inbounds ?s [JNull] = (x, s', w')" by (metis prod_cases3)
  have f: "\<not> loading ?s" "editingInbound ?s = None" "isModalOpen ?s" "inbounds ?s = []"
    by (simp_all add: sample_inbounds_state_def browser.defs)
  show ?thesis
    using inbounds_follow_server [OF stored_inbounds_keeps j f(1) r] j r f
    by (intro exI [of _ j] exI [of _ x] exI [of _ s'] exI [of _ w']) (auto simp: saved_inbounds_def reloaded_def)
qed

end
