(* ===== verification/Toasts.thy ===== *)
theory Toasts
  imports Browser
begin

text \<open>
  The toasts of context/ToastContext.tsx over time: whatever is shown, closed and timed out in whatever order,
  each toast that was given a duration has a timer that is still to come, so that it goes by itself.
\<close>

text \<open>A step shows a toast, closes one, lets a timer fire, or is anything else that a page does, which leaves
  the toasts and their timers alone.\<close>

inductive toast_step :: "'b browser_scheme \<Rightarrow> 'b browser_scheme \<Rightarrow> bool" where
  toast_shown: "toast_step s (showToast message ty duration s)"
| toast_closed: "toast_step s (removeToast tid s)"
| toast_fired: "i < length (timers s) \<Longrightarrow> toast_step s (fire_timer i s)"
| toast_other: "toasts s' = toasts s \<Longrightarrow> timers s' = timers s \<Longrightarrow> toast_step s s'"

inductive_cases toast_stepE: "toast_step s s'"

definition timed :: "'b browser_scheme \<Rightarrow> bool" where
  "timed s \<longleftrightarrow> (\<forall>t \<in> set (toasts s). 0 < t_duration t \<longrightarrow> t_id t \<in> fst ` set (timers s))"

lemma set_remove_at: "i < length xs \<Longrightarrow> set xs \<subseteq> insert (xs ! i) (set (remove_at i xs))"
  by (subst id_take_nth_drop [of i xs]) (simp_all add: remove_at_eq)

lemma timed_showToast: "timed s \<Longrightarrow> timed (showToast message ty duration s)"
  by (auto simp: timed_def showToast_def Let_def)

lemma timed_removeToast: "timed s \<Longrightarrow> timed (removeToast tid s)"
  by (auto simp: timed_def removeToast_def)

lemma timed_fire: "timed s \<Longrightarrow> timed (fire_timer i s)"
  using set_remove_at [of i "timers s"] by (fastforce simp: timed_def fire_timer_def removeToast_def)

lemma toast_step_timed: "toast_step s s' \<Longrightarrow> timed s \<Longrightarrow> timed s'"
  by (elim toast_stepE) (simp_all add: timed_showToast timed_removeToast timed_fire, simp add: timed_def)

lemma toast_steps_timed: "toast_step\<^sup>*\<^sup>* s s' \<Longrightarrow> timed s \<Longrightarrow> timed s'"
  by (induction rule: rtranclp_induct) (auto intro: toast_step_timed)

section \<open>Time goes by\<close>

definition expiry :: "'b browser_scheme \<Rightarrow> 'b browser_scheme \<Rightarrow> bool" where
  "expiry s s' \<longleftrightarrow> (\<exists>i < length (timers s). s' = fire_timer i s)"

lemma expiry_shrinks: "expiry s s' \<Longrightarrow> length (timers s') < length (timers s) \<and> set (toasts s') \<subseteq> set (toasts s)"
  by (auto simp: expiry_def fire_timer_def removeToast_def length_remove_at)

lemma expiry_wf: "wfp (expiry :: 'b browser_scheme \<Rightarrow> _)\<inverse>\<inverse>"
  by (rule wfp_if_convertible_to_nat [of _ "\<lambda>s. length (timers s)"]) (auto dest: expiry_shrinks)

lemma expiry_step: "expiry s s' \<Longrightarrow> toast_step s s'"
  by (auto simp: expiry_def intro: toast_fired)

lemma expiry_steps: "expiry\<^sup>*\<^sup>* s e \<Longrightarrow> toast_step\<^sup>*\<^sup>* s e \<and> set (toasts e) \<subseteq> set (toasts s)"
proof (induction rule: rtranclp_induct)
  case (step y z)
  then show ?case using expiry_shrinks [OF step(2)] expiry_step [OF step(2)] by (meson rtranclp.rtrancl_into_rtrancl subset_trans)
qed simp

lemma expiry_ends: "\<exists>e. expiry\<^sup>*\<^sup>* s e \<and> timers e = []"
proof (induction "length (timers s)" arbitrary: s rule: less_induct)
  case less
  show ?case
  proof (cases "timers s = []")
    case False
    then have "expiry s (fire_timer 0 s)" by (auto simp: expiry_def)
    then show ?thesis using less [of "fire_timer 0 s"] expiry_shrinks by (meson converse_rtranclp_into_rtranclp)
  qed auto
qed

text \<open>Whatever toasts were shown and closed before, their timers run out in any order, and when none is left
  only toasts without a duration remain, of those there were.\<close>

lemma expired:
  assumes "timed s" and "expiry\<^sup>*\<^sup>* s e" and "timers e = []"
  shows "set (toasts e) \<subseteq> {t \<in> set (toasts s). t_duration t \<le> 0}"
  using expiry_steps [OF assms(2)] toast_steps_timed [of s e] assms(1,3) by (fastforce simp: timed_def)

theorem toasts_expire:
  assumes "toast_step\<^sup>*\<^sup>* s0 s" and "toasts s0 = []"
  shows "wfp (expiry :: 'b browser_scheme \<Rightarrow> _)\<inverse>\<inverse> \<and> (\<exists>e. expiry\<^sup>*\<^sup>* s e \<and> timers e = []) \<and>
     (\<forall>e :: 'b browser_scheme. expiry\<^sup>*\<^sup>* s e \<and> timers e = [] \<longrightarrow> set (toasts e) \<subseteq> {t \<in> set (toasts s). t_duration t \<le> 0})"
proof -
  have "timed s" using toast_steps_timed [OF assms(1)] assms(2) by (simp add: timed_def)
  then show ?thesis using expiry_wf expiry_ends expired by blast
qed

end
