(* ===== verification/Inbounds_Toasts.thy ===== *)
theory Inbounds_Toasts
  imports Inbounds_Ui Toasts
begin

text \<open>
  The toasts of the list of inbounds, as its user drives it: whatever it has shown, its toasts go by
  themselves, and none is left when the last timer has run out.
\<close>

definition passing :: "'b browser_scheme \<Rightarrow> bool" where
  "passing s \<longleftrightarrow> timed s \<and> (\<forall>t \<in> set (toasts s). 0 < t_duration t)"

lemma passing_toast: "passing s \<Longrightarrow> passing (toast_success m s)" "passing s \<Longrightarrow> passing (toast_error m s)"
  by (auto simp: passing_def toast_success_def toast_error_def timed_showToast)
    (auto simp: showToast_def resolved_duration_def Let_def)

lemma passing_events: "passing s \<Longrightarrow> passing (removeToast tid s)" "passing s \<Longrightarrow> passing (fire_timer i s)"
  by (auto simp: passing_def timed_removeToast timed_fire) (auto simp: removeToast_def fire_timer_def split: if_splits)

lemma passing_frame: "toasts s' = toasts s \<Longrightarrow> timers s' = timers s \<Longrightarrow> passing s' \<longleftrightarrow> passing s"
  by (simp add: passing_def timed_def)

lemma passing_inbounds [simp]:
  "passing (s\<lparr>loading := b\<rparr>) = passing s" "passing (s\<lparr>inbounds := xs\<rparr>) = passing s"
  "passing (s\<lparr>isModalOpen := b\<rparr>) = passing s" "passing (s\<lparr>editingInbound := e\<rparr>) = passing s"
  "passing (s\<lparr>formData := j\<rparr>) = passing s" "passing (s\<lparr>validationError := m\<rparr>) = passing s"
  "passing (s\<lparr>certError := m\<rparr>) = passing s" "passing (s\<lparr>certLoading := b\<rparr>) = passing s"
  "passing (load_form s) = passing s" "passing (handleEdit j s) = passing s" "passing (handleAdd s) = passing s"
  "passing (setFormData f s) = passing s" "passing (alert m s) = passing s" "passing (logout s) = passing s"
  by (auto intro!: passing_frame
      simp: load_form_def handleEdit_def handleAdd_def setFormData_def clear_errors_def alert_def logout_def)

lemma passing_logout: "logout_closed passing"
  by (simp add: logout_closed_def passing_def timed_def logout_def)

abbreviation any_request :: "inbounds_state \<Rightarrow> http_request \<Rightarrow> bool" where
  "any_request \<equiv> \<lambda>s q. True"

lemmas toast_guards = guard_intros passing_toast passing_events
  guarded_void_sends [OF passing_logout] guarded_json_sends [OF passing_logout]

lemma passing_load: "passing s \<Longrightarrow> guarded passing any_request loadInbounds s"
  unfolding loadInbounds_def getSingboxInbounds_def by (auto intro!: toast_guards split: json.split)

lemma passing_save: "passing s \<Longrightarrow> guarded passing any_request (handleSave c j) s"
  unfolding handleSave_def updateSingboxInbound_def addSingboxInbound_def
  by (auto intro!: toast_guards passing_load)

lemma passing_submit: "passing s \<Longrightarrow> guarded passing any_request (handleSubmit c) s"
  unfolding handleSubmit_def by (cases "submission_of (formData c)") (auto intro!: toast_guards passing_save)

lemma passing_delete: "passing s \<Longrightarrow> guarded passing any_request (handleDelete b tag) s"
  unfolding handleDelete_def deleteSingboxInbound_def by (auto intro!: toast_guards passing_load)

lemma passing_cert: "passing s \<Longrightarrow> guarded passing any_request (handleGenerateCert c) s"
  unfolding handleGenerateCert_def generateSelfSignedCert_def Let_def by (auto intro!: toast_guards)

lemma passing_edit: "passing s \<Longrightarrow> guarded passing any_request (edit c f) s"
  unfolding edit_def by (auto intro!: toast_guards)

lemma passing_opening: "passing s \<Longrightarrow> guarded passing any_request (open_edit j) s"
  "passing s \<Longrightarrow> guarded passing any_request open_add s" "passing s \<Longrightarrow> guarded passing any_request close_form s"
  unfolding open_edit_def open_add_def close_form_def closeModal_def by (auto intro!: toast_guards)

lemma passing_fields:
  assumes "passing s" and "h \<in> offered (basic_fields s) \<union> offered (tls_fields s) \<union> offered (transport_elements s)"
  shows "guarded passing any_request h s"
proof -
  have "h \<in> offered (basic_fields s) \<Longrightarrow> ?thesis"
    using assms(1) by (auto simp: basic_fields_def Let_def intro!: passing_edit guarded_modify split: if_splits)
  moreover have "h \<in> offered (reality_fields s) \<Longrightarrow> ?thesis"
    using assms(1) by (auto simp: reality_fields_def Let_def intro!: passing_edit split: if_splits)
  moreover have "h \<in> offered (tls_fields s) \<Longrightarrow> h \<notin> offered (reality_fields s) \<Longrightarrow> ?thesis"
    using assms(1) by (auto simp: tls_fields_def Let_def intro!: passing_edit passing_cert split: if_splits option.splits)
  moreover have "h \<in> offered (transport_elements s) \<Longrightarrow> ?thesis"
    using assms(1) by (auto simp: transport_elements_def Let_def intro!: passing_edit split: if_splits)
  ultimately show ?thesis using assms(2) by blast
qed

interpretation inbounds_toasts: guarded_page "ui_handlers InboundList inbounds_background" passing any_request
proof unfold_locales
  fix s h assume inv: "passing s" and "h \<in> ui_handlers InboundList inbounds_background s"
  then consider e where "h \<in> offered (InboundList e s)" | "h \<in> inbounds_background s"
    by (auto simp: ui_handlers_def)
  then show "guarded passing any_request h s"
  proof cases
    case 1
    then show ?thesis using inv passing_fields [OF inv, of h]
      by (auto simp: InboundList_def InboundModal_def inbound_element_def Let_def
          intro!: passing_opening passing_delete passing_submit split: if_splits)
  next
    case 2
    then show ?thesis using inv
      by (auto simp: inbounds_background_def clear_errors_def elim!: toast_events_cases
          intro!: guarded_modify passing_load passing_events)
  qed
qed

text \<open>C33: toasts go by themselves. However the list of inbounds is driven, its success and error toasts among
  the responses that come in, once nothing more is shown their timers run out, in any order, and when none is
  left no toast is.\<close>

theorem inbounds_toasts_expire:
  assumes "reachable (ui_handlers InboundList inbounds_background) answers init c" and "toasts init = []"
  shows "wfp (expiry :: inbounds_state \<Rightarrow> _)\<inverse>\<inverse> \<and> (\<exists>e. expiry\<^sup>*\<^sup>* (loop_page c) e \<and> timers e = []) \<and>
     (\<forall>e. expiry\<^sup>*\<^sup>* (loop_page c) e \<and> timers e = [] \<longrightarrow> toasts e = [])"
proof -
  have "passing (loop_page c)"
    using inbounds_toasts.reachable_inv [OF assms(1)] assms(2) by (simp add: passing_def timed_def)
  then have "toasts e = []" if "expiry\<^sup>*\<^sup>* (loop_page c) e" "timers e = []" for e
    using expired [OF _ that] by (cases "toasts e") (force simp: passing_def)+
  then show ?thesis using expiry_wf expiry_ends by blast
qed

theorem inbounds_toasts_expire_witness:
  "\<exists>s e :: inbounds_state. toasts s \<noteq> [] \<and> expiry\<^sup>*\<^sup>* s e \<and> toasts e = []"
proof -
  let ?h = "ui_handlers InboundList inbounds_background"
  let ?c = "\<lparr>loop_page = sample_inbounds_state, loop_tasks = [], loop_sent = []\<rparr> ::
    (http_request, fetch_result, inbounds_state) loop"
  let ?d = "launch loadInbounds ?c" and ?a = "\<lambda>q r. True"
  let ?e = "resume 0 (Rejected (Error ''down'')) ?d"
  have "reachable ?h ?a sample_inbounds_state ?d"
    by (rule reachable.further [OF reachable.initial], rule loop_step.fire)
      (simp add: ui_handlers_def inbounds_background_def)
  moreover have "case loop_tasks ?d of [Await q k] \<Rightarrow> True | _ \<Rightarrow> False" by code_simp
  then obtain q k where "loop_tasks ?d = [Await q k]" by (auto split: list.splits io.splits)
  then have "loop_step ?h ?a ?d ?e" by (intro loop_step.arrive [of _ _ q k]) simp_all
  ultimately have r0: "reachable ?h ?a sample_inbounds_state ?e" by (rule reachable.further)
  have "toasts sample_inbounds_state = []" by code_simp
  note r = inbounds_toasts_expire [OF r0 this]
  obtain e where e: "expiry\<^sup>*\<^sup>* (loop_page ?e) e" "timers e = []" using r by (elim conjE exE)
  with r have "toasts e = []" by simp
  moreover have "toasts (loop_page ?e) \<noteq> []" by code_simp
  ultimately show ?thesis using e(1) by blast
qed

end
