(* ===== verification/Dev_Server.thy ===== *)
theory Dev_Server
  imports Api_Facts Js_Json_Text "HOL-Library.Sublist"
begin

text \<open>
  frontend/vite.config.ts: the development server, which serves the pages and passes the requests of the
  client on. \<open>getApiTarget\<close> finds the address of the server of the panel. What the environment holds, and the
  file config.json - missing, unreadable, or with its content - are arguments.
\<close>

datatype config_file = Missing | Unreadable js_error | Content string

definition default_target :: string where
  "default_target = ''http://127.0.0.1:8080''"

text \<open>An address that is no text has no \<open>startsWith\<close>, and null no members: both throw, and are caught.\<close>

definition listen_target :: "json \<Rightarrow> js_error + string option" where
  "listen_target config =
     (case config of
        JNull \<Rightarrow> Inl ill_typed
      | _ \<Rightarrow>
          (case jget ''listen_addr'' config of
             None \<Rightarrow> Inr None
           | Some v \<Rightarrow>
               if \<not> truthy v then Inr None
               else (case v of
                   JStr addr \<Rightarrow> Inr (Some (''http://'' @ (if prefix '':'' addr then ''127.0.0.1'' @ addr else addr)))
                 | _ \<Rightarrow> Inl ill_typed)))"

definition read_target :: "config_file \<Rightarrow> js_error + string option" where
  "read_target file =
     (case file of
        Missing \<Rightarrow> Inr None
      | Unreadable e \<Rightarrow> Inl e
      | Content configData \<Rightarrow>
          (case json_parse configData of
             None \<Rightarrow> Inl (JsError ''SyntaxError'' [])
           | Some config \<Rightarrow> listen_target config))"

definition getApiTarget :: "string option \<Rightarrow> config_file \<Rightarrow> string" where
  "getApiTarget API_TARGET file =
     (if str_truthy API_TARGET then nullish API_TARGET []
      else (case read_target file of Inr (Some url) \<Rightarrow> url | _ \<Rightarrow> default_target))"

definition server_proxy :: "string option \<Rightarrow> config_file \<Rightarrow> (string \<times> string) list" where
  "server_proxy API_TARGET file = [(''/api'', getApiTarget API_TARGET file)]"

text \<open>A request goes to the target of the first context that its path starts with, and is served from the
  files of the frontend when there is none.\<close>

definition passed_to :: "(string \<times> string) list \<Rightarrow> string \<Rightarrow> string option" where
  "passed_to proxy url = map_option snd (find (\<lambda>(ctx, target). prefix ctx url) proxy)"

section \<open>Where requests go\<close>

text \<open>Whatever the environment and the file hold there is a target: the one of the environment, or one
  over HTTP.\<close>

theorem target_found:
  "getApiTarget env file = (if str_truthy env then the env else getApiTarget None file) \<and>
   prefix ''http://'' (getApiTarget None file)"
  by (auto simp: getApiTarget_def read_target_def listen_target_def default_target_def  nullish_def
      split: config_file.split option.split json.split)

definition api_call :: "('b, unit) client \<Rightarrow> bool" where
  "api_call p \<longleftrightarrow> (\<exists>meth rest ct bdy k. p = bind (send meth (''/api/'' @ rest) ct bdy) k)"

lemma api_call_bind: "api_call (bind (send meth (CHR ''/'' # CHR ''a'' # CHR ''p'' # CHR ''i'' # CHR ''/'' # rest) ct bdy) k)"
  unfolding api_call_def by (intro exI [of _ meth] exI [of _ rest] exI [of _ ct] exI [of _ bdy] exI [of _ k]) simp

lemma checked_call_api: "checked_call p \<Longrightarrow> api_call p"
  by (induction rule: checked_call.induct)
    (simp_all add: api_defs call_void_def call_json_def call_text_def searchLogs_def Let_def api_call_bind split: option.split)

text \<open>Every request of the client functions of \<open>checked_call\<close> is passed on to the target, whatever its arguments.\<close>

theorem requests_reach_target:
  assumes "checked_call p"
  shows "\<exists>q. snd (snd (run p (logging (\<lambda>_ _. Rejected e)) s [])) = [q] \<and>
     passed_to (server_proxy env file) (rq_url q) = Some (getApiTarget env file)"
proof -
  obtain meth rest ct bdy k where "p = bind (send meth (''/api/'' @ rest) ct bdy) k"
    using checked_call_api [OF assms] by (auto simp: api_call_def)
  then show ?thesis by (simp add: run_simps passed_to_def server_proxy_def )
qed

end
