(* ===== verification/Spec2Isabelle.thy ===== *)
theory Spec2Isabelle
  imports Users_Witnesses Users_Races Auth WireGuard_Reload
    Users_Ui WireGuard_Ui Inbounds_Ui Singbox_Ui Raw_Ui Settings_Load Dashboard_Ui Logs_Ui Shell_Ui
    Inbounds_Server Inbounds_Toasts Dev_Server
begin

text \<open>
  A verification development for the web client of OGS-SWG, \<open>src/frontend/src\<close>, written in TypeScript
  with React: a panel for the users of a sing-box proxy and the peers of a WireGuard interface. The client
  holds no data of its own: it asks a server, shows what it answers, and sends what the user has edited.
  What makes it hard is that every handler is asynchronous: between sending a request and going on with
  the response other handlers run, the user edits, timers fire, and responses come in any order.

  How the program is modelled.
  A handler is a value of the datatype \<open>io\<close> (\<open>Js_Async\<close>): it returns, throws, reads or writes the state of
  its page, awaits the answer to a request, or starts another handler without awaiting it (\<open>spawn\<close>). A call
  that is not awaited but is the last thing its caller does, and handles its own errors, is simply the rest
  of the caller. Two semantics are defined on it. \<open>run\<close> executes one handler
  against a server, a function of the request and the requests before it. The event loop, the relation
  \<open>loop_step\<close> with \<open>reachable\<close>, keeps the page and its suspended tasks, launches any handler of the page at
  any time, adds the handlers that were started without being awaited, and lets any response arrive in any
  order; what lies between two suspensions is atomic, as in JavaScript. A handler takes as an argument \<open>c\<close> the state of the render that created it, which its
  closure captured, while the updates it makes apply to the state of the moment, as in React. The state of
  a page is a record that extends \<open>browser\<close>: the local storage, the token, the route, the toasts and
  alerts. A thrown value is a \<open>js_error\<close> with its name and message. Requests that are awaited together
  (\<open>Promise.all\<close>) are tasks of their own, and the one that is settled last goes on: a counter in the state
  of the settings stands for the combined promise (\<open>Settings\<close>).
  A page is rendered to the list of its elements (\<open>Ui\<close>): texts, icons, fields, selections, switches and
  buttons in the order of the source, each with the handler that it starts. The relation \<open>loop_step\<close> over
  \<open>ui_handlers render background\<close> is the page as its user can drive it: he starts what the elements of the
  present state offer, an element that is disabled or not shown offers nothing, and \<open>background\<close> are the
  effects and timers that the page runs by itself.

  The theories.
  Language and library: \<open>Prelude\<close> (collections of rules, sets as lists, truthiness), \<open>Js_String\<close>, \<open>Js_Uri\<close>
  (encodeURIComponent, URLSearchParams and their decoders), \<open>Js_Sort\<close> (Array.prototype.sort, with the locale
  \<open>comparator\<close> for consistent comparators), \<open>Js_Json\<close>, \<open>Js_Json_Text\<close> (JSON.parse and JSON.stringify, with
  their round trip), \<open>Js_Async\<close> (handlers, the event loop, the rely/guarantee judgement \<open>guarded\<close> and the
  locale \<open>guarded_page\<close>), \<open>Js_Quiet\<close> (arrivals end; the locales \<open>resting_page\<close> and \<open>busy_page\<close> for a flag
  that shows that a page is working), \<open>Ui\<close> (elements, the user-driven page, the locales \<open>rendered_page\<close>,
  \<open>guarded_rendered\<close> and \<open>busy_rendered\<close>; Tabs, Modal, Button and Card under ui, and the toasts).
  \<open>Browser\<close>: context/ToastContext.tsx and the shared state; \<open>Toasts\<close>: its toasts and timers over time.
  \<open>Api_Types\<close>, \<open>Api\<close>: api.ts, one definition for each function of the client under its own name.
  \<open>Api_Facts\<close> says what every one of them does with every status; \<open>Api_Plan\<close> composes calls
  (\<open>performs\<close>: which requests a handler sends, in order, up to the first that fails); \<open>Api_Late\<close> says how
  a suspended call goes on in the state that the response finds.
  \<open>Auth\<close>: context/AuthContext.tsx, Login.tsx, ProtectedRoute.tsx and the logout of Layout.tsx.
  \<open>Shell\<close>, \<open>Shell_Ui\<close>: App.tsx, Layout.tsx, ConfigViewer.tsx, and the form of Login.tsx.
  \<open>Format\<close>: formatBytes, formatTimeAgo and the gigabyte fields, which several pages repeat.
  \<open>Users_State\<close>, \<open>Users\<close>: UserManagement.tsx, its state with everything that sends nothing, and its
  handlers; \<open>Users_Table\<close>, \<open>Users_Facts\<close>, \<open>Users_Page\<close>, \<open>Users_Races\<close> and \<open>Users_Witnesses\<close> the facts on its
  table, on saving, on the page in the event loop, and on late responses; \<open>Users_View\<close> what the rows, cards
  and dialogs show, and the remaining fields; \<open>Users_Ui\<close> the rendering.
  \<open>WireGuard\<close>, \<open>WireGuard_Facts\<close>: WireGuard.tsx; \<open>WireGuard_Reload\<close>: its concurrent requests; \<open>WireGuard_View\<close>:
  what it shows, its fields and its copying to the clipboard; \<open>WireGuard_Ui\<close> the rendering.
  \<open>Editor\<close>: the difference by lines and the search that RawConfig.tsx and SingboxConfigEditor.tsx share;
  \<open>Raw_Config\<close>, \<open>Raw_View\<close>, \<open>Raw_Ui\<close>: RawConfig.tsx; \<open>Singbox_Config\<close>, \<open>Singbox_Facts\<close>, \<open>Singbox_View\<close>,
  \<open>Singbox_Ui\<close>: SingboxConfigEditor.tsx.
  \<open>Inbounds\<close>, \<open>Inbounds_Facts\<close>, \<open>Inbounds_View\<close>, \<open>Inbounds_Ui\<close>: singbox/InboundList.tsx, InboundModal.tsx
  and InboundUserModal.tsx; \<open>Inbounds_Server\<close>: the list together with a server that keeps the inbounds;
  \<open>Inbounds_Toasts\<close>: its toasts.
  \<open>Settings\<close>, \<open>Settings_Facts\<close>, \<open>Settings_View\<close>, \<open>Settings_Ui\<close>: Settings.tsx, with \<open>Settings_Load\<close> on the
  requests it awaits together. \<open>Dashboard\<close>, \<open>Dashboard_Facts\<close>, \<open>Dashboard_View\<close>, \<open>Dashboard_Ui\<close>:
  Dashboard.tsx. \<open>Logs\<close>, \<open>Logs_Facts\<close>, \<open>Logs_View\<close>, \<open>Logs_Ui\<close>: LogViewer.tsx. \<open>Dev_Server\<close>: the proxy of
  frontend/vite.config.ts.
  A theory named \<open>_View\<close> holds what a page computes from its state to show it (texts, rows, which buttons are
  enabled) and the fields that only store what is typed; one named \<open>_Ui\<close> the elements of the page, section by
  section, its background, and the facts on the page as its user drives it.

  What the theorems show.
  The client: a 401 ends the session and leads to the login; any other failure throws its text and changes nothing; requests carry
  the token of the session and none after it has ended, in every interleaving; names and tags come back
  from the URLs they are put into.
  Users: saving an edited user sends exactly the removals, updates and creations between the memberships it
  had and the rows of the form; nothing is sent from a form that is invalid, and nothing more after a
  failure; however the page is driven, the selection names listed users and an open dialog has what it is
  about; bulk operations send what they should and report what failed.
  Editors: rules are saved without loss of the rest of the configuration; the raw editor sends only JSON;
  the difference turns the one text into the other; the search finds what there is.
  Inbounds: what the form submits is complete, an inbound is updated under its own tag, and after a save the
  list is what the server holds, or the failure is reported and the form stays. Toasts go by themselves. Settings and dashboard: preferences stay well-typed and
  arrive at the dashboard through the text in the local storage; account changes are checked before they
  are sent. WireGuard: a private key never leaves in an update, a deletion can be undone, and a reload ends
  the same in whatever order its responses arrive. Routes: redirects end, from every address, and without a
  session the client offers nothing but the login.
  Every page with a spinner comes to rest: once its user does nothing more the responses run out, and then
  nothing is shown as loading or saving, whatever was started before and in whatever order the responses
  came - for the settings across the counters of the requests that are awaited together, for the sing-box
  editor also where one operation runs inside another.
  Several theorems state what the code does where that is not what it means to do: late responses that
  are shown in another dialog, form, view or range or saved with another inbound, comparators that are no order, addresses that sort as
  signed numbers, edits that are dropped, a field in which a comma cannot be typed, a port that is shown but
  not sent, a port that cannot be taken back. Each is a fact of the model with a concrete instance.

  Interfaces. \<open>guarded_page\<close> (a page's handlers, an invariant, a contract on its requests) is interpreted on
  the session, the users page, the WireGuard page, the raw editor, the settings and the inbounds, there a
  second time for the toasts.
  \<open>rendered_page\<close> (what is offered and what runs by itself are handlers of the page) carries facts about all
  handlers over to the page as its user drives it; it is interpreted on the log viewer, and its extension
  \<open>guarded_rendered\<close>, which carries invariants, on the users page, the WireGuard page, the raw editor and the
  settings. \<open>resting_page\<close> (each handler turns a flag off on every path, or never turns it on until it does)
  is interpreted on the four flags of the sing-box editor and the two of the inbounds; \<open>busy_page\<close>, a
  stricter contract that gives it, on the flags of the log viewer, the raw editor, the users page and the
  sampler; \<open>busy_rendered\<close>, which states that contract for each element, on the WireGuard page, the
  dashboard, the login and the viewer. The spinner of the settings needs an invariant of its own
  (\<open>Settings_Load\<close>). \<open>comparator\<close> is interpreted on the sort keys of the tables. The properties rest on
  their facts.

  Bounds and fuel. The JSON parser takes fuel, twice the length of its text plus one, and the round trip
  shows that this is enough for every text that was printed. The bulk creation makes as many rounds as the
  count of its form says. Redirects are followed by a partial function, which is shown to end. Arrivals of
  responses are finite in number because each replaces a task by smaller ones. All other functions recur on
  their data. Integers are unbounded, and read at 32 bits where the code shifts or masks.

  Parameters. The server, \<open>localeCompare\<close> and the texts of dates, the answers of \<open>confirm\<close>, random numbers
  and ids, what the clipboard of the browser allows, how the router matches a path against an address, the
  clock, \<open>new Date(text)\<close>, the message of a JSON syntax error, the geometry of a scrolled element are
  arguments of the definitions that use them.

  Not modelled. The server of the repository (\<open>src/main.go\<close>, \<open>src/api\<close>, \<open>src/core\<close>), which is not written in
  this language; styles, placeholders and the drawing of the charts, the elements that only arrange what is
  shown, main.tsx and Badge; focus, scrolling and highlighting. Characters are those of Latin-1. Numbers in
  JSON are integers, and an object keeps the order of its members also for names that look like numbers. The rounding of
  doubles is not modelled: sizes are exact up to the rounding of \<open>toFixed\<close>. \<open>run\<close>, for one handler alone,
  takes a handler that was started without being awaited to its end before it goes on, the schedule in
  which every answer comes at once; the event loop has all of them.
\<close>

section \<open>Across components\<close>

text \<open>C3: a response with status 401 ends at the login, whichever client function received it (all of api.ts but
  getUsers). The call sends one request and throws Unauthorized; the session is gone from the provider and from
  the local storage, where the provider's effect leaves it so; the router then shows the login page under the
  toasts that are still there, whatever address and page were shown; and requests carry no token from then
  on.\<close>

theorem unauthorized_shows_login:
  fixes s :: layout_state
  assumes "checked_call p" and "rs_status rs = 401" and "router_law matches"
  shows "\<exists>q. run p (logging (\<lambda>_ _. Answered rs)) s sent = (Inl (Error ''Unauthorized''), logout s, sent @ [q]) \<and>
     token_effect (logout s) = logout s \<and>
     App matches content (logout s) = toast_elements (logout s) @ content LoginPage \<and>
     (\<forall>p'. checked_call p' \<longrightarrow> (\<exists>q'. snd (snd (run p' (logging (\<lambda>_ _. Answered rs)) (logout s) [])) = [q'] \<and>
        map_of (rq_headers q') ''Authorization'' = None))"
proof -
  have "\<not> isAuthenticated (logout s)" by (simp add: isAuthenticated_def)
  then have "App matches content (logout s) = toast_elements (logout s) @ content LoginPage"
    using session_gates_pages [OF assms(3), of "logout s" content] by simp
  moreover have "\<exists>q'. snd (snd (run p' (logging (\<lambda>_ _. Answered rs)) (logout s) [])) = [q'] \<and>
      map_of (rq_headers q') ''Authorization'' = None" if c: "checked_call p'" for p' :: "(_, unit) client"
    using endpoint_call_failure [OF checked_call_endpoint [OF c], of "logout s" "[]"] assms(2)
    by (fastforce simp: authorised_buildHeaders expected_authorization_def)
  moreover have "token_effect (logout s) = logout s"
    by (simp add: token_effect_def logout_def isAuthenticated_def)
  ultimately show ?thesis
    using unauthorized_ends_session [OF assms(1,2), of s sent] by blast
qed

theorem unauthorized_shows_login_witness:
  "\<exists>s :: layout_state. modify handleLogout \<in> offered (App (=) (\<lambda>pg. [Shown (if pg = LoginPage then ''login'' else ''page'')]) s) \<and>
     fst (snd (run (deleteUser ''bob'') (logging (\<lambda>_ _. Answered (answer_status 401 []))) s [])) = logout s \<and>
     App (=) (\<lambda>pg. [Shown (if pg = LoginPage then ''login'' else ''page'')]) (logout s) = [Shown ''login'']"
proof -
  let ?s = "browser.extend sample_browser (layout_state.fields False)"
  let ?content = "\<lambda>pg. [Shown (if pg = LoginPage then ''login'' else ''page'')]"
  have t: "toasts ?s = []" "isAuthenticated ?s"
    by (simp_all add: sample_browser_def isAuthenticated_def browser.defs layout_state.defs)
  have r: "router_law (=)" by code_simp
  have "modify handleLogout \<in> offered (App (=) ?content ?s)"
    using session_gates_pages [OF r, of ?s ?content] t(2) by auto
  then show ?thesis
    using unauthorized_shows_login [OF checked_call.intros(7) [of "''bob''"] _ r, of "answer_status 401 []" ?s "[]" ?content] t
    by (intro exI [of _ ?s]) (auto simp: toast_elements_def)
qed
end
